(* ===== verification/Proto_Prelude.thy ===== *)
theory Proto_Prelude
  imports Main "HOL-Library.Word" "HOL-Library.AList" "HOL-Library.Monad_Syntax"
begin

text \<open>
  Shared vocabulary of the development: the collections of rewrite rules, the names of the C
  integer types, generic lemmas on lists and association lists, and the interfaces (locales)
  that more than one component relies on.
\<close>

section \<open>Collections and type names\<close>

named_theorems code_consts
  "numeric values of the status codes and size constants of the headers"

named_theorems inv_intros
  "preservation of a component's invariant by its operations"

type_synonym u8 = "8 word"
type_synonym u16 = "16 word"
type_synonym u32 = "32 word"
type_synonym u64 = "64 word"

text \<open>A heap address, a function pointer and an opaque user pointer are natural numbers; the
  null pointer is \<open>None\<close>.\<close>

type_synonym addr = nat
type_synonym fn_ptr = nat
type_synonym user_ptr = nat

section \<open>Generic lemmas\<close>

lemma foldl_preserves:
  assumes step: "\<And>s e. I s \<Longrightarrow> I (step s e)" and start: "I s"
  shows "I (foldl step s es)"
  using start by (induction es arbitrary: s) (auto intro: step)

lemma drop_length_append_last:
  "drop (length (xs @ [x]) - n) (xs @ [x]) =
     (if n = 0 then [] else drop (length xs - (n - 1)) xs @ [x])"
  by (cases n) (auto simp: Suc_diff_le drop_append)

definition last_n :: "nat \<Rightarrow> 'a list \<Rightarrow> 'a list" where
  "last_n n xs = drop (length xs - n) xs"

lemma last_n_snoc_last_n: "last_n n (last_n n xs @ [x]) = last_n n (xs @ [x])"
proof (cases "length xs \<le> n")
  case True
  then show ?thesis by (simp add: last_n_def)
next
  case False
  then show ?thesis
    by (cases n) (auto simp: last_n_def Suc_diff_le Suc_diff_Suc)
qed

lemma last_n_append_last_n: "last_n n (last_n n xs @ ys) = last_n n (xs @ ys)"
proof (induction ys rule: rev_induct)
  case Nil
  then show ?case by (simp add: last_n_def)
next
  case (snoc y ys)
  then show ?case by (metis append_assoc last_n_snoc_last_n)
qed

lemma alist_delete_None [simp]: "map_of (AList.delete k al) k = None"
  by (simp add: delete_conv)

lemma alist_delete_other: "j \<noteq> k \<Longrightarrow> map_of (AList.delete k al) j = map_of al j"
  by (simp add: delete_conv)

lemma alist_update_same [simp]: "map_of (AList.update k v al) k = Some v"
  by (simp add: update_conv)

lemma alist_update_other: "j \<noteq> k \<Longrightarrow> map_of (AList.update k v al) j = map_of al j"
  by (simp add: update_conv)

lemma single_map_eq [simp]: "[a \<mapsto> x] = [a \<mapsto> y] \<longleftrightarrow> x = y"
  by (auto dest: fun_upd_eqD)

lemma takeWhile_take_prefix: "takeWhile P (take n xs) = take n (takeWhile P xs)"
proof (induction xs arbitrary: n)
  case (Cons x xs)
  then show ?case by (cases n) auto
qed simp

lemma takeWhile_all [simp]: "\<forall>x\<in>set xs. P x \<Longrightarrow> takeWhile P (xs @ ys) = xs @ takeWhile P ys"
  by (induction xs) auto

section \<open>Interfaces\<close>

text \<open>
  A component that handles one event at a time: \<open>step\<close> is its handler and \<open>inv\<close> what its data
  structure keeps. Whatever the events are, a run from a good state stays good.
\<close>

locale stepwise_invariant =
  fixes step :: "'s \<Rightarrow> 'e \<Rightarrow> 's"
    and inv :: "'s \<Rightarrow> bool"
  assumes step_inv: "inv s \<Longrightarrow> inv (step s e)"
begin

lemma run_inv: "inv s \<Longrightarrow> inv (foldl step s es)"
  by (rule foldl_preserves [of inv step]) (rule step_inv)

lemma run_append_inv: "inv s \<Longrightarrow> inv (foldl step (foldl step s es) es')"
  by (intro run_inv)

end

text \<open>The same for a step relation.\<close>

locale relation_invariant =
  fixes step :: "'s \<Rightarrow> 's \<Rightarrow> bool"
    and inv :: "'s \<Rightarrow> bool"
  assumes step_inv: "step s s' \<Longrightarrow> inv s \<Longrightarrow> inv s'"
begin

lemma runs_inv: "step\<^sup>*\<^sup>* s s' \<Longrightarrow> inv s \<Longrightarrow> inv s'"
  by (induction rule: rtranclp_induct) (auto intro: step_inv)

end

text \<open>
  A bounded channel between a producer and a consumer that prefers fresh data: a full channel
  drops its oldest element. \<open>contents\<close> is what the consumer will still see, oldest first.
\<close>

locale dropping_queue =
  fixes enq :: "'a \<Rightarrow> 'q \<Rightarrow> 'q"
    and front :: "'q \<Rightarrow> 'a"
    and deq :: "'q \<Rightarrow> 'q"
    and contents :: "'q \<Rightarrow> 'a list"
    and ok :: "'q \<Rightarrow> bool"
    and cap :: nat
  assumes cap_pos: "0 < cap"
    and ok_enq: "ok q \<Longrightarrow> ok (enq x q)"
    and ok_deq: "ok q \<Longrightarrow> contents q \<noteq> [] \<Longrightarrow> ok (deq q)"
    and within_cap: "ok q \<Longrightarrow> length (contents q) \<le> cap"
    and contents_enq: "ok q \<Longrightarrow> contents (enq x q) =
          (if length (contents q) = cap then tl (contents q) else contents q) @ [x]"
    and contents_deq: "ok q \<Longrightarrow> contents q \<noteq> [] \<Longrightarrow> contents (deq q) = tl (contents q)"
    and front_hd: "ok q \<Longrightarrow> contents q \<noteq> [] \<Longrightarrow> front q = hd (contents q)"
begin

lemma enq_last_n:
  assumes "ok q"
  shows "contents (enq x q) = last_n cap (contents q @ [x])"
proof (cases "length (contents q) = cap")
  case True
  then show ?thesis
    using cap_pos by (simp add: contents_enq assms last_n_def drop_Suc)
next
  case False
  with within_cap [OF assms] have "length (contents q) < cap" by simp
  then show ?thesis by (simp add: contents_enq assms last_n_def)
qed

lemma enq_all_ok: "ok q \<Longrightarrow> ok (foldl (\<lambda>q x. enq x q) q xs)"
  by (rule foldl_preserves [of ok "\<lambda>q x. enq x q"]) (rule ok_enq)

lemma enq_all_last_n:
  "ok q \<Longrightarrow> contents (foldl (\<lambda>q x. enq x q) q xs) = last_n cap (contents q @ xs)"
proof (induction xs rule: rev_induct)
  case Nil
  then show ?case using within_cap [of q] by (simp add: last_n_def)
next
  case (snoc x xs)
  then show ?case
    using enq_last_n [OF enq_all_ok [of q xs], of x]
      last_n_snoc_last_n [of cap "contents q @ xs" x] by simp
qed

text \<open>A producer that stays within the free space loses nothing.\<close>

lemma enq_all_lossless:
  assumes "ok q" "length (contents q) + length xs \<le> cap"
  shows "contents (foldl (\<lambda>q x. enq x q) q xs) = contents q @ xs"
  using assms by (simp add: enq_all_last_n last_n_def)

end

end
