(* ===== verification/C_Strings.thy ===== *)
theory C_Strings
  imports Proto_Prelude
begin

text \<open>
  The part of the C library the sources call on text: strings in buffers, \<open>strncpy\<close>, \<open>memcpy\<close>,
  \<open>strcasecmp\<close>, \<open>strtol\<close>/\<open>atoi\<close> and the decimal conversions of \<open>snprintf\<close>. A buffer is the list
  of its bytes; the C string it holds is the bytes before the first NUL.
\<close>

section \<open>Buffers and C strings\<close>

abbreviation NUL :: char where "NUL \<equiv> CHR 0x00"

type_synonym buffer = "char list"

definition cstr :: "buffer \<Rightarrow> string" where
  "cstr b = takeWhile (\<lambda>c. c \<noteq> NUL) b"

definition strlen :: "buffer \<Rightarrow> nat" where
  "strlen b = length (cstr b)"

definition memcpy :: "buffer \<Rightarrow> buffer \<Rightarrow> nat \<Rightarrow> buffer" where
  "memcpy dst src n = take n src @ drop n dst"

text \<open>\<open>strncpy (dst, src, n)\<close> copies at most \<open>n\<close> bytes of the string and pads with NULs up to \<open>n\<close>.\<close>

definition strncpy :: "buffer \<Rightarrow> string \<Rightarrow> nat \<Rightarrow> buffer" where
  "strncpy dst src n =
     take n (cstr src) @ replicate (n - length (cstr src)) NUL @ drop n dst"

text \<open>The idiom \<open>strncpy (dst, src, size - 1); dst[size - 1] = 0\<close>, as the string it leaves.\<close>

definition copy_str :: "nat \<Rightarrow> string \<Rightarrow> string" where
  "copy_str dst_size src = take (dst_size - 1) (cstr src)"

lemma cstr_no_NUL [simp]: "NUL \<notin> set (cstr b)"
  by (auto simp: cstr_def dest: set_takeWhileD)

lemma cstr_id: "NUL \<notin> set s \<Longrightarrow> cstr s = s"
  by (auto simp: cstr_def takeWhile_eq_all_conv)

lemma cstr_idem [simp]: "cstr (cstr s) = cstr s"
  by (simp add: cstr_id)

lemma cstr_Nil [simp]: "cstr [] = []"
  by (simp add: cstr_def)

lemma cstr_NUL_Cons [simp]: "cstr (NUL # b) = []"
  by (simp add: cstr_def)

lemma cstr_take: "cstr (take n b) = take n (cstr b)"
  by (simp add: cstr_def takeWhile_take_prefix)

lemma set_cstr: "set (cstr b) \<subseteq> set b"
  by (auto simp: cstr_def dest: set_takeWhileD)

lemma length_cstr_le: "length (cstr b) \<le> length b"
  by (simp add: cstr_def length_takeWhile_le)

lemma cstr_terminated: "NUL \<in> set b \<Longrightarrow> length (cstr b) < length b"
  by (induction b) (auto simp: cstr_def)

lemma cstr_before_NUL: "cstr (b @ NUL # b') = cstr b"
  by (induction b) (auto simp: cstr_def)

lemma cstr_truncate_at:
  assumes "n < length b"
  shows "cstr (b[n := NUL]) = take n (cstr b)"
proof -
  have "b[n := NUL] = take n b @ NUL # drop (Suc n) b"
    using assms by (simp add: upd_conv_take_nth_drop)
  then show ?thesis by (simp add: cstr_before_NUL cstr_take)
qed

lemma length_memcpy: "n \<le> length src \<Longrightarrow> n \<le> length dst \<Longrightarrow> length (memcpy dst src n) = length dst"
  by (simp add: memcpy_def)

lemma take_memcpy: "n \<le> length src \<Longrightarrow> take n (memcpy dst src n) = take n src"
  by (simp add: memcpy_def)

lemma length_strncpy: "n \<le> length dst \<Longrightarrow> length (strncpy dst src n) = length dst"
  by (simp add: strncpy_def)

lemma cstr_strncpy_closed:
  assumes "Suc n \<le> length dst"
  shows "cstr ((strncpy dst src n)[n := NUL]) = take n (cstr src)"
proof -
  have len: "n < length (strncpy dst src n)" using assms by (simp add: length_strncpy)
  let ?pad = "replicate (n - length (cstr src)) NUL"
  have "cstr ((strncpy dst src n)[n := NUL]) = cstr (take n (strncpy dst src n))"
    using len by (simp add: cstr_truncate_at cstr_take)
  also have "take n (strncpy dst src n) = take n (cstr src) @ ?pad"
    by (auto simp: strncpy_def)
  also have "cstr \<dots> = take n (cstr src)"
  proof (cases "n - length (cstr src)")
    case 0
    then show ?thesis by (simp add: cstr_take)
  next
    case (Suc m)
    then show ?thesis
      using cstr_before_NUL [of "take n (cstr src)" "replicate m NUL"]
      by (simp add: cstr_take)
  qed
  finally show ?thesis .
qed

lemma length_copy_str: "0 < n \<Longrightarrow> length (copy_str n src) < n"
  by (auto simp: copy_str_def)

lemma copy_str_id: "NUL \<notin> set s \<Longrightarrow> length s < n \<Longrightarrow> copy_str n s = s"
  by (simp add: copy_str_def cstr_id)

lemma copy_str_no_NUL [simp]: "NUL \<notin> set (copy_str n s)"
  by (auto simp: copy_str_def dest: in_set_takeD)

end
