(* ===== verification/Proto_Common.thy ===== *)
theory Proto_Common
  imports C_Numbers
begin

text \<open>
  The types every protocol driver shares (\<open>common/api/proto_common.h\<close>): the protocol kinds, the
  status codes, the generic request and the driver context. Codes are \<open>int\<close>, as the functions
  return them, because some drivers return codes of another enumeration.
\<close>

datatype proto_type = PROTO_TYPE_MODBUS | PROTO_TYPE_OPCUA | PROTO_TYPE_BACNET | PROTO_TYPE_MQTT

definition PROTO_SUCCESS :: int where [code_consts]: "PROTO_SUCCESS = 0"
definition PROTO_ERROR_INIT :: int where [code_consts]: "PROTO_ERROR_INIT = -1"
definition PROTO_ERROR_CONNECT :: int where [code_consts]: "PROTO_ERROR_CONNECT = -2"
definition PROTO_ERROR_READ :: int where [code_consts]: "PROTO_ERROR_READ = -3"
definition PROTO_ERROR_WRITE :: int where [code_consts]: "PROTO_ERROR_WRITE = -4"
definition PROTO_ERROR_UNSUPPORTED :: int where [code_consts]: "PROTO_ERROR_UNSUPPORTED = -5"
definition PROTO_ERROR_PARAM :: int where [code_consts]: "PROTO_ERROR_PARAM = -6"
definition PROTO_ERROR_MEMORY :: int where [code_consts]: "PROTO_ERROR_MEMORY = -8"
definition PROTO_NO_DATA :: int where [code_consts]: "PROTO_NO_DATA = -7"
definition PROTO_TIMEOUT :: int where [code_consts]: "PROTO_TIMEOUT = -9"

text \<open>\<open>proto_request_t\<close>; the buffer behind \<open>value\<close> has the type the driver casts it to, and \<open>None\<close> is
  the null pointer.\<close>

record 'v proto_request =
  resource_name :: string
  req_address :: u16
  req_quantity :: u16
  req_value :: "'v option"

text \<open>\<open>proto_ctx_t\<close>: the three pointers are addresses of the heap, \<open>None\<close> is the null pointer.\<close>

record proto_ctx =
  ctx_type :: proto_type
  ctx_client :: "addr option"
  ctx_config :: "addr option"
  ctx_userdata :: "addr option"

text \<open>The enumeration of the protocol kinds, for exhaustive case analyses by evaluation.\<close>

instantiation proto_type :: linorder
begin

definition proto_type_code :: "proto_type \<Rightarrow> nat" where
  "proto_type_code t = (case t of PROTO_TYPE_MODBUS \<Rightarrow> 0 | PROTO_TYPE_OPCUA \<Rightarrow> 1
     | PROTO_TYPE_BACNET \<Rightarrow> 2 | PROTO_TYPE_MQTT \<Rightarrow> 3)"

definition less_eq_proto_type :: "proto_type \<Rightarrow> proto_type \<Rightarrow> bool" where
  "less_eq_proto_type a b \<longleftrightarrow> proto_type_code a \<le> proto_type_code b"

definition less_proto_type :: "proto_type \<Rightarrow> proto_type \<Rightarrow> bool" where
  "less_proto_type a b \<longleftrightarrow> proto_type_code a < proto_type_code b"

instance
  by standard (auto simp: less_eq_proto_type_def less_proto_type_def proto_type_code_def
      split: proto_type.splits)

end

end
