(* ===== verification/Yaml_Events.thy ===== *)
theory Yaml_Events
  imports Proto_Prelude
begin

text \<open>
  The configuration file as \<open>libyaml\<close> presents it to both loaders: missing, present but with no
  parser to be had, or a stream of events. \<open>yaml_parser_parse\<close> fails where the stream stops before
  its end event. A document is a tree of mappings and scalars; its events are a traversal.
\<close>

datatype yaml_event =
    StreamStart | StreamEnd | DocumentStart | DocumentEnd | MappingStart | MappingEnd
  | SequenceStart | SequenceEnd | Scalar string | Alias string

datatype yaml_source = NoFile | NoParser | Events "yaml_event list"

section \<open>Documents\<close>

datatype ynode = YScalar string | YMap "(string \<times> ynode) list"

fun node_events :: "ynode \<Rightarrow> yaml_event list"
  and pairs_events :: "(string \<times> ynode) list \<Rightarrow> yaml_event list" where
  "node_events (YScalar v) = [Scalar v]"
| "node_events (YMap kvs) = MappingStart # pairs_events kvs @ [MappingEnd]"
| "pairs_events [] = []"
| "pairs_events ((k, v) # kvs) = Scalar k # node_events v @ pairs_events kvs"

fun node_depth :: "ynode \<Rightarrow> nat"
  and pairs_depth :: "(string \<times> ynode) list \<Rightarrow> nat" where
  "node_depth (YScalar v) = 0"
| "node_depth (YMap kvs) = Suc (pairs_depth kvs)"
| "pairs_depth [] = 0"
| "pairs_depth ((k, v) # kvs) = max (node_depth v) (pairs_depth kvs)"

definition document :: "ynode \<Rightarrow> yaml_source" where
  "document root =
     Events (StreamStart # DocumentStart # node_events root @ [DocumentEnd, StreamEnd])"

lemma StreamEnd_not_in_events [simp]:
  "StreamEnd \<notin> set (node_events n)" "StreamEnd \<notin> set (pairs_events kvs)"
  by (induction n and kvs rule: node_events_pairs_events.induct) auto

lemma pairs_events_append [simp]: "pairs_events (kvs @ kvs') = pairs_events kvs @ pairs_events kvs'"
  by (induction kvs) auto

end
