(* ===== verification/Mqtt_Types.thy ===== *)
theory Mqtt_Types
  imports Proto_Common Yaml_Events
begin

text \<open>
  The data of the MQTT driver (\<open>impl/mqtt/src/proto_mqtt.h\<close>): the two state machines, the
  configuration, the messages, the driver context and the process state the handlers act on.

  Pointers are explicit. The contexts and configurations the driver allocates live in the heaps
  \<open>ctx_heap\<close> and \<open>cfg_heap\<close> of the world; a \<open>proto_ctx\<close> refers to them by address, as the C
  structure does. A function that dereferences an address that is not allocated has the result
  \<open>None\<close>: the memory fault the C program would have.
\<close>

section \<open>Sizes, states and codes\<close>

definition MAX_MESSAGE_SIZE :: nat where [code_consts]: "MAX_MESSAGE_SIZE = 1024"
definition MAX_MSG_BUFFER_SIZE :: nat where [code_consts]: "MAX_MSG_BUFFER_SIZE = 100"
definition DEFAULT_TIMEOUT_MS :: int where [code_consts]: "DEFAULT_TIMEOUT_MS = 5000"

datatype connect_status = CON_OK | CON_IDLE | CON_PENDING | DCON_OK | DCON_PENDING

datatype operation_status = OP_IDLE | OP_PENDING | OP_SUCCESS | OP_FAILED

text \<open>Of the driver's own error codes (\<open>error_code_t\<close>) only the last one is returned.\<close>

definition NO_DATA :: int where [code_consts]: "NO_DATA = -9"

section \<open>Configuration and messages\<close>

text \<open>A \<open>char\<close> array that the code only uses as a C string is the string.\<close>

record mqtt_config =
  broker :: string
  client_id :: string
  username :: string
  password :: string
  pub_topic :: string
  sub_topic :: string
  qos :: int
  retained :: int
  timeout_ms :: int
  keepalive_interval :: int
  reconnect_interval :: int
  max_reconnect_attempts :: int
  enable_auto_reconnect :: int

definition mqtt_config_zero :: mqtt_config where
  "mqtt_config_zero =
     \<lparr>broker = [], client_id = [], username = [], password = [], pub_topic = [], sub_topic = [],
      qos = 0, retained = 0, timeout_ms = 0, keepalive_interval = 0, reconnect_interval = 0,
      max_reconnect_attempts = 0, enable_auto_reconnect = 0\<rparr>"

text \<open>The slots of the message buffer are real buffers: a new message is written over the bytes of
  the one that was in its slot.\<close>

record mqtt_message =
  msg_topic :: buffer
  msg_payload :: buffer
  msg_payloadlen :: int
  msg_timestamp_ms :: int

record mqtt_read_req =
  rd_topic :: buffer
  rd_payload :: buffer

record mqtt_write_req =
  wr_qos :: int
  wr_retained :: int
  wr_topic :: string
  wr_payload :: string

section \<open>The message ring\<close>

text \<open>The fields \<open>msg_buffer\<close>, \<open>msg_buffer_head\<close>, \<open>msg_buffer_tail\<close> and \<open>msg_buffer_count\<close> of
  \<open>mqtt_ctx_t\<close>, for any type of slot.\<close>

record 'a msg_ring =
  msg_buffer :: "'a list"
  msg_buffer_head :: nat
  msg_buffer_tail :: nat
  msg_buffer_count :: nat

section \<open>The client library's options\<close>

text \<open>
  The Paho library is not under \<open>src/\<close>; the structures passed to it are declared by its header
  \<open>MQTTAsync.h\<close>. Of \<open>MQTTAsync_connectOptions\<close> these are the fields the driver sets; a callback
  of the driver is named by a constructor.
\<close>

datatype mqtt_callback =
    OnConnectSuccess | OnConnectFailure | OnDisconnectSuccess | OnDisconnectFailure
  | OnSendSuccess | OnSendFailure | OnSubscribeSuccess | OnSubscribeFailure

record connect_options =
  co_struct_id :: string
  co_struct_version :: int
  keepAliveInterval :: int
  cleansession :: int
  maxInflight :: int
  co_username :: "string option"
  co_password :: "string option"
  connectTimeout :: int
  retryInterval :: int
  co_onSuccess :: "mqtt_callback option"
  co_onFailure :: "mqtt_callback option"
  co_context :: "addr option"
  serverURIcount :: int

record disconnect_options =
  do_struct_id :: string
  do_struct_version :: int
  do_timeout :: int
  do_onSuccess :: "mqtt_callback option"
  do_onFailure :: "mqtt_callback option"
  do_context :: "addr option"

record response_options =
  ro_onSuccess :: "mqtt_callback option"
  ro_onFailure :: "mqtt_callback option"
  ro_context :: "addr option"

record publish_message =
  pm_payload :: string
  pm_payloadlen :: nat
  pm_qos :: int
  pm_retained :: int

text \<open>What the driver asks of the library, in the order of the calls.\<close>

datatype paho_call =
    Create string string
  | SetCallbacks "nat option" addr
  | Connect "nat option" connect_options
  | Disconnect "nat option" disconnect_options
  | SendMessage "nat option" string publish_message response_options
  | Subscribe "nat option" string int response_options
  | Destroy "nat option"
  | FreeMessage
  | FreeTopic

definition MQTTASYNC_SUCCESS :: int where [code_consts]: "MQTTASYNC_SUCCESS = 0"

section \<open>The driver context and the world\<close>

record mqtt_ctx =
  base :: proto_ctx
  ring :: "mqtt_message msg_ring"
  client :: "nat option"
  connect_status :: connect_status
  operation_status :: operation_status
  ctx_timeout_ms :: int
  reconnect_attempts :: int
  connect_callback :: "fn_ptr option"
  disconnect_callback :: "fn_ptr option"
  send_callback :: "fn_ptr option"
  connect_userdata :: "user_ptr option"
  disconnect_userdata :: "user_ptr option"
  send_userdata :: "user_ptr option"

text \<open>
  The process state: the two heaps, the next free address, the library calls made so far, the user
  callbacks invoked so far (function, context, result, user data), and what the environment
  provides (configuration file, clock in seconds, process id).
\<close>

record mqtt_world =
  cfg_heap :: "addr \<rightharpoonup> mqtt_config"
  ctx_heap :: "addr \<rightharpoonup> mqtt_ctx"
  next_addr :: addr
  paho_calls :: "paho_call list"
  user_calls :: "(fn_ptr \<times> proto_ctx \<times> int \<times> user_ptr option) list"
  config_file :: yaml_source
  clock :: int
  pid :: int

text \<open>
  The environment's answers. \<open>rc_of env w c\<close> is what the library returns when call \<open>c\<close> is made in world
  \<open>w\<close> (it may depend on all calls before), \<open>handle_of\<close> the client it creates, \<open>malloc_ok\<close> whether an
  allocation succeeds.
\<close>

record mqtt_env =
  rc_of :: "mqtt_world \<Rightarrow> paho_call \<Rightarrow> int"
  handle_of :: "mqtt_world \<Rightarrow> nat"
  malloc_ok :: "mqtt_world \<Rightarrow> bool"

definition paho :: "paho_call \<Rightarrow> mqtt_world \<Rightarrow> mqtt_world" where
  "paho c w = w\<lparr>paho_calls := paho_calls w @ [c]\<rparr>"

end
