(* ===== verification/Mqtt_Yaml_Spec.thy ===== *)
theory Mqtt_Yaml_Spec
  imports Mqtt_Yaml
begin

text \<open>
  What the loader means on a document: a document is a tree of mappings and scalars, and reading
  it is a recursion that passes the section down. The event loop with its stack implements this
  recursion for every document whose nesting fits the stack of eight; printing a configuration and
  loading it gives the configuration back.
\<close>

section \<open>The meaning of a document\<close>

fun read_node :: "yaml_section \<Rightarrow> string \<Rightarrow> ynode \<Rightarrow> mqtt_config \<Rightarrow> mqtt_config"
  and read_pairs :: "yaml_section \<Rightarrow> (string \<times> ynode) list \<Rightarrow> mqtt_config \<Rightarrow> mqtt_config" where
  "read_node sec key (YScalar v) cfg = set_value sec key v cfg"
| "read_node sec key (YMap kvs) cfg = read_pairs (enter_section sec key) kvs cfg"
| "read_pairs sec [] cfg = cfg"
| "read_pairs sec ((k, v) # kvs) cfg = read_pairs sec kvs (read_node sec (copy_str 128 k) v cfg)"

section \<open>The loop implements the recursion\<close>

text \<open>After a value: the configuration read, and the stack as before up to the current level.\<close>

definition value_done :: "yaml_state \<Rightarrow> mqtt_config \<Rightarrow> yaml_state \<Rightarrow> bool" where
  "value_done s cfg s' \<longleftrightarrow>
     ys_cfg s' = cfg \<and> ys_sp s' = ys_sp s \<and> ys_key s' = [] \<and> ys_in_key s' \<and>
     length (ys_stack s') = 8 \<and> take (Suc (ys_sp s)) (ys_stack s') = take (Suc (ys_sp s)) (ys_stack s)"

lemma take_Suc_nth_eq:
  "take (Suc n) xs = take (Suc n) ys \<Longrightarrow> n < length xs \<Longrightarrow> n < length ys \<Longrightarrow> xs ! n = ys ! n"
  by (metis lessI nth_take)

lemma take_Suc_list_update: "take (Suc n) (xs[Suc n := y]) = take (Suc n) xs"
  by simp

lemma events_read:
  "length (ys_stack s) = 8 \<Longrightarrow> ys_sp s + node_depth n \<le> 7 \<Longrightarrow> \<not> ys_in_key s \<Longrightarrow>
     value_done s (read_node (ys_stack s ! ys_sp s) (ys_key s) n (ys_cfg s))
       (foldl yaml_step s (node_events n))"
  "length (ys_stack s) = 8 \<Longrightarrow> ys_sp s + pairs_depth kvs \<le> 7 \<Longrightarrow> ys_in_key s \<Longrightarrow> ys_key s = [] \<Longrightarrow>
     value_done s (read_pairs (ys_stack s ! ys_sp s) kvs (ys_cfg s))
       (foldl yaml_step s (pairs_events kvs))"
proof (induction n and kvs arbitrary: s and s rule: node_events_pairs_events.induct)
  case (1 v)
  then show ?case by (simp add: value_done_def yaml_step_def)
next
  case (2 kvs)
  let ?s = "yaml_step s MappingStart"
  have s: "length (ys_stack ?s) = 8" "ys_sp ?s = Suc (ys_sp s)" "ys_in_key ?s" "ys_key ?s = []"
    "ys_cfg ?s = ys_cfg s"
    "ys_stack ?s ! ys_sp ?s = enter_section (ys_stack s ! ys_sp s) (ys_key s)"
    "take (Suc (ys_sp s)) (ys_stack ?s) = take (Suc (ys_sp s)) (ys_stack s)"
    using "2.prems" by (auto simp: yaml_step_def)
  let ?t = "foldl yaml_step ?s (pairs_events kvs)"
  have t: "value_done ?s (read_pairs (enter_section (ys_stack s ! ys_sp s) (ys_key s)) kvs (ys_cfg s)) ?t"
    using "2.IH" [of ?s] s "2.prems" by simp
  have "take (Suc (ys_sp s)) (ys_stack ?t) = take (Suc (ys_sp s)) (take (Suc (Suc (ys_sp s))) (ys_stack ?t))"
    by simp
  also have "\<dots> = take (Suc (ys_sp s)) (take (Suc (Suc (ys_sp s))) (ys_stack ?s))"
    using t s(2) by (simp add: value_done_def)
  also have "\<dots> = take (Suc (ys_sp s)) (ys_stack s)"
    using s(7) by simp
  finally have stack: "take (Suc (ys_sp s)) (ys_stack ?t) = take (Suc (ys_sp s)) (ys_stack s)" .
  have "foldl yaml_step s (node_events (YMap kvs)) = yaml_step ?t MappingEnd"
    by simp
  moreover have "value_done s (read_node (ys_stack s ! ys_sp s) (ys_key s) (YMap kvs) (ys_cfg s))
      (yaml_step ?t MappingEnd)"
    using t s(2) stack by (simp add: value_done_def yaml_step_def)
  ultimately show ?case by simp
next
  case 3
  then show ?case by (simp add: value_done_def)
next
  case (4 k v kvs)
  let ?s1 = "yaml_step s (Scalar k)"
  let ?s2 = "foldl yaml_step ?s1 (node_events v)"
  have s1: "length (ys_stack ?s1) = 8" "ys_sp ?s1 = ys_sp s" "\<not> ys_in_key ?s1"
    "ys_key ?s1 = copy_str 128 k" "ys_cfg ?s1 = ys_cfg s" "ys_stack ?s1 = ys_stack s"
    using "4.prems" by (auto simp: yaml_step_def)
  have s2: "value_done ?s1 (read_node (ys_stack s ! ys_sp s) (copy_str 128 k) v (ys_cfg s)) ?s2"
    using "4.IH"(1) [of ?s1] s1 "4.prems" by simp
  then have "ys_stack ?s2 ! ys_sp s = ys_stack s ! ys_sp s"
    using s1 "4.prems" by (intro take_Suc_nth_eq) (auto simp: value_done_def)
  then show ?case
    using "4.IH"(2) [of ?s2] s1 s2 "4.prems" by (simp add: value_done_def)
qed

lemma load_document:
  assumes "node_depth root \<le> 7"
  shows "load_mqtt_config_from_yaml (document root) =
           yaml_finish 0 (read_node SEC_NONE [] root mqtt_config_defaults)"
proof -
  have "value_done yaml_init (read_node SEC_NONE [] root mqtt_config_defaults)
          (foldl yaml_step yaml_init (node_events root))"
    using events_read(1) [of yaml_init root] assms by (simp add: yaml_init_def)
  then show ?thesis
    by (simp add: load_mqtt_config_from_yaml_def document_def yaml_loop_run yaml_step_def
        value_done_def takeWhile_append)
qed

section \<open>Printing and loading a configuration\<close>

text \<open>The document of a configuration, in the layout of \<open>impl/mqtt/config.yaml\<close>.\<close>

definition bool_word :: "int \<Rightarrow> string" where
  "bool_word i = (if i = 0 then ''false'' else ''true'')"

definition config_document :: "mqtt_config \<Rightarrow> ynode" where
  "config_document cfg =
     YMap [(''protocols'', YMap [(''mqtt'', YMap
       [(''broker_uri'', YScalar (broker cfg)),
        (''client_id'', YScalar (client_id cfg)),
        (''authentication'', YMap
           [(''username'', YScalar (username cfg)), (''password'', YScalar (password cfg))]),
        (''settings'', YMap
           [(''keepalive_interval_sec'', YScalar (dec_int (keepalive_interval cfg))),
            (''default_qos'', YScalar (dec_int (qos cfg))),
            (''default_retained'', YScalar (bool_word (retained cfg))),
            (''enable_auto_reconnect'', YScalar (bool_word (enable_auto_reconnect cfg))),
            (''max_reconnect_attempts'', YScalar (dec_int (max_reconnect_attempts cfg))),
            (''reconnect_interval_sec'', YScalar (dec_int (reconnect_interval cfg))),
            (''operation_timeout_ms'', YScalar (dec_int (timeout_ms cfg)))]),
        (''topics'', YMap
           [(''publish_topic'', YScalar (pub_topic cfg)),
            (''subscribe_topic'', YScalar (sub_topic cfg))])])])]"

text \<open>A configuration that a file can hold: its strings have no NUL, its flags are 0 or 1, and the
  fields the loader insists on or fills in are there.\<close>

definition storable :: "mqtt_config \<Rightarrow> bool" where
  "storable cfg \<longleftrightarrow>
     mqtt_config_fits cfg \<and>
     NUL \<notin> set (broker cfg) \<union> set (client_id cfg) \<union> set (username cfg) \<union> set (password cfg) \<union>
       set (pub_topic cfg) \<union> set (sub_topic cfg) \<and>
     retained cfg \<in> {0, 1} \<and> enable_auto_reconnect cfg \<in> {0, 1} \<and>
     broker cfg \<noteq> [] \<and> client_id cfg \<noteq> [] \<and> pub_topic cfg \<noteq> [] \<and> sub_topic cfg \<noteq> []"

lemma copy_key [simp]:
  "copy_str 128 ''protocols'' = ''protocols''" "copy_str 128 ''mqtt'' = ''mqtt''"
  "copy_str 128 ''broker_uri'' = ''broker_uri''" "copy_str 128 ''client_id'' = ''client_id''"
  "copy_str 128 ''authentication'' = ''authentication''"
  "copy_str 128 ''username'' = ''username''" "copy_str 128 ''password'' = ''password''"
  "copy_str 128 ''settings'' = ''settings''"
  "copy_str 128 ''keepalive_interval_sec'' = ''keepalive_interval_sec''"
  "copy_str 128 ''default_qos'' = ''default_qos''"
  "copy_str 128 ''default_retained'' = ''default_retained''"
  "copy_str 128 ''enable_auto_reconnect'' = ''enable_auto_reconnect''"
  "copy_str 128 ''max_reconnect_attempts'' = ''max_reconnect_attempts''"
  "copy_str 128 ''reconnect_interval_sec'' = ''reconnect_interval_sec''"
  "copy_str 128 ''operation_timeout_ms'' = ''operation_timeout_ms''"
  "copy_str 128 ''topics'' = ''topics''"
  "copy_str 128 ''publish_topic'' = ''publish_topic''"
  "copy_str 128 ''subscribe_topic'' = ''subscribe_topic''"
  by (simp_all add: copy_str_def cstr_def)

lemma enter_key [simp]:
  "enter_section sec [] = sec"
  "enter_section sec ''protocols'' = SEC_PROTOCOLS"
  "enter_section sec ''mqtt'' = SEC_MQTT"
  "enter_section sec ''authentication'' = SEC_AUTH"
  "enter_section sec ''settings'' = SEC_SETTINGS"
  "enter_section sec ''topics'' = SEC_TOPICS"
  by (simp_all add: enter_section_def strcaseeq_def cstr_def to_lower_def)

lemma set_key:
  "set_value SEC_MQTT ''broker_uri'' v cfg = cfg\<lparr>broker := copy_str 128 v\<rparr>"
  "set_value SEC_MQTT ''client_id'' v cfg = cfg\<lparr>client_id := copy_str 64 v\<rparr>"
  "set_value SEC_AUTH ''username'' v cfg = cfg\<lparr>username := copy_str 64 v\<rparr>"
  "set_value SEC_AUTH ''password'' v cfg = cfg\<lparr>password := copy_str 64 v\<rparr>"
  "set_value SEC_SETTINGS ''keepalive_interval_sec'' v cfg = cfg\<lparr>keepalive_interval := to_int32 (strtol10 v)\<rparr>"
  "set_value SEC_SETTINGS ''default_qos'' v cfg = cfg\<lparr>qos := to_int32 (strtol10 v)\<rparr>"
  "set_value SEC_SETTINGS ''default_retained'' v cfg = cfg\<lparr>retained := parse_bool (Some v) 0\<rparr>"
  "set_value SEC_SETTINGS ''operation_timeout_ms'' v cfg = cfg\<lparr>timeout_ms := to_int32 (strtol10 v)\<rparr>"
  "set_value SEC_SETTINGS ''max_reconnect_attempts'' v cfg = cfg\<lparr>max_reconnect_attempts := to_int32 (strtol10 v)\<rparr>"
  "set_value SEC_SETTINGS ''enable_auto_reconnect'' v cfg = cfg\<lparr>enable_auto_reconnect := parse_bool (Some v) 1\<rparr>"
  "set_value SEC_SETTINGS ''reconnect_interval_sec'' v cfg = cfg\<lparr>reconnect_interval := to_int32 (strtol10 v)\<rparr>"
  "set_value SEC_TOPICS ''publish_topic'' v cfg = cfg\<lparr>pub_topic := copy_str 64 v\<rparr>"
  "set_value SEC_TOPICS ''subscribe_topic'' v cfg = cfg\<lparr>sub_topic := copy_str 64 v\<rparr>"
  by (simp_all add: set_value_def strcaseeq_def cstr_def to_lower_def)

lemma parse_bool_word:
  "i \<in> {0, 1} \<Longrightarrow> parse_bool (Some (bool_word i)) d = i"
  by (auto simp: parse_bool_def bool_word_def strcaseeq_def cstr_def to_lower_def)

lemma int32_of_dec_int: "- (2 ^ 31) \<le> i \<Longrightarrow> i < 2 ^ 31 \<Longrightarrow> to_int32 (strtol10 (dec_int i)) = i"
  using atoi_dec_int [of i] by (simp add: atoi_def)

lemma read_config_document:
  assumes "storable cfg"
  shows "read_node SEC_NONE [] (config_document cfg) mqtt_config_defaults = cfg"
  using assms
  by (cases cfg)
    (simp add: config_document_def set_key storable_def mqtt_config_fits_def copy_str_id
      int32_of_dec_int parse_bool_word mqtt_config_defaults_def mqtt_config_zero_def)

lemma config_document_depth: "node_depth (config_document cfg) \<le> 7"
  by (simp add: config_document_def)

end
