(* ===== verification/Mqtt_Utils.thy ===== *)
theory Mqtt_Utils
  imports Mqtt_Types "HOL-Library.Signed_Division"
begin

text \<open>
  The helpers of \<open>proto_mqtt_utils.c\<close>: the clock, the option structures of the library calls, and
  the accessors of the two state machines. The accessors take and release the state mutex around
  one load or store, so each is one atomic step of the model.
\<close>

section \<open>Clock and option structures\<close>

definition get_current_time_ms :: "mqtt_world \<Rightarrow> int" where
  "get_current_time_ms w = to_int32 (clock w * 1000)"

definition create_connect_options :: "mqtt_config \<Rightarrow> connect_options" where
  "create_connect_options cfg =
     \<lparr>co_struct_id = ''MQTC'', co_struct_version = 0,
      keepAliveInterval = (if 0 < keepalive_interval cfg then keepalive_interval cfg else 60),
      cleansession = 1, maxInflight = 20,
      co_username = (if username cfg \<noteq> [] then Some (username cfg) else None),
      co_password = (if username cfg \<noteq> [] then Some (password cfg) else None),
      connectTimeout = timeout_ms cfg sdiv 1000, retryInterval = 0,
      co_onSuccess = Some OnConnectSuccess, co_onFailure = Some OnConnectFailure,
      co_context = None, serverURIcount = 0\<rparr>"

definition create_disconnect_options :: "int \<Rightarrow> addr option \<Rightarrow> disconnect_options" where
  "create_disconnect_options timeout ctx =
     \<lparr>do_struct_id = ''MQTD'', do_struct_version = 0, do_timeout = timeout,
      do_onSuccess = Some OnDisconnectSuccess, do_onFailure = Some OnDisconnectFailure,
      do_context = ctx\<rparr>"

section \<open>The context in the heap\<close>

definition upd_ctx :: "addr \<Rightarrow> (mqtt_ctx \<Rightarrow> mqtt_ctx) \<Rightarrow> mqtt_world \<Rightarrow> mqtt_world option" where
  "upd_ctx a f w =
     (case ctx_heap w a of
        None \<Rightarrow> None
      | Some c \<Rightarrow> Some (w\<lparr>ctx_heap := (ctx_heap w)(a \<mapsto> f c)\<rparr>))"

definition set_connect_status :: "addr option \<Rightarrow> connect_status \<Rightarrow> mqtt_world \<Rightarrow> mqtt_world option" where
  "set_connect_status ctx status w =
     (case ctx of None \<Rightarrow> Some w | Some a \<Rightarrow> upd_ctx a (\<lambda>c. c\<lparr>connect_status := status\<rparr>) w)"

definition get_connect_status :: "addr option \<Rightarrow> mqtt_world \<Rightarrow> connect_status option" where
  "get_connect_status ctx w =
     (case ctx of None \<Rightarrow> Some CON_IDLE | Some a \<Rightarrow> map_option connect_status (ctx_heap w a))"

definition set_operation_status :: "addr option \<Rightarrow> operation_status \<Rightarrow> mqtt_world \<Rightarrow> mqtt_world option" where
  "set_operation_status ctx status w =
     (case ctx of None \<Rightarrow> Some w | Some a \<Rightarrow> upd_ctx a (\<lambda>c. c\<lparr>operation_status := status\<rparr>) w)"

definition get_operation_status :: "addr option \<Rightarrow> mqtt_world \<Rightarrow> operation_status option" where
  "get_operation_status ctx w =
     (case ctx of None \<Rightarrow> Some OP_IDLE | Some a \<Rightarrow> map_option operation_status (ctx_heap w a))"

text \<open>A user callback, if one is installed: \<open>f (&ctx->base, result, userdata)\<close>.\<close>

definition invoke_user :: "fn_ptr option \<Rightarrow> proto_ctx \<Rightarrow> int \<Rightarrow> user_ptr option \<Rightarrow> mqtt_world \<Rightarrow> mqtt_world" where
  "invoke_user f b result ud w =
     (case f of None \<Rightarrow> w | Some g \<Rightarrow> w\<lparr>user_calls := user_calls w @ [(g, b, result, ud)]\<rparr>)"

section \<open>Frame lemmas\<close>

lemma paho_fields [simp]:
  "ctx_heap (paho c w) = ctx_heap w" "cfg_heap (paho c w) = cfg_heap w"
  "next_addr (paho c w) = next_addr w" "paho_calls (paho c w) = paho_calls w @ [c]"
  "user_calls (paho c w) = user_calls w" "config_file (paho c w) = config_file w"
  "clock (paho c w) = clock w" "pid (paho c w) = pid w"
  by (simp_all add: paho_def)

lemma invoke_user_fields [simp]:
  "ctx_heap (invoke_user f b r u w) = ctx_heap w" "cfg_heap (invoke_user f b r u w) = cfg_heap w"
  "next_addr (invoke_user f b r u w) = next_addr w"
  "paho_calls (invoke_user f b r u w) = paho_calls w"
  "config_file (invoke_user f b r u w) = config_file w"
  "clock (invoke_user f b r u w) = clock w" "pid (invoke_user f b r u w) = pid w"
  by (simp_all add: invoke_user_def split: option.splits)

lemma upd_ctx_Some [simp]:
  "ctx_heap w a = Some c \<Longrightarrow> upd_ctx a f w = Some (w\<lparr>ctx_heap := (ctx_heap w)(a \<mapsto> f c)\<rparr>)"
  by (simp add: upd_ctx_def)

text \<open>On an allocated context the accessors are a load and a store.\<close>

lemma status_access [simp]:
  "ctx_heap w a = Some c \<Longrightarrow> get_connect_status (Some a) w = Some (connect_status c)"
  "ctx_heap w a = Some c \<Longrightarrow> get_operation_status (Some a) w = Some (operation_status c)"
  "ctx_heap w a = Some c \<Longrightarrow> set_connect_status (Some a) st w =
     Some (w\<lparr>ctx_heap := (ctx_heap w)(a \<mapsto> c\<lparr>connect_status := st\<rparr>)\<rparr>)"
  "ctx_heap w a = Some c \<Longrightarrow> set_operation_status (Some a) os w =
     Some (w\<lparr>ctx_heap := (ctx_heap w)(a \<mapsto> c\<lparr>operation_status := os\<rparr>)\<rparr>)"
  by (simp_all add: get_connect_status_def get_operation_status_def set_connect_status_def
      set_operation_status_def)

lemma status_access_null [simp]:
  "get_connect_status None w = Some CON_IDLE" "get_operation_status None w = Some OP_IDLE"
  "set_connect_status None st w = Some w" "set_operation_status None os w = Some w"
  by (simp_all add: get_connect_status_def get_operation_status_def set_connect_status_def
      set_operation_status_def)

end
