(* ===== verification/Mqtt_Ring.thy ===== *)
theory Mqtt_Ring
  imports Mqtt_Types
begin

text \<open>
  The ring of received messages, the part of \<open>messageArrived\<close> (\<open>proto_mqtt_callbacks.c\<close>) and
  \<open>mqtt_proto_read\<close> (\<open>proto_mqtt_core.c\<close>) that moves its indices. It implements a queue of at most
  \<open>MAX_MSG_BUFFER_SIZE\<close> messages that drops the oldest: the locale \<open>dropping_queue\<close>.
\<close>

section \<open>Operations\<close>

text \<open>\<open>f\<close> rewrites the tail slot in place.\<close>

definition ring_make_room :: "'a msg_ring \<Rightarrow> 'a msg_ring" where
  "ring_make_room r =
     (if MAX_MSG_BUFFER_SIZE \<le> msg_buffer_count r
      then r\<lparr>msg_buffer_head := (msg_buffer_head r + 1) mod MAX_MSG_BUFFER_SIZE,
             msg_buffer_count := msg_buffer_count r - 1\<rparr>
      else r)"

definition ring_store :: "('a \<Rightarrow> 'a) \<Rightarrow> 'a msg_ring \<Rightarrow> 'a msg_ring" where
  "ring_store f r =
     r\<lparr>msg_buffer := (msg_buffer r)[msg_buffer_tail r := f (msg_buffer r ! msg_buffer_tail r)],
       msg_buffer_tail := (msg_buffer_tail r + 1) mod MAX_MSG_BUFFER_SIZE,
       msg_buffer_count := msg_buffer_count r + 1\<rparr>"

definition ring_push :: "('a \<Rightarrow> 'a) \<Rightarrow> 'a msg_ring \<Rightarrow> 'a msg_ring" where
  "ring_push f r = ring_store f (ring_make_room r)"

definition ring_front :: "'a msg_ring \<Rightarrow> 'a" where
  "ring_front r = msg_buffer r ! msg_buffer_head r"

definition ring_drop :: "'a msg_ring \<Rightarrow> 'a msg_ring" where
  "ring_drop r =
     r\<lparr>msg_buffer_head := (msg_buffer_head r + 1) mod MAX_MSG_BUFFER_SIZE,
       msg_buffer_count := msg_buffer_count r - 1\<rparr>"

definition ring_init :: "'a list \<Rightarrow> 'a msg_ring" where
  "ring_init buf = \<lparr>msg_buffer = buf, msg_buffer_head = 0, msg_buffer_tail = 0, msg_buffer_count = 0\<rparr>"

section \<open>Invariant and abstraction\<close>

definition ring_ok :: "'a msg_ring \<Rightarrow> bool" where
  "ring_ok r \<longleftrightarrow>
     length (msg_buffer r) = MAX_MSG_BUFFER_SIZE \<and>
     msg_buffer_head r < MAX_MSG_BUFFER_SIZE \<and>
     msg_buffer_count r \<le> MAX_MSG_BUFFER_SIZE \<and>
     msg_buffer_tail r = (msg_buffer_head r + msg_buffer_count r) mod MAX_MSG_BUFFER_SIZE"

definition ring_contents :: "'a msg_ring \<Rightarrow> 'a list" where
  "ring_contents r =
     map (\<lambda>i. msg_buffer r ! ((msg_buffer_head r + i) mod MAX_MSG_BUFFER_SIZE))
       [0..<msg_buffer_count r]"

lemma length_ring_contents [simp]: "length (ring_contents r) = msg_buffer_count r"
  by (simp add: ring_contents_def)

lemma ring_contents_eq_Nil [simp]: "ring_contents r = [] \<longleftrightarrow> msg_buffer_count r = 0"
  by (simp add: ring_contents_def)

lemma ring_init_ok: "length buf = MAX_MSG_BUFFER_SIZE \<Longrightarrow> ring_ok (ring_init buf)"
  by (simp add: ring_ok_def ring_init_def code_consts)

lemma ring_init_empty [simp]: "ring_contents (ring_init buf) = []"
  by (simp add: ring_init_def)

lemma ring_tail_bound: "ring_ok r \<Longrightarrow> msg_buffer_tail r < length (msg_buffer r)"
  by (simp add: ring_ok_def code_consts)

lemma ring_head_bound: "ring_ok r \<Longrightarrow> msg_buffer_head r < length (msg_buffer r)"
  by (simp add: ring_ok_def)

lemma ring_drop_contents:
  assumes "ring_ok r" "msg_buffer_count r \<noteq> 0"
  shows "ring_contents (ring_drop r) = tl (ring_contents r)"
proof (rule nth_equalityI)
  show "length (ring_contents (ring_drop r)) = length (tl (ring_contents r))"
    by (simp add: ring_drop_def)
  fix i assume "i < length (ring_contents (ring_drop r))"
  then have i: "i < msg_buffer_count r - 1" by (simp add: ring_drop_def)
  then have "Suc i < msg_buffer_count r" by simp
  with i show "ring_contents (ring_drop r) ! i = tl (ring_contents r) ! i"
    by (simp add: nth_tl ring_contents_def ring_drop_def mod_simps add.commute add.left_commute)
qed

lemma ring_front_hd:
  assumes "ring_ok r" "msg_buffer_count r \<noteq> 0"
  shows "ring_front r = hd (ring_contents r)"
  using assms by (simp add: ring_front_def ring_contents_def hd_map ring_ok_def hd_upt)

lemma ring_drop_ok:
  assumes "ring_ok r" "msg_buffer_count r \<noteq> 0"
  shows "ring_ok (ring_drop r)"
  using assms by (auto simp: ring_ok_def ring_drop_def code_consts mod_if)

lemma ring_make_room_ok: "ring_ok r \<Longrightarrow> ring_ok (ring_make_room r)"
  using ring_drop_ok [of r] by (auto simp: ring_make_room_def ring_drop_def code_consts)

lemma ring_make_room_contents:
  "ring_ok r \<Longrightarrow> ring_contents (ring_make_room r) =
     (if msg_buffer_count r = MAX_MSG_BUFFER_SIZE then tl (ring_contents r) else ring_contents r)"
  using ring_drop_contents [of r]
  by (auto simp: ring_make_room_def ring_drop_def ring_ok_def code_consts)

lemma ring_make_room_count: "ring_ok r \<Longrightarrow> msg_buffer_count (ring_make_room r) < MAX_MSG_BUFFER_SIZE"
  by (auto simp: ring_make_room_def ring_ok_def code_consts)

lemma ring_make_room_buffer [simp]: "msg_buffer (ring_make_room r) = msg_buffer r"
  and ring_make_room_tail [simp]: "msg_buffer_tail (ring_make_room r) = msg_buffer_tail r"
  by (simp_all add: ring_make_room_def)

lemma ring_store_contents:
  assumes ok: "ring_ok r" and room: "msg_buffer_count r < MAX_MSG_BUFFER_SIZE"
  shows "ring_contents (ring_store f r) =
           ring_contents r @ [f (msg_buffer r ! msg_buffer_tail r)]"
proof (rule nth_equalityI)
  show "length (ring_contents (ring_store f r)) =
        length (ring_contents r @ [f (msg_buffer r ! msg_buffer_tail r)])"
    by (simp add: ring_store_def)
  fix i assume "i < length (ring_contents (ring_store f r))"
  then have i: "i \<le> msg_buffer_count r" by (simp add: ring_store_def)
  have distinct_slots: "(msg_buffer_head r + i) mod 100 = msg_buffer_tail r \<longleftrightarrow> i = msg_buffer_count r"
    using ok room i unfolding ring_ok_def code_consts
    by (auto simp: mod_if split: if_splits)
  show "ring_contents (ring_store f r) ! i =
        (ring_contents r @ [f (msg_buffer r ! msg_buffer_tail r)]) ! i"
    using ok i distinct_slots ring_tail_bound [OF ok]
    by (auto simp: ring_contents_def ring_store_def nth_append nth_list_update ring_ok_def
        code_consts simp del: upt_Suc)
qed

lemma ring_store_ok:
  assumes "ring_ok r" "msg_buffer_count r < MAX_MSG_BUFFER_SIZE"
  shows "ring_ok (ring_store f r)"
  using assms by (auto simp: ring_ok_def ring_store_def code_consts mod_simps)

lemma ring_push_ok [inv_intros]: "ring_ok r \<Longrightarrow> ring_ok (ring_push f r)"
  by (simp add: ring_push_def ring_store_ok ring_make_room_ok ring_make_room_count)

lemma ring_push_contents:
  "ring_ok r \<Longrightarrow> ring_contents (ring_push f r) =
     (if msg_buffer_count r = MAX_MSG_BUFFER_SIZE then tl (ring_contents r) else ring_contents r)
     @ [f (msg_buffer r ! msg_buffer_tail r)]"
  by (simp add: ring_push_def ring_store_contents ring_make_room_ok ring_make_room_count
      ring_make_room_contents)

text \<open>The ring is a dropping queue; the facts of the interface come with the prefix \<open>mq\<close>.\<close>

interpretation mq: dropping_queue "\<lambda>x. ring_push (\<lambda>_. x)" ring_front ring_drop
  ring_contents ring_ok MAX_MSG_BUFFER_SIZE
proof unfold_locales
  show "0 < MAX_MSG_BUFFER_SIZE" by (simp add: code_consts)
  show "length (ring_contents q) \<le> MAX_MSG_BUFFER_SIZE" if "ring_ok q" for q :: "'a msg_ring"
    using that by (simp add: ring_ok_def)
qed (simp_all add: ring_push_ok ring_drop_ok ring_push_contents ring_drop_contents ring_front_hd)

text \<open>A message written into its slot is a message put into the queue.\<close>

lemma ring_push_as_const:
  "ring_push f r = ring_push (\<lambda>_. f (msg_buffer r ! msg_buffer_tail r)) r"
  by (simp add: ring_push_def ring_store_def)

end
