(* ===== verification/Mqtt_Callbacks.thy ===== *)
theory Mqtt_Callbacks
  imports Mqtt_Utils Mqtt_Ring Mqtt_Yaml
begin

text \<open>
  The callbacks the client library invokes (\<open>proto_mqtt_callbacks.c\<close>). Each takes the context
  pointer it was registered with; a null pointer makes it return at once, a pointer to a freed
  context is a memory fault (\<open>None\<close>).
\<close>

section \<open>Connection loss\<close>

text \<open>The decision of the reconnect policy: whether to reconnect, and the new attempt count.\<close>

definition reconnect_decision :: "mqtt_config \<Rightarrow> int \<Rightarrow> bool \<times> int" where
  "reconnect_decision cfg attempts =
     (if max_reconnect_attempts cfg = 0 then (True, attempts + 1)
      else if attempts < max_reconnect_attempts cfg then (True, attempts + 1)
      else (False, attempts))"

definition onConnectionLost :: "addr option \<Rightarrow> mqtt_world \<Rightarrow> mqtt_world option" where
  "onConnectionLost ctx w =
     (case ctx of
        None \<Rightarrow> Some w
      | Some a \<Rightarrow> do {
          st \<leftarrow> get_connect_status ctx w;
          if st = CON_OK \<or> st = CON_PENDING
          then do {
            w \<leftarrow> set_connect_status ctx DCON_OK w;
            c \<leftarrow> ctx_heap w a;
            case ctx_config (base c) of
              None \<Rightarrow> Some w
            | Some ca \<Rightarrow> do {
                cfg \<leftarrow> cfg_heap w ca;
                if enable_auto_reconnect cfg \<noteq> 0
                then do {
                  let (should_reconnect, attempts) = reconnect_decision cfg (reconnect_attempts c);
                  w \<leftarrow> upd_ctx a (\<lambda>c. c\<lparr>reconnect_attempts := attempts\<rparr>) w;
                  if should_reconnect
                  then Some (paho (Connect (client c)
                         ((create_connect_options cfg)\<lparr>co_context := Some a\<rparr>)) w)
                  else Some w
                }
                else Some w
              }
          }
          else Some w
        })"

section \<open>Message arrival\<close>

text \<open>\<open>MQTTAsync_message\<close> as it arrives: the payload pointer may be null.\<close>

record arrived_message =
  arr_payload :: "buffer option"
  arr_payloadlen :: int

text \<open>Writing a message over the slot that receives it. The number of payload bytes taken is cut to
  the slot's size; the library promises that many bytes behind the pointer.\<close>

definition arrived_copy_len :: "arrived_message \<Rightarrow> nat" where
  "arrived_copy_len m =
     (if arr_payloadlen m < int MAX_MESSAGE_SIZE then nat (arr_payloadlen m) else MAX_MESSAGE_SIZE)"

definition store_message :: "string \<Rightarrow> arrived_message \<Rightarrow> int \<Rightarrow> mqtt_message \<Rightarrow> mqtt_message" where
  "store_message topicName m now slot =
     (let slot = slot\<lparr>msg_topic := (strncpy (msg_topic slot) topicName 127)[127 := NUL]\<rparr>;
          slot =
            (case arr_payload m of
               Some p \<Rightarrow>
                 if 0 < arr_payloadlen m
                 then slot\<lparr>msg_payload := memcpy (msg_payload slot) p (arrived_copy_len m),
                           msg_payloadlen := int (arrived_copy_len m)\<rparr>
                 else slot\<lparr>msg_payload := (msg_payload slot)[0 := NUL], msg_payloadlen := 0\<rparr>
             | None \<Rightarrow> slot\<lparr>msg_payload := (msg_payload slot)[0 := NUL], msg_payloadlen := 0\<rparr>)
      in slot\<lparr>msg_timestamp_ms := now * 1000\<rparr>)"

definition messageArrived ::
  "addr option \<Rightarrow> string \<Rightarrow> arrived_message \<Rightarrow> mqtt_world \<Rightarrow> (int \<times> mqtt_world) option" where
  "messageArrived ctx topicName m w =
     (case ctx of
        None \<Rightarrow> Some (1, paho FreeTopic (paho FreeMessage w))
      | Some a \<Rightarrow> do {
          w \<leftarrow> upd_ctx a (\<lambda>c. c\<lparr>ring := ring_push (store_message topicName m (clock w)) (ring c)\<rparr>) w;
          Some (1, paho FreeTopic (paho FreeMessage w))
        })"

section \<open>Connection and disconnection results\<close>

definition onConnectSuccess :: "addr option \<Rightarrow> mqtt_world \<Rightarrow> mqtt_world option" where
  "onConnectSuccess ctx w =
     (case ctx of
        None \<Rightarrow> Some w
      | Some a \<Rightarrow> do {
          st \<leftarrow> get_connect_status ctx w;
          w \<leftarrow> (if st \<noteq> CON_OK
               then do {
                 w \<leftarrow> set_connect_status ctx CON_OK w;
                 w \<leftarrow> set_operation_status ctx OP_SUCCESS w;
                 w \<leftarrow> upd_ctx a (\<lambda>c. c\<lparr>reconnect_attempts := 0\<rparr>) w;
                 c \<leftarrow> ctx_heap w a;
                 case ctx_config (base c) of
                   None \<Rightarrow> Some w
                 | Some ca \<Rightarrow> do {
                     cfg \<leftarrow> cfg_heap w ca;
                     if sub_topic cfg \<noteq> []
                     then Some (paho (Subscribe (client c) (sub_topic cfg) (qos cfg)
                            \<lparr>ro_onSuccess = Some OnSubscribeSuccess,
                             ro_onFailure = Some OnSubscribeFailure, ro_context = Some a\<rparr>) w)
                     else Some w
                   }
               }
               else Some w);
          c \<leftarrow> ctx_heap w a;
          Some (invoke_user (connect_callback c) (base c) PROTO_SUCCESS (connect_userdata c) w)
        })"

definition onConnectFailure :: "addr option \<Rightarrow> mqtt_world \<Rightarrow> mqtt_world option" where
  "onConnectFailure ctx w =
     (case ctx of
        None \<Rightarrow> Some w
      | Some a \<Rightarrow> do {
          w \<leftarrow> set_connect_status ctx DCON_OK w;
          w \<leftarrow> set_operation_status ctx OP_FAILED w;
          c \<leftarrow> ctx_heap w a;
          Some (invoke_user (connect_callback c) (base c) PROTO_ERROR_CONNECT (connect_userdata c) w)
        })"

definition onDisconnectSuccess :: "addr option \<Rightarrow> mqtt_world \<Rightarrow> mqtt_world option" where
  "onDisconnectSuccess ctx w =
     (case ctx of
        None \<Rightarrow> Some w
      | Some a \<Rightarrow> do {
          st \<leftarrow> get_connect_status ctx w;
          w \<leftarrow> (if st = CON_OK \<or> st = DCON_PENDING
               then do {
                 w \<leftarrow> set_connect_status ctx DCON_OK w;
                 set_operation_status ctx OP_SUCCESS w
               }
               else Some w);
          c \<leftarrow> ctx_heap w a;
          Some (invoke_user (disconnect_callback c) (base c) PROTO_SUCCESS (disconnect_userdata c) w)
        })"

definition onDisconnectFailure :: "addr option \<Rightarrow> mqtt_world \<Rightarrow> mqtt_world option" where
  "onDisconnectFailure ctx w =
     (case ctx of
        None \<Rightarrow> Some w
      | Some a \<Rightarrow> do {
          w \<leftarrow> set_connect_status ctx DCON_OK w;
          w \<leftarrow> set_operation_status ctx OP_FAILED w;
          c \<leftarrow> ctx_heap w a;
          Some (invoke_user (disconnect_callback c) (base c) PROTO_ERROR_CONNECT (disconnect_userdata c) w)
        })"

section \<open>Publication and subscription results\<close>

definition onSendSuccess :: "addr option \<Rightarrow> mqtt_world \<Rightarrow> mqtt_world option" where
  "onSendSuccess ctx w =
     (case ctx of
        None \<Rightarrow> Some w
      | Some a \<Rightarrow> do {
          w \<leftarrow> set_operation_status ctx OP_SUCCESS w;
          c \<leftarrow> ctx_heap w a;
          Some (invoke_user (send_callback c) (base c) PROTO_SUCCESS (send_userdata c) w)
        })"

definition onSendFailure :: "addr option \<Rightarrow> mqtt_world \<Rightarrow> mqtt_world option" where
  "onSendFailure ctx w =
     (case ctx of
        None \<Rightarrow> Some w
      | Some a \<Rightarrow> do {
          w \<leftarrow> set_operation_status ctx OP_FAILED w;
          c \<leftarrow> ctx_heap w a;
          Some (invoke_user (send_callback c) (base c) PROTO_ERROR_WRITE (send_userdata c) w)
        })"

text \<open>The subscription callbacks only write the log.\<close>

definition onSubscribeSuccess :: "addr option \<Rightarrow> mqtt_world \<Rightarrow> mqtt_world option" where
  "onSubscribeSuccess ctx w = Some w"

definition onSubscribeFailure :: "addr option \<Rightarrow> mqtt_world \<Rightarrow> mqtt_world option" where
  "onSubscribeFailure ctx w = Some w"

end
