(* ===== verification/Mqtt_Core.thy ===== *)
theory Mqtt_Core
  imports Mqtt_Callbacks
begin

text \<open>
  The driver's operations (\<open>proto_mqtt_core.c\<close>): initialisation and release, connection and
  disconnection, reading and writing. They act on the caller's \<open>proto_ctx_t\<close> (a null pointer is
  \<open>None\<close>) and on the world; the result \<open>None\<close> is a memory fault.
\<close>

section \<open>Connecting and disconnecting\<close>

definition proto_connect :: "mqtt_env \<Rightarrow> proto_ctx option \<Rightarrow> mqtt_world \<Rightarrow> (int \<times> mqtt_world) option" where
  "proto_connect env ctx w =
     (case ctx of
        None \<Rightarrow> Some (PROTO_ERROR_PARAM, w)
      | Some p \<Rightarrow>
          (case ctx_config p of
             None \<Rightarrow> Some (PROTO_ERROR_PARAM, w)
           | Some ca \<Rightarrow>
               (case ctx_userdata p of
                  None \<Rightarrow> Some (PROTO_ERROR_CONNECT, w)
                | Some a \<Rightarrow> do {
                    c \<leftarrow> ctx_heap w a;
                    if client c = None then Some (PROTO_ERROR_CONNECT, w)
                    else do {
                      st \<leftarrow> get_connect_status (Some a) w;
                      case st of
                        CON_OK \<Rightarrow> do {
                          w \<leftarrow> set_operation_status (Some a) OP_SUCCESS w;
                          Some (PROTO_SUCCESS, w) }
                      | CON_PENDING \<Rightarrow> do {
                          w \<leftarrow> set_operation_status (Some a) OP_PENDING w;
                          Some (PROTO_SUCCESS, w) }
                      | DCON_PENDING \<Rightarrow> do {
                          w \<leftarrow> set_operation_status (Some a) OP_FAILED w;
                          Some (PROTO_ERROR_CONNECT, w) }
                      | _ \<Rightarrow> do {
                          cfg \<leftarrow> cfg_heap w ca;
                          let call = Connect (client c)
                            ((create_connect_options cfg)\<lparr>co_context := Some a\<rparr>);
                          let rc = rc_of env w call;
                          let w = paho call w;
                          if rc \<noteq> MQTTASYNC_SUCCESS
                          then do {
                            w \<leftarrow> set_operation_status (Some a) OP_FAILED w;
                            Some (PROTO_ERROR_CONNECT, w) }
                          else do {
                            w \<leftarrow> set_connect_status (Some a) CON_PENDING w;
                            w \<leftarrow> set_operation_status (Some a) OP_PENDING w;
                            Some (PROTO_SUCCESS, w) }
                        }
                    }
                  })))"

definition proto_disconnect :: "mqtt_env \<Rightarrow> proto_ctx option \<Rightarrow> mqtt_world \<Rightarrow> mqtt_world option" where
  "proto_disconnect env ctx w =
     (case ctx of
        None \<Rightarrow> Some w
      | Some p \<Rightarrow>
          (case ctx_userdata p of
             None \<Rightarrow> Some w
           | Some a \<Rightarrow> do {
               c \<leftarrow> ctx_heap w a;
               if client c = None then Some w
               else do {
                 st \<leftarrow> get_connect_status (Some a) w;
                 case st of
                   CON_OK \<Rightarrow> do {
                     let call = Disconnect (client c)
                       (create_disconnect_options (ctx_timeout_ms c) (Some a));
                     let rc = rc_of env w call;
                     let w = paho call w;
                     if rc \<noteq> MQTTASYNC_SUCCESS
                     then set_operation_status (Some a) OP_FAILED w
                     else do {
                       w \<leftarrow> set_connect_status (Some a) DCON_PENDING w;
                       set_operation_status (Some a) OP_PENDING w }
                   }
                 | CON_IDLE \<Rightarrow> set_operation_status (Some a) OP_SUCCESS w
                 | DCON_OK \<Rightarrow> set_operation_status (Some a) OP_SUCCESS w
                 | _ \<Rightarrow> set_operation_status (Some a) OP_FAILED w
               }
             }))"

section \<open>Writing and reading\<close>

text \<open>The first lines of both operations: the connection must be up, or is started again when
  automatic reconnection is on and it is down. \<open>Inl\<close> is an early return with its code.\<close>

definition mqtt_proto_write ::
  "mqtt_env \<Rightarrow> proto_ctx option \<Rightarrow> mqtt_write_req option \<Rightarrow> mqtt_world \<Rightarrow> (int \<times> mqtt_world) option" where
  "mqtt_proto_write env ctx req w =
     (case (ctx, req) of
        (Some p, Some r) \<Rightarrow>
          (case ctx_userdata p of
             None \<Rightarrow> Some (PROTO_ERROR_PARAM, w)
           | Some a \<Rightarrow> do {
               status \<leftarrow> get_connect_status (Some a) w;
               if status \<noteq> CON_OK
               then do {
                 ca \<leftarrow> ctx_config p;
                 cfg \<leftarrow> cfg_heap w ca;
                 if enable_auto_reconnect cfg \<noteq> 0 \<and> status = DCON_OK
                 then do {
                   (connect_result, w) \<leftarrow> proto_connect env ctx w;
                   if connect_result \<noteq> PROTO_SUCCESS then Some (PROTO_ERROR_WRITE, w)
                   else do {
                     w \<leftarrow> set_operation_status (Some a) OP_PENDING w;
                     Some (PROTO_ERROR_WRITE, w) }
                 }
                 else do {
                   w \<leftarrow> set_operation_status (Some a) OP_FAILED w;
                   Some (PROTO_ERROR_WRITE, w) }
               }
               else do {
                 c \<leftarrow> ctx_heap w a;
                 let msg = \<lparr>pm_payload = wr_payload r, pm_payloadlen = strlen (wr_payload r),
                            pm_qos = wr_qos r, pm_retained = wr_retained r\<rparr>;
                 let opts = \<lparr>ro_onSuccess = Some OnSendSuccess, ro_onFailure = Some OnSendFailure,
                             ro_context = Some a\<rparr>;
                 let call = SendMessage (client c) (wr_topic r) msg opts;
                 let rc = rc_of env w call;
                 let w = paho call w;
                 if rc \<noteq> MQTTASYNC_SUCCESS
                 then do {
                   w \<leftarrow> set_operation_status (Some a) OP_FAILED w;
                   Some (PROTO_ERROR_WRITE, w) }
                 else do {
                   w \<leftarrow> set_operation_status (Some a) OP_PENDING w;
                   Some (PROTO_SUCCESS, w) }
               }
             })
      | _ \<Rightarrow> Some (PROTO_ERROR_PARAM, w))"

text \<open>Copying a buffered message out: at most 1023 bytes of payload, closed by a NUL; the topic.\<close>

definition read_copy_len :: "mqtt_message \<Rightarrow> nat" where
  "read_copy_len m = (if msg_payloadlen m < 1024 then nat (msg_payloadlen m) else 1024 - 1)"

definition fill_read_req :: "mqtt_message \<Rightarrow> mqtt_read_req \<Rightarrow> mqtt_read_req" where
  "fill_read_req m r =
     r\<lparr>rd_payload := (memcpy (rd_payload r) (msg_payload m) (read_copy_len m))[read_copy_len m := NUL],
       rd_topic := (strncpy (rd_topic r) (cstr (msg_topic m)) 127)[127 := NUL]\<rparr>"

definition mqtt_proto_read ::
  "mqtt_env \<Rightarrow> proto_ctx option \<Rightarrow> mqtt_read_req option \<Rightarrow> mqtt_world
     \<Rightarrow> (int \<times> mqtt_read_req option \<times> mqtt_world) option" where
  "mqtt_proto_read env ctx req w =
     (case (ctx, req) of
        (Some p, Some r) \<Rightarrow>
          (case ctx_userdata p of
             None \<Rightarrow> Some (PROTO_ERROR_PARAM, req, w)
           | Some a \<Rightarrow> do {
               status \<leftarrow> get_connect_status (Some a) w;
               if status \<noteq> CON_OK
               then do {
                 ca \<leftarrow> ctx_config p;
                 cfg \<leftarrow> cfg_heap w ca;
                 if enable_auto_reconnect cfg \<noteq> 0 \<and> status = DCON_OK
                 then do {
                   (connect_result, w) \<leftarrow> proto_connect env ctx w;
                   if connect_result \<noteq> PROTO_SUCCESS then Some (PROTO_ERROR_READ, req, w)
                   else do {
                     w \<leftarrow> set_operation_status (Some a) OP_PENDING w;
                     Some (NO_DATA, req, w) }
                 }
                 else do {
                   w \<leftarrow> set_operation_status (Some a) OP_FAILED w;
                   Some (PROTO_ERROR_READ, req, w) }
               }
               else do {
                 c \<leftarrow> ctx_heap w a;
                 if msg_buffer_count (ring c) = 0
                 then do {
                   w \<leftarrow> set_operation_status (Some a) OP_IDLE w;
                   Some (NO_DATA, req, w) }
                 else do {
                   let r = fill_read_req (ring_front (ring c)) r;
                   w \<leftarrow> upd_ctx a (\<lambda>c. c\<lparr>ring := ring_drop (ring c)\<rparr>) w;
                   w \<leftarrow> set_operation_status (Some a) OP_SUCCESS w;
                   Some (PROTO_SUCCESS, Some r, w) }
               }
             })
      | _ \<Rightarrow> Some (PROTO_ERROR_PARAM, req, w))"

section \<open>Initialisation and release\<close>

text \<open>The client id made unique: \<open>snprintf (buf, 128, "%s_%d_%ld", id, pid, time)\<close>, then copied into
  the 64 bytes of the field.\<close>

definition unique_client_id :: "string \<Rightarrow> int \<Rightarrow> int \<Rightarrow> string" where
  "unique_client_id cid p t =
     copy_str 64 (copy_str 128 (cid @ ''_'' @ dec_int p @ ''_'' @ dec_int t))"

text \<open>\<open>malloc\<close> leaves the slots uninitialised; no slot is read before it is written, so the model
  starts from NUL bytes.\<close>

definition blank_message :: mqtt_message where
  "blank_message = \<lparr>msg_topic = replicate 128 NUL, msg_payload = replicate 1024 NUL,
                    msg_payloadlen = 0, msg_timestamp_ms = 0\<rparr>"

definition fresh_mqtt_ctx :: "proto_ctx \<Rightarrow> int \<Rightarrow> mqtt_ctx" where
  "fresh_mqtt_ctx b timeout =
     \<lparr>base = b, ring = ring_init (replicate MAX_MSG_BUFFER_SIZE blank_message),
      client = None, connect_status = CON_IDLE, operation_status = OP_IDLE,
      ctx_timeout_ms = timeout, reconnect_attempts = 0,
      connect_callback = None, disconnect_callback = None, send_callback = None,
      connect_userdata = None, disconnect_userdata = None, send_userdata = None\<rparr>"

text \<open>Allocating or clearing the configuration, loading it, and making the client id unique:
  \<open>Inl\<close> is an early return.\<close>

definition init_config ::
  "mqtt_env \<Rightarrow> proto_ctx \<Rightarrow> mqtt_world \<Rightarrow> ((int \<times> mqtt_world) + (addr \<times> mqtt_world)) option" where
  "init_config env p w =
     (case (case ctx_config p of
              None \<Rightarrow>
                if malloc_ok env w
                then Some (Some (next_addr w, w\<lparr>cfg_heap := (cfg_heap w)(next_addr w \<mapsto> mqtt_config_zero),
                                               next_addr := next_addr w + 1\<rparr>))
                else Some None
            | Some ca \<Rightarrow>
                if cfg_heap w ca = None then None
                else Some (Some (ca, w\<lparr>cfg_heap := (cfg_heap w)(ca \<mapsto> mqtt_config_zero)\<rparr>))) of
        None \<Rightarrow> None
      | Some None \<Rightarrow> Some (Inl (PROTO_ERROR_PARAM, w))
      | Some (Some (ca, w)) \<Rightarrow>
          (let (ret, cfg) = load_mqtt_config_from_yaml (config_file w);
               w = w\<lparr>cfg_heap := (cfg_heap w)(ca \<mapsto> cfg)\<rparr>
           in if ret \<noteq> 0
              then Some (Inl (PROTO_ERROR_PARAM,
                     if ctx_config p = None then w\<lparr>cfg_heap := (cfg_heap w)(ca := None)\<rparr> else w))
              else Some (Inr (ca, w\<lparr>cfg_heap := (cfg_heap w)(ca \<mapsto>
                     cfg\<lparr>client_id := unique_client_id (client_id cfg) (pid w) (clock w)\<rparr>)\<rparr>))))"

definition proto_driver_init ::
  "mqtt_env \<Rightarrow> proto_ctx option \<Rightarrow> mqtt_world \<Rightarrow> (int \<times> proto_ctx option \<times> mqtt_world) option" where
  "proto_driver_init env ctx w =
     (case ctx of
        None \<Rightarrow> Some (PROTO_ERROR_PARAM, None, w)
      | Some p \<Rightarrow> do {
          r \<leftarrow> init_config env p w;
          case r of
            Inl (code, w) \<Rightarrow> Some (code, Some p, w)
          | Inr (ca, w) \<Rightarrow> do {
              let p = p\<lparr>ctx_config := Some ca\<rparr>;
              cfg \<leftarrow> cfg_heap w ca;
              if \<not> malloc_ok env w then Some (PROTO_ERROR_PARAM, Some p, w)
              else do {
                let a = next_addr w;
                let b = p\<lparr>ctx_userdata := Some a\<rparr>;
                let w = w\<lparr>ctx_heap := (ctx_heap w)(a \<mapsto> fresh_mqtt_ctx b (timeout_ms cfg)),
                         next_addr := a + 1\<rparr>;
                let call = Create (broker cfg) (client_id cfg);
                let rc = rc_of env w call;
                let h = handle_of env w;
                let w = paho call w;
                if rc \<noteq> MQTTASYNC_SUCCESS
                then Some (PROTO_ERROR_PARAM, Some p, w\<lparr>ctx_heap := (ctx_heap w)(a := None)\<rparr>)
                else do {
                  w \<leftarrow> upd_ctx a (\<lambda>c. c\<lparr>client := Some h\<rparr>) w;
                  Some (PROTO_SUCCESS, Some b, paho (SetCallbacks (Some h) a) w)
                }
              }
            }
        })"

definition proto_driver_release ::
  "mqtt_env \<Rightarrow> proto_ctx option \<Rightarrow> mqtt_world \<Rightarrow> (proto_ctx option \<times> mqtt_world) option" where
  "proto_driver_release env ctx w =
     (case ctx of
        None \<Rightarrow> Some (None, w)
      | Some p \<Rightarrow>
          (case ctx_userdata p of
             None \<Rightarrow> Some (Some p, w)
           | Some a \<Rightarrow> do {
               c \<leftarrow> ctx_heap w a;
               w \<leftarrow> (if client c \<noteq> None
                    then do {
                      st \<leftarrow> get_connect_status (Some a) w;
                      let w = (if st = CON_OK
                               then paho (Disconnect (client c)
                                      (create_disconnect_options (ctx_timeout_ms c) (Some a))) w
                               else w);
                      Some (paho (Destroy (client c)) w)
                    }
                    else Some w);
               let w = w\<lparr>ctx_heap := (ctx_heap w)(a := None)\<rparr>;
               let p = p\<lparr>ctx_userdata := None\<rparr>;
               case ctx_config p of
                 None \<Rightarrow> Some (Some p, w)
               | Some ca \<Rightarrow>
                   if cfg_heap w ca = None then None
                   else Some (Some (p\<lparr>ctx_config := None\<rparr>), w\<lparr>cfg_heap := (cfg_heap w)(ca := None)\<rparr>)
             }))"

end
