(* ===== verification/Mqtt_Hot_Config.thy ===== *)
theory Mqtt_Hot_Config
  imports Mqtt_Types
begin

text \<open>
  The monitor of the configuration file (\<open>proto_mqtt_hot_config.c\<close>): its global state, the polling
  loop of its thread and the functions that start and stop it. What the operating system answers
  (\<open>stat\<close>, creation of the mutex and of the thread) is a parameter; a poll of the loop is one
  observation of the file, and the signal or \<open>hot_config_stop\<close> that clears \<open>running\<close> from outside
  is part of the observation.
\<close>

section \<open>State\<close>

record hot_config =
  hc_config_path :: string
  hc_thread :: bool       \<comment> \<open>\<open>monitor_thread\<close> was created\<close>
  hc_running :: bool
  hc_mutex :: bool        \<comment> \<open>the mutex is initialised\<close>
  hc_last_mtime :: int
  hc_on_changed :: "fn_ptr option"
  hc_userdata :: "user_ptr option"

definition hot_config_zero :: hot_config where
  "hot_config_zero = \<lparr>hc_config_path = [], hc_thread = False, hc_running = False, hc_mutex = False,
     hc_last_mtime = 0, hc_on_changed = None, hc_userdata = None\<rparr>"

record hot_env =
  mutex_init_ok :: bool
  stat_mtime :: "int option"
  thread_create_ok :: bool

section \<open>Starting and stopping\<close>

definition signal_handler :: "bool \<Rightarrow> hot_config \<Rightarrow> hot_config" where
  \<comment> \<open>\<open>is_term\<close>: the signal is SIGTERM or SIGINT\<close>
  "signal_handler is_term g = (if is_term then g\<lparr>hc_running := False\<rparr> else g)"

text \<open>The old mutex is wiped by the \<open>memset\<close>, not destroyed.\<close>

definition hot_config_init ::
  "hot_env \<Rightarrow> string option \<Rightarrow> fn_ptr option \<Rightarrow> user_ptr option \<Rightarrow> hot_config \<Rightarrow> int \<times> hot_config" where
  "hot_config_init env config_path on_changed userdata g =
     (case (config_path, on_changed) of
        (Some path, Some f) \<Rightarrow>
          (let g = hot_config_zero\<lparr>hc_config_path := copy_str 256 path, hc_on_changed := Some f,
                     hc_userdata := userdata, hc_running := True\<rparr>
           in if \<not> mutex_init_ok env then (-1, g)
              else let g = g\<lparr>hc_mutex := True\<rparr>
                   in if stat_mtime env = None then (-1, g\<lparr>hc_mutex := False\<rparr>)
                      else if \<not> thread_create_ok env then (-1, g\<lparr>hc_mutex := False\<rparr>)
                      else (0, g\<lparr>hc_thread := True\<rparr>))
      | _ \<Rightarrow> (-1, g))"

text \<open>Destroying a mutex that is not initialised is a fault (\<open>None\<close>).\<close>

definition mutex_destroy :: "hot_config \<Rightarrow> hot_config option" where
  "mutex_destroy g = (if hc_mutex g then Some (g\<lparr>hc_mutex := False\<rparr>) else None)"

definition hot_config_cleanup :: "hot_config \<Rightarrow> hot_config option" where
  "hot_config_cleanup g =
     (if hc_running g then mutex_destroy (g\<lparr>hc_running := False\<rparr>) else Some g)"

text \<open>The destructor function and the exit handler both run the cleanup.\<close>

definition auto_cleanup :: "hot_config \<Rightarrow> hot_config option" where
  "auto_cleanup g = hot_config_cleanup g"

definition cleanup_on_exit :: "hot_config \<Rightarrow> hot_config option" where
  "cleanup_on_exit g = hot_config_cleanup g"

definition hot_config_is_running :: "hot_config \<Rightarrow> bool" where
  "hot_config_is_running g = hc_running g"

definition hot_config_stop :: "hot_config \<Rightarrow> hot_config" where
  "hot_config_stop g = g\<lparr>hc_running := False\<rparr>"

section \<open>The monitor thread\<close>

text \<open>One round of the loop: whether \<open>running\<close> still holds, the first \<open>stat\<close>, and the second one
  that is made when the time changed.\<close>

record poll =
  still_running :: bool
  poll_stat :: "int option"
  poll_restat :: "int option"

datatype round_result = Leave hot_config | Next bool hot_config  \<comment> \<open>callback made?\<close>

definition monitor_round :: "poll \<Rightarrow> hot_config \<Rightarrow> round_result" where
  "monitor_round p g =
     (if \<not> still_running p then Leave (g\<lparr>hc_running := False\<rparr>)
      else case poll_stat p of
             None \<Rightarrow> Leave g
           | Some t \<Rightarrow>
               if t \<noteq> hc_last_mtime g
               then (let g = g\<lparr>hc_last_mtime := t\<rparr>
                     in if poll_restat p \<noteq> None then Next (hc_on_changed g \<noteq> None) g else Leave g)
               else Next False g)"

text \<open>The loop over the rounds: the number of callbacks, the state, and whether the thread ended.\<close>

fun monitor_loop :: "poll list \<Rightarrow> hot_config \<Rightarrow> nat \<times> hot_config \<times> bool" where
  "monitor_loop [] g = (0, g, False)"
| "monitor_loop (p # ps) g =
     (case monitor_round p g of
        Leave g' \<Rightarrow> (0, g', True)
      | Next called g' \<Rightarrow>
          (let (n, g'', ended) = monitor_loop ps g' in ((if called then Suc n else n), g'', ended)))"

definition hot_config_monitor_thread :: "int option \<Rightarrow> poll list \<Rightarrow> hot_config \<Rightarrow> nat \<times> hot_config \<times> bool" where
  "hot_config_monitor_thread first_stat ps g =
     (case first_stat of
        None \<Rightarrow> (0, g, True)
      | Some t \<Rightarrow> monitor_loop ps (g\<lparr>hc_last_mtime := t\<rparr>))"

section \<open>What the monitor reports\<close>

definition calm_poll :: "int \<Rightarrow> poll" where
  "calm_poll t = \<lparr>still_running = True, poll_stat = Some t, poll_restat = Some t\<rparr>"

text \<open>The number of changes in a sequence of observed times.\<close>

fun changes :: "int \<Rightarrow> int list \<Rightarrow> nat" where
  "changes t [] = 0"
| "changes t (u # us) = (if u \<noteq> t then Suc (changes u us) else changes u us)"

lemma monitor_loop_calm:
  "hc_on_changed g \<noteq> None \<Longrightarrow>
   monitor_loop (map calm_poll ts) g =
     (changes (hc_last_mtime g) ts, g\<lparr>hc_last_mtime := last (hc_last_mtime g # ts)\<rparr>, False)"
proof (induction ts arbitrary: g)
  case (Cons t ts)
  show ?case
    using Cons.prems Cons.IH [of "g\<lparr>hc_last_mtime := t\<rparr>"] Cons.IH [of g]
    by (auto simp: monitor_round_def calm_poll_def Let_def)
qed simp

lemma changes_remdups_adj: "Suc (changes t ts) = length (remdups_adj (t # ts))"
  by (induction ts arbitrary: t) auto

lemma hot_config_init_failure_running:
  "hot_config_init env (Some path) (Some f) ud g = (-1, g') \<Longrightarrow>
     hot_config_is_running g' \<and> \<not> hc_mutex g'"
  by (auto simp: hot_config_init_def Let_def hot_config_is_running_def hot_config_zero_def
      split: if_splits)

lemma monitor_round_running:
  "monitor_round p g = Next c g' \<Longrightarrow> hc_running g' = hc_running g"
  "monitor_round p g = Leave g' \<Longrightarrow> still_running p \<Longrightarrow> hc_running g' = hc_running g"
  by (auto simp: monitor_round_def Let_def split: if_splits option.splits)

lemma monitor_loop_running:
  "monitor_loop ps g = (n, g', e) \<Longrightarrow> \<forall>p \<in> set ps. still_running p \<Longrightarrow> hc_running g' = hc_running g"
proof (induction ps arbitrary: g n)
  case (Cons p ps)
  then show ?case
    by (cases "monitor_round p g")
      (auto split: prod.splits simp: monitor_round_running dest: monitor_round_running)
qed simp

end
