(* ===== verification/Mqtt_Entry.thy ===== *)
theory Mqtt_Entry
  imports Mqtt_Core Mqtt_Hot_Config
begin

text \<open>
  The PLC entry points (\<open>plc_mqtt_entry.c\<close>): one context per process, initialised and connected on
  demand, and reloaded by the configuration monitor. A call holds \<open>g_ctx_mutex\<close> while it makes the
  driver ready, and reads or writes after it: the steps of the process (\<open>plc_step\<close>) are whole calls, the
  two halves of a call on their own, the reload and the library's callbacks.
\<close>

section \<open>Process state\<close>

record mqtt_plc =
  plc_world :: mqtt_world
  g_mqtt_ctx :: proto_ctx
  g_inited :: bool
  g_hot :: hot_config

record plc_env =
  mq_env :: mqtt_env
  hot_answers :: "mqtt_world \<Rightarrow> hot_env"

definition plc_start :: "mqtt_world \<Rightarrow> mqtt_plc" where
  "plc_start w = \<lparr>plc_world = w,
     g_mqtt_ctx = \<lparr>ctx_type = PROTO_TYPE_MQTT, ctx_client = None, ctx_config = None, ctx_userdata = None\<rparr>,
     g_inited = False, g_hot = hot_config_zero\<rparr>"

text \<open>Writing back what a driver function left in \<open>g_mqtt_ctx\<close> and in the world.\<close>

definition put_driver :: "proto_ctx option \<Rightarrow> mqtt_world \<Rightarrow> mqtt_plc \<Rightarrow> mqtt_plc" where
  "put_driver p w s = s\<lparr>g_mqtt_ctx := (case p of Some q \<Rightarrow> q | None \<Rightarrow> g_mqtt_ctx s), plc_world := w\<rparr>"

text \<open>The function pointer of \<open>on_config_changed\<close>, the path of the monitored file.\<close>

definition on_config_changed_ptr :: fn_ptr where "on_config_changed_ptr = 1"

definition config_yaml_path :: string where
  "config_yaml_path = ''/usr/runtime/protocol/mqtt/config.yaml''"

section \<open>Reload, initialisation and connection on demand\<close>

definition on_config_changed :: "plc_env \<Rightarrow> mqtt_plc \<Rightarrow> mqtt_plc option" where
  "on_config_changed env s = do {
     s \<leftarrow> (if g_inited s
          then do {
            (p, w) \<leftarrow> proto_driver_release (mq_env env) (Some (g_mqtt_ctx s)) (plc_world s);
            Some ((put_driver p w s)\<lparr>g_inited := False\<rparr>)
          }
          else Some s);
     (rc, p, w) \<leftarrow> proto_driver_init (mq_env env) (Some (g_mqtt_ctx s)) (plc_world s);
     let s = put_driver p w s;
     if rc = PROTO_SUCCESS
     then do {
       let s = s\<lparr>g_inited := True\<rparr>;
       (rc, w) \<leftarrow> proto_connect (mq_env env) (Some (g_mqtt_ctx s)) (plc_world s);
       Some (put_driver None w s)
     }
     else Some s
   }"

definition ensure_init_and_connect :: "plc_env \<Rightarrow> mqtt_plc \<Rightarrow> (int \<times> mqtt_plc) option" where
  "ensure_init_and_connect env s = do {
     (early, s) \<leftarrow>
       (if \<not> g_inited s
        then do {
          (rc, p, w) \<leftarrow> proto_driver_init (mq_env env) (Some (g_mqtt_ctx s)) (plc_world s);
          let s = put_driver p w s;
          if rc \<noteq> PROTO_SUCCESS then Some (Some rc, s)
          else do {
            let s = s\<lparr>g_inited := True\<rparr>;
            let s = (if \<not> hot_config_is_running (g_hot s)
                     then s\<lparr>g_hot := snd (hot_config_init (hot_answers env (plc_world s))
                            (Some config_yaml_path) (Some on_config_changed_ptr) None (g_hot s))\<rparr>
                     else s);
            Some (None, s)
          }
        }
        else Some (None, s));
     case early of
       Some rc \<Rightarrow> Some (rc, s)
     | None \<Rightarrow>
         (case ctx_userdata (g_mqtt_ctx s) of
            None \<Rightarrow> Some (PROTO_ERROR_INIT, s)
          | Some a \<Rightarrow> do {
              status \<leftarrow> get_connect_status (Some a) (plc_world s);
              if status \<noteq> CON_OK
              then do {
                (rc, w) \<leftarrow> proto_connect (mq_env env) (Some (g_mqtt_ctx s)) (plc_world s);
                let s = put_driver None w s;
                Some (if rc \<noteq> PROTO_SUCCESS then rc else PROTO_SUCCESS, s)
              }
              else Some (PROTO_SUCCESS, s)
            })
   }"

section \<open>Reading and writing\<close>

definition plc_proto_read ::
  "plc_env \<Rightarrow> mqtt_read_req option \<Rightarrow> mqtt_plc \<Rightarrow> (int \<times> mqtt_read_req option \<times> mqtt_plc) option" where
  "plc_proto_read env req s =
     (case req of
        None \<Rightarrow> Some (PROTO_ERROR_PARAM, req, s)
      | Some r \<Rightarrow> do {
          (rc, s) \<leftarrow> ensure_init_and_connect env s;
          if rc \<noteq> PROTO_SUCCESS then Some (rc, req, s)
          else do {
            (rc, req, w) \<leftarrow> mqtt_proto_read (mq_env env) (Some (g_mqtt_ctx s)) req (plc_world s);
            Some (rc, req, put_driver None w s)
          }
        })"

text \<open>The payload is cleared after the write, whatever its result.\<close>

definition plc_proto_write ::
  "plc_env \<Rightarrow> mqtt_write_req option \<Rightarrow> mqtt_plc \<Rightarrow> (int \<times> mqtt_write_req option \<times> mqtt_plc) option" where
  "plc_proto_write env req s =
     (case req of
        None \<Rightarrow> Some (PROTO_ERROR_PARAM, req, s)
      | Some r \<Rightarrow> do {
          (rc, s) \<leftarrow> ensure_init_and_connect env s;
          if rc \<noteq> PROTO_SUCCESS then Some (rc, req, s)
          else do {
            (result, w) \<leftarrow> mqtt_proto_write (mq_env env) (Some (g_mqtt_ctx s)) req (plc_world s);
            Some (result, Some (r\<lparr>wr_payload := []\<rparr>), put_driver None w s)
          }
        })"

section \<open>Runs\<close>

text \<open>What can happen to the process: calls of the PLC, at once or with other threads between the part
  under \<open>g_ctx_mutex\<close> and the rest, the reload of the monitor thread, the library's callbacks for the live
  client, and changes of file or clock outside.\<close>

datatype plc_event =
    ReadCall mqtt_read_req | WriteCall mqtt_write_req | ConfigChanged
  | EnsureReady | ReadRest mqtt_read_req | WriteRest mqtt_write_req
  | ConnectionLost | MessageArrived string arrived_message
  | ConnectSuccess | ConnectFailure | DisconnectSuccess | DisconnectFailure
  | SendSuccess | SendFailure | SubscribeSuccess | SubscribeFailure
  | Outside yaml_source int

definition on_live :: "(addr option \<Rightarrow> mqtt_world \<Rightarrow> mqtt_world option) \<Rightarrow> mqtt_plc \<Rightarrow> mqtt_plc option" where
  "on_live cb s =
     (case ctx_userdata (g_mqtt_ctx s) of
        None \<Rightarrow> Some s
      | Some a \<Rightarrow> map_option (\<lambda>w. s\<lparr>plc_world := w\<rparr>) (cb (Some a) (plc_world s)))"

fun plc_step :: "plc_env \<Rightarrow> mqtt_plc \<Rightarrow> plc_event \<Rightarrow> mqtt_plc option" where
  "plc_step env s (ReadCall r) = map_option (\<lambda>(_, _, s). s) (plc_proto_read env (Some r) s)"
| "plc_step env s (WriteCall r) = map_option (\<lambda>(_, _, s). s) (plc_proto_write env (Some r) s)"
| "plc_step env s ConfigChanged = on_config_changed env s"
| "plc_step env s EnsureReady = map_option snd (ensure_init_and_connect env s)"
| "plc_step env s (ReadRest r) =
     map_option (\<lambda>(_, _, w). put_driver None w s)
       (mqtt_proto_read (mq_env env) (Some (g_mqtt_ctx s)) (Some r) (plc_world s))"
| "plc_step env s (WriteRest r) =
     map_option (\<lambda>(_, w). put_driver None w s)
       (mqtt_proto_write (mq_env env) (Some (g_mqtt_ctx s)) (Some r) (plc_world s))"
| "plc_step env s ConnectionLost = on_live onConnectionLost s"
| "plc_step env s (MessageArrived t m) =
     on_live (\<lambda>a w. map_option snd (messageArrived a t m w)) s"
| "plc_step env s ConnectSuccess = on_live onConnectSuccess s"
| "plc_step env s ConnectFailure = on_live onConnectFailure s"
| "plc_step env s DisconnectSuccess = on_live onDisconnectSuccess s"
| "plc_step env s DisconnectFailure = on_live onDisconnectFailure s"
| "plc_step env s SendSuccess = on_live onSendSuccess s"
| "plc_step env s SendFailure = on_live onSendFailure s"
| "plc_step env s SubscribeSuccess = on_live onSubscribeSuccess s"
| "plc_step env s SubscribeFailure = on_live onSubscribeFailure s"
| "plc_step env s (Outside src t) =
     Some (s\<lparr>plc_world := (plc_world s)\<lparr>config_file := src, clock := t\<rparr>\<rparr>)"

fun plc_run :: "plc_env \<Rightarrow> mqtt_plc \<Rightarrow> plc_event list \<Rightarrow> mqtt_plc option" where
  "plc_run env s [] = Some s"
| "plc_run env s (e # es) = Option.bind (plc_step env s e) (\<lambda>s. plc_run env s es)"

end
