(* ===== verification/Mqtt_Safety.thy ===== *)
theory Mqtt_Safety
  imports Mqtt_Entry
begin

text \<open>
  Memory safety of the MQTT driver. The invariant says which blocks are allocated (exactly the
  context and the configuration the process refers to), that they agree with the process's own
  context, and that the message ring is well formed. Every operation and every callback keeps it
  and none faults.
\<close>

section \<open>The invariant\<close>

definition slot_ok :: "mqtt_message \<Rightarrow> bool" where
  "slot_ok m \<longleftrightarrow> length (msg_topic m) = 128 \<and> length (msg_payload m) = MAX_MESSAGE_SIZE \<and>
     0 \<le> msg_payloadlen m \<and> msg_payloadlen m \<le> int MAX_MESSAGE_SIZE"

definition mctx_ok :: "mqtt_ctx \<Rightarrow> bool" where
  "mctx_ok c \<longleftrightarrow> ring_ok (ring c) \<and> (\<forall>m \<in> set (msg_buffer (ring c)). slot_ok m) \<and> client c \<noteq> None"

definition driver_ok :: "proto_ctx \<Rightarrow> mqtt_world \<Rightarrow> bool" where
  "driver_ok p w \<longleftrightarrow>
     (case ctx_userdata p of
        None \<Rightarrow> ctx_heap w = Map.empty
      | Some a \<Rightarrow> \<exists>c. ctx_heap w = [a \<mapsto> c] \<and> mctx_ok c \<and> base c = p \<and> a < next_addr w \<and>
                      ctx_config p \<noteq> None) \<and>
     (case ctx_config p of
        None \<Rightarrow> cfg_heap w = Map.empty
      | Some ca \<Rightarrow> \<exists>cfg. cfg_heap w = [ca \<mapsto> cfg] \<and> mqtt_config_fits cfg \<and> ca < next_addr w)"

definition plc_ok :: "mqtt_plc \<Rightarrow> bool" where
  "plc_ok s \<longleftrightarrow> driver_ok (g_mqtt_ctx s) (plc_world s) \<and>
     (g_inited s \<longleftrightarrow> ctx_userdata (g_mqtt_ctx s) \<noteq> None)"

text \<open>The library's promise about an arriving message: as many bytes as it announces.\<close>

definition arrived_ok :: "arrived_message \<Rightarrow> bool" where
  "arrived_ok m \<longleftrightarrow> (case arr_payload m of None \<Rightarrow> True | Some p \<Rightarrow> arr_payloadlen m \<le> int (length p))"

fun event_ok :: "plc_event \<Rightarrow> bool" where
  "event_ok (MessageArrived t m) = arrived_ok m"
| "event_ok _ = True"

lemma live_cases:
  assumes "driver_ok p w" "ctx_userdata p = Some a"
  obtains c ca cfg where "ctx_heap w = [a \<mapsto> c]" "mctx_ok c" "base c = p" "a < next_addr w"
    "ctx_config p = Some ca" "cfg_heap w = [ca \<mapsto> cfg]" "mqtt_config_fits cfg" "ca < next_addr w"
  using assms by (auto simp: driver_ok_def split: option.splits)

text \<open>What a step on the live context may do: rewrite the context, call the library or a user
  callback. Such a step keeps the invariant.\<close>

lemma driver_ok_step:
  assumes "driver_ok p w" "ctx_userdata p = Some a"
    and "ctx_heap w' = [a \<mapsto> c']" "mctx_ok c'" "base c' = p"
    and "cfg_heap w' = cfg_heap w" "next_addr w' = next_addr w"
  shows "driver_ok p w'"
  using assms by (auto simp: driver_ok_def split: option.splits)

lemma mctx_ok_fields [simp]:
  "mctx_ok (c\<lparr>connect_status := st\<rparr>) = mctx_ok c"
  "mctx_ok (c\<lparr>operation_status := os\<rparr>) = mctx_ok c"
  "mctx_ok (c\<lparr>reconnect_attempts := n\<rparr>) = mctx_ok c"
  by (simp_all add: mctx_ok_def)

section \<open>Callbacks\<close>

definition safe_callback :: "(addr option \<Rightarrow> mqtt_world \<Rightarrow> mqtt_world option) \<Rightarrow> bool" where
  "safe_callback cb \<longleftrightarrow>
     (\<forall>p a w. driver_ok p w \<longrightarrow> ctx_userdata p = Some a \<longrightarrow>
        (\<exists>w'. cb (Some a) w = Some w' \<and> driver_ok p w'))"

lemma safe_callbackI:
  assumes "\<And>p a w c ca cfg. driver_ok p w \<Longrightarrow> ctx_userdata p = Some a \<Longrightarrow>
      ctx_heap w = [a \<mapsto> c] \<Longrightarrow> mctx_ok c \<Longrightarrow> base c = p \<Longrightarrow> ctx_config p = Some ca \<Longrightarrow>
      cfg_heap w = [ca \<mapsto> cfg] \<Longrightarrow>
      \<exists>w' c'. cb (Some a) w = Some w' \<and> ctx_heap w' = [a \<mapsto> c'] \<and> mctx_ok c' \<and> base c' = p \<and>
        cfg_heap w' = cfg_heap w \<and> next_addr w' = next_addr w"
  shows "safe_callback cb"
  unfolding safe_callback_def
proof (intro allI impI)
  fix p a w assume ok: "driver_ok p w" "ctx_userdata p = Some a"
  from ok obtain c ca cfg where "ctx_heap w = [a \<mapsto> c]" "mctx_ok c" "base c = p"
    "ctx_config p = Some ca" "cfg_heap w = [ca \<mapsto> cfg]" by (rule live_cases)
  from assms [OF ok this] show "\<exists>w'. cb (Some a) w = Some w' \<and> driver_ok p w'"
    using driver_ok_step [OF ok] by blast
qed

lemma onConnectionLost_safe: "safe_callback onConnectionLost"
  by (rule safe_callbackI)
    (auto simp: onConnectionLost_def Let_def split: prod.splits)

lemma onConnectSuccess_safe: "safe_callback onConnectSuccess"
  by (rule safe_callbackI) (auto simp: onConnectSuccess_def)

lemma onConnectFailure_safe: "safe_callback onConnectFailure"
  by (rule safe_callbackI) (auto simp: onConnectFailure_def)

lemma onDisconnectSuccess_safe: "safe_callback onDisconnectSuccess"
  by (rule safe_callbackI) (auto simp: onDisconnectSuccess_def)

lemma onDisconnectFailure_safe: "safe_callback onDisconnectFailure"
  by (rule safe_callbackI) (auto simp: onDisconnectFailure_def)

lemma onSendSuccess_safe: "safe_callback onSendSuccess"
  by (rule safe_callbackI) (auto simp: onSendSuccess_def)

lemma onSendFailure_safe: "safe_callback onSendFailure"
  by (rule safe_callbackI) (auto simp: onSendFailure_def)

lemma onSubscribe_safe: "safe_callback onSubscribeSuccess" "safe_callback onSubscribeFailure"
  by (auto simp: safe_callback_def onSubscribeSuccess_def onSubscribeFailure_def)

lemma arrived_copy_len_le: "arrived_copy_len m \<le> MAX_MESSAGE_SIZE"
  by (simp add: arrived_copy_len_def code_consts nat_le_iff)

lemma store_message_ok:
  assumes "slot_ok slot" "arrived_ok m"
  shows "slot_ok (store_message t m now slot)"
proof -
  have "arrived_copy_len m \<le> length p" if "arr_payload m = Some p" "0 < arr_payloadlen m" for p
    using that assms(2)
    by (auto simp: arrived_ok_def arrived_copy_len_def code_consts nat_le_iff)
  with assms(1) arrived_copy_len_le [of m] show ?thesis
    by (auto simp: store_message_def slot_ok_def Let_def length_strncpy length_memcpy split: option.splits)
qed

lemma ring_push_slots:
  assumes "ring_ok r" "\<forall>m \<in> set (msg_buffer r). P m" "\<And>m. P m \<Longrightarrow> P (f m)"
  shows "\<forall>m \<in> set (msg_buffer (ring_push f r)). P m"
  using assms set_update_subset_insert [of "msg_buffer r" "msg_buffer_tail r"]
    ring_tail_bound [OF assms(1)]
  by (fastforce simp: ring_push_def ring_store_def)

lemma mctx_ok_push:
  assumes "mctx_ok c" "\<And>m. slot_ok m \<Longrightarrow> slot_ok (f m)"
  shows "mctx_ok (c\<lparr>ring := ring_push f (ring c)\<rparr>)"
  using assms ring_push_slots [of "ring c" slot_ok f] by (simp add: mctx_ok_def ring_push_ok)

lemma messageArrived_safe:
  assumes "arrived_ok m"
  shows "safe_callback (\<lambda>a w. map_option snd (messageArrived a t m w))"
proof (rule safe_callbackI)
  fix p a and w :: mqtt_world and c ca cfg
  assume h: "ctx_heap w = [a \<mapsto> c]" "mctx_ok c" "base c = p"
  let ?c = "c\<lparr>ring := ring_push (store_message t m (clock w)) (ring c)\<rparr>"
  have "mctx_ok ?c" by (rule mctx_ok_push [OF h(2)]) (rule store_message_ok [OF _ assms])
  with h show "\<exists>w' c'. map_option snd (messageArrived (Some a) t m w) = Some w' \<and>
      ctx_heap w' = [a \<mapsto> c'] \<and> mctx_ok c' \<and> base c' = p \<and>
      cfg_heap w' = cfg_heap w \<and> next_addr w' = next_addr w"
    by (intro exI [of _ "paho FreeTopic (paho FreeMessage (w\<lparr>ctx_heap := [a \<mapsto> ?c]\<rparr>))"] exI [of _ ?c])
      (simp add: messageArrived_def)
qed

lemma on_live_ok:
  assumes "safe_callback cb" "plc_ok s"
  shows "\<exists>s'. on_live cb s = Some s' \<and> plc_ok s'"
  using assms by (fastforce simp: on_live_def plc_ok_def safe_callback_def split: option.splits)

section \<open>Operations on a live driver\<close>

text \<open>A call of the library or a store into the status fields of the live context.\<close>

lemma driver_ok_paho [simp]: "driver_ok p (paho c w) = driver_ok p w"
  by (simp add: driver_ok_def split: option.splits)

lemma driver_ok_status:
  assumes "driver_ok p w" "ctx_userdata p = Some a"
  shows "\<exists>w'. set_connect_status (Some a) st w = Some w' \<and> driver_ok p w'"
    "\<exists>w'. set_operation_status (Some a) os w = Some w' \<and> driver_ok p w'"
proof -
  from assms obtain c where live: "ctx_heap w = [a \<mapsto> c]" "mctx_ok c" "base c = p" by (rule live_cases)
  show "\<exists>w'. set_connect_status (Some a) st w = Some w' \<and> driver_ok p w'"
    "\<exists>w'. set_operation_status (Some a) os w = Some w' \<and> driver_ok p w'"
    by (auto simp: live intro!: driver_ok_step [OF assms])
qed

lemma proto_connect_safe:
  assumes "driver_ok p w"
  shows "\<exists>rc w'. proto_connect env (Some p) w = Some (rc, w') \<and> driver_ok p w'"
proof (cases "ctx_userdata p")
  case None
  then show ?thesis using assms by (simp add: proto_connect_def split: option.splits)
next
  case (Some a)
  with assms obtain c ca cfg where live: "ctx_heap w = [a \<mapsto> c]" "mctx_ok c" "base c = p"
    "ctx_config p = Some ca" "cfg_heap w = [ca \<mapsto> cfg]" by (rule live_cases)
  from \<open>mctx_ok c\<close> have "client c \<noteq> None" by (simp add: mctx_ok_def)
  then show ?thesis
    by (cases "connect_status c")
      (auto simp: live Some proto_connect_def Let_def intro!: driver_ok_step [OF assms Some])
qed

lemma mqtt_proto_write_safe:
  assumes "driver_ok p w" "ctx_userdata p = Some a"
  shows "\<exists>rc w'. mqtt_proto_write env (Some p) (Some r) w = Some (rc, w') \<and> driver_ok p w'"
proof -
  from assms obtain c ca cfg where live: "ctx_heap w = [a \<mapsto> c]" "mctx_ok c" "base c = p"
    "ctx_config p = Some ca" "cfg_heap w = [ca \<mapsto> cfg]" by (rule live_cases)
  show ?thesis
  proof (cases "connect_status c = DCON_OK \<and> enable_auto_reconnect cfg \<noteq> 0")
    case True
    obtain rc w' where "proto_connect env (Some p) w = Some (rc, w')" "driver_ok p w'"
      using proto_connect_safe [OF assms(1)] by blast
    with True live assms(2) driver_ok_status(2) [of p w' a OP_PENDING] show ?thesis
      by (auto simp: mqtt_proto_write_def)
  next
    case False
    then show ?thesis
      by (cases "connect_status c")
        (auto simp: live assms(2) mqtt_proto_write_def Let_def intro!: driver_ok_step [OF assms])
  qed
qed

lemma mqtt_proto_read_safe:
  assumes "driver_ok p w" "ctx_userdata p = Some a"
  shows "\<exists>rc r' w'. mqtt_proto_read env (Some p) (Some r) w = Some (rc, r', w') \<and> driver_ok p w'"
proof -
  from assms obtain c ca cfg where live: "ctx_heap w = [a \<mapsto> c]" "mctx_ok c" "base c = p"
    "ctx_config p = Some ca" "cfg_heap w = [ca \<mapsto> cfg]" by (rule live_cases)
  show ?thesis
  proof (cases "connect_status c = DCON_OK \<and> enable_auto_reconnect cfg \<noteq> 0")
    case True
    obtain rc w' where "proto_connect env (Some p) w = Some (rc, w')" "driver_ok p w'"
      using proto_connect_safe [OF assms(1)] by blast
    with True live assms(2) driver_ok_status(2) [of p w' a OP_PENDING] show ?thesis
      by (auto simp: mqtt_proto_read_def)
  next
    case False
    have "mctx_ok (c\<lparr>ring := ring_drop (ring c)\<rparr>)" if "msg_buffer_count (ring c) \<noteq> 0"
      using \<open>mctx_ok c\<close> that ring_drop_ok [of "ring c"] by (auto simp: mctx_ok_def ring_drop_def)
    with False show ?thesis
      by (cases "connect_status c")
        (auto simp: live assms(2) mqtt_proto_read_def Let_def intro!: driver_ok_step [OF assms])
  qed
qed

section \<open>Initialisation and release\<close>

text \<open>Before initialisation: no context block, and the configuration block of a reused context at
  most.\<close>

definition idle_ok :: "proto_ctx \<Rightarrow> mqtt_world \<Rightarrow> bool" where
  "idle_ok p w \<longleftrightarrow> driver_ok p w \<and> ctx_userdata p = None"

lemma unique_client_id_fits: "mqtt_config_fits cfg \<Longrightarrow>
    mqtt_config_fits (cfg\<lparr>client_id := unique_client_id cid p t\<rparr>)"
  by (simp add: mqtt_config_fits_def unique_client_id_def copy_str_bounds)

lemma init_config_cases:
  assumes "idle_ok p w"
  obtains (Early) w' where "init_config env p w = Some (Inl (PROTO_ERROR_PARAM, w'))" "idle_ok p w'"
  | (Loaded) ca w' cfg where "init_config env p w = Some (Inr (ca, w'))"
      "cfg_heap w' = [ca \<mapsto> cfg]" "ca < next_addr w'" "mqtt_config_fits cfg"
      "idle_ok (p\<lparr>ctx_config := Some ca\<rparr>) w'"
proof -
  let ?cfg = "snd (load_mqtt_config_from_yaml (config_file w))"
  have fits: "mqtt_config_fits ?cfg" by (rule load_fits)
  obtain ret cfg where ld: "load_mqtt_config_from_yaml (config_file w) = (ret, cfg)" by fastforce
  show thesis
  proof (cases "ctx_config p")
    case None
    with assms have "cfg_heap w = Map.empty" "ctx_heap w = Map.empty" "ctx_userdata p = None"
      by (auto simp: idle_ok_def driver_ok_def)
    then show thesis
      using None ld fits that(1) unique_client_id_fits [of cfg] assms
        that(2) [of "next_addr w" _ "cfg\<lparr>client_id := unique_client_id (client_id cfg) (pid w) (clock w)\<rparr>"]
      by (cases "malloc_ok env w"; cases "ret = 0")
        (auto simp: init_config_def idle_ok_def driver_ok_def)
  next
    case (Some ca)
    with assms obtain c0 where "cfg_heap w = [ca \<mapsto> c0]" "ctx_heap w = Map.empty"
      "ctx_userdata p = None" "ca < next_addr w"
      by (auto simp: idle_ok_def driver_ok_def)
    then show thesis
      using Some ld fits that(1) unique_client_id_fits [of cfg]
        that(2) [of ca _ "cfg\<lparr>client_id := unique_client_id (client_id cfg) (pid w) (clock w)\<rparr>"]
      by (cases "ret = 0")
        (auto simp: init_config_def idle_ok_def driver_ok_def)
  qed
qed

lemma fresh_mqtt_ctx_ok: "mctx_ok ((fresh_mqtt_ctx b t)\<lparr>client := Some h\<rparr>)"
  by (simp add: mctx_ok_def fresh_mqtt_ctx_def ring_init_ok)
    (simp add: ring_init_def slot_ok_def blank_message_def code_consts)

lemma fresh_mqtt_ctx_base [simp]: "base (fresh_mqtt_ctx b t) = b"
  by (simp add: fresh_mqtt_ctx_def)

lemma proto_driver_init_safe:
  assumes "idle_ok p w"
  shows "\<exists>rc q w'. proto_driver_init env (Some p) w = Some (rc, Some q, w') \<and> driver_ok q w' \<and>
           (rc = PROTO_SUCCESS \<longleftrightarrow> ctx_userdata q \<noteq> None)"
  using assms
proof (cases rule: init_config_cases [of p w env])
  case (Early w')
  then show ?thesis
    by (simp add: proto_driver_init_def idle_ok_def code_consts)
next
  case (Loaded ca w' cfg)
  have "ctx_heap w' = Map.empty" "ctx_userdata p = None"
    using Loaded(5) by (auto simp: idle_ok_def driver_ok_def)
  with Loaded fresh_mqtt_ctx_ok show ?thesis
    by (auto simp: proto_driver_init_def Let_def idle_ok_def driver_ok_def code_consts)
qed

lemma proto_driver_release_safe:
  assumes "driver_ok p w" "ctx_userdata p = Some a"
  shows "\<exists>q w'. proto_driver_release env (Some p) w = Some (Some q, w') \<and> idle_ok q w' \<and>
           ctx_config q = None \<and> ctx_heap w' = Map.empty \<and> cfg_heap w' = Map.empty"
proof -
  from assms obtain c ca cfg where live: "ctx_heap w = [a \<mapsto> c]" "mctx_ok c" "base c = p"
    "ctx_config p = Some ca" "cfg_heap w = [ca \<mapsto> cfg]" by (rule live_cases)
  show ?thesis
    by (auto simp: proto_driver_release_def assms(2) live Let_def idle_ok_def driver_ok_def)
qed

section \<open>The process\<close>

lemma put_driver_sel [simp]:
  "plc_world (put_driver p w s) = w" "g_inited (put_driver p w s) = g_inited s"
  "g_mqtt_ctx (put_driver (Some q) w s) = q" "g_mqtt_ctx (put_driver None w s) = g_mqtt_ctx s"
  by (simp_all add: put_driver_def)

lemma plc_ok_idle: "plc_ok s \<Longrightarrow> \<not> g_inited s \<Longrightarrow> idle_ok (g_mqtt_ctx s) (plc_world s)"
  by (simp add: plc_ok_def idle_ok_def)

lemma plc_ok_live:
  assumes "plc_ok s" "g_inited s"
  obtains a where "driver_ok (g_mqtt_ctx s) (plc_world s)" "ctx_userdata (g_mqtt_ctx s) = Some a"
  using assms by (auto simp: plc_ok_def)

lemma plc_ok_world:
  "plc_ok s \<Longrightarrow> driver_ok (g_mqtt_ctx s) w \<Longrightarrow> plc_ok (put_driver None w s)"
  by (simp add: plc_ok_def)

lemma on_config_changed_safe:
  assumes "plc_ok s"
  shows "\<exists>s'. on_config_changed env s = Some s' \<and> plc_ok s'"
proof -
  have reload: "\<exists>s'. Option.bind (proto_driver_init (mq_env env) (Some q) w)
      (\<lambda>(rc, p, w). let s = put_driver p w s0 in
         if rc = PROTO_SUCCESS
         then (let s = s\<lparr>g_inited := True\<rparr> in
               Option.bind (proto_connect (mq_env env) (Some (g_mqtt_ctx s)) (plc_world s))
                 (\<lambda>(rc, w). Some (put_driver None w s)))
         else Some s) = Some s' \<and> plc_ok s'"
    if idle: "idle_ok q w" and no: "\<not> g_inited s0" for q w s0
  proof -
    obtain rc q' w' where init: "proto_driver_init (mq_env env) (Some q) w = Some (rc, Some q', w')"
      "driver_ok q' w'" "rc = PROTO_SUCCESS \<longleftrightarrow> ctx_userdata q' \<noteq> None"
      using proto_driver_init_safe [OF idle] by blast
    obtain rc2 w2 where "proto_connect (mq_env env) (Some q') w' = Some (rc2, w2)" "driver_ok q' w2"
      using proto_connect_safe [OF init(2)] by blast
    with init no show ?thesis by (auto simp: Let_def plc_ok_def)
  qed
  show ?thesis
  proof (cases "g_inited s")
    case True
    with assms obtain a where "driver_ok (g_mqtt_ctx s) (plc_world s)"
      "ctx_userdata (g_mqtt_ctx s) = Some a" by (rule plc_ok_live)
    from proto_driver_release_safe [OF this, of "mq_env env"] obtain q w' where
      "proto_driver_release (mq_env env) (Some (g_mqtt_ctx s)) (plc_world s) = Some (Some q, w')"
      "idle_ok q w'" by blast
    with True reload [of q w' "(put_driver (Some q) w' s)\<lparr>g_inited := False\<rparr>"] show ?thesis
      by (simp add: on_config_changed_def)
  next
    case False
    with reload [OF plc_ok_idle [OF assms False], of s] show ?thesis
      by (simp add: on_config_changed_def)
  qed
qed

lemma ensure_init_and_connect_safe:
  assumes "plc_ok s"
  shows "\<exists>rc s'. ensure_init_and_connect env s = Some (rc, s') \<and> plc_ok s' \<and>
           (rc = PROTO_SUCCESS \<longrightarrow> g_inited s')"
proof -
  have connect: "\<exists>rc w'. proto_connect (mq_env env) (Some q) w = Some (rc, w') \<and> driver_ok q w'"
    if "driver_ok q w" for q w by (rule proto_connect_safe [OF that])
  show ?thesis
  proof (cases "g_inited s")
    case True
    with assms obtain a where live: "driver_ok (g_mqtt_ctx s) (plc_world s)"
      "ctx_userdata (g_mqtt_ctx s) = Some a" by (rule plc_ok_live)
    then obtain c where "ctx_heap (plc_world s) a = Some c" by (auto elim!: live_cases)
    with True live connect [OF live(1)] assms show ?thesis
      by (auto simp: ensure_init_and_connect_def Let_def plc_ok_world)
  next
    case False
    obtain rc q' w' where init:
      "proto_driver_init (mq_env env) (Some (g_mqtt_ctx s)) (plc_world s) = Some (rc, Some q', w')"
      "driver_ok q' w'" "rc = PROTO_SUCCESS \<longleftrightarrow> ctx_userdata q' \<noteq> None"
      using proto_driver_init_safe [OF plc_ok_idle [OF assms False]] by blast
    show ?thesis
    proof (cases "rc = PROTO_SUCCESS")
      case True
      with init obtain a where a: "ctx_userdata q' = Some a" by auto
      with init(2) obtain c where "ctx_heap w' a = Some c" by (auto elim!: live_cases)
      with True False init a connect [OF init(2)] show ?thesis
        by (auto simp: ensure_init_and_connect_def Let_def plc_ok_def split: if_splits)
    next
      case False
      with \<open>\<not> g_inited s\<close> init show ?thesis
        by (auto simp: ensure_init_and_connect_def Let_def plc_ok_def)
    qed
  qed
qed

lemma plc_proto_read_safe:
  assumes "plc_ok s"
  shows "\<exists>rc r' s'. plc_proto_read env (Some r) s = Some (rc, r', s') \<and> plc_ok s'"
proof -
  obtain rc s' where e: "ensure_init_and_connect env s = Some (rc, s')" "plc_ok s'"
    "rc = PROTO_SUCCESS \<longrightarrow> g_inited s'"
    using ensure_init_and_connect_safe [OF assms] by blast
  show ?thesis
  proof (cases "rc = PROTO_SUCCESS")
    case True
    with e obtain a where "driver_ok (g_mqtt_ctx s') (plc_world s')"
      "ctx_userdata (g_mqtt_ctx s') = Some a" by (auto elim: plc_ok_live)
    from mqtt_proto_read_safe [OF this, of "mq_env env" r] obtain rc2 r2 w2 where
      "mqtt_proto_read (mq_env env) (Some (g_mqtt_ctx s')) (Some r) (plc_world s') = Some (rc2, r2, w2)"
      "driver_ok (g_mqtt_ctx s') w2" by blast
    with e True plc_ok_world [OF e(2)] show ?thesis by (simp add: plc_proto_read_def)
  qed (simp add: plc_proto_read_def e)
qed

lemma plc_proto_write_safe:
  assumes "plc_ok s"
  shows "\<exists>rc r' s'. plc_proto_write env (Some r) s = Some (rc, r', s') \<and> plc_ok s'"
proof -
  obtain rc s' where e: "ensure_init_and_connect env s = Some (rc, s')" "plc_ok s'"
    "rc = PROTO_SUCCESS \<longrightarrow> g_inited s'"
    using ensure_init_and_connect_safe [OF assms] by blast
  show ?thesis
  proof (cases "rc = PROTO_SUCCESS")
    case True
    with e obtain a where "driver_ok (g_mqtt_ctx s') (plc_world s')"
      "ctx_userdata (g_mqtt_ctx s') = Some a" by (auto elim: plc_ok_live)
    from mqtt_proto_write_safe [OF this, of "mq_env env" r] obtain rc2 w2 where
      "mqtt_proto_write (mq_env env) (Some (g_mqtt_ctx s')) (Some r) (plc_world s') = Some (rc2, w2)"
      "driver_ok (g_mqtt_ctx s') w2" by blast
    with e True plc_ok_world [OF e(2)] show ?thesis by (simp add: plc_proto_write_def)
  qed (simp add: plc_proto_write_def e)
qed

text \<open>The second half of a call, whatever happened to the driver since the first.\<close>

lemma rest_of_call_safe:
  assumes "plc_ok s"
  shows "\<exists>rc r' w. mqtt_proto_read (mq_env env) (Some (g_mqtt_ctx s)) (Some r) (plc_world s) = Some (rc, r', w) \<and>
      plc_ok (put_driver None w s)"
    and "\<exists>rc w. mqtt_proto_write (mq_env env) (Some (g_mqtt_ctx s)) (Some wr) (plc_world s) = Some (rc, w) \<and>
      plc_ok (put_driver None w s)"
proof -
  have ok: "driver_ok (g_mqtt_ctx s) (plc_world s)" using assms by (simp add: plc_ok_def)
  show "\<exists>rc r' w. mqtt_proto_read (mq_env env) (Some (g_mqtt_ctx s)) (Some r) (plc_world s) = Some (rc, r', w) \<and>
      plc_ok (put_driver None w s)"
  proof (cases "ctx_userdata (g_mqtt_ctx s)")
    case None
    with ok plc_ok_world [OF assms] show ?thesis by (simp add: mqtt_proto_read_def)
  next
    case (Some a)
    from mqtt_proto_read_safe [OF ok this] plc_ok_world [OF assms] show ?thesis by blast
  qed
  show "\<exists>rc w. mqtt_proto_write (mq_env env) (Some (g_mqtt_ctx s)) (Some wr) (plc_world s) = Some (rc, w) \<and>
      plc_ok (put_driver None w s)"
  proof (cases "ctx_userdata (g_mqtt_ctx s)")
    case None
    with ok plc_ok_world [OF assms] show ?thesis by (simp add: mqtt_proto_write_def)
  next
    case (Some a)
    from mqtt_proto_write_safe [OF ok this] plc_ok_world [OF assms] show ?thesis by blast
  qed
qed

lemmas callbacks_safe = onConnectionLost_safe onConnectSuccess_safe onConnectFailure_safe
  onDisconnectSuccess_safe onDisconnectFailure_safe onSendSuccess_safe onSendFailure_safe
  onSubscribe_safe messageArrived_safe

lemma plc_step_safe:
  assumes "plc_ok s" "event_ok e"
  shows "\<exists>s'. plc_step env s e = Some s' \<and> plc_ok s'"
proof (cases e)
  case (ReadCall r)
  then show ?thesis using plc_proto_read_safe [OF assms(1), of env r] by auto
next
  case (WriteCall r)
  then show ?thesis using plc_proto_write_safe [OF assms(1), of env r] by auto
next
  case ConfigChanged
  then show ?thesis using on_config_changed_safe [OF assms(1)] by simp
next
  case EnsureReady
  then show ?thesis using ensure_init_and_connect_safe [OF assms(1), of env] by auto
next
  case (ReadRest r)
  then show ?thesis using rest_of_call_safe(1) [OF assms(1), of env r] by auto
next
  case (WriteRest r)
  then show ?thesis using rest_of_call_safe(2) [OF assms(1), of env r] by auto
next
  case (Outside src t)
  then show ?thesis using assms(1) by (simp add: plc_ok_def driver_ok_def split: option.splits)
qed (use assms in \<open>auto intro!: on_live_ok callbacks_safe\<close>)

lemma plc_start_ok: "ctx_heap w = Map.empty \<Longrightarrow> cfg_heap w = Map.empty \<Longrightarrow> plc_ok (plc_start w)"
  by (simp add: plc_ok_def plc_start_def driver_ok_def)

end
