(* ===== verification/Mqtt_Delivery.thy ===== *)
theory Mqtt_Delivery
  imports Mqtt_Safety
begin

text \<open>
  From arrival to reading. What a reader sees of a buffered message is its topic as a C string and
  its payload bytes; the bytes left in the slot by older messages do not show. A burst of arrivals
  followed by reads delivers the newest messages in their order.
\<close>

section \<open>What a message is to its reader\<close>

definition msg_view :: "mqtt_message \<Rightarrow> string \<times> buffer" where
  "msg_view m = (cstr (msg_topic m), take (nat (msg_payloadlen m)) (msg_payload m))"

definition arrived_bytes :: "arrived_message \<Rightarrow> buffer" where
  "arrived_bytes m =
     (case arr_payload m of None \<Rightarrow> [] | Some p \<Rightarrow> take MAX_MESSAGE_SIZE (take (nat (arr_payloadlen m)) p))"

definition arrived_view :: "string \<times> arrived_message \<Rightarrow> string \<times> buffer" where
  "arrived_view tm = (take 127 (cstr (fst tm)), arrived_bytes (snd tm))"

lemma store_message_view:
  assumes "slot_ok slot" "arrived_ok m"
  shows "msg_view (store_message t m now slot) = arrived_view (t, m)"
proof -
  have topic: "cstr ((strncpy (msg_topic slot) t 127)[127 := NUL]) = take 127 (cstr t)"
    using assms(1) by (simp add: cstr_strncpy_closed slot_ok_def)
  have "arrived_copy_len m = min (nat (arr_payloadlen m)) MAX_MESSAGE_SIZE"
    by (auto simp: arrived_copy_len_def code_consts)
  then show ?thesis
    using assms topic
    by (auto simp: store_message_def msg_view_def arrived_view_def arrived_bytes_def Let_def
        take_memcpy arrived_ok_def nat_le_iff min.commute split: option.splits)
qed

lemma messageArrived_live:
  assumes "ctx_heap w a = Some c"
  shows "messageArrived (Some a) t m w =
    Some (1, paho FreeTopic (paho FreeMessage (w\<lparr>ctx_heap := (ctx_heap w)
      (a \<mapsto> c\<lparr>ring := ring_push (store_message t m (clock w)) (ring c)\<rparr>)\<rparr>)))"
  using assms by (simp add: messageArrived_def)

lemma ring_slot_ok:
  assumes "mctx_ok c"
  shows "slot_ok (msg_buffer (ring c) ! msg_buffer_tail (ring c))"
  using assms ring_tail_bound [of "ring c"] by (auto simp: mctx_ok_def)

lemma map_tl_if: "map f (if b then tl xs else xs) = (if b then tl (map f xs) else map f xs)"
  by (simp add: map_tl)

lemma push_view:
  assumes "mctx_ok c" "arrived_ok m"
  shows "map msg_view (ring_contents (ring_push (store_message t m now) (ring c))) =
     last_n MAX_MSG_BUFFER_SIZE (map msg_view (ring_contents (ring c)) @ [arrived_view (t, m)])"
proof -
  let ?slot = "msg_buffer (ring c) ! msg_buffer_tail (ring c)"
  have ok: "ring_ok (ring c)" using assms(1) by (simp add: mctx_ok_def)
  have "ring_contents (ring_push (store_message t m now) (ring c)) =
      last_n MAX_MSG_BUFFER_SIZE (ring_contents (ring c) @ [store_message t m now ?slot])"
    using mq.enq_last_n [OF ok] by (subst ring_push_as_const)
  then show ?thesis
    using store_message_view [OF ring_slot_ok [OF assms(1)] assms(2), of t now]
    by (simp add: last_n_def drop_map [symmetric])
qed

section \<open>Bursts of arrivals and of reads\<close>

fun arrive_all :: "addr \<Rightarrow> (string \<times> arrived_message) list \<Rightarrow> mqtt_world \<Rightarrow> mqtt_world option" where
  "arrive_all a [] w = Some w"
| "arrive_all a ((t, m) # ms) w =
     Option.bind (messageArrived (Some a) t m w) (\<lambda>(_, w). arrive_all a ms w)"

fun read_all :: "mqtt_env \<Rightarrow> proto_ctx \<Rightarrow> mqtt_read_req \<Rightarrow> nat \<Rightarrow> mqtt_world
    \<Rightarrow> ((int \<times> string \<times> string) list \<times> mqtt_world) option" where
  "read_all env p r 0 w = Some ([], w)"
| "read_all env p r (Suc n) w =
     (case mqtt_proto_read env (Some p) (Some r) w of
        Some (rc, Some r', w) \<Rightarrow>
          map_option (\<lambda>(rs, w). ((rc, cstr (rd_topic r'), cstr (rd_payload r')) # rs, w))
            (read_all env p r n w)
      | _ \<Rightarrow> None)"

lemma arrive_all_live:
  assumes "ctx_heap w a = Some c" "mctx_ok c" "\<forall>(t, m) \<in> set ms. arrived_ok m"
  shows "\<exists>w' c'. arrive_all a ms w = Some w' \<and> ctx_heap w' a = Some c' \<and> mctx_ok c' \<and>
     connect_status c' = connect_status c \<and> base c' = base c \<and>
     map msg_view (ring_contents (ring c')) =
       last_n MAX_MSG_BUFFER_SIZE (map msg_view (ring_contents (ring c)) @ map arrived_view ms)"
  using assms
proof (induction ms arbitrary: w c)
  case Nil
  then have "length (ring_contents (ring c)) \<le> MAX_MSG_BUFFER_SIZE"
    by (simp add: mctx_ok_def mq.within_cap del: length_ring_contents)
  with Nil show ?case by (simp add: last_n_def)
next
  case (Cons tm ms)
  obtain t m where tm: "tm = (t, m)" by fastforce
  let ?c = "c\<lparr>ring := ring_push (store_message t m (clock w)) (ring c)\<rparr>"
  let ?w = "paho FreeTopic (paho FreeMessage (w\<lparr>ctx_heap := (ctx_heap w)(a \<mapsto> ?c)\<rparr>))"
  have m: "arrived_ok m" "\<forall>(t, m) \<in> set ms. arrived_ok m" using Cons.prems(3) tm by auto
  have ok: "mctx_ok ?c" by (rule mctx_ok_push [OF Cons.prems(2)]) (rule store_message_ok [OF _ m(1)])
  obtain w' c' where "arrive_all a ms ?w = Some w'" "ctx_heap w' a = Some c'" "mctx_ok c'"
    "connect_status c' = connect_status ?c" "base c' = base ?c"
    "map msg_view (ring_contents (ring c')) =
       last_n MAX_MSG_BUFFER_SIZE (map msg_view (ring_contents (ring ?c)) @ map arrived_view ms)"
    using Cons.IH [of ?w ?c] ok m(2) by auto
  then show ?case
    using push_view [OF Cons.prems(2) m(1), of t "clock w"]
    by (simp add: tm messageArrived_live [OF Cons.prems(1)] last_n_append_last_n)
qed

text \<open>One read of a waiting message.\<close>

definition read_req_ok :: "mqtt_read_req \<Rightarrow> bool" where
  "read_req_ok r \<longleftrightarrow> length (rd_topic r) = 128 \<and> length (rd_payload r) = 1024"

lemma fill_read_req_view:
  assumes "slot_ok m" "read_req_ok r" "msg_view m = (t, b)" "length t \<le> 127"
  shows "cstr (rd_topic (fill_read_req m r)) = t \<and> cstr (rd_payload (fill_read_req m r)) = cstr (take 1023 b)"
proof -
  let ?n = "read_copy_len m"
  have n: "?n \<le> 1023" "?n \<le> length (msg_payload m)"
    using assms(1) by (auto simp: read_copy_len_def slot_ok_def code_consts)
  have "cstr (rd_payload (fill_read_req m r)) = cstr (take ?n (memcpy (rd_payload r) (msg_payload m) ?n))"
    using n assms(2) by (simp add: fill_read_req_def cstr_truncate_at length_memcpy read_req_ok_def cstr_take)
  also have "take ?n (memcpy (rd_payload r) (msg_payload m) ?n) = take 1023 b"
    using n assms(1,3)
    by (auto simp: take_memcpy msg_view_def read_copy_len_def slot_ok_def min_def)
  finally show ?thesis
    using assms by (auto simp: fill_read_req_def cstr_strncpy_closed read_req_ok_def msg_view_def)
qed

lemma front_slot_ok:
  assumes "mctx_ok c"
  shows "slot_ok (ring_front (ring c))"
  using assms ring_head_bound [of "ring c"] by (auto simp: mctx_ok_def ring_front_def)

lemma read_one:
  assumes "ctx_userdata p = Some a" "ctx_heap w a = Some c" "mctx_ok c" "connect_status c = CON_OK"
    and "read_req_ok r" "map msg_view (ring_contents (ring c)) = (t, b) # vs" "length t \<le> 127"
  shows "\<exists>r' w' c'. mqtt_proto_read env (Some p) (Some r) w = Some (PROTO_SUCCESS, Some r', w') \<and>
     cstr (rd_topic r') = t \<and> cstr (rd_payload r') = cstr (take 1023 b) \<and>
     ctx_heap w' a = Some c' \<and> mctx_ok c' \<and> connect_status c' = CON_OK \<and>
     map msg_view (ring_contents (ring c')) = vs"
proof -
  have ok: "ring_ok (ring c)" using assms(3) by (simp add: mctx_ok_def)
  have some: "msg_buffer_count (ring c) \<noteq> 0" using assms(6) by (metis list.distinct(1) list.map_disc_iff ring_contents_eq_Nil)
  have front: "msg_view (ring_front (ring c)) = (t, b)"
    using assms(6) ring_front_hd [OF ok some] by (cases "ring_contents (ring c)") auto
  have rest: "map msg_view (ring_contents (ring_drop (ring c))) = vs"
    using assms(6) ring_drop_contents [OF ok some] by (simp add: map_tl)
  have drop: "mctx_ok (c\<lparr>ring := ring_drop (ring c)\<rparr>)"
    using assms(3) ring_drop_ok [OF ok some] by (auto simp: mctx_ok_def ring_drop_def)
  show ?thesis
    using assms(1,2,4) some rest drop
      fill_read_req_view [OF front_slot_ok [OF assms(3)] assms(5) front assms(7)]
    by (simp add: mqtt_proto_read_def Let_def)
qed

definition delivered :: "string \<times> buffer \<Rightarrow> int \<times> string \<times> string" where
  "delivered v = (PROTO_SUCCESS, fst v, cstr (take 1023 (snd v)))"

lemma read_all_waiting:
  assumes "ctx_userdata p = Some a" "ctx_heap w a = Some c" "mctx_ok c" "connect_status c = CON_OK"
    and "read_req_ok r" "map msg_view (ring_contents (ring c)) = vs @ us"
    and "\<forall>v \<in> set vs. length (fst v) \<le> 127"
  shows "\<exists>w' c'. read_all env p r (length vs) w = Some (map delivered vs, w') \<and>
    ctx_heap w' a = Some c' \<and> connect_status c' = CON_OK \<and> map msg_view (ring_contents (ring c')) = us"
  using assms(2-4,6,7)
proof (induction vs arbitrary: w c)
  case (Cons v vs)
  obtain t b where v: "v = (t, b)" by fastforce
  from read_one [OF assms(1) Cons.prems(1-3) assms(5), of t b "vs @ us" env] Cons.prems(4,5) v
  obtain r' w' c' where step: "mqtt_proto_read env (Some p) (Some r) w = Some (PROTO_SUCCESS, Some r', w')"
    "cstr (rd_topic r') = t" "cstr (rd_payload r') = cstr (take 1023 b)" "ctx_heap w' a = Some c'"
    "mctx_ok c'" "connect_status c' = CON_OK" "map msg_view (ring_contents (ring c')) = vs @ us"
    by auto
  from Cons.IH [OF step(4,5,6,7)] Cons.prems(5) obtain w2 c2 where
    "read_all env p r (length vs) w' = Some (map delivered vs, w2)" "ctx_heap w2 a = Some c2"
    "connect_status c2 = CON_OK" "map msg_view (ring_contents (ring c2)) = us" by auto
  with step v show ?case by (simp add: delivered_def)
qed simp

lemma arrived_view_topic: "\<forall>v \<in> set (last_n n (map arrived_view ms)). length (fst v) \<le> 127"
  by (auto simp: last_n_def arrived_view_def dest!: in_set_dropD)

end
