(* ===== verification/Mqtt_Machine.thy ===== *)
theory Mqtt_Machine
  imports Mqtt_Safety
begin

text \<open>
  The connection state machine as a step relation. A state is the world with two ghost counters:
  the connection attempts and the disconnections the library has accepted and not answered yet.
  The steps are the driver's operations and the library's callbacks; a result callback needs an
  unanswered request. The loss of a connection is not a step: what it does to the machine is
  stated separately.
\<close>

section \<open>Requests in flight\<close>

fun is_connect :: "paho_call \<Rightarrow> bool" where
  "is_connect (Connect h opts) = True"
| "is_connect _ = False"

fun is_disconnect :: "paho_call \<Rightarrow> bool" where
  "is_disconnect (Disconnect h opts) = True"
| "is_disconnect _ = False"

text \<open>The calls between two worlds, and those of one kind that the library accepted.\<close>

definition new_calls :: "mqtt_world \<Rightarrow> mqtt_world \<Rightarrow> paho_call list" where
  "new_calls w w' = drop (length (paho_calls w)) (paho_calls w')"

definition accepted :: "mqtt_env \<Rightarrow> (paho_call \<Rightarrow> bool) \<Rightarrow> mqtt_world \<Rightarrow> mqtt_world \<Rightarrow> nat" where
  "accepted env P w w' =
     length (filter (\<lambda>c. P c \<and> rc_of env w c = MQTTASYNC_SUCCESS) (new_calls w w'))"

type_synonym flight_state = "mqtt_world \<times> nat \<times> nat"

inductive drv_step :: "mqtt_env \<Rightarrow> proto_ctx \<Rightarrow> addr \<Rightarrow> flight_state \<Rightarrow> flight_state \<Rightarrow> bool"
  for env p a where
  connect: "proto_connect env (Some p) w = Some (rc, w') \<Longrightarrow>
     drv_step env p a (w, n, d) (w', n + accepted env is_connect w w', d)"
| disconnect: "proto_disconnect env (Some p) w = Some w' \<Longrightarrow>
     drv_step env p a (w, n, d) (w', n, d + accepted env is_disconnect w w')"
| read: "mqtt_proto_read env (Some p) (Some r) w = Some (rc, r', w') \<Longrightarrow>
     drv_step env p a (w, n, d) (w', n + accepted env is_connect w w', d)"
| publish: "mqtt_proto_write env (Some p) (Some q) w = Some (rc, w') \<Longrightarrow>
     drv_step env p a (w, n, d) (w', n + accepted env is_connect w w', d)"
| connected: "onConnectSuccess (Some a) w = Some w' \<Longrightarrow> drv_step env p a (w, Suc n, d) (w', n, d)"
| connect_failed: "onConnectFailure (Some a) w = Some w' \<Longrightarrow> drv_step env p a (w, Suc n, d) (w', n, d)"
| disconnected: "onDisconnectSuccess (Some a) w = Some w' \<Longrightarrow> drv_step env p a (w, n, Suc d) (w', n, d)"
| disconnect_failed: "onDisconnectFailure (Some a) w = Some w' \<Longrightarrow> drv_step env p a (w, n, Suc d) (w', n, d)"
| arrived: "messageArrived (Some a) t m w = Some (i, w') \<Longrightarrow> arrived_ok m \<Longrightarrow>
     drv_step env p a (w, n, d) (w', n, d)"
| sent: "onSendSuccess (Some a) w = Some w' \<Longrightarrow> drv_step env p a (w, n, d) (w', n, d)"
| send_failed: "onSendFailure (Some a) w = Some w' \<Longrightarrow> drv_step env p a (w, n, d) (w', n, d)"

section \<open>The invariant\<close>

text \<open>What the status says about the requests in flight.\<close>

fun in_flight :: "connect_status \<Rightarrow> nat \<times> nat" where
  "in_flight CON_PENDING = (1, 0)"
| "in_flight DCON_PENDING = (0, 1)"
| "in_flight _ = (0, 0)"

definition flight_ok :: "proto_ctx \<Rightarrow> addr \<Rightarrow> flight_state \<Rightarrow> bool" where
  "flight_ok p a s \<longleftrightarrow>
     driver_ok p (fst s) \<and> ctx_userdata p = Some a \<and>
     (\<exists>c. ctx_heap (fst s) a = Some c \<and> in_flight (connect_status c) = snd s)"

lemma accepted_simps [simp]:
  "paho_calls w' = paho_calls w \<Longrightarrow> accepted env P w w' = 0"
  "paho_calls w' = paho_calls w @ [c] \<Longrightarrow>
     accepted env P w w' = (if P c \<and> rc_of env w c = MQTTASYNC_SUCCESS then 1 else 0)"
  by (simp_all add: accepted_def new_calls_def)

lemma flight_cases:
  assumes "flight_ok p a (w, n, d)"
  obtains c ca cfg where "driver_ok p w" "ctx_userdata p = Some a" "ctx_heap w = [a \<mapsto> c]"
    "mctx_ok c" "base c = p" "ctx_config p = Some ca" "cfg_heap w = [ca \<mapsto> cfg]"
    "in_flight (connect_status c) = (n, d)"
proof -
  from assms have ok: "driver_ok p w" "ctx_userdata p = Some a"
    and c: "\<exists>c. ctx_heap w a = Some c \<and> in_flight (connect_status c) = (n, d)"
    by (auto simp: flight_ok_def)
  from ok show thesis
    by (rule live_cases) (use that c ok in auto)
qed

lemma flight_okI:
  assumes "driver_ok p w" "ctx_userdata p = Some a" "ctx_heap w a = Some c"
    "in_flight (connect_status c) = (n, d)"
  shows "flight_ok p a (w, n, d)"
  using assms by (simp add: flight_ok_def)

text \<open>What \<open>proto_connect\<close> does to the status and to the requests in flight, by the status it
  finds.\<close>

lemma proto_connect_flight:
  assumes "flight_ok p a (w, n, d)" "proto_connect env (Some p) w = Some (rc, w')"
  shows "flight_ok p a (w', n + accepted env is_connect w w', d)"
proof -
  from assms(1) obtain c ca cfg where live: "driver_ok p w" "ctx_userdata p = Some a"
    "ctx_heap w = [a \<mapsto> c]" "mctx_ok c" "base c = p" "ctx_config p = Some ca" "cfg_heap w = [ca \<mapsto> cfg]"
    "in_flight (connect_status c) = (n, d)" by (rule flight_cases)
  have "client c \<noteq> None" using live(4) by (simp add: mctx_ok_def)
  moreover have "driver_ok p w'" using proto_connect_safe [OF live(1), of env] assms(2) by auto
  ultimately show ?thesis
    using assms(2) live
    by (cases "connect_status c") (auto simp: proto_connect_def Let_def flight_ok_def split: if_splits)
qed

lemma flight_ok_operation_status:
  assumes "flight_ok p a (w, n, d)" "set_operation_status (Some a) os w = Some w'"
  shows "flight_ok p a (w', n, d) \<and> paho_calls w' = paho_calls w"
proof -
  from assms(1) obtain c where live: "driver_ok p w" "ctx_userdata p = Some a" "ctx_heap w = [a \<mapsto> c]"
    "in_flight (connect_status c) = (n, d)" by (rule flight_cases)
  have "driver_ok p w'" using driver_ok_status(2) [OF live(1,2), of os] assms(2) by auto
  with live assms(2) show ?thesis by (auto simp: flight_ok_def)
qed

text \<open>A step that leaves the connection status alone and asks for no connection.\<close>

lemma flight_ok_same:
  assumes "flight_ok p a (w, n, d)" "driver_ok p w'"
    and "map_option connect_status (ctx_heap w' a) = map_option connect_status (ctx_heap w a)"
  shows "flight_ok p a (w', n, d)"
  using assms by (auto simp: flight_ok_def)

lemma proto_disconnect_flight:
  assumes "flight_ok p a (w, n, d)" "proto_disconnect env (Some p) w = Some w'"
  shows "flight_ok p a (w', n, d + accepted env is_disconnect w w')"
proof -
  from assms(1) obtain c ca cfg where live: "driver_ok p w" "ctx_userdata p = Some a"
    "ctx_heap w = [a \<mapsto> c]" "mctx_ok c" "base c = p" "ctx_config p = Some ca" "cfg_heap w = [ca \<mapsto> cfg]"
    "in_flight (connect_status c) = (n, d)" by (rule flight_cases)
  have "client c \<noteq> None" using live(4) by (simp add: mctx_ok_def)
  moreover have "driver_ok p w'"
    using assms(2) \<open>client c \<noteq> None\<close>
    by (cases "connect_status c")
      (auto simp: live proto_disconnect_def Let_def intro!: driver_ok_step [OF live(1,2)] split: if_splits)
  ultimately show ?thesis
    using assms(2) live
    by (cases "connect_status c") (auto simp: proto_disconnect_def Let_def flight_ok_def split: if_splits)
qed

lemma read_write_flight:
  assumes "flight_ok p a (w, n, d)"
  shows "mqtt_proto_read env (Some p) (Some r) w = Some (rc, r', w') \<Longrightarrow>
           flight_ok p a (w', n + accepted env is_connect w w', d)"
    and "mqtt_proto_write env (Some p) (Some q) w = Some (rc, w') \<Longrightarrow>
           flight_ok p a (w', n + accepted env is_connect w w', d)"
proof -
  from assms obtain c ca cfg where live: "driver_ok p w" "ctx_userdata p = Some a"
    "ctx_heap w = [a \<mapsto> c]" "mctx_ok c" "base c = p" "ctx_config p = Some ca" "cfg_heap w = [ca \<mapsto> cfg]"
    by (rule flight_cases)
  let ?reconnect = "connect_status c = DCON_OK \<and> enable_auto_reconnect cfg \<noteq> 0"
  have reconnect: "flight_ok p a (w2, n + accepted env is_connect w w2, d)"
    if "proto_connect env (Some p) w = Some (rc1, w1)"
      "w2 = w1 \<or> set_operation_status (Some a) OP_PENDING w1 = Some w2" for rc1 w1 w2
  proof -
    have f: "flight_ok p a (w1, n + accepted env is_connect w w1, d)"
      by (rule proto_connect_flight [OF assms that(1)])
    show ?thesis
    proof (cases "w2 = w1")
      case False
      with that(2) have "set_operation_status (Some a) OP_PENDING w1 = Some w2" by simp
      from flight_ok_operation_status [OF f this] show ?thesis
        by (simp add: accepted_def new_calls_def)
    qed (use f in simp)
  qed
  show "flight_ok p a (w', n + accepted env is_connect w w', d)"
    if read: "mqtt_proto_read env (Some p) (Some r) w = Some (rc, r', w')"
  proof (cases ?reconnect)
    case True
    with read show ?thesis
      by (auto simp: live mqtt_proto_read_def bind_eq_Some_conv split: if_splits intro: reconnect)
  next
    case False
    have "driver_ok p w'" using mqtt_proto_read_safe [OF live(1,2), of env r] read by auto
    moreover have "map_option connect_status (ctx_heap w' a) = map_option connect_status (ctx_heap w a)"
      "paho_calls w' = paho_calls w"
      using read False live by (auto simp: mqtt_proto_read_def Let_def split: if_splits)
    ultimately show ?thesis using flight_ok_same [OF assms] by simp
  qed
  show "flight_ok p a (w', n + accepted env is_connect w w', d)"
    if publish: "mqtt_proto_write env (Some p) (Some q) w = Some (rc, w')"
  proof (cases ?reconnect)
    case True
    with publish show ?thesis
      by (auto simp: live mqtt_proto_write_def bind_eq_Some_conv split: if_splits intro: reconnect)
  next
    case False
    have "driver_ok p w'" using mqtt_proto_write_safe [OF live(1,2), of env q] publish by auto
    moreover have "map_option connect_status (ctx_heap w' a) = map_option connect_status (ctx_heap w a) \<and>
      accepted env is_connect w w' = 0"
      using publish False live
      by (auto simp: mqtt_proto_write_def Let_def accepted_def new_calls_def split: if_splits)
    ultimately show ?thesis using flight_ok_same [OF assms] by simp
  qed
qed

lemma callback_driver_ok:
  assumes "safe_callback cb" "driver_ok p w" "ctx_userdata p = Some a" "cb (Some a) w = Some w'"
  shows "driver_ok p w'"
  using assms by (fastforce simp: safe_callback_def)

text \<open>The result callbacks, on the context they are called with.\<close>

lemma result_callback_flight:
  assumes "flight_ok p a (w, n, d)" "safe_callback cb" "cb (Some a) w = Some w'"
    and "\<And>c. ctx_heap w a = Some c \<Longrightarrow> in_flight (connect_status c) = (n, d) \<Longrightarrow>
       \<exists>c'. ctx_heap w' a = Some c' \<and> in_flight (connect_status c') = (n', d')"
  shows "flight_ok p a (w', n', d')"
  using assms callback_driver_ok [OF assms(2) _ _ assms(3)]
  by (auto simp: flight_ok_def)

lemma in_flight_one:
  "in_flight st = (Suc n, d) \<longleftrightarrow> st = CON_PENDING \<and> n = 0 \<and> d = 0"
  "in_flight st = (n, Suc d) \<longleftrightarrow> st = DCON_PENDING \<and> n = 0 \<and> d = 0"
  by (cases st; auto)+

lemma onConnectSuccess_status:
  "onConnectSuccess (Some a) w = Some w' \<Longrightarrow> \<exists>c'. ctx_heap w' a = Some c' \<and> connect_status c' = CON_OK"
  by (auto simp: onConnectSuccess_def bind_eq_Some_conv upd_ctx_def set_connect_status_def
      set_operation_status_def get_connect_status_def split: if_splits option.splits)

lemma drv_step_flight:
  assumes "drv_step env p a s s'" "flight_ok p a s"
  shows "flight_ok p a s'"
  using assms
proof (induction rule: drv_step.induct)
  case (connect w rc w' n d)
  then show ?case using proto_connect_flight by blast
next
  case (disconnect w w' n d)
  then show ?case using proto_disconnect_flight by blast
next
  case (read r w rc r' w' n d)
  then show ?case using read_write_flight(1) by blast
next
  case (publish q w rc w' n d)
  then show ?case using read_write_flight(2) by blast
next
  case (connected w w' n d)
  then show ?case
    using onConnectSuccess_status [OF connected(1)]
    by (intro result_callback_flight [OF connected(2) onConnectSuccess_safe connected(1)])
      (auto simp: in_flight_one)
next
  case (connect_failed w w' n d)
  show ?case
    by (rule result_callback_flight [OF connect_failed(2) onConnectFailure_safe connect_failed(1)])
      (use connect_failed(1) in \<open>auto simp: in_flight_one onConnectFailure_def\<close>)
next
  case (disconnected w w' n d)
  show ?case
    by (rule result_callback_flight [OF disconnected(2) onDisconnectSuccess_safe disconnected(1)])
      (use disconnected(1) in \<open>auto simp: in_flight_one onDisconnectSuccess_def\<close>)
next
  case (disconnect_failed w w' n d)
  show ?case
    by (rule result_callback_flight [OF disconnect_failed(2) onDisconnectFailure_safe disconnect_failed(1)])
      (use disconnect_failed(1) in \<open>auto simp: in_flight_one onDisconnectFailure_def\<close>)
next
  case (arrived t m w i w' n d)
  show ?case
    by (rule result_callback_flight [OF arrived(3) messageArrived_safe [OF arrived(2)]])
      (use arrived(1) in \<open>auto simp: messageArrived_def upd_ctx_def split: option.splits\<close>)
next
  case (sent w w' n d)
  show ?case
    by (rule result_callback_flight [OF sent(2) onSendSuccess_safe sent(1)])
      (use sent(1) in \<open>auto simp: onSendSuccess_def\<close>)
next
  case (send_failed w w' n d)
  show ?case
    by (rule result_callback_flight [OF send_failed(2) onSendFailure_safe send_failed(1)])
      (use send_failed(1) in \<open>auto simp: onSendFailure_def\<close>)
qed

lemma drv_steps_flight:
  "(drv_step env p a)\<^sup>*\<^sup>* s s' \<Longrightarrow> flight_ok p a s \<Longrightarrow> flight_ok p a s'"
  by (induction rule: rtranclp_induct) (auto intro: drv_step_flight)

lemma in_flight_bound: "in_flight st = (n, d) \<Longrightarrow> n + d \<le> 1"
  by (cases st) auto

section \<open>The reconnection policy\<close>

text \<open>The callbacks of the library while no connection succeeds.\<close>

fun losing_event :: "plc_event \<Rightarrow> bool" where
  "losing_event ConnectionLost = True"
| "losing_event ConnectFailure = True"
| "losing_event DisconnectSuccess = True"
| "losing_event DisconnectFailure = True"
| "losing_event SendSuccess = True"
| "losing_event SendFailure = True"
| "losing_event SubscribeSuccess = True"
| "losing_event SubscribeFailure = True"
| "losing_event (MessageArrived t m) = arrived_ok m"
| "losing_event _ = False"

definition connects :: "mqtt_world \<Rightarrow> nat" where
  "connects w = length (filter is_connect (paho_calls w))"

text \<open>The bookkeeping of the policy: every connection request of a callback is counted in
  \<open>reconnect_attempts\<close>, and the count stays below its maximum.\<close>

definition counted :: "proto_ctx \<Rightarrow> addr \<Rightarrow> mqtt_config \<Rightarrow> int \<Rightarrow> mqtt_world \<Rightarrow> bool" where
  "counted p a cfg k w \<longleftrightarrow>
     (\<exists>c ca. ctx_heap w = [a \<mapsto> c] \<and> base c = p \<and> ctx_config p = Some ca \<and> cfg_heap w = [ca \<mapsto> cfg] \<and>
        reconnect_attempts c = int (connects w) + k \<and> reconnect_attempts c \<le> max_reconnect_attempts cfg)"

lemma connects_simps [simp]:
  "connects (paho c w) = (if is_connect c then Suc (connects w) else connects w)"
  "connects (invoke_user f b r u w) = connects w"
  "connects (w\<lparr>ctx_heap := h\<rparr>) = connects w"
  by (simp_all add: connects_def)

lemma onConnectionLost_counted:
  assumes "counted p a cfg k w" "0 < max_reconnect_attempts cfg" "onConnectionLost (Some a) w = Some w'"
  shows "counted p a cfg k w'"
  using assms
  by (auto simp: counted_def onConnectionLost_def Let_def reconnect_decision_def split: if_splits)

lemma other_callbacks_counted:
  assumes "counted p a cfg k w"
  shows "onConnectFailure (Some a) w = Some w' \<Longrightarrow> counted p a cfg k w'"
    "onDisconnectSuccess (Some a) w = Some w' \<Longrightarrow> counted p a cfg k w'"
    "onDisconnectFailure (Some a) w = Some w' \<Longrightarrow> counted p a cfg k w'"
    "onSendSuccess (Some a) w = Some w' \<Longrightarrow> counted p a cfg k w'"
    "onSendFailure (Some a) w = Some w' \<Longrightarrow> counted p a cfg k w'"
    "onSubscribeSuccess (Some a) w = Some w' \<Longrightarrow> counted p a cfg k w'"
    "onSubscribeFailure (Some a) w = Some w' \<Longrightarrow> counted p a cfg k w'"
    "messageArrived (Some a) t m w = Some (i, w') \<Longrightarrow> counted p a cfg k w'"
  using assms
  by (auto simp: counted_def onConnectFailure_def onDisconnectSuccess_def onDisconnectFailure_def
      onSendSuccess_def onSendFailure_def onSubscribeSuccess_def onSubscribeFailure_def
      messageArrived_def split: if_splits)

lemma losing_event_counted:
  assumes "plc_step env s e = Some s'" "losing_event e" "0 < max_reconnect_attempts cfg"
    and "ctx_userdata (g_mqtt_ctx s) = Some a" "counted p a cfg k (plc_world s)"
  shows "g_mqtt_ctx s' = g_mqtt_ctx s \<and> counted p a cfg k (plc_world s')"
  using assms onConnectionLost_counted [OF assms(5,3)] other_callbacks_counted [OF assms(5)]
  by (cases e) (auto simp: on_live_def)

lemma losing_run_counted:
  assumes "plc_run env s es = Some s'" "\<forall>e \<in> set es. losing_event e" "0 < max_reconnect_attempts cfg"
    and "ctx_userdata (g_mqtt_ctx s) = Some a" "counted p a cfg k (plc_world s)"
  shows "counted p a cfg k (plc_world s')"
  using assms
proof (induction es arbitrary: s)
  case (Cons e es)
  then obtain s1 where s1: "plc_step env s e = Some s1" "plc_run env s1 es = Some s'"
    by (auto simp: bind_eq_Some_conv)
  have "g_mqtt_ctx s1 = g_mqtt_ctx s \<and> counted p a cfg k (plc_world s1)"
    using losing_event_counted [OF s1(1) _ Cons.prems(3,4,5)] Cons.prems(2) by simp
  then show ?case using Cons.IH [OF s1(2)] Cons.prems by simp
qed simp

end
