(* ===== verification/Mqtt_Properties.thy ===== *)
theory Mqtt_Properties
  imports Mqtt_Yaml_Spec Mqtt_Delivery Mqtt_Machine
begin

text \<open>
  The properties of the MQTT driver, each with its witness. The witnesses run on one configuration,
  one environment that accepts every request, and one live context.
\<close>

section \<open>Sample data\<close>

definition sample_config :: mqtt_config where
  "sample_config =
     \<lparr>broker = ''tcp://h:1883'', client_id = ''plc'', username = ''u'', password = ''pw'',
      pub_topic = ''d/up'', sub_topic = ''d/down'', qos = 1, retained = 0, timeout_ms = 5000,
      keepalive_interval = 60, reconnect_interval = 5, max_reconnect_attempts = 2,
      enable_auto_reconnect = 1\<rparr>"

definition sample_env :: mqtt_env where
  "sample_env = \<lparr>rc_of = (\<lambda>_ _. 0), handle_of = (\<lambda>_. 7), malloc_ok = (\<lambda>_. True)\<rparr>"

definition sample_plc_env :: plc_env where
  "sample_plc_env = \<lparr>mq_env = sample_env, hot_answers = (\<lambda>_. \<lparr>mutex_init_ok = True, stat_mtime = Some 5,
     thread_create_ok = True\<rparr>)\<rparr>"

definition sample_world :: mqtt_world where
  "sample_world = \<lparr>cfg_heap = Map.empty, ctx_heap = Map.empty, next_addr = 1, paho_calls = [],
     user_calls = [], config_file = document (config_document sample_config), clock = 1000, pid = 42\<rparr>"

definition sample_proto :: proto_ctx where
  "sample_proto = \<lparr>ctx_type = PROTO_TYPE_MQTT, ctx_client = None, ctx_config = Some 1, ctx_userdata = Some 2\<rparr>"

definition live_ctx :: "connect_status \<Rightarrow> mqtt_ctx" where
  "live_ctx st = (fresh_mqtt_ctx sample_proto 5000)\<lparr>client := Some 7, connect_status := st\<rparr>"

definition live_world :: "connect_status \<Rightarrow> mqtt_world" where
  "live_world st = sample_world\<lparr>cfg_heap := [1 \<mapsto> sample_config], ctx_heap := [2 \<mapsto> live_ctx st], next_addr := 3\<rparr>"

definition sample_message :: arrived_message where
  "sample_message = \<lparr>arr_payload = Some ''on'', arr_payloadlen = 2\<rparr>"

definition sample_read_req :: mqtt_read_req where
  "sample_read_req = \<lparr>rd_topic = replicate 128 NUL, rd_payload = replicate 1024 NUL\<rparr>"

lemma sample_config_fits: "mqtt_config_fits sample_config"
  by (simp add: mqtt_config_fits_def sample_config_def)

lemma live_ctx_sel [simp]:
  "connect_status (live_ctx st) = st" "client (live_ctx st) = Some 7" "base (live_ctx st) = sample_proto"
  "reconnect_attempts (live_ctx st) = 0" "mctx_ok (live_ctx st)"
  "ring (live_ctx st) = ring_init (replicate MAX_MSG_BUFFER_SIZE blank_message)"
  using fresh_mqtt_ctx_ok [where b = sample_proto and t = 5000 and h = 7]
  by (simp_all add: live_ctx_def) (simp_all add: fresh_mqtt_ctx_def)

lemma live_world_sel [simp]:
  "ctx_heap (live_world st) = [2 \<mapsto> live_ctx st]" "cfg_heap (live_world st) = [1 \<mapsto> sample_config]"
  "next_addr (live_world st) = 3" "paho_calls (live_world st) = []"
  by (simp_all add: live_world_def sample_world_def)

lemma sample_proto_sel [simp]: "ctx_userdata sample_proto = Some 2" "ctx_config sample_proto = Some 1"
  by (simp_all add: sample_proto_def)

lemma live_driver_ok: "driver_ok sample_proto (live_world st)"
  by (simp add: driver_ok_def sample_config_fits)

lemma sample_message_ok: "arrived_ok sample_message"
  by (simp add: arrived_ok_def sample_message_def)

section \<open>Memory safety of the process\<close>

lemma plc_run_safe:
  "plc_ok s \<Longrightarrow> \<forall>e \<in> set es. event_ok e \<Longrightarrow> \<exists>s'. plc_run env s es = Some s' \<and> plc_ok s'"
proof (induction es arbitrary: s)
  case (Cons e es)
  from plc_step_safe [OF Cons.prems(1), of e env] Cons.prems(2)
  obtain s1 where "plc_step env s e = Some s1" "plc_ok s1" by auto
  with Cons.IH [of s1] Cons.prems(2) show ?case by simp
qed simp

text \<open>C1: From the start of the process, whatever the sequence of reads, writes, configuration
  reloads, library callbacks, file contents, refusals of the library and failures of malloc, also
  with reloads and callbacks between the two halves of a call: no operation touches memory that is
  not allocated, and at every point the allocated blocks are exactly the ones the process still
  refers to (nothing is leaked), with a well-formed message ring and a configuration within its
  arrays.\<close>

theorem mqtt_process_memory_safe:
  assumes "ctx_heap w = Map.empty" "cfg_heap w = Map.empty" "\<forall>e \<in> set es. event_ok e"
  shows "\<exists>s'. plc_run env (plc_start w) es = Some s' \<and> plc_ok s'"
  using plc_run_safe [OF plc_start_ok] assms by blast

theorem mqtt_process_memory_safe_witness:
  "\<exists>s'. plc_run sample_plc_env (plc_start sample_world)
     [ReadCall sample_read_req, ConnectSuccess, MessageArrived ''t'' sample_message,
      EnsureReady, ConfigChanged, ReadRest sample_read_req, ConnectionLost] = Some s' \<and> plc_ok s'"
  by (rule mqtt_process_memory_safe) (simp_all add: sample_world_def sample_message_ok)

section \<open>Delivery\<close>

text \<open>C2: A burst of messages that arrives while the connection is up is delivered by the following
  reads: the newest hundred messages, in their order, each with its topic and payload as a C
  string (cut at 127 and 1023 bytes); the read after them reports that there is no data.\<close>

theorem messages_delivered:
  assumes "ctx_userdata p = Some a" "ctx_heap w a = Some c" "mctx_ok c" "connect_status c = CON_OK"
    and "ring_contents (ring c) = []" "\<forall>(t, m) \<in> set ms. arrived_ok m" "read_req_ok r"
  shows "\<exists>w1 w2 w3. arrive_all a ms w = Some w1 \<and>
     read_all env p r (min MAX_MSG_BUFFER_SIZE (length ms)) w1 =
       Some (map delivered (last_n MAX_MSG_BUFFER_SIZE (map arrived_view ms)), w2) \<and>
     mqtt_proto_read env (Some p) (Some r) w2 = Some (NO_DATA, Some r, w3)"
proof -
  let ?vs = "last_n MAX_MSG_BUFFER_SIZE (map arrived_view ms)"
  obtain w1 c1 where w1: "arrive_all a ms w = Some w1" "ctx_heap w1 a = Some c1" "mctx_ok c1"
    "connect_status c1 = CON_OK" "map msg_view (ring_contents (ring c1)) = ?vs"
    using arrive_all_live [OF assms(2,3,6)] assms(4,5) by auto
  have len: "length ?vs = min MAX_MSG_BUFFER_SIZE (length ms)" by (simp add: last_n_def)
  obtain w2 c2 where w2: "read_all env p r (length ?vs) w1 = Some (map delivered ?vs, w2)"
    "ctx_heap w2 a = Some c2" "connect_status c2 = CON_OK" "map msg_view (ring_contents (ring c2)) = []"
    using read_all_waiting [OF assms(1) w1(2,3,4) assms(7), of ?vs "[]" env] w1(5)
      arrived_view_topic by auto
  have "msg_buffer_count (ring c2) = 0" using w2(4) by simp
  then have "\<exists>w3. mqtt_proto_read env (Some p) (Some r) w2 = Some (NO_DATA, Some r, w3)"
    using w2(2,3) assms(1) by (simp add: mqtt_proto_read_def)
  with w1(1) w2(1) len show ?thesis by metis
qed

theorem messages_delivered_witness:
  "\<exists>w1 w2 w3. arrive_all 2 [(''a'', sample_message), (''b'', sample_message)] (live_world CON_OK) = Some w1 \<and>
     read_all sample_env sample_proto sample_read_req 2 w1 =
       Some ([(PROTO_SUCCESS, ''a'', ''on''), (PROTO_SUCCESS, ''b'', ''on'')], w2) \<and>
     mqtt_proto_read sample_env (Some sample_proto) (Some sample_read_req) w2 =
       Some (NO_DATA, Some sample_read_req, w3)"
  using messages_delivered [of sample_proto 2 "live_world CON_OK" "live_ctx CON_OK"
      "[(''a'', sample_message), (''b'', sample_message)]" sample_read_req sample_env]
  by (simp add: sample_message_ok read_req_ok_def sample_read_req_def last_n_def delivered_def
      arrived_view_def arrived_bytes_def sample_message_def arrived_ok_def cstr_def MAX_MSG_BUFFER_SIZE_def
      MAX_MESSAGE_SIZE_def numeral_2_eq_2 del: read_all.simps arrive_all.simps)

section \<open>The connection state machine\<close>

text \<open>C3: As long as no connection is lost, the driver never has two requests in flight: in every
  state that its operations and the library's result callbacks reach, at most one connection
  attempt or disconnection awaits its answer, and the status names it.\<close>

theorem requests_in_flight_bounded:
  assumes "driver_ok p w" "ctx_userdata p = Some a" "get_connect_status (Some a) w = Some CON_IDLE"
    and "(drv_step env p a)\<^sup>*\<^sup>* (w, 0, 0) (w', n, d)"
  shows "n + d \<le> 1 \<and> (\<exists>st. get_connect_status (Some a) w' = Some st \<and>
     (st = CON_PENDING \<longleftrightarrow> n = 1) \<and> (st = DCON_PENDING \<longleftrightarrow> d = 1))"
proof -
  have "flight_ok p a (w, 0, 0)"
    using assms(1-3) by (auto simp: flight_ok_def get_connect_status_def)
  from drv_steps_flight [OF assms(4) this]
  obtain c where c: "ctx_heap w' a = Some c" "in_flight (connect_status c) = (n, d)"
    by (auto simp: flight_ok_def)
  then show ?thesis
    by (cases "connect_status c") auto
qed

theorem requests_in_flight_bounded_witness:
  "\<exists>w'. get_connect_status (Some 2) w' = Some CON_PENDING \<and>
     (drv_step sample_env sample_proto 2)\<^sup>*\<^sup>* (live_world CON_IDLE, 0, 0) (w', 1, 0)"
proof -
  obtain rc w' where c: "proto_connect sample_env (Some sample_proto) (live_world CON_IDLE) = Some (rc, w')"
    "paho_calls w' = [Connect (Some 7) ((create_connect_options sample_config)\<lparr>co_context := Some 2\<rparr>)]"
    by (simp add: proto_connect_def sample_env_def code_consts Let_def)
  have acc: "accepted sample_env is_connect (live_world CON_IDLE) w' = 1"
    using c(2) by (simp add: accepted_def new_calls_def sample_env_def code_consts)
  have "drv_step sample_env sample_proto 2 (live_world CON_IDLE, 0, 0) (w', 1, 0)"
    using drv_step.connect [OF c(1), of 2 0 0] acc by simp
  then have steps: "(drv_step sample_env sample_proto 2)\<^sup>*\<^sup>* (live_world CON_IDLE, 0, 0) (w', 1, 0)"
    by (rule r_into_rtranclp)
  from requests_in_flight_bounded [OF live_driver_ok _ _ steps] steps show ?thesis by auto
qed



text \<open>After a lost connection the driver asks for a new one but leaves the status at
  \<open>DCON_OK\<close>; a \<open>proto_connect\<close> before the answer asks again. The two requests are in flight
  together, for the same client.\<close>

theorem lost_connection_asks_twice:
  assumes "driver_ok p w" "ctx_userdata p = Some a" "get_connect_status (Some a) w = Some CON_OK"
    and "ctx_config p = Some ca" "cfg_heap w ca = Some cfg" "enable_auto_reconnect cfg \<noteq> 0"
    and "max_reconnect_attempts cfg = 0"
  shows "\<exists>w1 rc w2 h opts. onConnectionLost (Some a) w = Some w1 \<and>
     get_connect_status (Some a) w1 = Some DCON_OK \<and>
     proto_connect env (Some p) w1 = Some (rc, w2) \<and>
     paho_calls w2 = paho_calls w @ [Connect h opts, Connect h opts]"
proof -
  from assms(1,2) obtain c where live: "ctx_heap w = [a \<mapsto> c]" "mctx_ok c" "base c = p"
    "cfg_heap w = [ca \<mapsto> cfg]" by (rule live_cases) (use assms(4,5) in auto)
  have "client c \<noteq> None" using live(2) by (simp add: mctx_ok_def)
  with assms live show ?thesis
    by (auto simp: onConnectionLost_def proto_connect_def reconnect_decision_def Let_def)
qed

theorem lost_connection_asks_twice_witness:
  "\<exists>w1 rc w2 h opts. onConnectionLost (Some 2)
        ((live_world CON_OK)\<lparr>cfg_heap := [1 \<mapsto> sample_config\<lparr>max_reconnect_attempts := 0\<rparr>]\<rparr>) = Some w1 \<and>
     get_connect_status (Some 2) w1 = Some DCON_OK \<and>
     proto_connect sample_env (Some sample_proto) w1 = Some (rc, w2) \<and>
     paho_calls w2 = [Connect h opts, Connect h opts]"
proof -
  let ?cfg = "sample_config\<lparr>max_reconnect_attempts := 0\<rparr>"
  let ?w = "(live_world CON_OK)\<lparr>cfg_heap := [1 \<mapsto> ?cfg]\<rparr>"
  have "driver_ok sample_proto ?w"
    using sample_config_fits by (simp add: driver_ok_def mqtt_config_fits_def)
  from lost_connection_asks_twice [OF this, of 2 1 ?cfg sample_env] show ?thesis
    by (simp add: sample_config_def)
qed

text \<open>A successful connection attempt brings the status to \<open>CON_OK\<close>, forgets the reconnection
  count, and subscribes to the configured topic with the configured quality of service; a context
  that is already connected is not subscribed again.\<close>

theorem connect_success_subscribes:
  assumes "driver_ok p w" "ctx_userdata p = Some a" "ctx_heap w a = Some c"
    and "ctx_config p = Some ca" "cfg_heap w ca = Some cfg"
  shows "\<exists>w' c'. onConnectSuccess (Some a) w = Some w' \<and> ctx_heap w' a = Some c' \<and>
     connect_status c' = CON_OK \<and> ring c' = ring c \<and>
     (if connect_status c = CON_OK then reconnect_attempts c' = reconnect_attempts c \<and> paho_calls w' = paho_calls w
      else reconnect_attempts c' = 0 \<and> operation_status c' = OP_SUCCESS \<and>
        paho_calls w' = paho_calls w @
          (if sub_topic cfg = [] then []
           else [Subscribe (client c) (sub_topic cfg) (qos cfg)
                  \<lparr>ro_onSuccess = Some OnSubscribeSuccess, ro_onFailure = Some OnSubscribeFailure,
                   ro_context = Some a\<rparr>]))"
proof -
  from assms(1,2) have "base c = p" by (rule live_cases) (use assms(3) in auto)
  with assms show ?thesis
    by (simp add: onConnectSuccess_def)
qed

theorem connect_success_subscribes_witness:
  "\<exists>w'. onConnectSuccess (Some 2) (live_world CON_PENDING) = Some w' \<and>
     paho_calls w' = [Subscribe (Some 7) ''d/down'' 1 \<lparr>ro_onSuccess = Some OnSubscribeSuccess,
        ro_onFailure = Some OnSubscribeFailure, ro_context = Some 2\<rparr>]"
  using connect_success_subscribes [OF live_driver_ok [of CON_PENDING], of 2 "live_ctx CON_PENDING" 1 sample_config]
  by (auto simp: sample_config_def)

section \<open>Writing\<close>

fun is_send :: "paho_call \<Rightarrow> bool" where
  "is_send (SendMessage h t m opts) = True"
| "is_send _ = False"

text \<open>A write hands exactly one message to the library, with the request's topic, payload,
  quality of service and retention, when the connection is up, and none otherwise; it succeeds
  exactly when the library takes that message, and every other outcome is \<open>PROTO_ERROR_WRITE\<close>.\<close>

theorem write_hands_over_one_message:
  assumes "driver_ok p w" "ctx_userdata p = Some a" "ctx_heap w a = Some c"
    and "mqtt_proto_write env (Some p) (Some r) w = Some (rc, w')"
  shows "\<exists>call. call = SendMessage (client c) (wr_topic r)
       \<lparr>pm_payload = wr_payload r, pm_payloadlen = strlen (wr_payload r), pm_qos = wr_qos r,
        pm_retained = wr_retained r\<rparr>
       \<lparr>ro_onSuccess = Some OnSendSuccess, ro_onFailure = Some OnSendFailure, ro_context = Some a\<rparr> \<and>
     filter is_send (new_calls w w') = (if connect_status c = CON_OK then [call] else []) \<and>
     rc = (if connect_status c = CON_OK \<and> rc_of env w call = MQTTASYNC_SUCCESS
           then PROTO_SUCCESS else PROTO_ERROR_WRITE)"
proof -
  from assms(1-3) obtain ca cfg where live: "ctx_heap w = [a \<mapsto> c]" "mctx_ok c" "base c = p"
    "ctx_config p = Some ca" "cfg_heap w = [ca \<mapsto> cfg]" by (auto elim!: live_cases)
  have cl: "client c \<noteq> None" using live(2) by (simp add: mctx_ok_def)
  show ?thesis
    using assms(4)
    by (cases "connect_status c")
      (auto simp: live assms(2) cl mqtt_proto_write_def proto_connect_def Let_def new_calls_def split: if_splits)
qed

theorem write_hands_over_one_message_witness:
  "\<exists>w'. mqtt_proto_write sample_env (Some sample_proto)
       (Some \<lparr>wr_qos = 1, wr_retained = 0, wr_topic = ''d'', wr_payload = ''x''\<rparr>) (live_world CON_OK) =
     Some (PROTO_SUCCESS, w') \<and> length (filter is_send (new_calls (live_world CON_OK) w')) = 1"
proof -
  let ?r = "\<lparr>wr_qos = 1, wr_retained = 0, wr_topic = ''d'', wr_payload = ''x''\<rparr>"
  obtain rc w' where "mqtt_proto_write sample_env (Some sample_proto) (Some ?r) (live_world CON_OK) = Some (rc, w')"
    using mqtt_proto_write_safe [OF live_driver_ok, of 2 sample_env ?r CON_OK] by auto
  with write_hands_over_one_message [OF live_driver_ok _ _ this, of 2 "live_ctx CON_OK"] show ?thesis
    by (auto simp: sample_env_def code_consts)
qed

end
