(* ===== verification/Mqtt_Config_Properties.thy ===== *)
theory Mqtt_Config_Properties
  imports Mqtt_Properties
begin

text \<open>
  The properties of the MQTT driver's configuration and life cycle: the loader, the client id,
  initialisation and release, the first calls of a process, the configuration monitor.
\<close>

section \<open>Loading the configuration\<close>

text \<open>C5: On a document whose mappings nest at most seven deep, the event loop with its stack of
  eight sections computes the reading of the document tree: every scalar is assigned in the
  section of the innermost named mapping above it, and the final checks follow.\<close>

theorem yaml_loader_reads_the_tree:
  assumes "node_depth root \<le> 7"
  shows "load_mqtt_config_from_yaml (document root) =
           yaml_finish 0 (read_node SEC_NONE [] root mqtt_config_defaults)"
  by (rule load_document [OF assms])

theorem yaml_loader_reads_the_tree_witness:
  "fst (load_mqtt_config_from_yaml (document (YMap [(''mqtt'', YMap [(''broker_uri'', YScalar ''b'')])]))) = -5"
  using yaml_loader_reads_the_tree [of "YMap [(''mqtt'', YMap [(''broker_uri'', YScalar ''b'')])]"]
  by (simp add: set_key yaml_finish_def mqtt_config_defaults_def mqtt_config_zero_def)

text \<open>C6: Printing a configuration in the layout of the shipped file and loading it gives the
  configuration back, for every configuration whose strings fit their arrays and whose required
  fields are present.\<close>

theorem config_round_trip:
  assumes "storable cfg"
  shows "load_mqtt_config_from_yaml (document (config_document cfg)) = (0, cfg)"
  using assms
  by (simp add: load_document config_document_depth read_config_document [OF assms] yaml_finish_def storable_def)

lemma sample_config_storable: "storable sample_config"
  using sample_config_fits by (simp add: storable_def) (simp add: sample_config_def)

lemma sample_load: "load_mqtt_config_from_yaml (config_file sample_world) = (0, sample_config)"
  using load_document [OF config_document_depth, of sample_config] read_config_document [OF sample_config_storable]
  by (simp add: sample_world_def yaml_finish_def) (simp add: sample_config_def)

theorem config_round_trip_witness:
  "load_mqtt_config_from_yaml (document (config_document sample_config)) = (0, sample_config)"
  by (rule config_round_trip [OF sample_config_storable])

text \<open>C7: Whatever the event stream, the loaded configuration is within its arrays: every string is
  shorter than its array, every number is a C \<open>int\<close>.\<close>

theorem yaml_loader_within_bounds:
  "mqtt_config_fits (snd (load_mqtt_config_from_yaml src))"
  by (rule load_fits)

fun nested :: "nat \<Rightarrow> ynode" where
  "nested 0 = YMap [(''k'', YScalar ''v'')]"
| "nested (Suc n) = YMap [(''x'', nested n)]"

definition deep_document :: ynode where
  "deep_document = YMap [(''protocols'', YMap [(''mqtt'', YMap
     [(''x'', nested 6), (''broker_uri'', YScalar ''b''), (''client_id'', YScalar ''c'')])])]"

lemma nested_6:
  "nested 6 = YMap [(''x'', YMap [(''x'', YMap [(''x'', YMap [(''x'', YMap [(''x'', YMap [(''x'',
     YMap [(''k'', YScalar ''v'')])])])])])])]"
  by (simp add: numeral_eq_Suc)

lemma other_key [simp]:
  "copy_str 128 ''x'' = ''x''" "copy_str 128 ''k'' = ''k''" "enter_section sec ''x'' = sec"
  "set_value SEC_MQTT ''k'' v cfg = cfg"
  by (simp_all add: copy_str_def cstr_def enter_section_def set_value_def strcaseeq_def to_lower_def)

lemma deep_document_run:
  "load_mqtt_config_from_yaml (document deep_document) = (-5, mqtt_config_defaults)"
  by code_simp

text \<open>Nesting beyond the stack breaks the loader on a valid document: a mapping of depth
  eight that closes before \<open>broker_uri\<close> leaves the section stack too low, the
  required field is no longer read, and the load fails with \<open>-5\<close>; reading the tree finds both
  required fields.\<close>

theorem deep_nesting_loses_required_fields:
  "load_mqtt_config_from_yaml (document deep_document) = (-5, mqtt_config_defaults) \<and>
   broker (read_node SEC_NONE [] deep_document mqtt_config_defaults) = ''b'' \<and>
   client_id (read_node SEC_NONE [] deep_document mqtt_config_defaults) = ''c''"
  by (simp add: deep_document_run)
    (simp add: deep_document_def nested_6 set_key copy_str_def cstr_def)

section \<open>The client id\<close>

text \<open>The suffix that makes a client id unique (process id and time) survives exactly as far as
  the 64 bytes of the field allow: a configured id of 63 bytes or more loses all of it, so that
  any two processes with this id get the same client id.\<close>

theorem long_client_id_not_unique:
  assumes "NUL \<notin> set cid" "63 \<le> length cid"
  shows "unique_client_id cid p t = take 63 cid"
proof -
  have "copy_str 128 (cid @ ''_'' @ dec_int p @ ''_'' @ dec_int t) =
      take 127 (cid @ cstr (''_'' @ dec_int p @ ''_'' @ dec_int t))"
    using assms(1) by (simp add: copy_str_def cstr_def takeWhile_append)
  moreover have "NUL \<notin> set (take 127 (cid @ cstr (''_'' @ dec_int p @ ''_'' @ dec_int t)))"
    using assms(1) by (auto dest: in_set_takeD)
  ultimately show ?thesis
    using assms(2) by (simp add: unique_client_id_def copy_str_def cstr_id)
qed

theorem long_client_id_not_unique_witness:
  "unique_client_id (replicate 63 (CHR ''x'')) 1 2 = unique_client_id (replicate 63 (CHR ''x'')) 7 9"
  using long_client_id_not_unique [of "replicate 63 (CHR ''x'')"] by simp

section \<open>Initialisation and release\<close>

text \<open>C11: An initialisation that succeeds followed by a release gives every block back and has
  created, equipped and destroyed exactly one client; an initialisation that fails leaves no
  context block behind.\<close>

theorem init_release_balanced:
  assumes "idle_ok p w" "proto_driver_init env (Some p) w = Some (rc, Some q, w1)"
  shows "if rc = PROTO_SUCCESS
    then \<exists>w2 q2 uri cid a. proto_driver_release env (Some q) w1 = Some (Some q2, w2) \<and>
      ctx_heap w2 = Map.empty \<and> cfg_heap w2 = Map.empty \<and>
      ctx_userdata q2 = None \<and> ctx_config q2 = None \<and>
      (\<exists>h. paho_calls w2 = paho_calls w @ [Create uri cid, SetCallbacks (Some h) a, Destroy (Some h)])
    else ctx_heap w1 = Map.empty \<and> ctx_userdata q = None"
proof (cases rule: init_config_cases [OF assms(1), of env])
  case (1 w')
  then show ?thesis
    using assms(2) by (auto simp: proto_driver_init_def idle_ok_def driver_ok_def code_consts)
next
  case (2 ca w' cfg)
  have idle: "ctx_heap w' = Map.empty" "ctx_userdata p = None" "paho_calls w' = paho_calls w"
    using 2 by (auto simp: idle_ok_def driver_ok_def init_config_def Let_def split: if_splits option.splits prod.splits)
  have "get_connect_status (Some (next_addr w')) w1 \<noteq> Some CON_OK"
    using assms(2) 2 idle by (auto simp: proto_driver_init_def Let_def fresh_mqtt_ctx_def get_connect_status_def
        code_consts split: if_splits)
  then show ?thesis
    using assms(2) 2 idle
    by (auto simp: proto_driver_init_def proto_driver_release_def Let_def code_consts get_connect_status_def
        split: if_splits)
qed

theorem init_release_balanced_witness:
  "\<exists>q w1 w2 q2. proto_driver_init sample_env (Some (g_mqtt_ctx (plc_start sample_world))) sample_world =
      Some (PROTO_SUCCESS, Some q, w1) \<and>
    proto_driver_release sample_env (Some q) w1 = Some (Some q2, w2) \<and> ctx_heap w2 = Map.empty"
proof -
  let ?p = "g_mqtt_ctx (plc_start sample_world)"
  have idle: "idle_ok ?p sample_world"
    by (simp add: idle_ok_def driver_ok_def plc_start_def sample_world_def)
  have ld: "load_mqtt_config_from_yaml (config_file sample_world) = (0, sample_config)"
    by (rule sample_load)
  obtain rc q w1 where i: "proto_driver_init sample_env (Some ?p) sample_world = Some (rc, Some q, w1)"
    using proto_driver_init_safe [OF idle] by blast
  have "rc = PROTO_SUCCESS"
    using i by (auto simp: proto_driver_init_def init_config_def ld plc_start_def sample_env_def Let_def
        fresh_mqtt_ctx_def code_consts)
  with init_release_balanced [OF idle i] i show ?thesis by auto
qed

section \<open>The first calls of a process\<close>



section \<open>The configuration monitor\<close>

text \<open>C12: While the file exists and nobody stops it, the monitor reloads exactly as often as the
  modification time it polls changes (the number of runs of equal times, less the one it started
  with), remembers the last one, and keeps running.\<close>

theorem monitor_reloads_once_per_change:
  assumes "hc_on_changed g \<noteq> None"
  shows "hot_config_monitor_thread (Some t) (map calm_poll ts) g =
    (length (remdups_adj (t # ts)) - 1, g\<lparr>hc_last_mtime := last (t # ts)\<rparr>, False)"
  using assms monitor_loop_calm [of "g\<lparr>hc_last_mtime := t\<rparr>" ts]
  by (simp add: hot_config_monitor_thread_def changes_remdups_adj [symmetric])

theorem monitor_reloads_once_per_change_witness:
  "fst (hot_config_monitor_thread (Some 10) (map calm_poll [10, 12, 12, 10])
     (hot_config_zero\<lparr>hc_on_changed := Some 1\<rparr>)) = 2"
  using monitor_reloads_once_per_change [of "hot_config_zero\<lparr>hc_on_changed := Some 1\<rparr>" 10 "[10, 12, 12, 10]"]
  by simp

text \<open>A failed start of the monitor (mutex, missing file or thread) leaves \<open>running\<close> set although
  there is no thread and no mutex: the monitor reports that it is running, and the cleanup that
  follows destroys a mutex that does not exist.\<close>

theorem failed_monitor_start_looks_running:
  assumes "hot_config_init env (Some path) (Some f) ud g = (-1, g')"
  shows "hot_config_is_running g' \<and> \<not> hc_thread g' \<and> hot_config_cleanup g' = None"
  using assms
  by (auto simp: hot_config_init_def Let_def hot_config_is_running_def hot_config_zero_def
      hot_config_cleanup_def mutex_destroy_def split: if_splits)

theorem failed_monitor_start_looks_running_witness:
  "\<exists>g'. hot_config_init \<lparr>mutex_init_ok = True, stat_mtime = None, thread_create_ok = True\<rparr>
      (Some ''/c'') (Some 1) None hot_config_zero = (-1, g') \<and> hot_config_is_running g'"
proof -
  let ?env = "\<lparr>mutex_init_ok = True, stat_mtime = None, thread_create_ok = True\<rparr>"
  obtain g' where g': "hot_config_init ?env (Some ''/c'') (Some 1) None hot_config_zero = (-1, g')"
    by (simp add: hot_config_init_def Let_def)
  from failed_monitor_start_looks_running [OF this] g' show ?thesis by blast
qed

end
