(* ===== verification/Mqtt_Json.thy ===== *)
theory Mqtt_Json
  imports Mqtt_Types
begin

text \<open>
  The formatter of JSON payloads (\<open>ensure_json_object_initialized\<close>,
  \<open>json_append_before_closing_brace\<close> and \<open>mqtt_data_format\<close> of \<open>plc_mqtt_entry.c\<close>). The destination
  is a buffer of \<open>MAX_MESSAGE_SIZE\<close> bytes, given as the C string it holds. The specification is an
  object, a list of members, and the formatter appends one member to it or leaves it alone.
\<close>

section \<open>The formatter\<close>

text \<open>Results are the code and the string left in \<open>dst\<close>.\<close>

definition ensure_json_object_initialized :: "string \<Rightarrow> nat \<Rightarrow> int \<times> string" where
  "ensure_json_object_initialized dst cap =
     (if cap < 2 then (-1, dst)
      else if dst = [] then (if cap < 3 then (-1, dst) else (0, ''{}''))
      else (0, dst))"

definition json_append_before_closing_brace :: "string \<Rightarrow> nat \<Rightarrow> string \<Rightarrow> int \<times> string" where
  "json_append_before_closing_brace dst cap snippet =
     (let len = length dst in
      if len < 2 \<or> hd dst \<noteq> CHR ''{'' \<or> last dst \<noteq> CHR ''}'' then (-1, dst)
      else let needs_comma = (2 < len);
               need = (len - 1) + (if needs_comma then 1 else 0) + length snippet + 1 + 1
           in if cap < need then (-1, dst)
              else (0, butlast dst @ (if needs_comma then '','' else []) @ snippet @ ''}''))"

text \<open>The value behind \<open>data_ptr\<close>, by the type it was stored with. A finite \<open>float\<close> is a sign, a
  mantissa and a binary exponent.\<close>

datatype c_float = FFinite bool nat int | FInf bool | FNan bool

datatype data_cell = IntCell int | FloatCell c_float | StringCell string

datatype type_data = ENUM_INT32 | ENUM_FLOAT | ENUM_STRING | ENUM_BOOL | ENUM_OTHER

text \<open>\<open>"%.6f"\<close>: the exact value, rounded half to even at the sixth decimal.\<close>

definition scaled_e6 :: "nat \<Rightarrow> int \<Rightarrow> nat" where
  "scaled_e6 m e =
     (if 0 \<le> e then m * 2 ^ nat e * 10 ^ 6
      else let num = m * 10 ^ 6; den = 2 ^ nat (- e); q = num div den; r = num mod den
           in if den < 2 * r \<or> den = 2 * r \<and> odd q then q + 1 else q)"

definition pad6 :: "nat \<Rightarrow> string" where
  "pad6 n = replicate (6 - length (dec_nat n)) (CHR ''0'') @ dec_nat n"

fun fmt_6f :: "c_float \<Rightarrow> string" where
  "fmt_6f (FFinite neg m e) =
     (let n = scaled_e6 m e in (if neg then ''-'' else []) @ dec_nat (n div 10 ^ 6) @ ''.'' @ pad6 (n mod 10 ^ 6))"
| "fmt_6f (FInf neg) = (if neg then ''-inf'' else ''inf'')"
| "fmt_6f (FNan neg) = (if neg then ''-nan'' else ''nan'')"

text \<open>The escaping loop over the bytes of the string, into \<open>char buf[200]\<close>: quotes get a backslash,
  control characters are dropped, a full buffer ends the loop.\<close>

fun escape_loop :: "string \<Rightarrow> string \<Rightarrow> string" where
  "escape_loop [] buf = buf"
| "escape_loop (c # cs) buf =
     (if length buf + 2 < 200
      then escape_loop cs
             (if c = CHR 0x22 then buf @ [CHR 0x5C, CHR 0x22]
              else if (of_char c :: nat) < 0x20 then buf
              else buf @ [c])
      else buf)"

definition json_key :: "string \<Rightarrow> string" where
  "json_key key = CHR 0x22 # key @ [CHR 0x22, CHR '':'', CHR '' '']"

text \<open>The text of the value for each type; \<open>None\<close> where the pointer and the type disagree (reading an
  object through the wrong type is undefined), \<open>Inl\<close> an early return.\<close>

definition json_value :: "data_cell option \<Rightarrow> type_data \<Rightarrow> (int + string) option" where
  "json_value data_ptr type =
     (case type of
        ENUM_INT32 \<Rightarrow>
          (case data_ptr of None \<Rightarrow> Some (Inl PROTO_ERROR_PARAM)
           | Some (IntCell v) \<Rightarrow> Some (Inr (dec_int v)) | _ \<Rightarrow> None)
      | ENUM_FLOAT \<Rightarrow>
          (case data_ptr of None \<Rightarrow> Some (Inl PROTO_ERROR_PARAM)
           | Some (FloatCell v) \<Rightarrow> Some (Inr (fmt_6f v)) | _ \<Rightarrow> None)
      | ENUM_BOOL \<Rightarrow>
          (case data_ptr of None \<Rightarrow> Some (Inl PROTO_ERROR_PARAM)
           | Some (IntCell v) \<Rightarrow> Some (Inr (if v \<noteq> 0 then ''true'' else ''false'')) | _ \<Rightarrow> None)
      | ENUM_STRING \<Rightarrow>
          (case data_ptr of None \<Rightarrow> Some (Inl PROTO_ERROR_PARAM)
           | Some (StringCell s) \<Rightarrow>
               Some (Inr (CHR 0x22 # escape_loop (cstr s) [] @ [CHR 0x22])) | _ \<Rightarrow> None)
      | ENUM_OTHER \<Rightarrow> Some (Inl PROTO_ERROR_UNSUPPORTED))"

definition mqtt_data_format ::
  "string option \<Rightarrow> data_cell option \<Rightarrow> type_data \<Rightarrow> string option \<Rightarrow> (int \<times> string option) option" where
  "mqtt_data_format key data_ptr type dst =
     (case (key, dst) of
        (Some key, Some dst) \<Rightarrow>
          if key = [] then Some (PROTO_ERROR_PARAM, Some dst)
          else
            (let cap = MAX_MESSAGE_SIZE;
                 (rc, dst) = ensure_json_object_initialized dst cap
             in if rc \<noteq> 0 then Some (PROTO_ERROR_WRITE, Some dst)
                else
                  (case json_value data_ptr type of
                     None \<Rightarrow> None
                   | Some (Inl code) \<Rightarrow> Some (code, Some dst)
                   | Some (Inr val) \<Rightarrow>
                       (let snippet = json_key key @ val in
                        if 256 \<le> length snippet then Some (PROTO_ERROR_WRITE, Some dst)
                        else (let (rc, dst) = json_append_before_closing_brace dst cap snippet
                              in if rc \<noteq> 0 then Some (PROTO_ERROR_WRITE, Some dst)
                                 else Some (PROTO_SUCCESS, Some dst)))))
      | _ \<Rightarrow> Some (PROTO_ERROR_PARAM, dst))"

section \<open>Objects\<close>

text \<open>An object is its members' texts, in order; the formatter's output is their rendering.\<close>

fun intercalate :: "string \<Rightarrow> string list \<Rightarrow> string" where
  "intercalate sep [] = []"
| "intercalate sep [x] = x"
| "intercalate sep (x # xs) = x @ sep @ intercalate sep xs"

definition json_object :: "string list \<Rightarrow> string" where
  "json_object ms = ''{'' @ intercalate '','' ms @ ''}''"

lemma intercalate_snoc:
  "intercalate sep (ms @ [m]) = (if ms = [] then m else intercalate sep ms @ sep @ m)"
proof (induction ms)
  case (Cons x ms)
  then show ?case by (cases ms) auto
qed simp

lemma intercalate_nonempty: "ms \<noteq> [] \<Longrightarrow> [] \<notin> set ms \<Longrightarrow> intercalate sep ms \<noteq> []"
  by (induction sep ms rule: intercalate.induct) auto

lemma append_member:
  assumes "[] \<notin> set ms"
  shows "json_append_before_closing_brace (json_object ms) cap m =
     (if length (json_object (ms @ [m])) < cap then (0, json_object (ms @ [m])) else (-1, json_object ms))"
proof (cases "ms = []")
  case True
  then show ?thesis
    by (auto simp: json_append_before_closing_brace_def json_object_def butlast_append)
next
  case False
  with assms have "intercalate '','' ms \<noteq> []" by (rule intercalate_nonempty [rotated])
  then obtain x xs where "intercalate '','' ms = x # xs" by (cases "intercalate '','' ms") auto
  with False show ?thesis
    by (auto simp: json_append_before_closing_brace_def json_object_def intercalate_snoc butlast_append Let_def)
qed

lemma ensure_object:
  assumes "[] \<notin> set ms" "dst = json_object ms \<or> ms = [] \<and> dst = []"
  shows "ensure_json_object_initialized dst MAX_MESSAGE_SIZE = (0, json_object ms)"
  using assms by (auto simp: ensure_json_object_initialized_def json_object_def code_consts)

section \<open>Reading strings back\<close>

text \<open>A JSON string from behind its opening quote: its characters and what follows the closing
  quote. Of the escapes the formatter writes only the quote.\<close>

fun read_json_string :: "string \<Rightarrow> (string \<times> string) option" where
  "read_json_string [] = None"
| "read_json_string (c # cs) =
     (if c = CHR 0x22 then Some ([], cs)
      else if c = CHR 0x5C then
        (case cs of [] \<Rightarrow> None
         | d # ds \<Rightarrow>
             if d = CHR 0x22 \<or> d = CHR 0x5C \<or> d = CHR ''/''
             then map_option (\<lambda>(s, rest). (d # s, rest)) (read_json_string ds) else None)
      else if (of_char c :: nat) < 0x20 then None
      else map_option (\<lambda>(s, rest). (c # s, rest)) (read_json_string cs))"

definition escaped_length :: "string \<Rightarrow> nat" where
  "escaped_length s = length s + length (filter (\<lambda>c. c = CHR 0x22) s)"

text \<open>A string the formatter can carry: no control characters, no backslash, short enough.\<close>

definition plain_text :: "string \<Rightarrow> bool" where
  "plain_text s \<longleftrightarrow> (\<forall>c \<in> set s. 0x20 \<le> (of_char c :: nat) \<and> c \<noteq> CHR 0x5C)"

fun escaped :: "string \<Rightarrow> string" where
  "escaped [] = []"
| "escaped (c # cs) = (if c = CHR 0x22 then [CHR 0x5C, CHR 0x22] else [c]) @ escaped cs"

lemma escape_loop_append:
  assumes "plain_text s" "length buf + escaped_length s \<le> 198"
  shows "escape_loop (s @ t) buf = escape_loop t (buf @ escaped s)"
  using assms
proof (induction s arbitrary: buf)
  case (Cons c cs)
  have plain: "plain_text cs" "\<not> (of_char c :: nat) < 0x20"
    using Cons.prems(1) by (simp_all add: plain_text_def)
  have len: "length buf + 2 < 200" "c = CHR 0x22 \<longrightarrow> length buf + 2 + escaped_length cs \<le> 198"
    "c \<noteq> CHR 0x22 \<longrightarrow> length buf + 1 + escaped_length cs \<le> 198"
    using Cons.prems(2) by (simp_all add: escaped_length_def split: if_splits)
  show ?case
  proof (cases "c = CHR 0x22")
    case True
    with plain(1) len have "escape_loop (cs @ t) (buf @ [CHR 0x5C, CHR 0x22]) =
        escape_loop t ((buf @ [CHR 0x5C, CHR 0x22]) @ escaped cs)"
      by (intro Cons.IH) simp_all
    with True len(1) show ?thesis
      by (simp only: append_Cons escape_loop.simps if_True escaped.simps append_assoc simp_thms)
  next
    case False
    with plain(1) len have "escape_loop (cs @ t) (buf @ [c]) = escape_loop t ((buf @ [c]) @ escaped cs)"
      by (intro Cons.IH) simp_all
    with False len(1) plain(2) show ?thesis
      by (simp only: append_Cons escape_loop.simps if_True if_False escaped.simps append_assoc)
  qed
qed simp

lemma escape_loop_plain:
  assumes "plain_text s" "length buf + escaped_length s \<le> 198"
  shows "escape_loop s buf = buf @ escaped s"
  using escape_loop_append [OF assms, of "[]"] by simp

lemma length_escaped [simp]: "length (escaped s) = escaped_length s"
  by (induction s) (auto simp: escaped_length_def)

lemma read_escaped:
  "plain_text s \<Longrightarrow> read_json_string (escaped s @ CHR 0x22 # rest) = Some (s, rest)"
  by (induction s) (auto simp: plain_text_def)

lemma read_escaped_open:
  "plain_text s \<Longrightarrow> read_json_string t = None \<Longrightarrow> read_json_string (escaped s @ t) = None"
  by (induction s) (auto simp: plain_text_def)

lemma escape_loop_bound: "length buf < 200 \<Longrightarrow> length (escape_loop s buf) < 200"
  by (induction s arbitrary: buf) auto

section \<open>Properties\<close>

lemma json_value_nonempty: "json_value d ty = Some (Inr val) \<Longrightarrow> json_key key @ val \<noteq> []"
  by (simp add: json_key_def)

text \<open>C10: The formatter implements appending a member to an object: from the empty string or an
  object, it either succeeds and leaves the object with one more member \<open>"key": value\<close> at its end,
  or reports an error and leaves the object as it was (an empty string becomes the empty object).
  It succeeds exactly when the member has at most 255 bytes and the new object fits the 1024 bytes
  of the buffer with its terminator, so it never writes past the buffer.\<close>

theorem format_appends_one_member:
  assumes "key \<noteq> []" "[] \<notin> set ms" "dst = json_object ms \<or> ms = [] \<and> dst = []"
    and "json_value data_ptr type = Some (Inr val)"
  shows "mqtt_data_format (Some key) data_ptr type (Some dst) =
    (if length (json_key key @ val) < 256 \<and>
        length (json_object (ms @ [json_key key @ val])) < MAX_MESSAGE_SIZE
     then Some (PROTO_SUCCESS, Some (json_object (ms @ [json_key key @ val])))
     else Some (PROTO_ERROR_WRITE, Some (json_object ms)))"
  using assms(1,4)
  by (simp add: mqtt_data_format_def ensure_object [OF assms(2,3)] append_member [OF assms(2)])

theorem format_appends_one_member_witness:
  "mqtt_data_format (Some ''t'') (Some (IntCell 21)) ENUM_INT32 (Some ''{}'') =
     Some (PROTO_SUCCESS, Some (json_object [json_key ''t'' @ dec_int 21]))"
  using format_appends_one_member [of "''t''" "[]" "''{}''" "Some (IntCell 21)" ENUM_INT32 "dec_int 21"]
    length_dec_int [of 21 2]
  by (simp add: json_object_def json_value_def json_key_def code_consts)

text \<open>C13: A string without control characters and backslashes whose escaped form has at most 198
  bytes survives the formatter: reading the value back as a JSON string gives exactly the string,
  and the reader stops at the closing quote.\<close>

theorem string_value_reads_back:
  assumes "plain_text s" "NUL \<notin> set s" "escaped_length s \<le> 198"
    and "json_value (Some (StringCell s)) ENUM_STRING = Some (Inr val)"
  shows "hd val = CHR 0x22 \<and> read_json_string (tl val @ rest) = Some (s, rest)"
  using assms read_escaped [OF assms(1), of rest]
  by (auto simp: json_value_def cstr_id escape_loop_plain)

theorem string_value_reads_back_witness:
  "\<exists>val. json_value (Some (StringCell ''say \"hi\"'')) ENUM_STRING = Some (Inr val) \<and>
     read_json_string (tl val @ '', ...'') = Some (''say \"hi\"'', '', ...'')"
proof -
  obtain val where "json_value (Some (StringCell ''say \"hi\"'')) ENUM_STRING = Some (Inr val)"
    by (simp add: json_value_def)
  then show ?thesis
    using string_value_reads_back [of "''say \"hi\"''" val "'', ...''"]
    by (simp add: plain_text_def escaped_length_def)
qed

text \<open>A backslash is not escaped: the value of a string that ends in one has no closing quote of
  its own, so that the object is not readable from there on.\<close>

theorem trailing_backslash_breaks_the_value:
  assumes "plain_text s" "NUL \<notin> set s" "escaped_length s \<le> 197"
  shows "json_value (Some (StringCell (s @ [CHR 0x5C]))) ENUM_STRING =
      Some (Inr (CHR 0x22 # escaped s @ [CHR 0x5C, CHR 0x22])) \<and>
    read_json_string (escaped s @ [CHR 0x5C, CHR 0x22] @ ''}'') = None"
proof -
  have "NUL \<notin> set (s @ [CHR 0x5C])" using assms(2) by simp
  moreover have "escape_loop (s @ [CHR 0x5C]) [] = escaped s @ [CHR 0x5C]"
    using escape_loop_append [of s "[]" "[CHR 0x5C]"] assms(1,3) by simp
  ultimately show ?thesis
    using read_escaped_open [OF assms(1), of "[CHR 0x5C, CHR 0x22] @ ''}''"]
    by (simp add: json_value_def cstr_id)
qed

theorem trailing_backslash_breaks_the_value_witness:
  "read_json_string (escaped ''C:'' @ [CHR 0x5C, CHR 0x22] @ ''}'') = None"
  using trailing_backslash_breaks_the_value [of "''C:''"]
  by (simp add: plain_text_def escaped_length_def)

end
