(* ===== verification/Mqtt_Legacy.thy ===== *)
theory Mqtt_Legacy
  imports Mqtt_Types
begin

text \<open>
  The synchronous MQTT driver (\<open>proto_mqtt.c\<close>), which keeps the last message in a global buffer.
  Its calls of the library (\<open>MQTTClient.h\<close>) are recorded in order; what the library returns is a
  parameter. The result \<open>None\<close> is a memory fault (a null configuration), and a read that waits for a
  message is the result \<open>Blocked\<close>.
\<close>

section \<open>State\<close>

datatype client_call =
    CreateClient string string
  | SetClientCallbacks nat
  | ConnectClient nat int int string string
  | SubscribeClient nat string int
  | DisconnectClient nat int
  | PublishClient "nat option" string buffer nat int int
  | WaitClient "nat option" int
  | DestroyClient nat
  | FreeClientMessage
  | FreeClientTopic

record legacy_state =
  g_last_message :: buffer
  g_has_new_message :: bool
  client_calls :: "client_call list"

record legacy_ctx =
  lc_client :: "nat option"
  lc_config :: "mqtt_config option"

record legacy_env =
  client_rc :: "legacy_state \<Rightarrow> client_call \<Rightarrow> int"
  client_handle :: "legacy_state \<Rightarrow> nat"

definition MQTTCLIENT_SUCCESS :: int where [code_consts]: "MQTTCLIENT_SUCCESS = 0"

definition call_client :: "client_call \<Rightarrow> legacy_state \<Rightarrow> legacy_state" where
  "call_client c s = s\<lparr>client_calls := client_calls s @ [c]\<rparr>"

definition legacy_start :: legacy_state where
  "legacy_start = \<lparr>g_last_message = replicate MAX_MESSAGE_SIZE NUL, g_has_new_message = False, client_calls = []\<rparr>"

section \<open>Operations\<close>

definition legacy_messageArrived :: "buffer \<Rightarrow> int \<Rightarrow> legacy_state \<Rightarrow> int \<times> legacy_state" where
  "legacy_messageArrived payload payloadlen s =
     (let s = (if 0 < payloadlen \<and> payloadlen < int MAX_MESSAGE_SIZE
               then s\<lparr>g_last_message := (memcpy (g_last_message s) payload (nat payloadlen))[nat payloadlen := NUL],
                      g_has_new_message := True\<rparr>
               else s)
      in (1, call_client FreeClientTopic (call_client FreeClientMessage s)))"

definition legacy_driver_init ::
  "legacy_env \<Rightarrow> legacy_ctx option \<Rightarrow> legacy_state \<Rightarrow> int \<times> legacy_ctx option \<times> legacy_state" where
  "legacy_driver_init env ctx s =
     (case ctx of
        None \<Rightarrow> (PROTO_ERROR_PARAM, ctx, s)
      | Some c \<Rightarrow>
          (case lc_config c of
             None \<Rightarrow> (PROTO_ERROR_PARAM, ctx, s)
           | Some cfg \<Rightarrow>
               (let call = CreateClient (broker cfg) (client_id cfg);
                    rc = client_rc env s call; h = client_handle env s;
                    s = call_client call s
                in if rc \<noteq> MQTTCLIENT_SUCCESS then (PROTO_ERROR_INIT, ctx, s)
                   else (PROTO_SUCCESS, Some (c\<lparr>lc_client := Some h\<rparr>), call_client (SetClientCallbacks h) s))))"

definition legacy_driver_release :: "legacy_ctx option \<Rightarrow> legacy_state \<Rightarrow> legacy_ctx option \<times> legacy_state" where
  "legacy_driver_release ctx s =
     (case ctx of
        None \<Rightarrow> (ctx, s)
      | Some c \<Rightarrow>
          (case lc_client c of
             None \<Rightarrow> (ctx, s)
           | Some h \<Rightarrow> (Some (c\<lparr>lc_client := None\<rparr>), call_client (DestroyClient h) s)))"

definition legacy_connect :: "legacy_env \<Rightarrow> legacy_ctx option \<Rightarrow> legacy_state \<Rightarrow> (int \<times> legacy_state) option" where
  "legacy_connect env ctx s =
     (case ctx of
        None \<Rightarrow> Some (PROTO_ERROR_PARAM, s)
      | Some c \<Rightarrow>
          (case lc_client c of
             None \<Rightarrow> Some (PROTO_ERROR_PARAM, s)
           | Some h \<Rightarrow> do {
               cfg \<leftarrow> lc_config c;
               let call = ConnectClient h 20 1 (username cfg) (password cfg);
               let rc = client_rc env s call;
               let s = call_client call s;
               if rc \<noteq> MQTTCLIENT_SUCCESS then Some (PROTO_ERROR_CONNECT, s)
               else do {
                 let call = SubscribeClient h (sub_topic cfg) 1;
                 let rc = client_rc env s call;
                 let s = call_client call s;
                 Some (if rc \<noteq> MQTTCLIENT_SUCCESS then PROTO_ERROR_CONNECT else PROTO_SUCCESS, s)
               }
             }))"

definition legacy_disconnect :: "legacy_ctx option \<Rightarrow> legacy_state \<Rightarrow> legacy_state" where
  "legacy_disconnect ctx s =
     (case ctx of
        None \<Rightarrow> s
      | Some c \<Rightarrow> (case lc_client c of None \<Rightarrow> s | Some h \<Rightarrow> call_client (DisconnectClient h 1000) s))"

definition legacy_write ::
  "legacy_env \<Rightarrow> legacy_ctx option \<Rightarrow> buffer proto_request option \<Rightarrow> legacy_state \<Rightarrow> (int \<times> legacy_state) option" where
  "legacy_write env ctx req s =
     (case (ctx, req) of
        (Some c, Some r) \<Rightarrow>
          (case req_value r of
             None \<Rightarrow> Some (PROTO_ERROR_PARAM, s)
           | Some v \<Rightarrow> do {
               cfg \<leftarrow> lc_config c;
               let call = PublishClient (lc_client c) (pub_topic cfg) v (strlen v) 1 0;
               let rc = client_rc env s call;
               let s = call_client call s;
               if rc \<noteq> MQTTCLIENT_SUCCESS then Some (PROTO_ERROR_WRITE, s)
               else Some (PROTO_SUCCESS, call_client (WaitClient (lc_client c) (timeout_ms cfg)) s)
             })
      | _ \<Rightarrow> Some (PROTO_ERROR_PARAM, s))"

datatype read_outcome = Blocked | Returned int "buffer proto_request option" legacy_state

definition legacy_read ::
  "legacy_ctx option \<Rightarrow> buffer proto_request option \<Rightarrow> legacy_state \<Rightarrow> read_outcome" where
  "legacy_read ctx req s =
     (case (ctx, req) of
        (Some c, Some r) \<Rightarrow>
          (case req_value r of
             None \<Rightarrow> Returned PROTO_ERROR_PARAM req s
           | Some v \<Rightarrow>
               if req_quantity r = 0 then Returned PROTO_ERROR_PARAM req s
               else if \<not> g_has_new_message s then Blocked
               else (let copy_len = min (unat (req_quantity r)) MAX_MESSAGE_SIZE
                     in Returned PROTO_SUCCESS
                          (Some (r\<lparr>req_value := Some (strncpy v (cstr (g_last_message s)) copy_len)\<rparr>))
                          (s\<lparr>g_has_new_message := False\<rparr>)))
      | _ \<Rightarrow> Returned PROTO_ERROR_PARAM req s)"

section \<open>The last message\<close>

definition legacy_ok :: "legacy_state \<Rightarrow> bool" where
  "legacy_ok s \<longleftrightarrow> length (g_last_message s) = MAX_MESSAGE_SIZE"

lemma call_client_sel [simp]:
  "g_last_message (call_client c s) = g_last_message s" "g_has_new_message (call_client c s) = g_has_new_message s"
  by (simp_all add: call_client_def)

lemma arrived_last:
  assumes "legacy_ok s" "0 < n" "n < MAX_MESSAGE_SIZE" "n \<le> length payload"
  shows "cstr (g_last_message (snd (legacy_messageArrived payload (int n) s))) = cstr (take n payload)"
    "g_has_new_message (snd (legacy_messageArrived payload (int n) s))"
    "legacy_ok (snd (legacy_messageArrived payload (int n) s))"
proof -
  have "length (memcpy (g_last_message s) payload n) = MAX_MESSAGE_SIZE"
    using assms by (simp add: length_memcpy legacy_ok_def)
  with assms show "cstr (g_last_message (snd (legacy_messageArrived payload (int n) s))) = cstr (take n payload)"
    "legacy_ok (snd (legacy_messageArrived payload (int n) s))"
    by (simp_all add: legacy_messageArrived_def cstr_truncate_at cstr_take [symmetric] take_memcpy legacy_ok_def)
  show "g_has_new_message (snd (legacy_messageArrived payload (int n) s))"
    using assms by (simp add: legacy_messageArrived_def)
qed

text \<open>The synchronous driver gives a reader the last message that arrived: for a message of 1 to
  1023 bytes, the next read returns at once and fills the first \<open>quantity\<close> bytes of the caller's
  buffer with the message text, padded with NULs; when the text is shorter than \<open>quantity\<close>, the buffer
  holds exactly that text, and the read after it waits.\<close>

theorem legacy_read_returns_last_message:
  assumes "legacy_ok s" "0 < n" "n < MAX_MESSAGE_SIZE" "n \<le> length payload"
    and "req_value r = Some v" "req_quantity r \<noteq> 0" "unat (req_quantity r) \<le> MAX_MESSAGE_SIZE"
    and "unat (req_quantity r) \<le> length v"
  shows "\<exists>v' s'. legacy_read (Some c) (Some r) (snd (legacy_messageArrived payload (int n) s)) =
       Returned PROTO_SUCCESS (Some (r\<lparr>req_value := Some v'\<rparr>)) s' \<and>
     length v' = length v \<and>
     take (unat (req_quantity r)) v' =
       take (unat (req_quantity r)) (cstr (take n payload) @ replicate (unat (req_quantity r)) NUL) \<and>
     (length (cstr (take n payload)) < unat (req_quantity r) \<longrightarrow> cstr v' = cstr (take n payload)) \<and>
     legacy_read (Some c) (Some r) s' = Blocked"
proof -
  let ?s = "snd (legacy_messageArrived payload (int n) s)"
  let ?q = "unat (req_quantity r)" and ?t = "cstr (take n payload)"
  let ?v = "strncpy v ?t ?q"
  have min: "min ?q MAX_MESSAGE_SIZE = ?q" using assms(7) by simp
  have run: "legacy_read (Some c) (Some r) ?s =
      Returned PROTO_SUCCESS (Some (r\<lparr>req_value := Some ?v\<rparr>)) (?s\<lparr>g_has_new_message := False\<rparr>)"
    using assms(5,6) arrived_last [OF assms(1-4)] min by (simp add: legacy_read_def Let_def)
  have "cstr ?v = ?t" if "length ?t < ?q"
  proof -
    from that obtain m where "?q - length ?t = Suc m" by (metis Suc_diff_Suc)
    then show ?thesis
      using that cstr_before_NUL [of ?t "replicate m NUL @ drop ?q v"] by (simp add: strncpy_def)
  qed
  moreover have "take ?q ?v = take ?q (?t @ replicate ?q NUL)"
    by (simp add: strncpy_def)
  moreover have "legacy_read (Some c) (Some r) (?s\<lparr>g_has_new_message := False\<rparr>) = Blocked"
    using assms(5,6) by (simp add: legacy_read_def)
  ultimately show ?thesis using run assms(8) by (auto simp: length_strncpy)
qed

theorem legacy_read_returns_last_message_witness:
  "\<exists>v' s'. legacy_read (Some \<lparr>lc_client = Some 1, lc_config = None\<rparr>)
      (Some \<lparr>resource_name = '''', req_address = 0, req_quantity = 8, req_value = Some (replicate 8 NUL)\<rparr>)
      (snd (legacy_messageArrived ''on'' 2 legacy_start)) =
     Returned PROTO_SUCCESS (Some \<lparr>resource_name = '''', req_address = 0, req_quantity = 8, req_value = Some v'\<rparr>) s' \<and>
     cstr v' = ''on''"
  using legacy_read_returns_last_message [of legacy_start 2 "''on''"
      "\<lparr>resource_name = '''', req_address = 0, req_quantity = 8, req_value = Some (replicate 8 NUL)\<rparr>"
      "replicate 8 NUL" "\<lparr>lc_client = Some 1, lc_config = None\<rparr>"]
  by (auto simp: legacy_ok_def legacy_start_def code_consts cstr_def)

end
