(* ===== verification/Modbus.thy ===== *)
theory Modbus
  imports Proto_Common
begin

text \<open>
  The Modbus driver (\<open>impl/modbus/src/proto_modbus.c\<close>), a thin layer over \<open>libmodbus\<close>. The library
  and the device behind it are a parameter: a record of the functions the driver calls, over a
  device state of any type.
\<close>

section \<open>The library\<close>

record modbus_config =
  mb_ip :: string
  mb_port :: int
  mb_slave_id :: int

text \<open>\<open>modbus_new_tcp\<close> and \<open>modbus_set_slave\<close>, \<open>modbus_connect\<close>, \<open>modbus_close\<close>,
  \<open>modbus_free\<close>, and the two register operations: the number of registers transferred (or -1), with
  the registers read or the device after the write.\<close>

record 'd modbus_lib =
  mb_new_tcp :: "string \<Rightarrow> int \<Rightarrow> 'd \<Rightarrow> nat option \<times> 'd"
  mb_set_slave :: "nat \<Rightarrow> int \<Rightarrow> 'd \<Rightarrow> 'd"
  mb_connect :: "nat \<Rightarrow> 'd \<Rightarrow> int \<times> 'd"
  mb_close :: "nat \<Rightarrow> 'd \<Rightarrow> 'd"
  mb_free :: "nat \<Rightarrow> 'd \<Rightarrow> 'd"
  mb_read_registers :: "nat \<Rightarrow> u16 \<Rightarrow> u16 \<Rightarrow> u16 list option \<Rightarrow> 'd \<Rightarrow> int \<times> u16 list option \<times> 'd"
  mb_write_registers :: "nat \<Rightarrow> u16 \<Rightarrow> u16 \<Rightarrow> u16 list option \<Rightarrow> 'd \<Rightarrow> int \<times> 'd"

record modbus_ctx =
  mc_client :: "nat option"
  mc_config :: "modbus_config option"

section \<open>The driver\<close>

definition modbus_driver_init ::
  "'d modbus_lib \<Rightarrow> modbus_ctx option \<Rightarrow> 'd \<Rightarrow> int \<times> modbus_ctx option \<times> 'd" where
  "modbus_driver_init lib ctx d =
     (case ctx of
        None \<Rightarrow> (PROTO_ERROR_PARAM, ctx, d)
      | Some c \<Rightarrow>
          (case mc_config c of
             None \<Rightarrow> (PROTO_ERROR_PARAM, ctx, d)
           | Some cfg \<Rightarrow>
               (case mb_new_tcp lib (mb_ip cfg) (mb_port cfg) d of
                  (None, d) \<Rightarrow> (PROTO_ERROR_INIT, ctx, d)
                | (Some mb, d) \<Rightarrow>
                    (PROTO_SUCCESS, Some (c\<lparr>mc_client := Some mb\<rparr>), mb_set_slave lib mb (mb_slave_id cfg) d))))"

definition modbus_driver_release :: "'d modbus_lib \<Rightarrow> modbus_ctx option \<Rightarrow> 'd \<Rightarrow> modbus_ctx option \<times> 'd" where
  "modbus_driver_release lib ctx d =
     (case ctx of
        None \<Rightarrow> (ctx, d)
      | Some c \<Rightarrow>
          (case mc_client c of
             None \<Rightarrow> (ctx, d)
           | Some mb \<Rightarrow> (Some (c\<lparr>mc_client := None\<rparr>), mb_free lib mb (mb_close lib mb d))))"

definition modbus_proto_connect :: "'d modbus_lib \<Rightarrow> modbus_ctx option \<Rightarrow> 'd \<Rightarrow> int \<times> 'd" where
  "modbus_proto_connect lib ctx d =
     (case Option.bind ctx mc_client of
        None \<Rightarrow> (PROTO_ERROR_PARAM, d)
      | Some mb \<Rightarrow>
          (let (rc, d) = mb_connect lib mb d in (if rc = -1 then PROTO_ERROR_CONNECT else PROTO_SUCCESS, d)))"

definition modbus_proto_disconnect :: "'d modbus_lib \<Rightarrow> modbus_ctx option \<Rightarrow> 'd \<Rightarrow> 'd" where
  "modbus_proto_disconnect lib ctx d =
     (case Option.bind ctx mc_client of None \<Rightarrow> d | Some mb \<Rightarrow> mb_close lib mb d)"

definition modbus_proto_read ::
  "'d modbus_lib \<Rightarrow> modbus_ctx option \<Rightarrow> u16 list proto_request option \<Rightarrow> 'd
     \<Rightarrow> int \<times> u16 list proto_request option \<times> 'd" where
  "modbus_proto_read lib ctx req d =
     (case (Option.bind ctx mc_client, req) of
        (Some mb, Some r) \<Rightarrow>
          (let (rc, dest, d) = mb_read_registers lib mb (req_address r) (req_quantity r) (req_value r) d
           in (if rc = uint (req_quantity r) then PROTO_SUCCESS else PROTO_ERROR_READ,
               Some (r\<lparr>req_value := dest\<rparr>), d))
      | _ \<Rightarrow> (PROTO_ERROR_PARAM, req, d))"

definition modbus_proto_write ::
  "'d modbus_lib \<Rightarrow> modbus_ctx option \<Rightarrow> u16 list proto_request option \<Rightarrow> 'd \<Rightarrow> int \<times> 'd" where
  "modbus_proto_write lib ctx req d =
     (case (Option.bind ctx mc_client, req) of
        (Some mb, Some r) \<Rightarrow>
          (let (rc, d) = mb_write_registers lib mb (req_address r) (req_quantity r) (req_value r) d
           in (if rc = uint (req_quantity r) then PROTO_SUCCESS else PROTO_ERROR_WRITE, d))
      | _ \<Rightarrow> (PROTO_ERROR_PARAM, d))"

section \<open>Registers\<close>

text \<open>What \<open>libmodbus\<close> documents of its register operations, over a view \<open>reg\<close> of the device: a write that
  transfers all its registers puts them at consecutive addresses, a read that transfers all its
  registers delivers them.\<close>

definition registers_documented :: "'d modbus_lib \<Rightarrow> ('d \<Rightarrow> nat \<Rightarrow> u16) \<Rightarrow> bool" where
  "registers_documented lib reg \<longleftrightarrow>
     (\<forall>mb a n vs d d'. mb_write_registers lib mb a n (Some vs) d = (uint n, d') \<longrightarrow>
        (\<forall>i < unat n. reg d' (unat a + i) = vs ! i)) \<and>
     (\<forall>mb a n v d vs d'. mb_read_registers lib mb a n (Some v) d = (uint n, Some vs, d') \<longrightarrow>
        length vs = length v \<and> (\<forall>i < unat n. vs ! i = reg d (unat a + i)))"

text \<open>C14: Registers written by a write that succeeds are what a following read of the same addresses
  delivers when it succeeds.\<close>

theorem modbus_write_then_read:
  assumes "registers_documented lib reg"
    and "req_address r = req_address q" "req_quantity r = req_quantity q"
    and "req_value q = Some vs" "length vs = unat (req_quantity q)"
    and "req_value r = Some v" "length v = unat (req_quantity r)"
    and "modbus_proto_write lib (Some c) (Some q) d = (PROTO_SUCCESS, d1)"
    and "modbus_proto_read lib (Some c) (Some r) d1 = (PROTO_SUCCESS, Some r', d2)"
    and "req_value r' \<noteq> None"
  shows "req_value r' = Some vs"
proof -
  obtain mb where mb: "mc_client c = Some mb"
    using assms(8) by (auto simp: modbus_proto_write_def code_consts split: option.splits)
  have w: "mb_write_registers lib mb (req_address q) (req_quantity q) (Some vs) d = (uint (req_quantity q), d1)"
    using assms(4,8) mb by (auto simp: modbus_proto_write_def code_consts split: prod.splits if_splits)
  obtain us where us: "req_value r' = Some us" using assms(10) by auto
  have rd: "mb_read_registers lib mb (req_address q) (req_quantity q) (Some v) d1 = (uint (req_quantity q), Some us, d2)"
    using assms(2,3,6,9) mb us by (auto simp: modbus_proto_read_def code_consts split: prod.splits if_splits)
  have "us = vs"
  proof (rule nth_equalityI)
    have "length us = length v"
      using assms(1) rd unfolding registers_documented_def by metis
    then show "length us = length vs" using assms(3,5,7) by simp
    fix i assume "i < length us"
    then have "i < unat (req_quantity q)"
      using \<open>length us = length v\<close> assms(3,7) by simp
    with assms(1) w rd show "us ! i = vs ! i"
      unfolding registers_documented_def by metis
  qed
  with us show ?thesis by simp
qed

definition memory_lib :: "(nat \<Rightarrow> u16) modbus_lib" where
  "memory_lib = \<lparr>mb_new_tcp = (\<lambda>_ _ d. (Some 1, d)), mb_set_slave = (\<lambda>_ _ d. d), mb_connect = (\<lambda>_ d. (0, d)),
     mb_close = (\<lambda>_ d. d), mb_free = (\<lambda>_ d. d),
     mb_read_registers = (\<lambda>_ a n v d.
       (case v of None \<Rightarrow> (-1, None, d)
        | Some v \<Rightarrow> if unat n \<le> length v
            then (uint n, Some (map (\<lambda>i. d (unat a + i)) [0..<unat n] @ drop (unat n) v), d)
            else (-1, Some v, d))),
     mb_write_registers = (\<lambda>_ a n vs d.
       (case vs of None \<Rightarrow> (-1, d)
        | Some vs \<Rightarrow> (uint n, \<lambda>k. if unat a \<le> k \<and> k < unat a + unat n then vs ! (k - unat a) else d k)))\<rparr>"

lemma uint_not_minus_one [simp]: "- 1 \<noteq> uint (n :: u16)" "uint (n :: u16) \<noteq> - 1"
  using uint_ge_0 [of n] by linarith+

lemma memory_lib_documented: "registers_documented memory_lib (\<lambda>d. d)"
  by (auto simp: registers_documented_def memory_lib_def nth_append split: if_splits)

theorem modbus_write_then_read_witness:
  "\<exists>r' d2. modbus_proto_read memory_lib (Some \<lparr>mc_client = Some 1, mc_config = None\<rparr>)
      (Some \<lparr>resource_name = '''', req_address = 10, req_quantity = 2, req_value = Some [0, 0]\<rparr>)
      (snd (modbus_proto_write memory_lib (Some \<lparr>mc_client = Some 1, mc_config = None\<rparr>)
        (Some \<lparr>resource_name = '''', req_address = 10, req_quantity = 2, req_value = Some [7, 9]\<rparr>) (\<lambda>_. 0))) =
     (PROTO_SUCCESS, Some r', d2) \<and> req_value r' = Some [7, 9]"
proof -
  let ?c = "\<lparr>mc_client = Some 1, mc_config = None\<rparr>"
  let ?q = "\<lparr>resource_name = '''', req_address = 10, req_quantity = 2, req_value = Some [7, 9]\<rparr> :: u16 list proto_request"
  let ?r = "\<lparr>resource_name = '''', req_address = 10, req_quantity = 2, req_value = Some [0, 0]\<rparr> :: u16 list proto_request"
  obtain d1 where w: "modbus_proto_write memory_lib (Some ?c) (Some ?q) (\<lambda>_. 0) = (PROTO_SUCCESS, d1)"
    by (simp add: modbus_proto_write_def memory_lib_def)
  obtain r' d2 where r: "modbus_proto_read memory_lib (Some ?c) (Some ?r) d1 = (PROTO_SUCCESS, Some r', d2)"
    "req_value r' \<noteq> None"
    by (simp add: modbus_proto_read_def memory_lib_def)
  have "req_value r' = Some [7, 9]"
    by (rule modbus_write_then_read [where v = "[0, 0]", OF memory_lib_documented _ _ _ _ _ _ w r]) simp_all
  with w r show ?thesis by simp
qed

end
