(* ===== verification/Bacnet_Types.thy ===== *)
theory Bacnet_Types
  imports Proto_Common
begin

text \<open>
  The data of the BACnet driver (\<open>proto_bacnet.h\<close>, \<open>proto_bacnet_internal.hpp\<close>): configuration and
  its defaults, data values, requests, the keys and entries of the tables, the active operation.

  A hash map of the C++ code is an association list; insertion is \<open>AList.update\<close>, \<open>erase\<close> is
  \<open>AList.delete\<close>, and an iteration goes through the list. \<open>float\<close> and \<open>double\<close> values are their
  bit patterns: the driver moves them and never computes with them.
\<close>

unbundle bit_operations_syntax

section \<open>Configuration\<close>

record bacnet_config =
  cf_target_device_start :: u32
  cf_target_device_end :: u32
  cf_whois_retry :: u8
  cf_response_timeout_ms :: u32
  cf_local_instance_id :: u32
  cf_local_max_apdu :: u16
  cf_interface_name :: string
  cf_port :: u16
  cf_broadcast_address :: string
  cf_mstp_port :: string
  cf_mstp_baud :: u32
  cf_mstp_mac :: u8
  cf_mstp_max_master :: u8
  cf_mstp_max_frames :: u8
  cf_read_timeout_ms :: u32
  cf_write_timeout_ms :: u32
  cf_default_priority :: u8
  cf_cache_expiry_ms :: u32
  cf_cache_strategy :: u8
  cf_datalink_maintenance_ms :: u32
  cf_max_reconnect_attempts :: u8
  cf_reconnect_interval_ms :: u32
  cf_hot_config_enabled :: int
  cf_hot_config_polling_ms :: u32

definition BACNET_MAX_INTERFACE_LEN :: nat where [code_consts]: "BACNET_MAX_INTERFACE_LEN = 32"
definition BACNET_MAX_ADDRESS_LEN :: nat where [code_consts]: "BACNET_MAX_ADDRESS_LEN = 48"

text \<open>\<open>BACNET_CONFIG_INIT\<close>: nothing to update.\<close>

definition BACNET_CONFIG_INIT :: bacnet_config where
  "BACNET_CONFIG_INIT =
     \<lparr>cf_target_device_start = 0, cf_target_device_end = 0, cf_whois_retry = 0, cf_response_timeout_ms = 0,
      cf_local_instance_id = 0, cf_local_max_apdu = 0, cf_interface_name = [], cf_port = 0,
      cf_broadcast_address = [], cf_mstp_port = [], cf_mstp_baud = 0, cf_mstp_mac = 0,
      cf_mstp_max_master = 0, cf_mstp_max_frames = 0, cf_read_timeout_ms = 0, cf_write_timeout_ms = 0,
      cf_default_priority = 0, cf_cache_expiry_ms = 0, cf_cache_strategy = 0,
      cf_datalink_maintenance_ms = 0, cf_max_reconnect_attempts = 0, cf_reconnect_interval_ms = 0,
      cf_hot_config_enabled = -1, cf_hot_config_polling_ms = 0\<rparr>"

text \<open>The constants of \<open>bacnet::defaults\<close>.\<close>

definition kTargetDeviceStart :: u32 where [code_consts]: "kTargetDeviceStart = 5678"
definition kTargetDeviceEnd :: u32 where [code_consts]: "kTargetDeviceEnd = 5678"
definition kWhoIsRetry :: u8 where [code_consts]: "kWhoIsRetry = 3"
definition kDiscoveryTimeoutMs :: u32 where [code_consts]: "kDiscoveryTimeoutMs = 5000"
definition kLocalDeviceInstance :: u32 where [code_consts]: "kLocalDeviceInstance = 4194303"
definition kMaxApdu :: u16 where [code_consts]: "kMaxApdu = 1476"
definition kPort :: u16 where [code_consts]: "kPort = 47808"
definition kBroadcastAddress :: string where [code_consts]: "kBroadcastAddress = ''255.255.255.255''"
definition kMstpPort :: string where [code_consts]: "kMstpPort = []"
definition kMstpBaudRate :: u32 where [code_consts]: "kMstpBaudRate = 38400"
definition kMstpMacAddress :: u8 where [code_consts]: "kMstpMacAddress = 1"
definition kMstpMaxMaster :: u8 where [code_consts]: "kMstpMaxMaster = 127"
definition kMstpMaxInfoFrames :: u8 where [code_consts]: "kMstpMaxInfoFrames = 1"
definition kReadTimeoutMs :: u32 where [code_consts]: "kReadTimeoutMs = 6000"
definition kWriteTimeoutMs :: u32 where [code_consts]: "kWriteTimeoutMs = 6000"
definition kDefaultPriority :: u8 where [code_consts]: "kDefaultPriority = 8"
definition kCacheExpiryMs :: u32 where [code_consts]: "kCacheExpiryMs = 1000"
definition kCacheStrategy :: u8 where [code_consts]: "kCacheStrategy = 0"
definition kDatalinkMaintenanceMs :: u32 where [code_consts]: "kDatalinkMaintenanceMs = 1000"
definition kMaxReconnectAttempts :: u8 where [code_consts]: "kMaxReconnectAttempts = 5"
definition kReconnectIntervalMs :: u32 where [code_consts]: "kReconnectIntervalMs = 3000"
definition kHotConfigPollingIntervalMs :: u32 where [code_consts]: "kHotConfigPollingIntervalMs = 1000"
definition kHotConfigEnabled :: int where [code_consts]: "kHotConfigEnabled = 1"
definition kConfigPath :: string where [code_consts]: "kConfigPath = ''../config.yaml''"

section \<open>Data values and requests\<close>

text \<open>\<open>bacnet_data_value_t\<close>: the strings are blocks of the heap, with their length.\<close>

datatype data_value =
    DNull | DBoolean bool | DUnsigned u32 | DSigned "32 word" | DReal u32 | DDouble u64 | DEnum u32
  | DOctetString "addr option" nat | DCharacterString "addr option" nat

datatype datalink_type =
  BACNET_DATALINK_AUTO | BACNET_DATALINK_BIP | BACNET_DATALINK_MSTP | BACNET_DATALINK_ETHERNET | BACNET_DATALINK_BIP6

text \<open>\<open>bacnet_read_t\<close>: \<open>rq_self\<close> is the address of the request, \<open>rq_value\<close> whether it has a value buffer.
  \<open>array_index\<close> is signed.\<close>

record bacnet_read =
  rq_self :: addr
  rq_device :: u32
  rq_type :: u16
  rq_instance :: u32
  rq_property :: u32
  rq_value :: bool
  rq_array_index :: "32 word"
  rq_timeout_ms :: u32
  rq_invoke_id :: u8
  rq_datalink_hint :: datalink_type

record bacnet_write =
  wq_self :: addr
  wq_device :: u32
  wq_type :: u16
  wq_instance :: u32
  wq_property :: u32
  wq_value :: data_value
  wq_array_index :: "32 word"
  wq_priority :: u8
  wq_timeout_ms :: u32
  wq_invoke_id :: u8
  wq_datalink_hint :: datalink_type

definition BACNET_READ_INIT :: "addr \<Rightarrow> u32 \<Rightarrow> u16 \<Rightarrow> u32 \<Rightarrow> u32 \<Rightarrow> bool \<Rightarrow> bacnet_read" where
  "BACNET_READ_INIT self dev obj_type obj_inst prop val =
     \<lparr>rq_self = self, rq_device = dev, rq_type = obj_type, rq_instance = obj_inst, rq_property = prop,
      rq_value = val, rq_array_index = -1, rq_timeout_ms = 0, rq_invoke_id = 0,
      rq_datalink_hint = BACNET_DATALINK_AUTO\<rparr>"

definition BACNET_WRITE_INIT :: "addr \<Rightarrow> u32 \<Rightarrow> u16 \<Rightarrow> u32 \<Rightarrow> u32 \<Rightarrow> data_value \<Rightarrow> bacnet_write" where
  "BACNET_WRITE_INIT self dev obj_type obj_inst prop val =
     \<lparr>wq_self = self, wq_device = dev, wq_type = obj_type, wq_instance = obj_inst, wq_property = prop,
      wq_value = val, wq_array_index = -1, wq_priority = 0, wq_timeout_ms = 0, wq_invoke_id = 0,
      wq_datalink_hint = BACNET_DATALINK_AUTO\<rparr>"

section \<open>States\<close>

datatype conn_state =
  BACNET_CONN_IDLE | BACNET_CONN_CONNECTING | BACNET_CONN_CONNECTED | BACNET_CONN_DISCONNECTING | BACNET_CONN_DISCONNECTED

datatype op_state = BACNET_OP_IDLE | BACNET_OP_PENDING | BACNET_OP_SUCCESS | BACNET_OP_FAILED

datatype operation_kind = KindNone | KindRead | KindWrite | KindDiscovery

datatype cache_strategy = Aggressive | Conservative

section \<open>Addresses and keys\<close>

text \<open>\<open>BACNET_ADDRESS\<close> of the protocol stack: the MAC of the next hop, and the network, length and bytes
  of the address behind it.\<close>

record bac_addr =
  ba_mac_len :: u8
  ba_mac :: "u8 list"
  ba_net :: u16
  ba_len :: u8
  ba_adr :: "u8 list"

definition MAX_MAC_LEN :: nat where [code_consts]: "MAX_MAC_LEN = 7"

definition address_zero :: bac_addr where
  "address_zero = \<lparr>ba_mac_len = 0, ba_mac = replicate MAX_MAC_LEN 0, ba_net = 0, ba_len = 0,
     ba_adr = replicate MAX_MAC_LEN 0\<rparr>"

text \<open>\<open>BACnetAddressHash\<close> and \<open>BACnetAddressEqual\<close>; \<open>h8\<close> is the library's hash of a byte. The hash
  narrows the network number to a byte.\<close>

definition address_hash :: "(u8 \<Rightarrow> u64) \<Rightarrow> bac_addr \<Rightarrow> u64" where
  "address_hash h8 a =
     foldl (\<lambda>h i. h * 31 + h8 (ba_adr a ! i)) (h8 (ba_len a) * 31 + h8 (ucast (ba_net a)))
       [0..<min MAX_MAC_LEN (unat (ba_len a))]"

definition address_equal :: "bac_addr \<Rightarrow> bac_addr \<Rightarrow> bool" where
  "address_equal a b \<longleftrightarrow>
     ba_len a = ba_len b \<and> ba_net a = ba_net b \<and> (\<forall>i \<in> set [0..<unat (ba_len a)]. ba_adr a ! i = ba_adr b ! i)"

record object_key =
  key_device :: u32
  key_type :: u16
  key_instance :: u32
  key_property :: u32

text \<open>\<open>ObjectKeyHash\<close>, over the library's hashes of the two integer types.\<close>

definition object_key_hash :: "(u32 \<Rightarrow> u64) \<Rightarrow> (u16 \<Rightarrow> u64) \<Rightarrow> object_key \<Rightarrow> u64" where
  "object_key_hash h32 h16 k =
     h32 (key_device k) XOR push_bit 1 (h16 (key_type k)) XOR push_bit 2 (h32 (key_instance k))
       XOR push_bit 3 (h32 (key_property k))"

section \<open>Entries of the tables\<close>

record object_state =
  cached_value :: data_value
  st_status :: int
  active_invoke_id :: u8
  st_timestamp :: nat
  has_valid_cache :: bool
  original_request :: "addr option"

definition object_state_zero :: object_state where
  "object_state_zero = \<lparr>cached_value = DNull, st_status = 0, active_invoke_id = 0, st_timestamp = 0,
     has_valid_cache = False, original_request = None\<rparr>"

record write_item =
  wi_device :: u32
  wi_type :: u16
  wi_instance :: u32
  wi_property :: u32
  wi_invoke_id :: u8
  wi_value :: data_value
  wi_priority :: u8
  wi_array_index :: u32
  wi_timestamp :: nat
  wi_timeout_ms :: u32

record active_op =
  op_type :: operation_kind
  op_request :: "addr option"
  op_target :: bac_addr
  op_invoke_id :: u8
  op_device :: u32
  op_start_time :: nat
  op_timeout_ms :: u32

definition active_op_zero :: active_op where
  "active_op_zero = \<lparr>op_type = KindNone, op_request = None, op_target = address_zero, op_invoke_id = 0,
     op_device = 0, op_start_time = 0, op_timeout_ms = 0\<rparr>"

text \<open>\<open>ActiveOperation\<close>: its \<open>reset\<close> keeps the start time.\<close>

definition active_op_reset :: "active_op \<Rightarrow> active_op" where
  "active_op_reset a = a\<lparr>op_type := KindNone, op_request := None, op_target := address_zero,
     op_invoke_id := 0, op_device := 0, op_timeout_ms := 0\<rparr>"

definition active_op_is_active :: "active_op \<Rightarrow> bool" where
  "active_op_is_active a \<longleftrightarrow> op_type a \<noteq> KindNone"

definition active_op_is_timeout :: "nat \<Rightarrow> active_op \<Rightarrow> bool" where
  "active_op_is_timeout now a \<longleftrightarrow>
     active_op_is_active a \<and> int now - int (op_start_time a) \<ge> uint (op_timeout_ms a)"

section \<open>Lemmas on addresses\<close>

lemma active_op_reset_inactive [simp]: "\<not> active_op_is_active (active_op_reset a)"
  by (simp add: active_op_is_active_def active_op_reset_def)

lemma address_equal_refl [simp]: "address_equal a a"
  by (simp add: address_equal_def)

lemma address_equal_sym: "address_equal a b \<Longrightarrow> address_equal b a"
  by (auto simp: address_equal_def)

lemma address_equal_trans: "address_equal a b \<Longrightarrow> address_equal b c \<Longrightarrow> address_equal a c"
  by (auto simp: address_equal_def)

text \<open>The two functions the table of device addresses is built on agree: equal addresses have the
  same hash, whatever hash of a byte the library uses.\<close>

theorem equal_addresses_hash_alike:
  assumes "address_equal a b"
  shows "address_hash h8 a = address_hash h8 b"
proof -
  have "foldl (\<lambda>h i. h * 31 + h8 (ba_adr a ! i)) s xs = foldl (\<lambda>h i. h * 31 + h8 (ba_adr b ! i)) s xs"
    if "\<forall>i \<in> set xs. i < unat (ba_len a)" for s xs
    using that assms by (induction xs arbitrary: s) (auto simp: address_equal_def)
  from this [of "[0..<min MAX_MAC_LEN (unat (ba_len a))]"] assms show ?thesis
    by (simp add: address_hash_def address_equal_def)
qed

theorem equal_addresses_hash_alike_witness:
  "address_hash (\<lambda>x. ucast x) (address_zero\<lparr>ba_mac_len := 6\<rparr>) = address_hash (\<lambda>x. ucast x) address_zero"
  by (rule equal_addresses_hash_alike) (simp add: address_equal_def address_zero_def)

text \<open>The equality looks at the address behind a router only: any two devices on the local network
  (no such address) are equal, so that the table keeps one entry for all of them.\<close>

theorem local_devices_are_one_key:
  assumes "ba_net a = 0" "ba_len a = 0" "ba_net b = 0" "ba_len b = 0"
  shows "address_equal a b"
  using assms by (simp add: address_equal_def)

theorem local_devices_are_one_key_witness:
  "address_equal (address_zero\<lparr>ba_mac_len := 6, ba_mac := [192, 168, 0, 7, 186, 192, 0]\<rparr>)
                 (address_zero\<lparr>ba_mac_len := 6, ba_mac := [192, 168, 0, 8, 186, 192, 0]\<rparr>)"
  by (rule local_devices_are_one_key) (simp_all add: address_zero_def)

end
