(* ===== verification/Bacnet_Config_Properties.thy ===== *)
theory Bacnet_Config_Properties
  imports Bacnet_Config
begin

text \<open>
  What the BACnet loader reads from a document of the shipped layout, the round trip of a printed
  configuration, and the documents it ignores.
\<close>

section \<open>Documents of the shipped layout\<close>

definition section_name :: "cfg_section \<Rightarrow> string" where
  "section_name sec =
     (case sec of Root \<Rightarrow> [] | Protocols \<Rightarrow> ''protocols'' | Bacnet \<Rightarrow> ''bacnet'' | Discovery \<Rightarrow> ''discovery''
      | LocalDevice \<Rightarrow> ''local_device'' | Network \<Rightarrow> ''network'' | MSTP \<Rightarrow> ''mstp'' | Services \<Rightarrow> ''services''
      | Connection \<Rightarrow> ''connection'' | HotConfig \<Rightarrow> ''hot_config'')"

definition settings_sections :: "cfg_section list" where
  "settings_sections = [Discovery, LocalDevice, Network, MSTP, Services, Connection, HotConfig]"

definition scalar_map :: "(string \<times> string) list \<Rightarrow> ynode" where
  "scalar_map kvs = YMap (map (\<lambda>(k, v). (k, YScalar v)) kvs)"

definition settings_document :: "(cfg_section \<times> (string \<times> string) list) list \<Rightarrow> yaml_source" where
  "settings_document secs = document (YMap [(''protocols'', YMap [(''bacnet'',
     YMap (map (\<lambda>(sec, kvs). (section_name sec, scalar_map kvs)) secs))])])"

text \<open>A key of a setting: a string that is not empty and not the name of a section.\<close>

definition setting_key :: "string \<Rightarrow> bool" where
  "setting_key k \<longleftrightarrow> k \<noteq> [] \<and> NUL \<notin> set k \<and> k \<notin> set (map section_name settings_sections)"

definition read_settings ::
  "(cfg_section \<times> (string \<times> string) list) list \<Rightarrow> bacnet_config \<Rightarrow> bacnet_config" where
  "read_settings secs cfg =
     foldl (\<lambda>cfg (sec, kvs). foldl (\<lambda>cfg (k, v). set_field sec k v cfg) cfg kvs) cfg secs"

lemma cstr_literals [simp]:
  "cstr ''protocols'' = ''protocols''" "cstr ''bacnet'' = ''bacnet''"
  "cstr (section_name sec) = section_name sec"
  by (simp_all add: cstr_id section_name_def split: cfg_section.splits)

lemma section_key_setting:
  "setting_key k \<Longrightarrow> bacnet_level sec \<Longrightarrow> section_key sec k = None"
  by (auto simp: setting_key_def section_key_def bacnet_level_def settings_sections_def section_name_def cstr_id)

lemma section_key_section:
  "sec' \<in> set settings_sections \<Longrightarrow> bacnet_level sec \<Longrightarrow> section_key sec (section_name sec') = Some sec'"
  by (auto simp: section_key_def bacnet_level_def settings_sections_def section_name_def cstr_id)

lemma settings_sections_level: "sec \<in> set settings_sections \<Longrightarrow> bacnet_level sec"
  by (auto simp: settings_sections_def bacnet_level_def)

lemma pairs_read:
  assumes "bacnet_level sec" "\<forall>(k, v) \<in> set kvs. setting_key k"
  shows "foldl bacnet_yaml_step \<lparr>current_section = sec, last_key = [], ld_cfg = cfg\<rparr>
           (pairs_events (map (\<lambda>(k, v). (k, YScalar v)) kvs)) =
         \<lparr>current_section = sec, last_key = [], ld_cfg = foldl (\<lambda>cfg (k, v). set_field sec k v cfg) cfg kvs\<rparr>"
  using assms
proof (induction kvs arbitrary: cfg)
  case (Cons kv kvs)
  obtain k v where kv: "kv = (k, v)" by fastforce
  from Cons.prems kv have k: "setting_key k" by simp
  then have "k \<noteq> []" "cstr k = k" by (simp_all add: setting_key_def cstr_id)
  with Cons kv k show ?case
    by (simp add: bacnet_yaml_step_def section_key_setting)
qed simp

lemma section_read:
  assumes "bacnet_level sec" "sec' \<in> set settings_sections" "\<forall>(k, v) \<in> set kvs. setting_key k"
  obtains sec'' where "bacnet_level sec''"
    "foldl bacnet_yaml_step \<lparr>current_section = sec, last_key = [], ld_cfg = cfg\<rparr>
       (pairs_events [(section_name sec', scalar_map kvs)]) =
     \<lparr>current_section = sec'', last_key = [], ld_cfg = foldl (\<lambda>cfg (k, v). set_field sec' k v cfg) cfg kvs\<rparr>"
proof -
  have lvl: "bacnet_level sec'" using assms by (simp add: settings_sections_level)
  let ?s = "bacnet_yaml_step \<lparr>current_section = sec', last_key = [],
    ld_cfg = foldl (\<lambda>cfg (k, v). set_field sec' k v cfg) cfg kvs\<rparr> MappingEnd"
  have step: "foldl bacnet_yaml_step \<lparr>current_section = sec, last_key = [], ld_cfg = cfg\<rparr>
      (pairs_events [(section_name sec', scalar_map kvs)]) = ?s"
    using assms by (simp add: scalar_map_def bacnet_yaml_step_def [of _ "Scalar _"] section_key_section
        bacnet_yaml_step_def [of _ MappingStart] pairs_read [OF lvl])
  show thesis
    by (rule that [of "current_section ?s"])
       (use lvl assms(2) step in \<open>auto simp: bacnet_yaml_step_def bacnet_level_def settings_sections_def\<close>)
qed

lemma sections_read:
  assumes "bacnet_level sec" "\<forall>(sec, kvs) \<in> set secs. sec \<in> set settings_sections \<and> (\<forall>(k, v) \<in> set kvs. setting_key k)"
  shows "\<exists>sec''. bacnet_level sec'' \<and>
    foldl bacnet_yaml_step \<lparr>current_section = sec, last_key = [], ld_cfg = cfg\<rparr>
       (pairs_events (map (\<lambda>(sec, kvs). (section_name sec, scalar_map kvs)) secs)) =
     \<lparr>current_section = sec'', last_key = [], ld_cfg = read_settings secs cfg\<rparr>"
  using assms
proof (induction secs arbitrary: sec cfg)
  case Nil
  then show ?case by (auto simp: read_settings_def)
next
  case (Cons x secs)
  obtain sec' kvs where x: "x = (sec', kvs)" by fastforce
  with Cons.prems have s: "sec' \<in> set settings_sections" "\<forall>(k, v) \<in> set kvs. setting_key k" by auto
  obtain sec'' where lvl: "bacnet_level sec''" and one:
    "foldl bacnet_yaml_step \<lparr>current_section = sec, last_key = [], ld_cfg = cfg\<rparr>
       (pairs_events [(section_name sec', scalar_map kvs)]) =
     \<lparr>current_section = sec'', last_key = [], ld_cfg = foldl (\<lambda>cfg (k, v). set_field sec' k v cfg) cfg kvs\<rparr>"
    using section_read [OF Cons.prems(1) s] by metis
  have split: "pairs_events (map (\<lambda>(sec, kvs). (section_name sec, scalar_map kvs)) (x # secs)) =
     pairs_events [(section_name sec', scalar_map kvs)] @
     pairs_events (map (\<lambda>(sec, kvs). (section_name sec, scalar_map kvs)) secs)"
    by (simp add: x)
  show ?case
    using Cons.IH [OF lvl, of "foldl (\<lambda>cfg (k, v). set_field sec' k v cfg) cfg kvs"] Cons.prems(2) one
    unfolding split foldl_append by (simp add: read_settings_def x)
qed

lemma ld_cfg_scalar_free:
  "e \<notin> range Scalar \<Longrightarrow> ld_cfg (bacnet_yaml_step s e) = ld_cfg s"
  by (cases e) (auto simp: bacnet_yaml_step_def Let_def)

lemma settings_document_read:
  assumes "\<forall>(sec, kvs) \<in> set secs. sec \<in> set settings_sections \<and> (\<forall>(k, v) \<in> set kvs. setting_key k)"
  shows "bacnet_load_config_from_yaml (settings_document secs) = (0, read_settings secs bacnet_config_defaults)"
proof -
  let ?start = "\<lparr>current_section = Bacnet, last_key = [], ld_cfg = bacnet_config_defaults\<rparr>"
  obtain sec'' where mid: "foldl bacnet_yaml_step ?start
       (pairs_events (map (\<lambda>(sec, kvs). (section_name sec, scalar_map kvs)) secs)) =
     \<lparr>current_section = sec'', last_key = [], ld_cfg = read_settings secs bacnet_config_defaults\<rparr>"
    using sections_read [OF _ assms, of Bacnet] by (auto simp: bacnet_level_def)
  let ?mid = "pairs_events (map (\<lambda>(sec, kvs). (section_name sec, scalar_map kvs)) secs)"
  have steps: "bacnet_yaml_step bacnet_loader_init StreamStart = bacnet_loader_init"
    "bacnet_yaml_step bacnet_loader_init DocumentStart = bacnet_loader_init"
    "bacnet_yaml_step bacnet_loader_init MappingStart = bacnet_loader_init"
    "bacnet_yaml_step (bacnet_yaml_step (bacnet_yaml_step (bacnet_yaml_step bacnet_loader_init
       (Scalar ''protocols'')) MappingStart) (Scalar ''bacnet'')) MappingStart = ?start"
    by (simp_all add: bacnet_yaml_step_def bacnet_loader_init_def section_key_def)
  have ends: "ld_cfg (foldl bacnet_yaml_step s [MappingEnd, MappingEnd, MappingEnd, DocumentEnd]) = ld_cfg s" for s
    by (simp add: ld_cfg_scalar_free image_iff)
  have noend: "takeWhile (\<lambda>e. e \<noteq> StreamEnd) (?mid @ es) = ?mid @ takeWhile (\<lambda>e. e \<noteq> StreamEnd) es" for es
    by (rule takeWhile_all) (metis StreamEnd_not_in_events(2))
  have "ld_cfg (bacnet_yaml_loop (StreamStart # DocumentStart # MappingStart # Scalar ''protocols'' # MappingStart #
      Scalar ''bacnet'' # MappingStart # ?mid @ [MappingEnd, MappingEnd, MappingEnd, DocumentEnd, StreamEnd])
      bacnet_loader_init) = read_settings secs bacnet_config_defaults"
    using ends by (simp add: bacnet_yaml_loop_run noend steps mid)
  then show ?thesis
    by (simp add: bacnet_load_config_from_yaml_def settings_document_def document_def)
qed

section \<open>Printing a configuration\<close>

definition dec_word :: "'a::len word \<Rightarrow> string" where
  "dec_word w = dec_int (uint w)"

definition bool_text :: "int \<Rightarrow> string" where
  "bool_text b = (if b = 0 then ''false'' else ''true'')"

definition config_settings :: "bacnet_config \<Rightarrow> (cfg_section \<times> (string \<times> string) list) list" where
  "config_settings cfg =
     [(Discovery, [(''target_device_start'', dec_word (cf_target_device_start cfg)),
                   (''target_device_end'', dec_word (cf_target_device_end cfg)),
                   (''whois_retry'', dec_word (cf_whois_retry cfg)),
                   (''response_timeout_ms'', dec_word (cf_response_timeout_ms cfg))]),
      (LocalDevice, [(''instance_id'', dec_word (cf_local_instance_id cfg)),
                     (''max_apdu'', dec_word (cf_local_max_apdu cfg))]),
      (Network, [(''interface'', cf_interface_name cfg), (''port'', dec_word (cf_port cfg)),
                 (''broadcast_address'', cf_broadcast_address cfg)]),
      (MSTP, [(''port'', cf_mstp_port cfg), (''baud_rate'', dec_word (cf_mstp_baud cfg)),
              (''mac_address'', dec_word (cf_mstp_mac cfg)), (''max_master'', dec_word (cf_mstp_max_master cfg)),
              (''max_info_frames'', dec_word (cf_mstp_max_frames cfg))]),
      (Services, [(''read_timeout_ms'', dec_word (cf_read_timeout_ms cfg)),
                  (''write_timeout_ms'', dec_word (cf_write_timeout_ms cfg)),
                  (''default_priority'', dec_word (cf_default_priority cfg)),
                  (''cache_expiry_ms'', dec_word (cf_cache_expiry_ms cfg)),
                  (''cache_strategy'', dec_word (cf_cache_strategy cfg)),
                  (''datalink_maintenance_ms'', dec_word (cf_datalink_maintenance_ms cfg))]),
      (Connection, [(''max_reconnect_attempts'', dec_word (cf_max_reconnect_attempts cfg)),
                    (''reconnect_interval_ms'', dec_word (cf_reconnect_interval_ms cfg))]),
      (HotConfig, [(''enabled'', bool_text (cf_hot_config_enabled cfg)),
                   (''polling_interval_ms'', dec_word (cf_hot_config_polling_ms cfg))])]"

lemma atoi_dec_word_u32: "word_of_int (atoi (dec_word (w :: u32))) = w"
proof -
  have r: "0 \<le> uint w" "uint w < 4294967296" using uint_lt2p [of w] by simp_all
  have "strtol10 (dec_int (uint w)) = uint w"
    using r by (intro strtol10_dec_int) (auto simp: LONG_MIN_def LONG_MAX_def intro: order_trans [of _ 0])
  then have "atoi (dec_word w) = to_int32 (uint w)"
    by (simp add: atoi_def dec_word_def)
  also have "word_of_int \<dots> = (word_of_int (uint w) :: u32)"
  proof -
    have "(word_of_int ((uint w + 2 ^ 31) mod 2 ^ 32) :: u32) = word_of_int (uint w + 2 ^ 31)"
      by (subst word_of_int_eq_iff) (simp add: take_bit_eq_mod)
    then show ?thesis by (simp add: to_int32_def)
  qed
  finally show ?thesis by simp
qed

lemma atoi_dec_word_small:
  assumes "LENGTH('a::len) \<le> 16"
  shows "(word_of_int (atoi (dec_word (w :: 'a word))) :: 'a word) = w"
proof -
  have "uint w < 2 ^ LENGTH('a)" by (rule uint_lt2p)
  also have "\<dots> \<le> 2 ^ 16" using assms by (intro power_increasing) auto
  finally have "atoi (dec_word w) = uint w"
    using atoi_dec_int [of "uint w"] uint_ge_0 [of w] by (simp add: dec_word_def)
  then show ?thesis by simp
qed

lemmas atoi_dec_word = atoi_dec_word_u32 atoi_dec_word_small

lemma bac_parse_bool_text: "b \<in> {0, 1} \<Longrightarrow> bac_parse_bool (Some (bool_text b)) d = b"
  by (auto simp: bac_parse_bool_def bool_text_def strcaseeq_def cstr_id to_lower_def)


section \<open>Properties\<close>

text \<open>C21: A file of the shipped layout (the sections of \<open>protocols\<close>, \<open>bacnet\<close> in any order and number, each
  a mapping of scalars) is read setting by setting: the loader applies exactly the settings of the
  document to the defaults, each in the section it stands in, and succeeds. This holds although
  the loader does not track the nesting and never leaves the section \<open>mstp\<close> at its end.\<close>

theorem bacnet_loader_reads_settings:
  assumes "\<forall>(sec, kvs) \<in> set secs. sec \<in> set settings_sections \<and> (\<forall>(k, v) \<in> set kvs. setting_key k)"
  shows "bacnet_load_config_from_yaml (settings_document secs) = (0, read_settings secs bacnet_config_defaults)"
  using assms by (rule settings_document_read)

theorem bacnet_loader_reads_settings_witness:
  "bacnet_load_config_from_yaml (settings_document
     [(MSTP, [(''port'', ''/dev/ttyS0'')]), (Network, [(''port'', ''47809'')])]) =
   (0, bacnet_config_defaults\<lparr>cf_mstp_port := ''/dev/ttyS0'', cf_port := word_of_int (atoi ''47809'')\<rparr>)"
  by (subst bacnet_loader_reads_settings)
     (simp_all add: settings_sections_def setting_key_def section_name_def read_settings_def set_field_def
       code_consts copy_str_def cstr_def bacnet_config_defaults_def)

text \<open>C27: A configuration printed in the shipped layout is loaded back unchanged, provided its strings fit
  their arrays and the fields for which zero means the default are not zero; in particular every
  unsigned 32-bit value survives the detour through the signed \<open>atoi\<close>.\<close>

theorem bacnet_config_round_trip:
  assumes "bacnet_config_usable cfg"
    and "NUL \<notin> set (cf_interface_name cfg)" "NUL \<notin> set (cf_broadcast_address cfg)" "NUL \<notin> set (cf_mstp_port cfg)"
  shows "bacnet_load_config_from_yaml (settings_document (config_settings cfg)) = (0, cfg)"
proof -
  have keys: "\<forall>(sec, kvs) \<in> set (config_settings cfg). sec \<in> set settings_sections \<and> (\<forall>(k, v) \<in> set kvs. setting_key k)"
    by (simp add: config_settings_def settings_sections_def setting_key_def section_name_def)
  have "read_settings (config_settings cfg) bacnet_config_defaults = cfg"
    using assms unfolding bacnet_config_usable_def
    by (simp add: read_settings_def config_settings_def set_field_def atoi_dec_word or_default_id
        copy_str_id code_consts bac_parse_bool_text bacnet_config_defaults_def)
  then show ?thesis by (simp add: settings_document_read [OF keys])
qed

theorem bacnet_config_round_trip_witness:
  "bacnet_load_config_from_yaml (settings_document (config_settings
     (bacnet_config_defaults\<lparr>cf_target_device_end := 4294967295, cf_mstp_port := ''/dev/ttyUSB0''\<rparr>))) =
   (0, bacnet_config_defaults\<lparr>cf_target_device_end := 4294967295, cf_mstp_port := ''/dev/ttyUSB0''\<rparr>)"
  by (rule bacnet_config_round_trip)
     (simp_all add: bacnet_config_usable_def bacnet_config_defaults_def code_consts copy_str_def cstr_def)

text \<open>Whatever the file holds (missing, unreadable, broken off, with numbers out of range or of any
  nesting), the loader reports success and leaves a configuration the driver can run with: strings
  within their arrays, and no zero in a timeout, an interval, the priority or the number of
  reconnection attempts.\<close>

theorem bacnet_loader_leaves_usable_config:
  "fst (bacnet_load_config_from_yaml src) = 0 \<and> bacnet_config_usable (snd (bacnet_load_config_from_yaml src))"
  using bacnet_load_usable [of src] by (cases src) (simp_all add: bacnet_load_config_from_yaml_def)

section \<open>Documents with other sections\<close>

lemma bacnet_yaml_loop_end:
  "StreamEnd \<notin> set es \<Longrightarrow> bacnet_yaml_loop (es @ [StreamEnd]) s = foldl bacnet_yaml_step s es"
  by (induction es arbitrary: s) auto

text \<open>At the root only \<open>protocols\<close> matters; inside \<open>protocols\<close>, until its first mapping ends, only \<open>bacnet\<close>.\<close>

lemma root_ignores:
  "current_section s = Root \<Longrightarrow> Scalar ''protocols'' \<notin> set es \<Longrightarrow> (\<forall>v. Scalar v \<in> set es \<longrightarrow> NUL \<notin> set v) \<Longrightarrow>
     current_section (foldl bacnet_yaml_step s es) = Root \<and> ld_cfg (foldl bacnet_yaml_step s es) = ld_cfg s"
proof (induction es arbitrary: s)
  case (Cons e es)
  then have "current_section (bacnet_yaml_step s e) = Root \<and> ld_cfg (bacnet_yaml_step s e) = ld_cfg s"
    by (cases e) (auto simp: bacnet_yaml_step_def section_key_def set_field_def cstr_id)
  with Cons show ?case by simp
qed simp

lemma protocols_ignores:
  "current_section s = Protocols \<Longrightarrow> Scalar ''bacnet'' \<notin> set es \<Longrightarrow> MappingEnd \<notin> set es \<Longrightarrow>
     (\<forall>v. Scalar v \<in> set es \<longrightarrow> NUL \<notin> set v) \<Longrightarrow>
     current_section (foldl bacnet_yaml_step s es) = Protocols \<and> ld_cfg (foldl bacnet_yaml_step s es) = ld_cfg s"
proof (induction es arbitrary: s)
  case (Cons e es)
  then have "current_section (bacnet_yaml_step s e) = Protocols \<and> ld_cfg (bacnet_yaml_step s e) = ld_cfg s"
    by (cases e) (auto simp: bacnet_yaml_step_def section_key_def set_field_def cstr_id)
  with Cons show ?case by simp
qed simp

text \<open>A configuration file shared with another protocol is not read when that protocol comes first:
  the end of its first mapping takes the loader back to the root, where \<open>bacnet\<close> means nothing. The
  call reports success with the defaults, whatever the \<open>bacnet\<close> section holds.\<close>

theorem bacnet_after_other_protocol_ignored:
  assumes "Scalar ''bacnet'' \<notin> set (Scalar name # pairs_events kvs)"
    and "Scalar ''protocols'' \<notin> set (Scalar name # pairs_events kvs @ pairs_events rest)"
    and "\<forall>v. Scalar v \<in> set (Scalar name # pairs_events kvs @ pairs_events rest) \<longrightarrow> NUL \<notin> set v"
  shows "bacnet_load_config_from_yaml (document (YMap [(''protocols'', YMap ((name, YMap kvs) # rest))])) =
    (0, bacnet_config_defaults)"
proof -
  define es where "es = MappingStart # Scalar name # MappingStart # pairs_events kvs"
  obtain es1 es2 where es: "es @ [MappingEnd] = es1 @ MappingEnd # es2" "MappingEnd \<notin> set es1"
    using split_list_first [of MappingEnd "es @ [MappingEnd]"] by auto
  define tl where "tl = es2 @ pairs_events rest @ [MappingEnd, MappingEnd, DocumentEnd]"
  have sub: "set es1 \<subseteq> insert MappingEnd (set es)" "set es2 \<subseteq> insert MappingEnd (set es)"
    using arg_cong [OF es(1), of set] by auto
  let ?s = "\<lparr>current_section = Protocols, last_key = [], ld_cfg = bacnet_config_defaults\<rparr>"
  have "Scalar ''bacnet'' \<notin> set es1" "\<forall>v. Scalar v \<in> set es1 \<longrightarrow> NUL \<notin> set v"
    using assms sub(1) by (auto simp: es_def)
  then have one: "current_section (foldl bacnet_yaml_step ?s es1) = Protocols"
      "ld_cfg (foldl bacnet_yaml_step ?s es1) = bacnet_config_defaults"
    using protocols_ignores [of ?s es1] es(2) by simp_all
  let ?t = "bacnet_yaml_step (foldl bacnet_yaml_step ?s es1) MappingEnd"
  have t: "current_section ?t = Root" "ld_cfg ?t = bacnet_config_defaults"
    using one by (simp_all add: bacnet_yaml_step_def)
  have "Scalar ''protocols'' \<notin> set tl" "\<forall>v. Scalar v \<in> set tl \<longrightarrow> NUL \<notin> set v"
    using assms sub(2) by (auto simp: es_def tl_def)
  then have two: "ld_cfg (foldl bacnet_yaml_step ?t tl) = bacnet_config_defaults"
    using root_ignores [of ?t tl] t by simp
  let ?open = "[StreamStart, DocumentStart, MappingStart, Scalar ''protocols'']"
  let ?all = "?open @ (es @ [MappingEnd]) @ pairs_events rest @ [MappingEnd, MappingEnd, DocumentEnd]"
  have noend: "StreamEnd \<notin> set ?all" by (simp add: es_def)
  have start: "foldl bacnet_yaml_step bacnet_loader_init ?open = ?s"
    by (simp add: bacnet_yaml_step_def bacnet_loader_init_def section_key_def)
  have "foldl bacnet_yaml_step bacnet_loader_init ?all = foldl bacnet_yaml_step ?t tl"
    unfolding es(1) foldl_append start by (simp add: tl_def)
  with two have "ld_cfg (bacnet_yaml_loop (?all @ [StreamEnd]) bacnet_loader_init) = bacnet_config_defaults"
    using bacnet_yaml_loop_end [OF noend] by simp
  then show ?thesis
    by (simp add: bacnet_load_config_from_yaml_def document_def es_def)
qed

theorem bacnet_after_other_protocol_ignored_witness:
  "bacnet_load_config_from_yaml (document (YMap [(''protocols'', YMap [
      (''mqtt'', YMap [(''client_id'', YScalar ''plc'')]),
      (''bacnet'', YMap [(''discovery'', YMap [(''target_device_start'', YScalar ''1'')])])])])) =
   (0, bacnet_config_defaults)"
  by (rule bacnet_after_other_protocol_ignored) auto

end
