(* ===== verification/Bacnet_Value.thy ===== *)
theory Bacnet_Value
  imports Bacnet_Types
begin

text \<open>
  Data values: \<open>store_application_value\<close>, \<open>bacnet_data_value_free\<close> and the display functions of
  \<open>proto_bacnet_utils.cc\<close>, \<open>convert_to_application_value\<close> of \<open>proto_bacnet_io.cc\<close>. Strings live in a heap
  of blocks; the result \<open>None\<close> is a memory fault. The value a block-holding value stands for is given
  by \<open>plain\<close>, and writing a value and storing what comes back gives the same plain value.
\<close>

section \<open>The heap and the stack's values\<close>

record heap =
  blocks :: "addr \<rightharpoonup> buffer"
  next_block :: addr

definition heap_alloc :: "buffer \<Rightarrow> heap \<Rightarrow> addr \<times> heap" where
  "heap_alloc b h = (next_block h, h\<lparr>blocks := (blocks h)(next_block h \<mapsto> b), next_block := next_block h + 1\<rparr>)"

definition heap_free :: "addr \<Rightarrow> heap \<Rightarrow> heap option" where
  "heap_free a h = (if blocks h a = None then None else Some (h\<lparr>blocks := (blocks h)(a := None)\<rparr>))"

definition heap_read :: "addr \<Rightarrow> nat \<Rightarrow> heap \<Rightarrow> buffer option" where
  "heap_read a n h = (case blocks h a of None \<Rightarrow> None | Some b \<Rightarrow> if n \<le> length b then Some (take n b) else None)"

text \<open>\<open>BACNET_APPLICATION_DATA_VALUE\<close>, by its tag. An octet or character string is the bytes it holds;
  a bit string is the number of its bits and the bits; a tag the driver does not handle is its number.\<close>

datatype app_value =
    ANull | ABoolean bool | AUnsigned u64 | ASigned "32 word" | AReal u32 | ADouble u64 | AEnumerated u32
  | ABitString u8 "bool list" | AOctetString buffer | ACharacterString buffer | AOther nat

text \<open>The library's string constructors, and whether an allocation succeeds.\<close>

record value_lib =
  vl_octet_init :: "buffer \<Rightarrow> buffer"
  vl_ansi_init :: "string \<Rightarrow> buffer"
  vl_malloc_ok :: "nat \<Rightarrow> heap \<Rightarrow> bool"

definition MAX_OCTET_STRING_BYTES :: nat where [code_consts]: "MAX_OCTET_STRING_BYTES = 1470"
definition MAX_CHARACTER_STRING_BYTES :: nat where [code_consts]: "MAX_CHARACTER_STRING_BYTES = 1470"

section \<open>From the stack to the driver\<close>

definition bit_string_flags :: "u8 \<Rightarrow> bool list \<Rightarrow> u32" where
  "bit_string_flags bits_used bits =
     (if bits_used \<le> 32
      then foldl (\<lambda>flags i. if i < length bits \<and> bits ! i then flags OR push_bit i 1 else flags) 0
             [0..<min (unat bits_used) 8]
      else 0)"

text \<open>The result is the status, the value left in \<open>*req->value\<close>, and the heap. A failed allocation has
  already set the type and the null pointer, and leaves the length of the string that was there.\<close>

fun string_length :: "data_value \<Rightarrow> nat" where
  "string_length (DOctetString p n) = n"
| "string_length (DCharacterString p n) = n"
| "string_length _ = 0"

definition store_application_value ::
  "value_lib \<Rightarrow> app_value \<Rightarrow> data_value \<Rightarrow> heap \<Rightarrow> int \<times> data_value \<times> heap" where
  "store_application_value lib value out h =
     (case value of
        ANull \<Rightarrow> (PROTO_SUCCESS, DNull, h)
      | ABoolean b \<Rightarrow> (PROTO_SUCCESS, DBoolean b, h)
      | AUnsigned u \<Rightarrow> (PROTO_SUCCESS, DUnsigned (ucast u), h)
      | ASigned i \<Rightarrow> (PROTO_SUCCESS, DSigned i, h)
      | AReal r \<Rightarrow> (PROTO_SUCCESS, DReal r, h)
      | ADouble d \<Rightarrow> (PROTO_SUCCESS, DDouble d, h)
      | AEnumerated e \<Rightarrow> (PROTO_SUCCESS, DEnum e, h)
      | ABitString n bits \<Rightarrow> (PROTO_SUCCESS, DUnsigned (bit_string_flags n bits), h)
      | AOctetString b \<Rightarrow>
          if vl_malloc_ok lib (length b) h
          then (let (a, h) = heap_alloc b h in (PROTO_SUCCESS, DOctetString (Some a) (length b), h))
          else (PROTO_ERROR_MEMORY, DOctetString None (string_length out), h)
      | ACharacterString b \<Rightarrow>
          if vl_malloc_ok lib (length b + 1) h
          then (let (a, h) = heap_alloc (b @ [NUL]) h
                in (PROTO_SUCCESS, DCharacterString (Some a) (length b), h))
          else (PROTO_ERROR_MEMORY, DCharacterString None (string_length out), h)
      | AOther t \<Rightarrow> (PROTO_ERROR_UNSUPPORTED, out, h))"

section \<open>From the driver to the stack\<close>

text \<open>\<open>None\<close> is a fault, \<open>Some None\<close> the result \<open>false\<close>.\<close>

definition convert_to_application_value :: "value_lib \<Rightarrow> data_value \<Rightarrow> heap \<Rightarrow> app_value option option" where
  "convert_to_application_value lib input h =
     (case input of
        DNull \<Rightarrow> Some (Some ANull)
      | DBoolean b \<Rightarrow> Some (Some (ABoolean b))
      | DUnsigned u \<Rightarrow> Some (Some (AUnsigned (ucast u)))
      | DSigned i \<Rightarrow> Some (Some (ASigned i))
      | DReal r \<Rightarrow> Some (Some (AReal r))
      | DDouble d \<Rightarrow> Some (Some (ADouble d))
      | DEnum e \<Rightarrow> Some (Some (AEnumerated e))
      | DOctetString p n \<Rightarrow>
          (case p of
             None \<Rightarrow> Some None
           | Some a \<Rightarrow>
               if n = 0 \<or> MAX_OCTET_STRING_BYTES < n then Some None
               else map_option (\<lambda>b. Some (AOctetString (vl_octet_init lib b))) (heap_read a n h))
      | DCharacterString p n \<Rightarrow>
          (case p of
             None \<Rightarrow> Some None
           | Some a \<Rightarrow>
               if n = 0 \<or> MAX_CHARACTER_STRING_BYTES \<le> n then Some None
               else map_option
                 (\<lambda>data. let has_trailing_null = (data ! (n - 1) = NUL)
                         in if has_trailing_null then Some (ACharacterString (vl_ansi_init lib (cstr data)))
                            else Some (ACharacterString (vl_ansi_init lib (cstr (data @ [NUL])))))
                 (heap_read a n h)))"

section \<open>Freeing and display\<close>

text \<open>\<open>bacnet_data_value_free\<close> on a value that is present.\<close>

definition bacnet_data_value_free :: "data_value \<Rightarrow> heap \<Rightarrow> (data_value \<times> heap) option" where
  "bacnet_data_value_free v h =
     (case v of
        DOctetString (Some a) n \<Rightarrow> map_option (\<lambda>h. (DOctetString None 0, h)) (heap_free a h)
      | DCharacterString (Some a) n \<Rightarrow> map_option (\<lambda>h. (DCharacterString None 0, h)) (heap_free a h)
      | _ \<Rightarrow> Some (v, h))"

definition connection_state_to_string :: "conn_state \<Rightarrow> string" where
  "connection_state_to_string state =
     (case state of BACNET_CONN_IDLE \<Rightarrow> ''IDLE'' | BACNET_CONN_CONNECTING \<Rightarrow> ''CONNECTING''
      | BACNET_CONN_CONNECTED \<Rightarrow> ''CONNECTED'' | BACNET_CONN_DISCONNECTING \<Rightarrow> ''DISCONNECTING''
      | BACNET_CONN_DISCONNECTED \<Rightarrow> ''DISCONNECTED'')"

definition cache_strategy_to_string :: "cache_strategy \<Rightarrow> string" where
  "cache_strategy_to_string strategy =
     (case strategy of Aggressive \<Rightarrow> ''Aggressive (always send requests)''
      | Conservative \<Rightarrow> ''Conservative (use unexpired cache)'')"

definition is_invoke_id_valid :: "u8 \<Rightarrow> bool" where
  "is_invoke_id_valid invoke_id \<longleftrightarrow> invoke_id \<noteq> 0xFF"

text \<open>The string left in a buffer of \<open>buffer_size\<close> bytes (\<open>snprintf\<close> cuts it); the empty literal for no buffer.\<close>

definition invoke_id_to_string :: "u8 \<Rightarrow> nat \<Rightarrow> string" where
  "invoke_id_to_string invoke_id buffer_size =
     (if buffer_size = 0 then []
      else take (buffer_size - 1) (if is_invoke_id_valid invoke_id then dec_nat (unat invoke_id) else ''INVALID''))"

section \<open>The text of a status\<close>

text \<open>The texts are Chinese, in UTF-8, followed by the name of the status.\<close>

definition utf8 :: "nat list \<Rightarrow> string" where
  "utf8 bytes = map char_of bytes"

definition proto_status_to_string :: "int \<Rightarrow> string" where
  "proto_status_to_string status =
     (if status = PROTO_SUCCESS
      then utf8 [0xE6, 0x88, 0x90, 0xE5, 0x8A, 0x9F] @ '' (PROTO_SUCCESS)''
      else if status = PROTO_ERROR_INIT
      then utf8 [0xE5, 0x88, 0x9D, 0xE5, 0xA7, 0x8B, 0xE5, 0x8C, 0x96, 0xE5, 0xA4, 0xB1, 0xE8, 0xB4, 0xA5] @ '' (PROTO_ERROR_INIT)''
      else if status = PROTO_ERROR_CONNECT
      then utf8 [0xE8, 0xBF, 0x9E, 0xE6, 0x8E, 0xA5, 0xE5, 0xA4, 0xB1, 0xE8, 0xB4, 0xA5] @ '' (PROTO_ERROR_CONNECT)''
      else if status = PROTO_ERROR_READ
      then utf8 [0xE8, 0xAF, 0xBB, 0xE5, 0x8F, 0x96, 0xE5, 0xA4, 0xB1, 0xE8, 0xB4, 0xA5] @ '' (PROTO_ERROR_READ)''
      else if status = PROTO_ERROR_WRITE
      then utf8 [0xE5, 0x86, 0x99, 0xE5, 0x85, 0xA5, 0xE5, 0xA4, 0xB1, 0xE8, 0xB4, 0xA5] @ '' (PROTO_ERROR_WRITE)''
      else if status = PROTO_ERROR_UNSUPPORTED
      then utf8 [0xE4, 0xB8, 0x8D, 0xE6, 0x94, 0xAF, 0xE6, 0x8C, 0x81, 0xE7, 0x9A, 0x84, 0xE6, 0x93, 0x8D, 0xE4, 0xBD, 0x9C] @ '' (PROTO_ERROR_UNSUPPORTED)''
      else if status = PROTO_ERROR_PARAM
      then utf8 [0xE5, 0x8F, 0x82, 0xE6, 0x95, 0xB0, 0xE9, 0x94, 0x99, 0xE8, 0xAF, 0xAF] @ '' (PROTO_ERROR_PARAM)''
      else if status = PROTO_NO_DATA
      then utf8 [0xE6, 0x9A, 0x82, 0xE6, 0x97, 0xA0, 0xE6, 0x95, 0xB0, 0xE6, 0x8D, 0xAE] @ '' (PROTO_NO_DATA)''
      else if status = PROTO_ERROR_MEMORY
      then utf8 [0xE5, 0x86, 0x85, 0xE5, 0xAD, 0x98, 0xE9, 0x94, 0x99, 0xE8, 0xAF, 0xAF] @ '' (PROTO_ERROR_MEMORY)''
      else if status = PROTO_TIMEOUT
      then utf8 [0xE8, 0xB6, 0x85, 0xE6, 0x97, 0xB6] @ '' (PROTO_TIMEOUT)''
      else utf8 [0xE6, 0x9C, 0xAA, 0xE7, 0x9F, 0xA5, 0xE9, 0x94, 0x99, 0xE8, 0xAF, 0xAF])"

text \<open>Every status has a text of its own.\<close>

lemma proto_status_to_string_known:
  assumes "proto_status_to_string s = proto_status_to_string 1"
  shows "s \<notin> {PROTO_SUCCESS, PROTO_ERROR_INIT, PROTO_ERROR_CONNECT, PROTO_ERROR_READ, PROTO_ERROR_WRITE,
    PROTO_ERROR_UNSUPPORTED, PROTO_ERROR_PARAM, PROTO_NO_DATA, PROTO_ERROR_MEMORY, PROTO_TIMEOUT}"
  using arg_cong [OF assms, of length] by (auto simp: proto_status_to_string_def utf8_def code_consts)

section \<open>Plain values\<close>

datatype plain_value =
    PNull | PBoolean bool | PUnsigned u32 | PSigned "32 word" | PReal u32 | PDouble u64 | PEnum u32
  | POctets buffer | PText string

definition plain :: "heap \<Rightarrow> data_value \<Rightarrow> plain_value option" where
  "plain h v =
     (case v of
        DNull \<Rightarrow> Some PNull | DBoolean b \<Rightarrow> Some (PBoolean b) | DUnsigned u \<Rightarrow> Some (PUnsigned u)
      | DSigned i \<Rightarrow> Some (PSigned i) | DReal r \<Rightarrow> Some (PReal r) | DDouble d \<Rightarrow> Some (PDouble d)
      | DEnum e \<Rightarrow> Some (PEnum e)
      | DOctetString (Some a) n \<Rightarrow> map_option POctets (heap_read a n h)
      | DCharacterString (Some a) n \<Rightarrow> map_option (\<lambda>b. PText (cstr b)) (heap_read a n h)
      | _ \<Rightarrow> None)"

text \<open>The documented behaviour of the library's constructors on strings that fit.\<close>

definition strings_documented :: "value_lib \<Rightarrow> bool" where
  "strings_documented lib \<longleftrightarrow>
     (\<forall>b. length b \<le> MAX_OCTET_STRING_BYTES \<longrightarrow> vl_octet_init lib b = b) \<and>
     (\<forall>s. length s < MAX_CHARACTER_STRING_BYTES \<longrightarrow> vl_ansi_init lib s = s)"

lemma heap_read_alloc: "heap_alloc b h = (a, h') \<Longrightarrow> heap_read a (length b) h' = Some b"
  by (auto simp: heap_alloc_def heap_read_def)

lemma heap_read_alloc_prefix: "heap_alloc (b @ c) h = (a, h') \<Longrightarrow> heap_read a (length b) h' = Some b"
  by (auto simp: heap_alloc_def heap_read_def)

lemma heap_read_length: "heap_read a n h = Some b \<Longrightarrow> length b = n"
  by (auto simp: heap_read_def split: option.splits if_splits)

lemma ucast_u32_u64 [simp]: "ucast (ucast (x :: u32) :: u64) = x"
  by (simp add: ucast_up_ucast_id is_up)

lemma cstr_append_NUL: "cstr (b @ [NUL]) = cstr b"
  using cstr_before_NUL [of b "[]"] by simp

text \<open>C33: A value that can be written survives the trip through the protocol stack: converting it for
  a write and storing the converted value as a read does gives a value that stands for the same
  scalar, bytes or text (a text up to its first NUL).\<close>

theorem value_round_trip:
  assumes "strings_documented lib" "\<And>n h. vl_malloc_ok lib n h"
    and "convert_to_application_value lib v h = Some (Some av)"
    and "store_application_value lib av out h = (rc, v', h')"
  shows "rc = PROTO_SUCCESS \<and> plain h' v' = plain h v \<and> plain h v \<noteq> None"
proof (cases v)
  case (DOctetString p n)
  with assms(3) obtain a b where b: "p = Some a" "heap_read a n h = Some b" "n \<le> MAX_OCTET_STRING_BYTES"
    "av = AOctetString (vl_octet_init lib b)"
    by (auto simp: convert_to_application_value_def split: option.splits if_splits)
  have "vl_octet_init lib b = b"
    using assms(1) b(3) heap_read_length [OF b(2)] by (simp add: strings_documented_def)
  with assms(2,4) b DOctetString show ?thesis
    by (auto simp: store_application_value_def plain_def heap_read_alloc split: prod.splits)
next
  case (DCharacterString p n)
  with assms(3) obtain a b where b: "p = Some a" "heap_read a n h = Some b" "n < MAX_CHARACTER_STRING_BYTES"
    "av = ACharacterString (vl_ansi_init lib (cstr b))"
    by (auto simp: convert_to_application_value_def cstr_append_NUL Let_def split: option.splits if_splits)
  have "length (cstr b) < MAX_CHARACTER_STRING_BYTES"
    using b(3) heap_read_length [OF b(2)] length_cstr_le [of b] by simp
  with assms(1) have "vl_ansi_init lib (cstr b) = cstr b" by (simp add: strings_documented_def)
  with assms(2,4) b DCharacterString show ?thesis
    by (auto simp: store_application_value_def plain_def heap_read_alloc_prefix split: prod.splits)
qed (use assms(3,4) in \<open>auto simp: convert_to_application_value_def store_application_value_def plain_def\<close>)

definition sample_value_lib :: value_lib where
  "sample_value_lib = \<lparr>vl_octet_init = (\<lambda>b. b), vl_ansi_init = (\<lambda>s. s), vl_malloc_ok = (\<lambda>_ _. True)\<rparr>"

theorem value_round_trip_witness:
  "\<exists>v' h'. store_application_value sample_value_lib (ACharacterString ''on'') DNull
       \<lparr>blocks = [1 \<mapsto> ''on''], next_block = 2\<rparr> = (PROTO_SUCCESS, v', h') \<and> plain h' v' = Some (PText ''on'')"
proof -
  let ?h = "\<lparr>blocks = [1 \<mapsto> ''on''], next_block = 2\<rparr>"
  obtain rc v' h' where s: "store_application_value sample_value_lib (ACharacterString ''on'') DNull ?h = (rc, v', h')"
    by (metis prod_cases3)
  have "convert_to_application_value sample_value_lib (DCharacterString (Some 1) 2) ?h =
      Some (Some (ACharacterString ''on''))"
    by (simp add: convert_to_application_value_def heap_read_def sample_value_lib_def cstr_def code_consts)
  from value_round_trip [OF _ _ this s] s show ?thesis
    by (auto simp: strings_documented_def sample_value_lib_def plain_def heap_read_def cstr_def)
qed

end
