(* ===== verification/Bacnet_Context.thy ===== *)
theory Bacnet_Context
  imports Bacnet_Value
begin

text \<open>
  The state of the BACnet driver: the members of the singleton \<open>BacnetContext\<close>
  (\<open>proto_bacnet_internal.hpp\<close>), the heap, and the state of the protocol stack behind it. The stack
  (\<open>bacnet-stack\<close>) is a record of the functions the driver calls, over a state of any type. A handler
  of the driver runs as one step: what it does under its locks is not interleaved with other
  handlers; the order in which the locks are taken is the subject of \<open>Bacnet_Locks\<close>. Times are
  milliseconds of the monotonic clock.
\<close>

section \<open>The protocol stack\<close>

record 'l stack_lib =
  sl_address_bind :: "u32 \<Rightarrow> 'l \<Rightarrow> (nat \<times> bac_addr) option"
  sl_address_add :: "u32 \<Rightarrow> nat \<Rightarrow> bac_addr \<Rightarrow> 'l \<Rightarrow> 'l"
  sl_address_remove :: "u32 \<Rightarrow> 'l \<Rightarrow> 'l"
  sl_send_read :: "u32 \<Rightarrow> u16 \<Rightarrow> u32 \<Rightarrow> u32 \<Rightarrow> u32 \<Rightarrow> 'l \<Rightarrow> u8 \<times> 'l"
  sl_send_write :: "u32 \<Rightarrow> u16 \<Rightarrow> u32 \<Rightarrow> u32 \<Rightarrow> app_value \<Rightarrow> u8 \<Rightarrow> u32 \<Rightarrow> 'l \<Rightarrow> u8 \<times> 'l"
  sl_tsm_free :: "u8 \<Rightarrow> 'l \<Rightarrow> 'l"
  sl_who_is :: "u32 \<Rightarrow> u32 \<Rightarrow> 'l \<Rightarrow> 'l"
  sl_set_instance :: "u32 \<Rightarrow> 'l \<Rightarrow> 'l"
  sl_device_init :: "'l \<Rightarrow> 'l"                    \<comment> \<open>\<open>Device_Init\<close>, \<open>address_init\<close>, \<open>dlenv_init\<close>\<close>
  sl_bip_init :: "u16 \<Rightarrow> string option \<Rightarrow> 'l \<Rightarrow> bool \<times> 'l"
  sl_mstp_init :: "bacnet_config \<Rightarrow> 'l \<Rightarrow> bool \<times> 'l"
  sl_register_handlers :: "'l \<Rightarrow> 'l"
  sl_datalink_cleanup :: "'l \<Rightarrow> 'l"
  sl_tsm_timer :: "u16 \<Rightarrow> 'l \<Rightarrow> 'l"
  sl_maintenance :: "nat \<Rightarrow> 'l \<Rightarrow> 'l"
  sl_timer_expired :: "nat \<Rightarrow> u32 \<Rightarrow> nat \<Rightarrow> bool"     \<comment> \<open>start, interval, now\<close>
  sl_value_lib :: value_lib

definition BACNET_ARRAY_ALL :: u32 where [code_consts]: "BACNET_ARRAY_ALL = 0xFFFFFFFF"
definition BACNET_MAX_PRIORITY :: u8 where [code_consts]: "BACNET_MAX_PRIORITY = 16"

section \<open>The context\<close>

record 'l bctx =
  object_states :: "(object_key \<times> object_state) list"
  invoke_id_to_key :: "(u8 \<times> object_key) list"
  write_pending_map :: "(u8 \<times> write_item) list"
  bc_config :: bacnet_config
  target_device_start :: u32
  target_device_end :: u32
  bc_cache_strategy :: cache_strategy
  bc_cache_expiry_ms :: u32
  connection_state :: conn_state
  operation_state :: op_state
  target_found :: bool
  bc_reconnect_attempts :: int
  active_operation :: active_op
  worker_thread :: bool
  worker_running :: bool
  worker_stop :: bool
  device_address_to_id :: "(bac_addr \<times> u32) list"
  pending_reload :: bool
  callbacks :: "(string \<times> fn_ptr option \<times> user_ptr option) list"
  initialized :: bool
  callbacks_run :: "(fn_ptr \<times> int \<times> user_ptr option) list"   \<comment> \<open>callbacks started so far\<close>
  last_reconnect_attempt :: int                              \<comment> \<open>static of the reconnection check, in seconds\<close>
  bc_heap :: heap
  stack :: 'l

definition bctx_start :: "'l \<Rightarrow> 'l bctx" where
  "bctx_start l =
     \<lparr>object_states = [], invoke_id_to_key = [], write_pending_map = [],
      bc_config = BACNET_CONFIG_INIT\<lparr>cf_hot_config_enabled := 0\<rparr>,
      target_device_start = 0, target_device_end = 0, bc_cache_strategy = Aggressive,
      bc_cache_expiry_ms = kCacheExpiryMs, connection_state = BACNET_CONN_IDLE,
      operation_state = BACNET_OP_IDLE, target_found = False, bc_reconnect_attempts = 0,
      active_operation = active_op_zero, worker_thread = False, worker_running = False,
      worker_stop = False, device_address_to_id = [], pending_reload = False, callbacks = [],
      initialized = False, callbacks_run = [], last_reconnect_attempt = 0,
      bc_heap = \<lparr>blocks = Map.empty, next_block = 1\<rparr>, stack = l\<rparr>"

section \<open>State accessors and the active operation\<close>

definition set_connection_state :: "conn_state \<Rightarrow> 'l bctx \<Rightarrow> 'l bctx" where
  "set_connection_state s c = c\<lparr>connection_state := s\<rparr>"

definition get_connection_state :: "'l bctx option \<Rightarrow> conn_state" where
  "get_connection_state c = (case c of None \<Rightarrow> BACNET_CONN_IDLE | Some c \<Rightarrow> connection_state c)"

definition set_operation_state :: "op_state \<Rightarrow> 'l bctx \<Rightarrow> 'l bctx" where
  "set_operation_state s c = c\<lparr>operation_state := s\<rparr>"

definition get_operation_state :: "'l bctx option \<Rightarrow> op_state" where
  "get_operation_state c = (case c of None \<Rightarrow> BACNET_OP_IDLE | Some c \<Rightarrow> operation_state c)"

definition reset_active_operation_locked :: "'l bctx \<Rightarrow> 'l bctx" where
  "reset_active_operation_locked c = c\<lparr>active_operation := active_op_reset (active_operation c)\<rparr>"

definition get_active_operation_snapshot :: "'l bctx option \<Rightarrow> active_op option" where
  "get_active_operation_snapshot c =
     (case c of None \<Rightarrow> None
      | Some c \<Rightarrow> if active_op_is_active (active_operation c) then Some (active_operation c) else None)"

definition tsm_free :: "'l stack_lib \<Rightarrow> u8 \<Rightarrow> 'l bctx \<Rightarrow> 'l bctx" where
  "tsm_free lib i c = c\<lparr>stack := sl_tsm_free lib i (stack c)\<rparr>"

section \<open>Callbacks of the user\<close>

definition set_callback :: "string option \<Rightarrow> fn_ptr option \<Rightarrow> user_ptr option \<Rightarrow> 'l bctx \<Rightarrow> 'l bctx" where
  "set_callback type callback userdata c =
     (case type of None \<Rightarrow> c | Some t \<Rightarrow> c\<lparr>callbacks := AList.update t (callback, userdata) (callbacks c)\<rparr>)"

text \<open>The callback runs in a thread of its own: starting it is what the driver does.\<close>

definition trigger_callback :: "string \<Rightarrow> int \<Rightarrow> 'l bctx \<Rightarrow> 'l bctx" where
  "trigger_callback type status c =
     (case map_of (callbacks c) type of
        Some (Some f, ud) \<Rightarrow> c\<lparr>callbacks_run := callbacks_run c @ [(f, status, ud)]\<rparr>
      | _ \<Rightarrow> c)"

definition finalize_operation :: "'l stack_lib \<Rightarrow> int \<Rightarrow> 'l bctx \<Rightarrow> 'l bctx" where
  "finalize_operation lib status c =
     (if \<not> active_op_is_active (active_operation c) then c
      else
        let invoke_id = op_invoke_id (active_operation c);
            c = reset_active_operation_locked c;
            c = (if invoke_id \<noteq> 0 then tsm_free lib invoke_id c else c);
            c = set_operation_state (if status = PROTO_SUCCESS then BACNET_OP_SUCCESS else BACNET_OP_FAILED) c
        in trigger_callback ''operation'' status c)"

section \<open>The table of device addresses\<close>

text \<open>A map keyed by \<open>BACnetAddressEqual\<close>: \<open>m[a] = d\<close> and \<open>m[a]\<close>, which inserts 0 for a new key.\<close>

fun device_update :: "bac_addr \<Rightarrow> u32 \<Rightarrow> (bac_addr \<times> u32) list \<Rightarrow> (bac_addr \<times> u32) list" where
  "device_update a d [] = [(a, d)]"
| "device_update a d ((b, e) # m) = (if address_equal a b then (b, d) # m else (b, e) # device_update a d m)"

fun device_lookup :: "bac_addr \<Rightarrow> (bac_addr \<times> u32) list \<Rightarrow> u32 option" where
  "device_lookup a [] = None"
| "device_lookup a ((b, e) # m) = (if address_equal a b then Some e else device_lookup a m)"

definition device_index :: "bac_addr \<Rightarrow> (bac_addr \<times> u32) list \<Rightarrow> u32 \<times> (bac_addr \<times> u32) list" where
  "device_index a m = (case device_lookup a m of Some d \<Rightarrow> (d, m) | None \<Rightarrow> (0, device_update a 0 m))"

section \<open>Frame lemmas\<close>

text \<open>The tables of the requests, which most of the bookkeeping leaves alone.\<close>

definition same_requests :: "'l bctx \<Rightarrow> 'l bctx \<Rightarrow> bool" where
  "same_requests c c' \<longleftrightarrow> object_states c' = object_states c \<and> invoke_id_to_key c' = invoke_id_to_key c \<and>
     write_pending_map c' = write_pending_map c"

lemma same_requests_refl [simp]: "same_requests c c"
  by (simp add: same_requests_def)

lemma state_accessors [simp]:
  "object_states (set_connection_state s c) = object_states c"
  "invoke_id_to_key (set_connection_state s c) = invoke_id_to_key c"
  "write_pending_map (set_connection_state s c) = write_pending_map c"
  "stack (set_connection_state s c) = stack c" "worker_stop (set_connection_state s c) = worker_stop c"
  "worker_running (set_connection_state s c) = worker_running c"
  "target_found (set_connection_state s c) = target_found c"
  "connection_state (set_connection_state s c) = s" "initialized (set_connection_state s c) = initialized c"
  "object_states (set_operation_state os c) = object_states c"
  "invoke_id_to_key (set_operation_state os c) = invoke_id_to_key c"
  "write_pending_map (set_operation_state os c) = write_pending_map c"
  "stack (set_operation_state os c) = stack c" "operation_state (set_operation_state os c) = os"
  "connection_state (set_operation_state os c) = connection_state c"
  "initialized (set_operation_state os c) = initialized c"
  by (simp_all add: set_connection_state_def set_operation_state_def)

lemma tsm_free_sel [simp]:
  "object_states (tsm_free lib i c) = object_states c" "invoke_id_to_key (tsm_free lib i c) = invoke_id_to_key c"
  "write_pending_map (tsm_free lib i c) = write_pending_map c"
  "stack (tsm_free lib i c) = sl_tsm_free lib i (stack c)" "initialized (tsm_free lib i c) = initialized c"
  "connection_state (tsm_free lib i c) = connection_state c" "bc_heap (tsm_free lib i c) = bc_heap c"
  "bc_config (tsm_free lib i c) = bc_config c"
  by (simp_all add: tsm_free_def)

lemma trigger_callback_sel [simp]:
  "object_states (trigger_callback t s c) = object_states c"
  "invoke_id_to_key (trigger_callback t s c) = invoke_id_to_key c"
  "write_pending_map (trigger_callback t s c) = write_pending_map c"
  "stack (trigger_callback t s c) = stack c" "connection_state (trigger_callback t s c) = connection_state c"
  "worker_stop (trigger_callback t s c) = worker_stop c" "initialized (trigger_callback t s c) = initialized c"
  "worker_running (trigger_callback t s c) = worker_running c"
  by (simp_all add: trigger_callback_def split: option.splits prod.splits)

lemma reset_active_sel [simp]:
  "object_states (reset_active_operation_locked c) = object_states c"
  "invoke_id_to_key (reset_active_operation_locked c) = invoke_id_to_key c"
  "write_pending_map (reset_active_operation_locked c) = write_pending_map c"
  "stack (reset_active_operation_locked c) = stack c"
  by (simp_all add: reset_active_operation_locked_def)

lemma finalize_operation_requests: "same_requests c (finalize_operation lib st c)"
  by (simp add: finalize_operation_def same_requests_def Let_def)

lemma device_lookup_update [simp]: "device_lookup a (device_update a d m) = Some d"
  by (induction m) auto

lemma device_lookup_update_other:
  "\<not> address_equal a b \<Longrightarrow> device_lookup b (device_update a d m) = device_lookup b m"
  by (induction m) (auto, (metis address_equal_sym address_equal_trans)+)

end
