(* ===== verification/Bacnet_IO.thy ===== *)
theory Bacnet_IO
  imports Bacnet_Context
begin

text \<open>
  Sending requests (\<open>proto_bacnet_io.cc\<close>): the address of the target, ReadProperty with its entry in the
  table of invoke ids, WriteProperty with its entry in the table of unconfirmed writes.
\<close>

section \<open>The target\<close>

definition resolve_target_address :: "'l stack_lib \<Rightarrow> 'l bctx option \<Rightarrow> u32 \<Rightarrow> int \<times> bac_addr" where
  "resolve_target_address lib ctx device_instance =
     (case ctx of
        None \<Rightarrow> (PROTO_ERROR_PARAM, address_zero)
      | Some c \<Rightarrow>
          if device_instance < target_device_start c \<or> target_device_end c < device_instance
          then (PROTO_ERROR_PARAM, address_zero)
          else (case sl_address_bind lib device_instance (stack c) of
                  None \<Rightarrow> (PROTO_ERROR_CONNECT, address_zero)
                | Some (max_apdu, address) \<Rightarrow> (PROTO_SUCCESS, address)))"

text \<open>A timeout of the request, else of the configuration, else the default.\<close>

definition choose_timeout :: "u32 \<Rightarrow> u32 \<Rightarrow> u32 \<Rightarrow> u32" where
  "choose_timeout requested configured fallback =
     (let t = (if requested \<noteq> 0 then requested else configured) in if t = 0 then fallback else t)"

definition choose_array_index :: "32 word \<Rightarrow> u32" where
  "choose_array_index i = (if sint i < 0 then BACNET_ARRAY_ALL else i)"

section \<open>ReadProperty\<close>

text \<open>The result is the status, the invoke id (when one is output) and the context.\<close>

definition execute_read_property ::
  "'l stack_lib \<Rightarrow> nat \<Rightarrow> 'l bctx option \<Rightarrow> bacnet_read option \<Rightarrow> int \<times> u8 option \<times> 'l bctx option" where
  "execute_read_property lib now ctx req =
     (case (ctx, req) of
        (Some c, Some r) \<Rightarrow>
          if \<not> rq_value r then (PROTO_ERROR_PARAM, None, ctx)
          else if connection_state c \<noteq> BACNET_CONN_CONNECTED then (PROTO_ERROR_CONNECT, None, ctx)
          else
            (let (status, target) = resolve_target_address lib ctx (rq_device r) in
             if status \<noteq> PROTO_SUCCESS then (status, None, ctx)
             else
               let c = c\<lparr>active_operation := (active_operation c)
                     \<lparr>op_type := KindRead, op_request := Some (rq_self r), op_target := target,
                      op_device := rq_device r, op_start_time := now,
                      op_timeout_ms := choose_timeout (rq_timeout_ms r) (cf_read_timeout_ms (bc_config c)) kReadTimeoutMs\<rparr>\<rparr>;
                   (invoke_id, l) = sl_send_read lib (rq_device r) (rq_type r) (rq_instance r) (rq_property r)
                     (choose_array_index (rq_array_index r)) (stack c);
                   c = c\<lparr>stack := l\<rparr>
               in if invoke_id = 0
                  then (PROTO_ERROR_READ, None, Some (c\<lparr>active_operation := active_op_reset (active_operation c)\<rparr>))
                  else
                    let c = c\<lparr>active_operation := (active_operation c)\<lparr>op_invoke_id := invoke_id\<rparr>\<rparr>;
                        c = set_operation_state BACNET_OP_PENDING c;
                        key = \<lparr>key_device = rq_device r, key_type = rq_type r, key_instance = rq_instance r,
                               key_property = rq_property r\<rparr>;
                        c = c\<lparr>invoke_id_to_key := AList.update invoke_id key (invoke_id_to_key c)\<rparr>
                    in (PROTO_SUCCESS, Some invoke_id, Some c))
      | _ \<Rightarrow> (PROTO_ERROR_PARAM, None, ctx))"

section \<open>WriteProperty\<close>

definition choose_priority :: "u8 \<Rightarrow> u8 \<Rightarrow> u8" where
  "choose_priority requested configured =
     (let p = (if requested = 0 then configured else requested) in if p = 0 then BACNET_MAX_PRIORITY else p)"

text \<open>The outer \<open>None\<close> is a memory fault (a string value whose block is gone).\<close>

definition execute_write_property ::
  "'l stack_lib \<Rightarrow> nat \<Rightarrow> 'l bctx option \<Rightarrow> bacnet_write option \<Rightarrow> (int \<times> u8 option \<times> 'l bctx option) option" where
  "execute_write_property lib now ctx req =
     (case (ctx, req) of
        (Some c, Some r) \<Rightarrow>
          if connection_state c \<noteq> BACNET_CONN_CONNECTED then Some (PROTO_ERROR_CONNECT, None, ctx)
          else
            (let (status, target) = resolve_target_address lib ctx (wq_device r) in
             if status \<noteq> PROTO_SUCCESS then Some (status, None, ctx)
             else
               (case convert_to_application_value (sl_value_lib lib) (wq_value r) (bc_heap c) of
                  None \<Rightarrow> None
                | Some None \<Rightarrow> Some (PROTO_ERROR_PARAM, None, ctx)
                | Some (Some av) \<Rightarrow>
                    let timeout = choose_timeout (wq_timeout_ms r) (cf_write_timeout_ms (bc_config c)) kWriteTimeoutMs;
                        c = c\<lparr>active_operation := (active_operation c)
                          \<lparr>op_type := KindWrite, op_request := Some (wq_self r), op_target := target,
                           op_device := wq_device r, op_start_time := now, op_timeout_ms := timeout\<rparr>\<rparr>;
                        priority = choose_priority (wq_priority r) (cf_default_priority (bc_config c));
                        array_index = choose_array_index (wq_array_index r);
                        (invoke_id, l) = sl_send_write lib (wq_device r) (wq_type r) (wq_instance r)
                          (wq_property r) av priority array_index (stack c);
                        c = c\<lparr>stack := l\<rparr>
                    in if invoke_id = 0
                       then Some (PROTO_ERROR_WRITE, None,
                              Some (c\<lparr>active_operation := active_op_reset (active_operation c)\<rparr>))
                       else
                         let c = c\<lparr>active_operation := (active_operation c)\<lparr>op_invoke_id := invoke_id\<rparr>\<rparr>;
                             c = set_operation_state BACNET_OP_PENDING c;
                             item = \<lparr>wi_device = wq_device r, wi_type = wq_type r, wi_instance = wq_instance r,
                                     wi_property = wq_property r, wi_invoke_id = invoke_id, wi_value = wq_value r,
                                     wi_priority = priority, wi_array_index = array_index, wi_timestamp = now,
                                     wi_timeout_ms = timeout\<rparr>;
                             c = c\<lparr>write_pending_map := AList.update invoke_id item (write_pending_map c)\<rparr>
                         in Some (PROTO_SUCCESS, Some invoke_id, Some c)))
      | _ \<Rightarrow> Some (PROTO_ERROR_PARAM, None, ctx))"

section \<open>What sending does to the tables\<close>

definition read_key :: "bacnet_read \<Rightarrow> object_key" where
  "read_key r = \<lparr>key_device = rq_device r, key_type = rq_type r, key_instance = rq_instance r,
     key_property = rq_property r\<rparr>"

lemma choose_timeout_positive: "fallback \<noteq> 0 \<Longrightarrow> choose_timeout a b fallback \<noteq> 0"
  by (simp add: choose_timeout_def Let_def)

lemma choose_priority_positive: "choose_priority a b \<noteq> 0"
  by (simp add: choose_priority_def Let_def code_consts)

lemma resolve_never_no_data:
  "resolve_target_address lib ctx d = (status, target) \<Longrightarrow> status \<noteq> PROTO_NO_DATA"
  by (auto simp: resolve_target_address_def code_consts Let_def split: if_splits option.splits prod.splits)

lemma execute_read_property_cases:
  assumes "execute_read_property lib now (Some c) (Some r) = (rc, out, ctx')"
  obtains (Refused) "rc \<noteq> PROTO_SUCCESS" "rc \<noteq> PROTO_NO_DATA" "out = None" "ctx' = Some c"
  | (Unsent) c' where "rc = PROTO_ERROR_READ" "out = None" "ctx' = Some c'" "same_requests c c'"
      "connection_state c' = connection_state c" "initialized c' = initialized c"
      "fst (sl_send_read lib (rq_device r) (rq_type r) (rq_instance r) (rq_property r)
         (choose_array_index (rq_array_index r)) (stack c)) = 0"
      "stack c' = snd (sl_send_read lib (rq_device r) (rq_type r) (rq_instance r) (rq_property r)
         (choose_array_index (rq_array_index r)) (stack c))" "bc_heap c' = bc_heap c"
  | (Sent) c' i where "rc = PROTO_SUCCESS" "out = Some i" "ctx' = Some c'" "i \<noteq> 0"
      "sl_send_read lib (rq_device r) (rq_type r) (rq_instance r) (rq_property r)
         (choose_array_index (rq_array_index r)) (stack c) = (i, stack c')"
      "object_states c' = object_states c" "write_pending_map c' = write_pending_map c"
      "invoke_id_to_key c' = AList.update i (read_key r) (invoke_id_to_key c)"
      "connection_state c' = connection_state c" "initialized c' = initialized c"
      "bc_cache_strategy c' = bc_cache_strategy c" "bc_cache_expiry_ms c' = bc_cache_expiry_ms c"
      "bc_config c' = bc_config c" "bc_heap c' = bc_heap c"
proof -
  obtain status target where res: "resolve_target_address lib (Some c) (rq_device r) = (status, target)"
    by fastforce
  obtain i l where send: "sl_send_read lib (rq_device r) (rq_type r) (rq_instance r) (rq_property r)
         (choose_array_index (rq_array_index r)) (stack c) = (i, l)" by fastforce
  consider "\<not> rq_value r \<or> connection_state c \<noteq> BACNET_CONN_CONNECTED \<or> status \<noteq> PROTO_SUCCESS"
    | "rq_value r" "connection_state c = BACNET_CONN_CONNECTED" "status = PROTO_SUCCESS" "i = 0"
    | "rq_value r" "connection_state c = BACNET_CONN_CONNECTED" "status = PROTO_SUCCESS" "i \<noteq> 0"
    by blast
  then show thesis
  proof cases
    case 1
    then show thesis
      using assms res resolve_never_no_data [OF res]
      by (intro Refused) (auto simp: execute_read_property_def code_consts split: if_splits)
  next
    case 2
    then show thesis
      using assms res send
      by (intro Unsent [of "the ctx'"]) (auto simp: execute_read_property_def same_requests_def Let_def)
  next
    case 3
    then show thesis
      using assms res send
      by (intro Sent [of i "the ctx'"])
        (auto simp: execute_read_property_def Let_def read_key_def set_operation_state_def)
  qed
qed

lemma execute_write_property_cases:
  assumes "execute_write_property lib now (Some c) (Some r) = Some (rc, out, ctx')"
  obtains (Refused) "rc \<noteq> PROTO_SUCCESS" "out = None" "ctx' = Some c"
  | (Unsent) c' where "rc = PROTO_ERROR_WRITE" "out = None" "ctx' = Some c'" "same_requests c c'"
      "\<exists>v p j. sl_send_write lib (wq_device r) (wq_type r) (wq_instance r) (wq_property r) v p j (stack c) =
         (0, stack c')" "connection_state c' = connection_state c" "initialized c' = initialized c"
      "bc_heap c' = bc_heap c"
  | (Sent) c' i item where "rc = PROTO_SUCCESS" "out = Some i" "ctx' = Some c'" "i \<noteq> 0"
      "\<exists>v p j. sl_send_write lib (wq_device r) (wq_type r) (wq_instance r) (wq_property r) v p j (stack c) =
         (i, stack c')"
      "object_states c' = object_states c" "invoke_id_to_key c' = invoke_id_to_key c"
      "write_pending_map c' = AList.update i item (write_pending_map c)"
      "wi_invoke_id item = i" "wi_timestamp item = now" "wi_priority item \<noteq> 0" "wi_timeout_ms item \<noteq> 0"
      "connection_state c' = connection_state c" "initialized c' = initialized c" "bc_heap c' = bc_heap c"
proof -
  obtain status target where res: "resolve_target_address lib (Some c) (wq_device r) = (status, target)"
    by fastforce
  show thesis
  proof (cases "connection_state c \<noteq> BACNET_CONN_CONNECTED \<or> status \<noteq> PROTO_SUCCESS \<or>
      convert_to_application_value (sl_value_lib lib) (wq_value r) (bc_heap c) = Some None")
    case True
    then show thesis
      using assms res by (intro Refused) (auto simp: execute_write_property_def code_consts split: if_splits)
  next
    case False
    with assms res obtain av where conn: "connection_state c = BACNET_CONN_CONNECTED" "status = PROTO_SUCCESS"
      and val: "convert_to_application_value (sl_value_lib lib) (wq_value r) (bc_heap c) = Some (Some av)"
      by (auto simp: execute_write_property_def split: option.splits)
    obtain i l where send: "sl_send_write lib (wq_device r) (wq_type r) (wq_instance r) (wq_property r) av
        (choose_priority (wq_priority r) (cf_default_priority (bc_config c)))
        (choose_array_index (wq_array_index r)) (stack c) = (i, l)" by fastforce
    have pos: "choose_timeout (wq_timeout_ms r) (cf_write_timeout_ms (bc_config c)) kWriteTimeoutMs \<noteq> 0"
      by (rule choose_timeout_positive) (simp add: code_consts)
    show thesis
    proof (cases "i = 0")
      case True
      with assms res conn val send show thesis
        by (intro Unsent [of "the ctx'"])
          (auto simp: execute_write_property_def same_requests_def Let_def intro!: exI)
    next
      case False
      then show thesis
        using assms res conn val send pos
        by (intro Sent [where c' = "the ctx'" and i = i])
          (auto simp: execute_write_property_def Let_def set_operation_state_def choose_priority_positive intro!: exI)
    qed
  qed
qed

end
