(* ===== verification/Bacnet_Callbacks.thy ===== *)
theory Bacnet_Callbacks
  imports Bacnet_IO
begin

text \<open>
  The handlers the protocol stack calls (\<open>proto_bacnet_callbacks.cc\<close>) and their dispatch. What the
  stack decodes from a packet is part of the packet: a service that does not decode is \<open>None\<close>.
  Logging is left out.
\<close>

section \<open>I-Am\<close>

definition handle_iam_callback ::
  "'l stack_lib \<Rightarrow> (u32 \<times> nat) option \<Rightarrow> bac_addr \<Rightarrow> 'l bctx \<Rightarrow> 'l bctx" where
  "handle_iam_callback lib decoded src c =
     (if \<not> initialized c then c
      else case decoded of
             None \<Rightarrow> c
           | Some (device_id, max_apdu) \<Rightarrow>
               if device_id < target_device_start c \<or> target_device_end c < device_id then c
               else c\<lparr>stack := sl_address_add lib device_id max_apdu src (stack c),
                      device_address_to_id := device_update src device_id (device_address_to_id c),
                      target_found := True\<rparr>)"

section \<open>ReadProperty acknowledgement\<close>

text \<open>The entry of an object after its value arrived.\<close>

definition store_in_cache :: "'l stack_lib \<Rightarrow> nat \<Rightarrow> app_value \<Rightarrow> object_state \<Rightarrow> heap \<Rightarrow> object_state \<times> heap" where
  "store_in_cache lib now av st h =
     (let (status, v, h) = store_application_value (sl_value_lib lib) av (cached_value st) h;
          st = st\<lparr>cached_value := v\<rparr>
      in if status = PROTO_SUCCESS
         then (st\<lparr>has_valid_cache := True, st_status := PROTO_SUCCESS, st_timestamp := now, active_invoke_id := 0\<rparr>, h)
         else (st\<lparr>st_status := status, active_invoke_id := 0\<rparr>, h))"

text \<open>\<open>decoded\<close> is \<open>None\<close> when the acknowledgement does not decode, \<open>Some None\<close> when its application data
  does not.\<close>

definition handle_read_property_ack ::
  "'l stack_lib \<Rightarrow> nat \<Rightarrow> app_value option option \<Rightarrow> bac_addr \<Rightarrow> u8 \<Rightarrow> 'l bctx \<Rightarrow> 'l bctx" where
  "handle_read_property_ack lib now decoded src invoke_id c =
     (if \<not> initialized c then c
      else case decoded of
             None \<Rightarrow> c
           | Some body \<Rightarrow>
               (let (device_id, m) = device_index src (device_address_to_id c);
                    c = c\<lparr>device_address_to_id := m\<rparr>
                in case map_of (invoke_id_to_key c) invoke_id of
                     None \<Rightarrow> tsm_free lib invoke_id c
                   | Some key \<Rightarrow>
                       (let c = c\<lparr>invoke_id_to_key := AList.delete invoke_id (invoke_id_to_key c)\<rparr>
                        in case body of
                             None \<Rightarrow> tsm_free lib invoke_id c
                           | Some av \<Rightarrow>
                               (let c = (case map_of (object_states c) key of
                                           None \<Rightarrow> c
                                         | Some st \<Rightarrow>
                                             (let (st, h) = store_in_cache lib now av st (bc_heap c)
                                              in c\<lparr>object_states := AList.update key st (object_states c),
                                                   bc_heap := h\<rparr>))
                                in tsm_free lib invoke_id c))))"

section \<open>WriteProperty acknowledgement\<close>

definition free_if_valid :: "'l stack_lib \<Rightarrow> u8 \<Rightarrow> 'l bctx \<Rightarrow> 'l bctx" where
  "free_if_valid lib invoke_id c = (if invoke_id \<noteq> 0 then tsm_free lib invoke_id c else c)"

definition handle_write_property_ack :: "'l stack_lib \<Rightarrow> u8 \<Rightarrow> 'l bctx \<Rightarrow> 'l bctx" where
  "handle_write_property_ack lib invoke_id c =
     (if \<not> initialized c then c
      else free_if_valid lib invoke_id
             (c\<lparr>write_pending_map := AList.delete invoke_id (write_pending_map c)\<rparr>))"

section \<open>Error, abort and reject\<close>

definition ERROR_CODE_UNKNOWN_OBJECT :: nat where [code_consts]: "ERROR_CODE_UNKNOWN_OBJECT = 31"
definition ERROR_CODE_UNKNOWN_PROPERTY :: nat where [code_consts]: "ERROR_CODE_UNKNOWN_PROPERTY = 32"
definition ERROR_CODE_UNSUPPORTED_OBJECT_TYPE :: nat where [code_consts]: "ERROR_CODE_UNSUPPORTED_OBJECT_TYPE = 36"

text \<open>A finished request of an object: its error, and no request in flight.\<close>

definition fail_object :: "object_key \<Rightarrow> int \<Rightarrow> 'l bctx \<Rightarrow> 'l bctx" where
  "fail_object key status c =
     (case map_of (object_states c) key of
        None \<Rightarrow> c
      | Some st \<Rightarrow> c\<lparr>object_states :=
          AList.update key (st\<lparr>st_status := status, active_invoke_id := 0\<rparr>) (object_states c)\<rparr>)"

definition handle_error_response :: "'l stack_lib \<Rightarrow> u8 \<Rightarrow> nat \<Rightarrow> 'l bctx \<Rightarrow> 'l bctx" where
  "handle_error_response lib invoke_id error_code c =
     (if \<not> initialized c then c
      else free_if_valid lib invoke_id
        (case map_of (invoke_id_to_key c) invoke_id of
           Some key \<Rightarrow>
             fail_object key
               (if error_code = ERROR_CODE_UNKNOWN_PROPERTY \<or> error_code = ERROR_CODE_UNKNOWN_OBJECT \<or>
                   error_code = ERROR_CODE_UNSUPPORTED_OBJECT_TYPE
                then PROTO_ERROR_UNSUPPORTED else PROTO_ERROR_READ)
               (c\<lparr>invoke_id_to_key := AList.delete invoke_id (invoke_id_to_key c)\<rparr>)
         | None \<Rightarrow> c\<lparr>write_pending_map := AList.delete invoke_id (write_pending_map c)\<rparr>))"

definition handle_abort_response :: "'l stack_lib \<Rightarrow> u8 \<Rightarrow> 'l bctx \<Rightarrow> 'l bctx" where
  "handle_abort_response lib invoke_id c =
     (if \<not> initialized c then c
      else free_if_valid lib invoke_id
        (case map_of (invoke_id_to_key c) invoke_id of
           Some key \<Rightarrow> fail_object key PROTO_ERROR_READ
             (c\<lparr>invoke_id_to_key := AList.delete invoke_id (invoke_id_to_key c)\<rparr>)
         | None \<Rightarrow> c))"

definition handle_reject_response :: "'l stack_lib \<Rightarrow> u8 \<Rightarrow> 'l bctx \<Rightarrow> 'l bctx" where
  "handle_reject_response lib invoke_id c =
     (if \<not> initialized c then c
      else free_if_valid lib invoke_id
        (case map_of (invoke_id_to_key c) invoke_id of
           Some key \<Rightarrow> fail_object key PROTO_ERROR_READ
             (c\<lparr>invoke_id_to_key := AList.delete invoke_id (invoke_id_to_key c)\<rparr>)
         | None \<Rightarrow> c))"

section \<open>Dispatch\<close>

text \<open>What a received packet is to the driver, after the stack has taken it apart.\<close>

datatype packet =
    IAm "(u32 \<times> nat) option" bac_addr
  | ReadAck "app_value option option" bac_addr u8
  | WriteAck u8
  | ErrorResponse u8 nat
  | AbortResponse u8
  | RejectResponse u8
  | OtherPacket

text \<open>The registrations of \<open>register_bacnet_handlers\<close>: which handler a packet goes to.\<close>

definition npdu_handler :: "'l stack_lib \<Rightarrow> nat \<Rightarrow> packet \<Rightarrow> 'l bctx \<Rightarrow> 'l bctx" where
  "npdu_handler lib now p c =
     (case p of
        IAm d src \<Rightarrow> handle_iam_callback lib d src c
      | ReadAck d src i \<Rightarrow> handle_read_property_ack lib now d src i c
      | WriteAck i \<Rightarrow> handle_write_property_ack lib i c
      | ErrorResponse i code \<Rightarrow> handle_error_response lib i code c
      | AbortResponse i \<Rightarrow> handle_abort_response lib i c
      | RejectResponse i \<Rightarrow> handle_reject_response lib i c
      | OtherPacket \<Rightarrow> c)"

definition register_bacnet_handlers :: "'l stack_lib \<Rightarrow> 'l bctx option \<Rightarrow> 'l bctx option" where
  "register_bacnet_handlers lib ctx = map_option (\<lambda>c. c\<lparr>stack := sl_register_handlers lib (stack c)\<rparr>) ctx"

lemma fail_object_sel [simp]:
  "invoke_id_to_key (fail_object k s c) = invoke_id_to_key c" "write_pending_map (fail_object k s c) = write_pending_map c"
  "stack (fail_object k s c) = stack c" "initialized (fail_object k s c) = initialized c"
  "connection_state (fail_object k s c) = connection_state c" "worker_stop (fail_object k s c) = worker_stop c"
  "target_found (fail_object k s c) = target_found c"
  by (simp_all add: fail_object_def split: option.splits)

lemma free_if_valid_sel [simp]:
  "object_states (free_if_valid lib i c) = object_states c"
  "invoke_id_to_key (free_if_valid lib i c) = invoke_id_to_key c"
  "write_pending_map (free_if_valid lib i c) = write_pending_map c"
  "initialized (free_if_valid lib i c) = initialized c"
  "stack (free_if_valid lib i c) = (if i = 0 then stack c else sl_tsm_free lib i (stack c))"
  by (simp_all add: free_if_valid_def)

text \<open>No packet clears the initialisation or the stop flag, and only an I-Am touches \<open>target_found\<close>.\<close>

lemma npdu_handler_flags:
  "initialized (npdu_handler lib now p c) = initialized c"
  "worker_stop (npdu_handler lib now p c) = worker_stop c"
  "worker_running (npdu_handler lib now p c) = worker_running c"
  "target_device_start (npdu_handler lib now p c) = target_device_start c"
  "target_device_end (npdu_handler lib now p c) = target_device_end c"
  by (cases p; simp add: npdu_handler_def handle_iam_callback_def handle_read_property_ack_def
      handle_write_property_ack_def handle_error_response_def handle_abort_response_def
      handle_reject_response_def fail_object_def free_if_valid_def tsm_free_def Let_def
      split: option.splits prod.splits)+

definition iam_in_range :: "'l bctx \<Rightarrow> packet \<Rightarrow> bool" where
  "iam_in_range c p \<longleftrightarrow>
     (case p of IAm (Some (d, m)) src \<Rightarrow> target_device_start c \<le> d \<and> d \<le> target_device_end c | _ \<Rightarrow> False)"

lemma npdu_handler_target_found:
  "target_found (npdu_handler lib now p c) \<longleftrightarrow> target_found c \<or> initialized c \<and> iam_in_range c p"
  by (cases p; auto simp: npdu_handler_def handle_iam_callback_def handle_read_property_ack_def
      handle_write_property_ack_def handle_error_response_def handle_abort_response_def
      handle_reject_response_def fail_object_def free_if_valid_def tsm_free_def Let_def iam_in_range_def
      split: option.splits prod.splits)

end
