(* ===== verification/Bacnet_Discovery.thy ===== *)
theory Bacnet_Discovery
  imports Bacnet_Callbacks
begin

text \<open>
  Device discovery and the worker thread (\<open>proto_bacnet_discovery.cc\<close>). A loop that waits for the
  network is a recursion over its rounds: the time of the round, the packet received in it (if any),
  and whether another thread asked the worker to stop. A list that ends before the loop does stands
  for a loop that is still waiting (\<open>None\<close>).
\<close>

section \<open>Discovery\<close>

record disc_round =
  dr_now :: nat
  dr_stop :: bool
  dr_packet :: "packet option"

text \<open>One pass of the waiting loop after its checks: receive, and maintain the data link. The pair is the
  start of the data link timer and the context.\<close>

definition discover_pass :: "'l stack_lib \<Rightarrow> u32 \<Rightarrow> disc_round \<Rightarrow> nat \<times> 'l bctx \<Rightarrow> nat \<times> 'l bctx" where
  "discover_pass lib maintenance_ms r s =
     (let (t0, c) = s;
          c = (case dr_packet r of None \<Rightarrow> c | Some p \<Rightarrow> npdu_handler lib (dr_now r) p c)
      in if sl_timer_expired lib t0 maintenance_ms (dr_now r)
         then (dr_now r, c\<lparr>stack := sl_maintenance lib (unat (maintenance_ms div 1000)) (stack c)\<rparr>)
         else (t0, c))"

definition stop_asked :: "disc_round \<Rightarrow> 'l bctx \<Rightarrow> 'l bctx" where
  "stop_asked r c = (if dr_stop r then c\<lparr>worker_stop := True\<rparr> else c)"

fun discover_loop ::
  "'l stack_lib \<Rightarrow> nat \<Rightarrow> u32 \<Rightarrow> u32 \<Rightarrow> disc_round list \<Rightarrow> nat \<times> 'l bctx \<Rightarrow> (int \<times> 'l bctx) option" where
  "discover_loop lib start timeout_ms maintenance_ms [] (t0, c) =
     (if target_found c then Some (PROTO_SUCCESS, c) else None)"
| "discover_loop lib start timeout_ms maintenance_ms (r # rs) (t0, c) =
     (if target_found c then Some (PROTO_SUCCESS, c)
      else if sl_timer_expired lib start timeout_ms (dr_now r)
      then Some (PROTO_ERROR_CONNECT, set_connection_state BACNET_CONN_DISCONNECTED c)
      else
        let c = stop_asked r c in
        if worker_stop c then Some (PROTO_ERROR_CONNECT, set_connection_state BACNET_CONN_DISCONNECTED c)
        else discover_loop lib start timeout_ms maintenance_ms rs (discover_pass lib maintenance_ms r (t0, c)))"

definition discovery_timeout :: "bacnet_config \<Rightarrow> u32" where
  "discovery_timeout cfg =
     (if cf_response_timeout_ms cfg = 0 then kDiscoveryTimeoutMs else cf_response_timeout_ms cfg)"

definition maintenance_interval :: "bacnet_config \<Rightarrow> u32" where
  "maintenance_interval cfg =
     (if cf_datalink_maintenance_ms cfg = 0 then kDatalinkMaintenanceMs else cf_datalink_maintenance_ms cfg)"

text \<open>Before the loop: the state, the local instance, and the broadcast of Who-Is.\<close>

definition discover_start :: "'l stack_lib \<Rightarrow> 'l bctx \<Rightarrow> 'l bctx" where
  "discover_start lib c =
     (let c = set_connection_state BACNET_CONN_CONNECTING (c\<lparr>target_found := False\<rparr>)
      in c\<lparr>stack := sl_who_is lib (target_device_start c) (target_device_end c)
             (sl_set_instance lib (cf_local_instance_id (bc_config c)) (stack c))\<rparr>)"

definition discover_target_device ::
  "'l stack_lib \<Rightarrow> nat \<Rightarrow> disc_round list \<Rightarrow> 'l bctx \<Rightarrow> (int \<times> 'l bctx) option" where
  "discover_target_device lib now rounds c =
     (case discover_loop lib now (discovery_timeout (bc_config c)) (maintenance_interval (bc_config c)) rounds
             (now, discover_start lib c) of
        None \<Rightarrow> None
      | Some (rc, c) \<Rightarrow>
          if rc = PROTO_SUCCESS
          then Some (PROTO_SUCCESS, (set_connection_state BACNET_CONN_CONNECTED c)\<lparr>bc_reconnect_attempts := 0\<rparr>)
          else Some (rc, c))"

section \<open>Stale requests\<close>

definition stale_threshold :: "bacnet_config \<Rightarrow> u32" where
  "stale_threshold cfg = (let t = cf_read_timeout_ms cfg * 2 in if t = 0 then 12000 else t)"

text \<open>One entry of the table of invoke ids.\<close>

definition clean_read :: "'l stack_lib \<Rightarrow> nat \<Rightarrow> 'l bctx \<Rightarrow> u8 \<times> object_key \<Rightarrow> 'l bctx" where
  "clean_read lib now c entry =
     (let (invoke_id, key) = entry in
      case map_of (object_states c) key of
        None \<Rightarrow> c
      | Some st \<Rightarrow>
          if uint (stale_threshold (bc_config c)) < int now - int (st_timestamp st) \<and> active_invoke_id st = invoke_id
          then
            let c = c\<lparr>object_states := AList.update key (st\<lparr>active_invoke_id := 0, st_status := PROTO_TIMEOUT\<rparr>)
                       (object_states c)\<rparr>;
                c = free_if_valid lib invoke_id c
            in c\<lparr>invoke_id_to_key := AList.delete invoke_id (invoke_id_to_key c)\<rparr>
          else c)"

definition write_expired :: "nat \<Rightarrow> write_item \<Rightarrow> bool" where
  "write_expired now item \<longleftrightarrow> uint (wi_timeout_ms item) < int now - int (wi_timestamp item)"

definition clean_write :: "'l stack_lib \<Rightarrow> nat \<Rightarrow> 'l bctx \<Rightarrow> u8 \<times> write_item \<Rightarrow> 'l bctx" where
  "clean_write lib now c entry =
     (let (invoke_id, item) = entry in
      if write_expired now item
      then (free_if_valid lib (wi_invoke_id item) c)
             \<lparr>write_pending_map := AList.delete invoke_id (write_pending_map c)\<rparr>
      else c)"

definition cleanup_stale_requests :: "'l stack_lib \<Rightarrow> nat \<Rightarrow> 'l bctx \<Rightarrow> 'l bctx" where
  "cleanup_stale_requests lib now c =
     (let c = foldl (clean_read lib now) c (invoke_id_to_key c)
      in foldl (clean_write lib now) c (write_pending_map c))"

section \<open>Reconnection\<close>

text \<open>\<open>(base / 1000) * (1 << attempts)\<close> in unsigned arithmetic, converted to \<open>int\<close>; a shift by the width
  of \<open>int\<close> or more is undefined (\<open>None\<close>).\<close>

definition backoff_seconds :: "u32 \<Rightarrow> int \<Rightarrow> int option" where
  "backoff_seconds base_interval_ms attempts =
     (if attempts < 0 \<or> 32 \<le> attempts then None
      else Some (min 60 (sint (base_interval_ms div 1000 * push_bit (nat attempts) 1))))"

text \<open>The attempt itself: a discovery, then the counter and the callback.\<close>

definition reconnect_attempt ::
  "'l stack_lib \<Rightarrow> nat \<Rightarrow> disc_round list \<Rightarrow> 'l bctx \<Rightarrow> 'l bctx option" where
  "reconnect_attempt lib now rounds c =
     (case discover_target_device lib now rounds c of
        None \<Rightarrow> None
      | Some (rc, c) \<Rightarrow>
          if rc = PROTO_SUCCESS
          then Some (trigger_callback ''reconnect'' PROTO_SUCCESS
                 (set_connection_state BACNET_CONN_CONNECTED (c\<lparr>bc_reconnect_attempts := 0\<rparr>)))
          else
            let c = c\<lparr>bc_reconnect_attempts := bc_reconnect_attempts c + 1\<rparr>
            in Some (if uint (cf_max_reconnect_attempts (bc_config c)) \<le> bc_reconnect_attempts c
                     then trigger_callback ''reconnect'' PROTO_ERROR_CONNECT c else c))"

definition check_and_reconnect_if_needed ::
  "'l stack_lib \<Rightarrow> int \<Rightarrow> nat \<Rightarrow> disc_round list \<Rightarrow> 'l bctx \<Rightarrow> 'l bctx option" where
  "check_and_reconnect_if_needed lib seconds now rounds c =
     (if connection_state c \<noteq> BACNET_CONN_DISCONNECTED then Some c
      else if uint (cf_max_reconnect_attempts (bc_config c)) \<le> bc_reconnect_attempts c then Some c
      else case backoff_seconds (cf_reconnect_interval_ms (bc_config c)) (bc_reconnect_attempts c) of
             None \<Rightarrow> None
           | Some backoff \<Rightarrow>
               if seconds - last_reconnect_attempt c < backoff then Some c
               else reconnect_attempt lib now rounds (c\<lparr>last_reconnect_attempt := seconds\<rparr>))"

section \<open>The worker thread\<close>

definition start_worker_thread :: "'l bctx \<Rightarrow> 'l bctx" where
  "start_worker_thread c =
     (if worker_running c then c
      else c\<lparr>worker_running := True, worker_stop := False, worker_thread := True\<rparr>)"

text \<open>The thread ends at its next check of the flag, so that the join returns.\<close>

definition stop_worker_thread :: "'l bctx \<Rightarrow> 'l bctx" where
  "stop_worker_thread c =
     (if \<not> worker_running c then c
      else c\<lparr>worker_stop := True, worker_thread := False, worker_running := False\<rparr>)"

text \<open>The static timers of the loop, and the inputs of one round.\<close>

record worker_clock =
  last_timer_update :: nat
  last_cleanup :: nat
  last_reconnect_check :: int

record worker_round =
  wr_now :: nat
  wr_seconds :: int
  wr_stop :: bool
  wr_packet :: "packet option"
  wr_discovery :: "disc_round list"

text \<open>The timers of the stack every 100 ms, the clean-up every 5 s.\<close>

definition worker_timers :: "'l stack_lib \<Rightarrow> nat \<Rightarrow> worker_clock \<times> 'l bctx \<Rightarrow> worker_clock \<times> 'l bctx" where
  "worker_timers lib now s =
     (let (k, c) = s; elapsed = now - last_timer_update k
      in if 100 \<le> elapsed
         then (k\<lparr>last_timer_update := now\<rparr>,
               c\<lparr>stack := sl_maintenance lib (elapsed div 1000) (sl_tsm_timer lib (of_nat elapsed) (stack c))\<rparr>)
         else (k, c))"

definition worker_cleanup :: "'l stack_lib \<Rightarrow> nat \<Rightarrow> worker_clock \<times> 'l bctx \<Rightarrow> worker_clock \<times> 'l bctx" where
  "worker_cleanup lib now s =
     (let (k, c) = s
      in if 5 \<le> (now - last_cleanup k) div 1000
         then (k\<lparr>last_cleanup := now\<rparr>, cleanup_stale_requests lib now c)
         else (k, c))"

text \<open>The numbers the loop logs every 30 s: objects, objects with a cached value, requests in flight,
  mappings of invoke ids, unconfirmed writes.\<close>

definition cache_stats :: "'l bctx \<Rightarrow> nat \<times> nat \<times> nat \<times> nat \<times> nat" where
  "cache_stats c =
     (length (object_states c),
      length (filter (\<lambda>p. has_valid_cache (snd p)) (object_states c)),
      length (filter (\<lambda>p. active_invoke_id (snd p) \<noteq> 0) (object_states c)),
      length (invoke_id_to_key c), length (write_pending_map c))"

text \<open>One round; \<open>None\<close> when a reconnection in it does not return or faults.\<close>

definition worker_pass ::
  "'l stack_lib \<Rightarrow> worker_round \<Rightarrow> worker_clock \<times> 'l bctx \<Rightarrow> (worker_clock \<times> 'l bctx) option" where
  "worker_pass lib r s =
     (let (k, c) = worker_cleanup lib (wr_now r) (worker_timers lib (wr_now r) s);
          c = (case wr_packet r of None \<Rightarrow> c | Some p \<Rightarrow> npdu_handler lib (wr_now r) p c)
      in if 5 \<le> wr_seconds r - last_reconnect_check k
         then map_option (\<lambda>c. (k\<lparr>last_reconnect_check := wr_seconds r\<rparr>, c))
                (check_and_reconnect_if_needed lib (wr_seconds r) (wr_now r) (wr_discovery r) c)
         else Some (k, c))"

fun worker_loop_function ::
  "'l stack_lib \<Rightarrow> worker_round list \<Rightarrow> worker_clock \<times> 'l bctx \<Rightarrow> (worker_clock \<times> 'l bctx) option" where
  "worker_loop_function lib [] s = None"
| "worker_loop_function lib (r # rs) (k, c) =
     (let c = (if wr_stop r then c\<lparr>worker_stop := True\<rparr> else c)
      in if worker_stop c then Some (k, c)
         else Option.bind (worker_pass lib r (k, c)) (worker_loop_function lib rs))"

end
