(* ===== verification/Bacnet_Hot_Config.thy ===== *)
theory Bacnet_Hot_Config
  imports Bacnet_Types
begin

text \<open>
  The monitor of the configuration file of the BACnet driver (\<open>proto_bacnet_hot_config.cc\<close>): the
  global \<open>HotConfigContext\<close>, the functions that start and stop the monitor thread, and its loop. A
  poll of the loop is one observation: whether \<open>running\<close> was cleared from outside, and what \<open>stat\<close>
  says of the file. The callback acts on a state of any type.
\<close>

record hot_monitor =
  hm_path :: string
  hm_thread :: bool             \<comment> \<open>\<open>monitor_thread\<close> is joinable\<close>
  hm_running :: bool
  hm_last_mtime :: int
  hm_callback :: "fn_ptr option"
  hm_userdata :: "user_ptr option"
  hm_interval_ms :: u32

definition hot_monitor_start :: hot_monitor where
  "hot_monitor_start = \<lparr>hm_path = [], hm_thread = False, hm_running = False, hm_last_mtime = 0,
     hm_callback = None, hm_userdata = None, hm_interval_ms = 1000\<rparr>"

section \<open>Starting and stopping\<close>

text \<open>Join from another thread, or detach from the monitor thread itself (\<open>own_thread\<close>): either way the
  thread object is no longer joinable.\<close>

definition stop_locked :: "bool \<Rightarrow> hot_monitor \<Rightarrow> hot_monitor" where
  "stop_locked own_thread g =
     (if hm_running g
      then (let g = g\<lparr>hm_running := False\<rparr>
            in if hm_thread g then (if own_thread then g\<lparr>hm_thread := False\<rparr> else g\<lparr>hm_thread := False\<rparr>) else g)
      else g)"

text \<open>Assigning to a thread object that is joinable ends the process (\<open>None\<close>).\<close>

definition assign_thread :: "bool \<Rightarrow> hot_monitor \<Rightarrow> hot_monitor option" where
  "assign_thread new g = (if hm_thread g then None else Some (g\<lparr>hm_thread := new\<rparr>))"

definition monitor_init ::
  "string option \<Rightarrow> fn_ptr option \<Rightarrow> user_ptr option \<Rightarrow> int option \<Rightarrow> bool \<Rightarrow> hot_monitor \<Rightarrow>
   (int \<times> hot_monitor) option" where
  "monitor_init config_path on_changed userdata stat_mtime own_thread g =
     (case (config_path, on_changed) of
        (Some path, Some f) \<Rightarrow>
          (case stat_mtime of
             None \<Rightarrow> Some (-1, g)
           | Some mtime \<Rightarrow>
               (let g = stop_locked own_thread g;
                    g = g\<lparr>hm_path := path, hm_callback := Some f, hm_userdata := userdata,
                          hm_last_mtime := mtime, hm_running := True\<rparr>
                in map_option (\<lambda>g. (0, g)) (assign_thread True g)))
      | _ \<Rightarrow> Some (-1, g))"

definition monitor_stop :: "bool \<Rightarrow> hot_monitor \<Rightarrow> hot_monitor" where
  "monitor_stop own_thread g = stop_locked own_thread g"

definition monitor_cleanup :: "bool \<Rightarrow> hot_monitor \<Rightarrow> hot_monitor option" where
  "monitor_cleanup own_thread g =
     map_option (\<lambda>g. g\<lparr>hm_path := [], hm_callback := None, hm_userdata := None, hm_last_mtime := 0\<rparr>)
       (assign_thread False (stop_locked own_thread g))"

definition monitor_is_running :: "hot_monitor \<Rightarrow> bool" where
  "monitor_is_running g = hm_running g"

definition set_polling_interval :: "u32 \<Rightarrow> hot_monitor \<Rightarrow> hot_monitor" where
  "set_polling_interval interval_ms g = g\<lparr>hm_interval_ms := (if interval_ms > 0 then interval_ms else 1000)\<rparr>"

section \<open>The monitor thread\<close>

record poll =
  pl_stop :: bool
  pl_mtime :: "int option"

text \<open>One round of the loop, and whether the loop goes on after it.\<close>

definition bac_monitor_round ::
  "(fn_ptr \<Rightarrow> 'w \<Rightarrow> 'w) \<Rightarrow> poll \<Rightarrow> hot_monitor \<times> 'w \<Rightarrow> bool \<times> hot_monitor \<times> 'w" where
  "bac_monitor_round call p s =
     (let (g, w) = s; g = (if pl_stop p then g\<lparr>hm_running := False\<rparr> else g)
      in if \<not> hm_running g then (False, g, w)
         else case pl_mtime p of
                None \<Rightarrow> (False, g, w)
              | Some mtime \<Rightarrow>
                  if mtime \<noteq> hm_last_mtime g
                  then (True, g\<lparr>hm_last_mtime := mtime\<rparr>, case hm_callback g of None \<Rightarrow> w | Some f \<Rightarrow> call f w)
                  else (True, g, w))"

text \<open>The loop over the polls; \<open>None\<close> while it is still running.\<close>

fun bac_monitor_loop ::
  "(fn_ptr \<Rightarrow> 'w \<Rightarrow> 'w) \<Rightarrow> poll list \<Rightarrow> hot_monitor \<times> 'w \<Rightarrow> (hot_monitor \<times> 'w) option" where
  "bac_monitor_loop call [] s = None"
| "bac_monitor_loop call (p # ps) s =
     (case bac_monitor_round call p s of (go_on, s) \<Rightarrow> if go_on then bac_monitor_loop call ps s else Some s)"

lemma bac_monitor_loop_Cons [simp]:
  "bac_monitor_loop call (p # ps) (g, w) =
     (let g = (if pl_stop p then g\<lparr>hm_running := False\<rparr> else g)
      in if \<not> hm_running g then Some (g, w)
         else case pl_mtime p of
                None \<Rightarrow> Some (g, w)
              | Some mtime \<Rightarrow>
                  if mtime \<noteq> hm_last_mtime g
                  then bac_monitor_loop call ps
                         (g\<lparr>hm_last_mtime := mtime\<rparr>, case hm_callback g of None \<Rightarrow> w | Some f \<Rightarrow> call f w)
                  else bac_monitor_loop call ps (g, w))"
  by (simp add: bac_monitor_round_def Let_def split: option.split)

declare bac_monitor_loop.simps(2) [simp del]

section \<open>The thread object\<close>

text \<open>The process never ends on an assignment: a joinable thread belongs to a running monitor.\<close>

definition monitor_ok :: "hot_monitor \<Rightarrow> bool" where
  "monitor_ok g \<longleftrightarrow> (hm_thread g \<longrightarrow> hm_running g)"

lemma stop_locked_ok:
  "monitor_ok g \<Longrightarrow> monitor_ok (stop_locked own g) \<and> \<not> hm_thread (stop_locked own g) \<and> \<not> hm_running (stop_locked own g)"
  by (auto simp: monitor_ok_def stop_locked_def Let_def)

lemma monitor_init_ok:
  assumes "monitor_ok g"
  obtains rc g' where "monitor_init path f ud m own g = Some (rc, g')" "monitor_ok g'"
    "rc = 0 \<longleftrightarrow> path \<noteq> None \<and> f \<noteq> None \<and> m \<noteq> None"
    "rc = 0 \<Longrightarrow> hm_running g' \<and> hm_thread g' \<and> hm_callback g' = f" "rc \<noteq> 0 \<Longrightarrow> g' = g"
  using assms stop_locked_ok [OF assms, of own]
  by (cases path; cases f; cases m)
    (auto simp: monitor_init_def assign_thread_def monitor_ok_def Let_def intro: that)

lemma monitor_stop_ok: "monitor_ok g \<Longrightarrow> monitor_ok (monitor_stop own g) \<and> \<not> hm_running (monitor_stop own g)"
  by (simp add: monitor_stop_def stop_locked_ok)

lemma monitor_cleanup_ok:
  "monitor_ok g \<Longrightarrow> \<exists>g'. monitor_cleanup own g = Some g' \<and> monitor_ok g' \<and> \<not> hm_running g'"
  using stop_locked_ok [of g own] by (auto simp: monitor_cleanup_def assign_thread_def monitor_ok_def)

text \<open>What the callback sees: one call for each change of the observed time, as long as the loop lives.\<close>

fun changes :: "int \<Rightarrow> int list \<Rightarrow> nat" where
  "changes m [] = 0"
| "changes m (t # ts) = (if t = m then changes m ts else Suc (changes t ts))"

lemma bac_monitor_loop_append:
  assumes "hm_running g" "hm_callback g = Some f"
  shows "bac_monitor_loop call (map (\<lambda>t. \<lparr>pl_stop = False, pl_mtime = Some t\<rparr>) ts @ ps) (g, w) =
    bac_monitor_loop call ps (g\<lparr>hm_last_mtime := last (hm_last_mtime g # ts)\<rparr>, (call f ^^ changes (hm_last_mtime g) ts) w)"
  using assms
proof (induction ts arbitrary: g w)
  case (Cons t ts)
  have "(call f ^^ n) (call f w) = call f ((call f ^^ n) w)" for n
    by (induction n) simp_all
  with Cons show ?case by (auto simp: Let_def)
qed simp

end
