(* ===== verification/Bacnet_Core.thy ===== *)
theory Bacnet_Core
  imports Bacnet_Discovery Bacnet_Config Bacnet_Hot_Config
begin

text \<open>
  The life cycle of the driver (\<open>proto_bacnet_core.cc\<close>, \<open>proto_bacnet_driver.cc\<close>): initialisation and
  reset of the context, connection and disconnection, the driver object, and the entry points the
  PLC calls. A call that does not return, or that has undefined behaviour, has the result \<open>None\<close>:
  it waits for a packet that is not in its list of rounds, loops forever, locks a mutex its own
  thread holds, or touches freed memory.
\<close>

section \<open>Removing the devices of the range\<close>

text \<open>The loop of the clean-up functions: its 32-bit counter wraps after the last device.\<close>

partial_function (option) remove_devices :: "'l stack_lib \<Rightarrow> u32 \<Rightarrow> u32 \<Rightarrow> 'l \<Rightarrow> 'l option" where
  "remove_devices lib dev_end dev_id l =
     (if dev_id \<le> dev_end then remove_devices lib dev_end (dev_id + 1) (sl_address_remove lib dev_id l)
      else Some l)"

declare remove_devices.simps [simp del]

definition device_range :: "u32 \<Rightarrow> u32 \<Rightarrow> u32 list" where
  "device_range first last_one = map of_nat [unat first..<Suc (unat last_one)]"

lemma remove_devices_done:
  assumes "dev_end \<noteq> - 1"
  shows "remove_devices lib dev_end dev_id l =
    Some (foldl (\<lambda>l d. sl_address_remove lib d l) l (device_range dev_id dev_end))"
proof (induction "Suc (unat dev_end) - unat dev_id" arbitrary: dev_id l)
  case 0
  then have "\<not> dev_id \<le> dev_end" by (simp add: word_le_nat_alt)
  with 0 show ?case by (simp add: remove_devices.simps device_range_def)
next
  case (Suc n)
  then have le: "dev_id \<le> dev_end" by (simp add: word_le_nat_alt)
  with assms have "dev_id \<noteq> - 1" by (metis word_n1_ge word_order.extremum_unique)
  then have next_id: "unat (dev_id + 1) = Suc (unat dev_id)"
    by (metis add.commute eq_neg_iff_add_eq_0 unatSuc)
  have "remove_devices lib dev_end dev_id l =
      remove_devices lib dev_end (dev_id + 1) (sl_address_remove lib dev_id l)"
    using le by (subst remove_devices.simps) simp
  also have "\<dots> = Some (foldl (\<lambda>l d. sl_address_remove lib d l) (sl_address_remove lib dev_id l)
      (device_range (dev_id + 1) dev_end))"
    by (rule Suc.hyps(1)) (use Suc.hyps(2) next_id in simp)
  also have "\<dots> = Some (foldl (\<lambda>l d. sl_address_remove lib d l) l (device_range dev_id dev_end))"
    using le by (simp add: device_range_def next_id upt_conv_Cons word_le_nat_alt del: upt_Suc)
  finally show ?case .
qed

lemma remove_devices_endless: "remove_devices lib (- 1) dev_id l = None"
proof -
  have "dev_end \<noteq> - 1" if "remove_devices lib dev_end dev_id l = Some r" for dev_end dev_id l r
    by (rule remove_devices.raw_induct [where P = "\<lambda>lib dev_end dev_id l r. dev_end \<noteq> - 1", OF _ that])
       (auto split: if_splits)
  then show ?thesis by (cases "remove_devices lib (- 1) dev_id l") auto
qed

section \<open>The context\<close>

text \<open>How the driver was compiled: \<open>BACDL_MULTIPLE\<close> and \<open>BACDL_MSTP\<close>.\<close>

record build =
  bacdl_multiple :: bool
  bacdl_mstp :: bool

definition initialize_all_datalinks :: "'l stack_lib \<Rightarrow> build \<Rightarrow> 'l bctx option \<Rightarrow> int \<times> 'l bctx option" where
  "initialize_all_datalinks lib bld ctx =
     (case ctx of
        None \<Rightarrow> (PROTO_ERROR_PARAM, None)
      | Some c \<Rightarrow>
          if bacdl_multiple bld
          then (let cfg = bc_config c;
                    ifname = (if cf_interface_name cfg \<noteq> [] then Some (cf_interface_name cfg) else None);
                    (ok, l) = sl_bip_init lib (cf_port cfg) ifname (stack c);
                    c = c\<lparr>stack := l\<rparr>
                in if \<not> ok then (PROTO_ERROR_INIT, Some c)
                   else (PROTO_SUCCESS,
                     Some (if bacdl_mstp bld \<and> cf_mstp_port cfg \<noteq> []
                           then c\<lparr>stack := snd (sl_mstp_init lib cfg (stack c))\<rparr> else c)))
          else (PROTO_SUCCESS, Some c))"

definition initialize_context :: "'l stack_lib \<Rightarrow> build \<Rightarrow> yaml_source \<Rightarrow> 'l bctx \<Rightarrow> int \<times> 'l bctx" where
  "initialize_context lib bld src c =
     (let (rc, cfg) = bacnet_load_config_from_yaml src;
          c = c\<lparr>bc_config := cfg\<rparr>
      in if rc \<noteq> 0 then (PROTO_ERROR_INIT, c)
         else
           let c = c\<lparr>target_device_start := cf_target_device_start cfg,
                     target_device_end := cf_target_device_end cfg,
                     bc_cache_strategy := (if cf_cache_strategy cfg = 0 then Aggressive else Conservative),
                     bc_cache_expiry_ms := cf_cache_expiry_ms cfg,
                     stack := sl_device_init lib (stack c)\<rparr>;
               (dl_status, ctx) = initialize_all_datalinks lib bld (Some c);
               c = the ctx
           in if dl_status \<noteq> PROTO_SUCCESS then (dl_status, c)
              else
                let c = the (register_bacnet_handlers lib (Some c));
                    c = reset_active_operation_locked c;
                    c = set_connection_state BACNET_CONN_IDLE c;
                    c = set_operation_state BACNET_OP_IDLE c
                in (PROTO_SUCCESS,
                    c\<lparr>target_found := False, bc_reconnect_attempts := 0, worker_stop := False,
                      worker_running := False\<rparr>))"

definition cleanup_context :: "'l stack_lib \<Rightarrow> 'l bctx \<Rightarrow> 'l bctx option" where
  "cleanup_context lib c =
     (let c = reset_active_operation_locked (stop_worker_thread c)
      in map_option (\<lambda>l. c\<lparr>stack := sl_datalink_cleanup lib l\<rparr>)
           (remove_devices lib (target_device_end c) (target_device_start c) (stack c)))"

definition reset :: "'l stack_lib \<Rightarrow> 'l bctx \<Rightarrow> 'l bctx option" where
  "reset lib c =
     map_option (\<lambda>c. c\<lparr>object_states := [], invoke_id_to_key := [], write_pending_map := [],
                       initialized := False\<rparr>) (cleanup_context lib c)"

text \<open>An initialised context calls \<open>reset\<close> under \<open>plc_mutex\<close>, which \<open>reset\<close> locks again.\<close>

definition initialize :: "'l stack_lib \<Rightarrow> build \<Rightarrow> yaml_source \<Rightarrow> 'l bctx \<Rightarrow> (int \<times> 'l bctx) option" where
  "initialize lib bld src c =
     (if initialized c then None
      else
        let (status, c) = initialize_context lib bld src c
        in if status \<noteq> PROTO_SUCCESS then Some (status, c)
           else Some (PROTO_SUCCESS, c\<lparr>initialized := True\<rparr>))"

section \<open>Connection\<close>

definition connect_device ::
  "'l stack_lib \<Rightarrow> nat \<Rightarrow> disc_round list \<Rightarrow> 'l bctx \<Rightarrow> (int \<times> 'l bctx) option" where
  "connect_device lib now rounds c =
     (if connection_state c = BACNET_CONN_CONNECTED then Some (PROTO_SUCCESS, c)
      else if connection_state c = BACNET_CONN_CONNECTING then Some (PROTO_SUCCESS, c)
      else do {
        (status, c) \<leftarrow> discover_target_device lib now rounds (set_connection_state BACNET_CONN_CONNECTING c);
        if status \<noteq> PROTO_SUCCESS
        then (let c = set_connection_state BACNET_CONN_DISCONNECTED c;
                  attempts = bc_reconnect_attempts c
              in Some (status,
                   if attempts < uint (cf_max_reconnect_attempts (bc_config c))
                   then c\<lparr>bc_reconnect_attempts := attempts + 1\<rparr>
                   else trigger_callback ''connect'' PROTO_ERROR_CONNECT c))
        else (let c = set_connection_state BACNET_CONN_CONNECTED c;
                  c = start_worker_thread c;
                  c = c\<lparr>bc_reconnect_attempts := 0\<rparr>
              in Some (PROTO_SUCCESS, trigger_callback ''connect'' PROTO_SUCCESS c))
      })"

definition disconnect_device :: "'l stack_lib \<Rightarrow> 'l bctx \<Rightarrow> 'l bctx option" where
  "disconnect_device lib c =
     (let c = reset_active_operation_locked (stop_worker_thread c)
      in map_option (\<lambda>l.
           trigger_callback ''disconnect'' PROTO_SUCCESS
             (set_connection_state BACNET_CONN_DISCONNECTED (c\<lparr>stack := l, target_found := False\<rparr>)))
           (remove_devices lib (target_device_end c) (target_device_start c) (stack c)))"

section \<open>The driver object\<close>

text \<open>The two singletons, the monitor of the configuration file, the file, and whether the exit handler
  is registered.\<close>

record 'l bworld =
  bw_ctx :: "'l bctx"
  bw_monitor :: hot_monitor
  bw_file :: yaml_source
  bw_mtime :: "int option"
  bw_cleanup_registered :: bool

definition ON_CONFIG_CHANGED :: fn_ptr where "ON_CONFIG_CHANGED = 1"

definition bacnet_reload_config :: "'l bworld \<Rightarrow> int \<times> 'l bworld" where
  "bacnet_reload_config w =
     (if \<not> initialized (bw_ctx w) then (PROTO_SUCCESS, w)
      else (PROTO_SUCCESS, w\<lparr>bw_ctx := (bw_ctx w)\<lparr>pending_reload := True\<rparr>\<rparr>))"

definition driver_initialize :: "'l stack_lib \<Rightarrow> build \<Rightarrow> 'l bworld \<Rightarrow> (int \<times> 'l bworld) option" where
  "driver_initialize lib bld w = do {
     (status, c) \<leftarrow> initialize lib bld (bw_file w) (bw_ctx w);
     let w = w\<lparr>bw_ctx := c\<rparr>;
     if status \<noteq> PROTO_SUCCESS then Some (status, w)
     else do {
       let w = (if \<not> bw_cleanup_registered w then w\<lparr>bw_cleanup_registered := True\<rparr> else w);
       if kConfigPath \<noteq> [] \<and> cf_hot_config_enabled (bc_config c) \<noteq> 0
       then do {
         (ret, g) \<leftarrow> monitor_init (Some kConfigPath) (Some ON_CONFIG_CHANGED) None (bw_mtime w) False (bw_monitor w);
         let g = (if ret = 0 then set_polling_interval (cf_hot_config_polling_ms (bc_config c)) g else g);
         Some (PROTO_SUCCESS, w\<lparr>bw_monitor := g\<rparr>)
       }
       else Some (PROTO_SUCCESS, w)
     }
   }"

definition driver_release :: "'l stack_lib \<Rightarrow> 'l bworld \<Rightarrow> 'l bworld option" where
  "driver_release lib w =
     (if \<not> initialized (bw_ctx w) then Some w
      else
        let w = (if monitor_is_running (bw_monitor w)
                 then w\<lparr>bw_monitor := monitor_stop False (bw_monitor w)\<rparr> else w)
        in map_option (\<lambda>c. w\<lparr>bw_ctx := c\<rparr>) (reset lib (bw_ctx w)))"

definition driver_connect ::
  "'l stack_lib \<Rightarrow> nat \<Rightarrow> disc_round list \<Rightarrow> 'l bworld \<Rightarrow> (int \<times> 'l bworld) option" where
  "driver_connect lib now rounds w =
     (if \<not> initialized (bw_ctx w) then Some (PROTO_ERROR_INIT, w)
      else map_option (\<lambda>(rc, c). (rc, w\<lparr>bw_ctx := c\<rparr>)) (connect_device lib now rounds (bw_ctx w)))"

definition driver_disconnect :: "'l stack_lib \<Rightarrow> 'l bworld \<Rightarrow> 'l bworld option" where
  "driver_disconnect lib w =
     (if \<not> initialized (bw_ctx w) then Some w
      else map_option (\<lambda>c. w\<lparr>bw_ctx := c\<rparr>) (disconnect_device lib (bw_ctx w)))"

definition driver_read :: "'l stack_lib \<Rightarrow> nat \<Rightarrow> bacnet_read option \<Rightarrow> 'l bworld \<Rightarrow> int \<times> 'l bworld" where
  "driver_read lib now req w =
     (if \<not> initialized (bw_ctx w) then (PROTO_ERROR_INIT, w)
      else let (rc, out, ctx) = execute_read_property lib now (Some (bw_ctx w)) req
           in (rc, w\<lparr>bw_ctx := the ctx\<rparr>))"

definition driver_write ::
  "'l stack_lib \<Rightarrow> nat \<Rightarrow> bacnet_write option \<Rightarrow> 'l bworld \<Rightarrow> (int \<times> 'l bworld) option" where
  "driver_write lib now req w =
     (if \<not> initialized (bw_ctx w) then Some (PROTO_ERROR_INIT, w)
      else map_option (\<lambda>(rc, out, ctx). (rc, w\<lparr>bw_ctx := the ctx\<rparr>))
             (execute_write_property lib now (Some (bw_ctx w)) req))"

definition driver_get_config :: "'l bworld \<Rightarrow> bacnet_config option" where
  "driver_get_config w = (if initialized (bw_ctx w) then Some (bc_config (bw_ctx w)) else None)"

definition driver_reload_config :: "'l bworld \<Rightarrow> int \<times> 'l bworld" where
  "driver_reload_config w =
     (if \<not> initialized (bw_ctx w) then (PROTO_ERROR_INIT, w)
      else
        let (ret, new_config) = bacnet_load_config_from_yaml (bw_file w)
        in if ret \<noteq> 0 then (PROTO_ERROR_INIT, w)
           else (PROTO_SUCCESS, w\<lparr>bw_ctx := (bw_ctx w)\<lparr>bc_config := new_config\<rparr>\<rparr>))"

definition bacnet_cleanup :: "'l stack_lib \<Rightarrow> 'l bworld \<Rightarrow> (int \<times> 'l bworld) option" where
  "bacnet_cleanup lib w =
     (if initialized (bw_ctx w) then map_option (\<lambda>w. (PROTO_SUCCESS, w)) (driver_release lib w)
      else Some (PROTO_SUCCESS, w))"

end
