(* ===== verification/Bacnet_Entry.thy ===== *)
theory Bacnet_Entry
  imports Bacnet_Core
begin

text \<open>
  The entry points of the PLC (\<open>plc_proto_read\<close> and \<open>plc_proto_write\<close> of \<open>proto_bacnet_core.cc\<close>): a
  pending reload, initialisation and connection on demand, then the cache and the request. A call
  gets the time and the rounds of a discovery it may have to wait for, and the time of the request.
\<close>

record call_input =
  ci_connect_time :: nat
  ci_rounds :: "disc_round list"
  ci_now :: nat

section \<open>Initialisation on demand\<close>

definition release_if_pending :: "'l stack_lib \<Rightarrow> 'l bworld \<Rightarrow> 'l bworld option" where
  "release_if_pending lib w =
     (if initialized (bw_ctx w) \<and> pending_reload (bw_ctx w)
      then driver_release lib (w\<lparr>bw_ctx := (bw_ctx w)\<lparr>pending_reload := False\<rparr>\<rparr>)
      else Some w)"

definition ensure_init_and_connect_locked ::
  "'l stack_lib \<Rightarrow> build \<Rightarrow> call_input \<Rightarrow> 'l bworld \<Rightarrow> (int \<times> 'l bworld) option" where
  "ensure_init_and_connect_locked lib bld inp w = do {
     (rc, w) \<leftarrow> (if \<not> initialized (bw_ctx w) then driver_initialize lib bld w else Some (PROTO_SUCCESS, w));
     if rc \<noteq> PROTO_SUCCESS then Some (rc, w)
     else if get_connection_state (Some (bw_ctx w)) \<noteq> BACNET_CONN_CONNECTED
     then do {
       (rc, w) \<leftarrow> driver_connect lib (ci_connect_time inp) (ci_rounds inp) w;
       if rc \<noteq> PROTO_SUCCESS then Some (rc, w) else Some (PROTO_SUCCESS, w)
     }
     else Some (PROTO_SUCCESS, w)
   }"

section \<open>Reading\<close>

text \<open>The part of \<open>plc_proto_read\<close> under \<open>object_states_mutex\<close>: the status, the value written through the
  request (if any), and the context.\<close>

definition out_value :: "bacnet_read \<Rightarrow> object_state \<Rightarrow> data_value option" where
  "out_value r st = (if rq_value r then Some (cached_value st) else None)"

definition cache_hit :: "nat \<Rightarrow> 'l bctx \<Rightarrow> object_state \<Rightarrow> bool" where
  "cache_hit now c st \<longleftrightarrow> bc_cache_strategy c = Conservative \<and> has_valid_cache st \<and>
     int now - int (st_timestamp st) < uint (bc_cache_expiry_ms c)"

definition send_read :: "'l stack_lib \<Rightarrow> nat \<Rightarrow> bacnet_read \<Rightarrow> 'l bctx \<Rightarrow> int \<times> data_value option \<times> 'l bctx" where
  "send_read lib now r c =
     (case execute_read_property lib now (Some c) (Some r) of
        (rc, out, ctx) \<Rightarrow>
          let c = the ctx in
          if rc = PROTO_SUCCESS
          then
            let state = (case map_of (object_states c) (read_key r) of Some st \<Rightarrow> st | None \<Rightarrow> object_state_zero);
                has_old_cache = has_valid_cache state;
                state = state\<lparr>active_invoke_id := the out, original_request := Some (rq_self r),
                              st_status := PROTO_NO_DATA\<rparr>;
                c = c\<lparr>object_states := AList.update (read_key r) state (object_states c)\<rparr>
            in if has_old_cache \<and> rq_value r then (PROTO_SUCCESS, Some (cached_value state), c)
               else (PROTO_NO_DATA, None, c)
          else (rc, None, c))"

definition read_object :: "'l stack_lib \<Rightarrow> nat \<Rightarrow> bacnet_read \<Rightarrow> 'l bctx \<Rightarrow> int \<times> data_value option \<times> 'l bctx" where
  "read_object lib now r c =
     (case map_of (object_states c) (read_key r) of
        None \<Rightarrow> send_read lib now r c
      | Some st \<Rightarrow>
          if cache_hit now c st then (PROTO_SUCCESS, out_value r st, c)
          else if active_invoke_id st \<noteq> 0
          then (PROTO_NO_DATA, if has_valid_cache st then out_value r st else None, c)
          else send_read lib now r c)"

definition bacnet_plc_read ::
  "'l stack_lib \<Rightarrow> build \<Rightarrow> call_input \<Rightarrow> bacnet_read option \<Rightarrow> 'l bworld \<Rightarrow>
   (int \<times> data_value option \<times> 'l bworld) option" where
  "bacnet_plc_read lib bld inp req w =
     (case req of
        None \<Rightarrow> Some (PROTO_ERROR_PARAM, None, w)
      | Some r \<Rightarrow> do {
          w \<leftarrow> release_if_pending lib w;
          (rc, w) \<leftarrow> ensure_init_and_connect_locked lib bld inp w;
          if rc \<noteq> PROTO_SUCCESS then Some (rc, None, w)
          else let (rc, out, c) = read_object lib (ci_now inp) r (bw_ctx w)
               in Some (rc, out, w\<lparr>bw_ctx := c\<rparr>)
        })"

section \<open>Writing\<close>

text \<open>The result holds the invoke id the call stores in the request (if any).\<close>

definition bacnet_plc_write ::
  "'l stack_lib \<Rightarrow> build \<Rightarrow> call_input \<Rightarrow> bacnet_write option \<Rightarrow> 'l bworld \<Rightarrow>
   (int \<times> u8 option \<times> 'l bworld) option" where
  "bacnet_plc_write lib bld inp req w =
     (case req of
        None \<Rightarrow> Some (PROTO_ERROR_PARAM, None, w)
      | Some r \<Rightarrow> do {
          w \<leftarrow> release_if_pending lib w;
          (rc, w) \<leftarrow> ensure_init_and_connect_locked lib bld inp w;
          if rc \<noteq> PROTO_SUCCESS then Some (rc, None, w)
          else do {
            (rc, out, ctx) \<leftarrow> execute_write_property lib (ci_now inp) (Some (bw_ctx w)) (Some r);
            let w = w\<lparr>bw_ctx := the ctx\<rparr>;
            if rc = PROTO_SUCCESS then Some (PROTO_SUCCESS, out, w) else Some (rc, None, w)
          }
        })"

section \<open>What a read does\<close>

lemma send_read_cases:
  assumes "send_read lib now r c = (rc, out, c')"
  obtains (Refused) "rc \<noteq> PROTO_SUCCESS" "rc \<noteq> PROTO_NO_DATA" "out = None" "c' = c"
  | (Unsent) "rc = PROTO_ERROR_READ" "out = None" "same_requests c c'" "initialized c' = initialized c"
      "fst (sl_send_read lib (rq_device r) (rq_type r) (rq_instance r) (rq_property r)
         (choose_array_index (rq_array_index r)) (stack c)) = 0"
      "stack c' = snd (sl_send_read lib (rq_device r) (rq_type r) (rq_instance r) (rq_property r)
         (choose_array_index (rq_array_index r)) (stack c))" "bc_heap c' = bc_heap c"
  | (Sent) i st where "i \<noteq> 0"
      "sl_send_read lib (rq_device r) (rq_type r) (rq_instance r) (rq_property r)
         (choose_array_index (rq_array_index r)) (stack c) = (i, stack c')"
      "object_states c' = AList.update (read_key r) st (object_states c)"
      "active_invoke_id st = i" "st_status st = PROTO_NO_DATA"
      "write_pending_map c' = write_pending_map c" "initialized c' = initialized c"
      "invoke_id_to_key c' = AList.update i (read_key r) (invoke_id_to_key c)"
      "bc_config c' = bc_config c" "bc_heap c' = bc_heap c" "bc_cache_strategy c' = bc_cache_strategy c"
      "bc_cache_expiry_ms c' = bc_cache_expiry_ms c"
      "map_of (object_states c) (read_key r) = None \<longrightarrow>
         st = object_state_zero\<lparr>active_invoke_id := i, original_request := Some (rq_self r), st_status := PROTO_NO_DATA\<rparr>"
      "\<forall>st0. map_of (object_states c) (read_key r) = Some st0 \<longrightarrow>
         st = st0\<lparr>active_invoke_id := i, original_request := Some (rq_self r), st_status := PROTO_NO_DATA\<rparr>"
      "rc = (if has_valid_cache st \<and> rq_value r then PROTO_SUCCESS else PROTO_NO_DATA)"
      "out = (if has_valid_cache st \<and> rq_value r then Some (cached_value st) else None)"
proof -
  obtain rc0 o0 ctx0 where e: "execute_read_property lib now (Some c) (Some r) = (rc0, o0, ctx0)"
    by (metis prod_cases3)
  from e show thesis
  proof (cases rule: execute_read_property_cases)
    case Refused
    with assms e show thesis by (intro that(1)) (auto simp: send_read_def)
  next
    case (Unsent c1)
    with assms e show thesis
      by (intro that(2)) (auto simp: send_read_def code_consts)
  next
    case (Sent c1 i)
    define st where "st = (case map_of (object_states c) (read_key r) of Some st \<Rightarrow> st | None \<Rightarrow> object_state_zero)
      \<lparr>active_invoke_id := i, original_request := Some (rq_self r), st_status := PROTO_NO_DATA\<rparr>"
    have c': "c' = c1\<lparr>object_states := AList.update (read_key r) st (object_states c1)\<rparr>"
      and rc: "rc = (if has_valid_cache st \<and> rq_value r then PROTO_SUCCESS else PROTO_NO_DATA)"
        "out = (if has_valid_cache st \<and> rq_value r then Some (cached_value st) else None)"
      using assms e Sent by (auto simp: send_read_def st_def Let_def split: if_splits option.splits)
    show thesis
      by (rule that(3) [where i = i and st = st])
        (use Sent c' rc in \<open>auto simp: st_def\<close>)
  qed
qed

end
