(* ===== verification/Bacnet_Tables.thy ===== *)
theory Bacnet_Tables
  imports Bacnet_Types
begin

text \<open>
  The tables of the requests, taken together: an object with a request in flight is found by the id
  of that request, an id belongs to one request, and the ids in the tables are in use by the protocol
  stack. Each change a handler makes to the tables keeps them consistent.
\<close>

definition consistent ::
  "(object_key \<rightharpoonup> object_state) \<Rightarrow> (u8 \<rightharpoonup> object_key) \<Rightarrow> (u8 \<rightharpoonup> write_item) \<Rightarrow> u8 set \<Rightarrow> bool" where
  "consistent os iv wp b \<longleftrightarrow>
     (\<forall>k st. os k = Some st \<and> active_invoke_id st \<noteq> 0 \<longrightarrow> iv (active_invoke_id st) = Some k) \<and>
     (\<forall>i k. iv i = Some k \<longrightarrow> i \<noteq> 0 \<and> i \<in> b \<and> (\<exists>st. os k = Some st \<and> active_invoke_id st = i)) \<and>
     (\<forall>i item. wp i = Some item \<longrightarrow> wi_invoke_id item = i \<and> i \<noteq> 0 \<and> i \<in> b \<and> iv i = None)"

lemma consistentI:
  assumes "\<And>k st. os k = Some st \<Longrightarrow> active_invoke_id st \<noteq> 0 \<Longrightarrow> iv (active_invoke_id st) = Some k"
    and "\<And>i k. iv i = Some k \<Longrightarrow> i \<noteq> 0 \<and> i \<in> b \<and> (\<exists>st. os k = Some st \<and> active_invoke_id st = i)"
    and "\<And>i item. wp i = Some item \<Longrightarrow> wi_invoke_id item = i \<and> i \<noteq> 0 \<and> i \<in> b \<and> iv i = None"
  shows "consistent os iv wp b"
  using assms by (simp add: consistent_def)

lemma consistent_object:
  "consistent os iv wp b \<Longrightarrow> os k = Some st \<Longrightarrow> active_invoke_id st \<noteq> 0 \<Longrightarrow> iv (active_invoke_id st) = Some k"
  unfolding consistent_def by blast

lemma consistent_id:
  assumes "consistent os iv wp b" "iv i = Some k"
  obtains st where "i \<noteq> 0" "i \<in> b" "os k = Some st" "active_invoke_id st = i" "wp i = None"
proof -
  have "wp i = None"
  proof (cases "wp i")
    case (Some item)
    with assms show ?thesis unfolding consistent_def by (metis option.distinct(1))
  qed
  with assms that show thesis unfolding consistent_def by metis
qed

lemma consistent_write:
  "consistent os iv wp b \<Longrightarrow> wp i = Some item \<Longrightarrow> wi_invoke_id item = i \<and> i \<noteq> 0 \<and> i \<in> b \<and> iv i = None"
  by (simp add: consistent_def)

lemma consistent_no_zero: "consistent os iv wp b \<Longrightarrow> iv 0 = None \<and> wp 0 = None"
  by (metis consistent_id consistent_write not_None_eq)

lemma consistent_empty [inv_intros]: "consistent Map.empty Map.empty Map.empty b"
  by (simp add: consistent_def)

lemma consistent_send_read [inv_intros]:
  assumes c: "consistent os iv wp b" and i: "i \<noteq> 0" "i \<notin> b"
    and idle: "\<forall>st0. os k = Some st0 \<longrightarrow> active_invoke_id st0 = 0" and st: "active_invoke_id st = i"
  shows "consistent (os(k \<mapsto> st)) (iv(i \<mapsto> k)) wp (insert i b)"
proof (rule consistentI)
  fix k' st' assume a: "(os(k \<mapsto> st)) k' = Some st'" "active_invoke_id st' \<noteq> 0"
  show "(iv(i \<mapsto> k)) (active_invoke_id st') = Some k'"
  proof (cases "k' = k")
    case False
    with a have "iv (active_invoke_id st') = Some k'" using consistent_object [OF c] by simp
    with c i show ?thesis by (auto elim: consistent_id)
  qed (use a st in simp)
next
  fix j k' assume a: "(iv(i \<mapsto> k)) j = Some k'"
  show "j \<noteq> 0 \<and> j \<in> insert i b \<and> (\<exists>st'. (os(k \<mapsto> st)) k' = Some st' \<and> active_invoke_id st' = j)"
  proof (cases "j = i")
    case False
    with a obtain st' where "j \<noteq> 0" "j \<in> b" "os k' = Some st'" "active_invoke_id st' = j"
      using consistent_id [OF c] by (metis fun_upd_other)
    with idle show ?thesis by (cases "k' = k") auto
  qed (use a st i in auto)
next
  fix j item assume "wp j = Some item"
  with consistent_write [OF c] i show "wi_invoke_id item = j \<and> j \<noteq> 0 \<and> j \<in> insert i b \<and> (iv(i \<mapsto> k)) j = None"
    by (metis fun_upd_other insertCI)
qed

lemma consistent_finish_read [inv_intros]:
  assumes c: "consistent os iv wp b" and i: "iv i = Some k" and st: "active_invoke_id st = 0"
  shows "consistent (os(k \<mapsto> st)) (iv(i := None)) wp (b - {i})"
proof (rule consistentI)
  fix k' st' assume a: "(os(k \<mapsto> st)) k' = Some st'" "active_invoke_id st' \<noteq> 0"
  with st have k: "k' \<noteq> k" "os k' = Some st'" by (auto split: if_splits)
  from consistent_object [OF c k(2) a(2)] i k(1) show "(iv(i := None)) (active_invoke_id st') = Some k'"
    by auto
next
  fix j k' assume "(iv(i := None)) j = Some k'"
  then have j: "j \<noteq> i" "iv j = Some k'" by (auto split: if_splits)
  obtain st' where st': "j \<noteq> 0" "j \<in> b" "os k' = Some st'" "active_invoke_id st' = j"
    using consistent_id [OF c j(2)] by blast
  obtain st0 where "os k = Some st0" "active_invoke_id st0 = i" using consistent_id [OF c i] by blast
  with st' j(1) show "j \<noteq> 0 \<and> j \<in> b - {i} \<and> (\<exists>st'. (os(k \<mapsto> st)) k' = Some st' \<and> active_invoke_id st' = j)"
    by auto
next
  fix j item assume "wp j = Some item"
  from consistent_write [OF c this] i
  show "wi_invoke_id item = j \<and> j \<noteq> 0 \<and> j \<in> b - {i} \<and> (iv(i := None)) j = None" by auto
qed

lemma consistent_send_write [inv_intros]:
  assumes c: "consistent os iv wp b" and i: "i \<noteq> 0" "i \<notin> b" "wi_invoke_id item = i"
  shows "consistent os iv (wp(i \<mapsto> item)) (insert i b)"
proof (rule consistentI)
  fix j it assume a: "(wp(i \<mapsto> item)) j = Some it"
  have "iv i = None" using i(2) consistent_id [OF c] by (metis not_None_eq)
  with a i consistent_write [OF c, of j it] show "wi_invoke_id it = j \<and> j \<noteq> 0 \<and> j \<in> insert i b \<and> iv j = None"
    by (cases "j = i") auto
qed (use c in \<open>auto elim: consistent_id dest: consistent_object\<close>)

lemma consistent_finish_write [inv_intros]:
  assumes c: "consistent os iv wp b" and i: "iv i = None"
  shows "consistent os iv (wp(i := None)) (b - {i})"
proof (rule consistentI)
  fix j k assume "iv j = Some k"
  with consistent_id [OF c this] i
  show "j \<noteq> 0 \<and> j \<in> b - {i} \<and> (\<exists>st. os k = Some st \<and> active_invoke_id st = j)"
    by (metis DiffI option.distinct(1) singletonD)
next
  fix j it assume a: "(wp(i := None)) j = Some it"
  with consistent_write [OF c, of j it] show "wi_invoke_id it = j \<and> j \<noteq> 0 \<and> j \<in> b - {i} \<and> iv j = None"
    by (cases "j = i") auto
qed (rule consistent_object [OF c])

lemma consistent_idle_object [inv_intros]:
  assumes c: "consistent os iv wp b" and k: "os k = Some st0" "active_invoke_id st0 = 0" "active_invoke_id st = 0"
  shows "consistent (os(k \<mapsto> st)) iv wp b"
proof (rule consistentI)
  fix k' st' assume a: "(os(k \<mapsto> st)) k' = Some st'" "active_invoke_id st' \<noteq> 0"
  with k(3) have "os k' = Some st'" by (auto split: if_splits)
  from consistent_object [OF c this a(2)] show "iv (active_invoke_id st') = Some k'" .
next
  fix j k' assume "iv j = Some k'"
  from consistent_id [OF c this] obtain st' where st': "j \<noteq> 0" "j \<in> b" "os k' = Some st'" "active_invoke_id st' = j"
    by blast
  with k show "j \<noteq> 0 \<and> j \<in> b \<and> (\<exists>st'. (os(k \<mapsto> st)) k' = Some st' \<and> active_invoke_id st' = j)" by auto
qed (rule consistent_write [OF c])

lemma consistent_free_unused [inv_intros]:
  assumes "consistent os iv wp b" "iv i = None" "wp i = None"
  shows "consistent os iv wp (b - {i})"
  using consistent_finish_write [OF assms(1,2)] assms(3) by (simp add: fun_upd_idem)

end
