(* ===== verification/Bacnet_Machine.thy ===== *)
theory Bacnet_Machine
  imports Bacnet_Entry Bacnet_Tables
begin

text \<open>
  The driver as a state machine: the requests of the PLC, the packets of the network, the clean-up of
  the worker thread and the timers, in any order. The invariant ties the tables together: an object
  with a request in flight is found by the id of that request, and the ids in the tables are the
  ids the protocol stack has in use.
\<close>

section \<open>The contract of the transaction state machine\<close>

text \<open>What the driver relies on of the stack (\<open>tsm.h\<close>): a request that is sent gets an id that was free,
  0 means that none was sent, an id stays in use until it is freed.\<close>

definition tsm_ok :: "'l stack_lib \<Rightarrow> ('l \<Rightarrow> u8 set) \<Rightarrow> bool" where
  "tsm_ok lib busy \<longleftrightarrow>
     (\<forall>d t n p a l j l'. sl_send_read lib d t n p a l = (j, l') \<longrightarrow>
        (if j = 0 then busy l' = busy l else j \<notin> busy l \<and> busy l' = insert j (busy l))) \<and>
     (\<forall>d t n p v q a l j l'. sl_send_write lib d t n p v q a l = (j, l') \<longrightarrow>
        (if j = 0 then busy l' = busy l else j \<notin> busy l \<and> busy l' = insert j (busy l))) \<and>
     (\<forall>i l. busy (sl_tsm_free lib i l) = busy l - {i}) \<and>
     (\<forall>d m a l. busy (sl_address_add lib d m a l) = busy l) \<and>
     (\<forall>i l. busy (sl_set_instance lib i l) = busy l) \<and>
     (\<forall>a b l. busy (sl_who_is lib a b l) = busy l) \<and>
     (\<forall>n l. busy (sl_maintenance lib n l) = busy l) \<and>
     (\<forall>e l. busy (sl_tsm_timer lib e l) = busy l)"

section \<open>The tables of the context\<close>

definition tracked :: "('l \<Rightarrow> u8 set) \<Rightarrow> 'l bctx \<Rightarrow> bool" where
  "tracked busy c \<longleftrightarrow>
     consistent (map_of (object_states c)) (map_of (invoke_id_to_key c)) (map_of (write_pending_map c))
       (busy (stack c)) \<and>
     distinct (map fst (object_states c)) \<and> distinct (map fst (invoke_id_to_key c)) \<and>
     distinct (map fst (write_pending_map c))"

lemmas tracked_simps = tracked_def update_conv' delete_conv' distinct_update distinct_delete

lemma tracked_same:
  "tracked busy c \<Longrightarrow> same_requests c c' \<Longrightarrow> busy (stack c') = busy (stack c) \<Longrightarrow> tracked busy c'"
  by (simp add: tracked_def same_requests_def)

section \<open>Every step keeps the tables consistent\<close>

lemma read_object_tracked:
  assumes "tsm_ok lib busy" "tracked busy c" "read_object lib now r c = (rc, out, c')"
  shows "tracked busy c'"
proof -
  have send: "tracked busy c'"
    if s: "send_read lib now r c = (rc, out, c')"
      and idle: "\<forall>st0. map_of (object_states c) (read_key r) = Some st0 \<longrightarrow> active_invoke_id st0 = 0"
    using s
  proof (cases rule: send_read_cases)
    case Refused
    then show ?thesis using assms by simp
  next
    case Unsent
    with assms(1) have "busy (stack c') = busy (stack c)"
      unfolding tsm_ok_def by (metis prod.collapse)
    with Unsent assms show ?thesis by (blast intro: tracked_same)
  next
    case (Sent i st)
    with assms(1) have "i \<notin> busy (stack c)" "busy (stack c') = insert i (busy (stack c))"
      unfolding tsm_ok_def by metis+
    with Sent assms(2) idle show ?thesis
      by (simp add: tracked_simps consistent_send_read)
  qed
  show ?thesis
    using assms send by (auto simp: read_object_def split: option.splits if_splits)
qed

lemma write_tracked:
  assumes "tsm_ok lib busy" "tracked busy c"
    and "execute_write_property lib now (Some c) (Some r) = Some (rc, out, Some c')"
  shows "tracked busy c'"
  using assms(3)
proof (cases rule: execute_write_property_cases)
  case Refused
  then show ?thesis using assms by simp
next
  case (Unsent c1)
  with assms(1) have "busy (stack c1) = busy (stack c)"
    unfolding tsm_ok_def by metis
  with Unsent assms show ?thesis by (auto intro: tracked_same)
next
  case (Sent c1 i item)
  with assms(1) have "i \<notin> busy (stack c)" "busy (stack c1) = insert i (busy (stack c))"
    unfolding tsm_ok_def by metis+
  with Sent assms(2) show ?thesis
    by (simp add: tracked_simps consistent_send_write)
qed

text \<open>A packet that fits the requests in flight: the data of an acknowledged read decodes, and a read is not
  acknowledged as a write, nor a write as a read, nor a write aborted or rejected. The theory
  \<open>Bacnet_Errors\<close> shows what the other packets do.\<close>

definition orderly :: "'l bctx \<Rightarrow> packet \<Rightarrow> bool" where
  "orderly c p \<longleftrightarrow>
     (case p of
        ReadAck (Some body) src i \<Rightarrow> body \<noteq> None \<and> map_of (write_pending_map c) i = None
      | WriteAck i \<Rightarrow> map_of (invoke_id_to_key c) i = None
      | AbortResponse i \<Rightarrow> map_of (write_pending_map c) i = None
      | RejectResponse i \<Rightarrow> map_of (write_pending_map c) i = None
      | _ \<Rightarrow> True)"

lemma tsm_ok_free: "tsm_ok lib busy \<Longrightarrow> busy (sl_tsm_free lib i l) = busy l - {i}"
  by (simp add: tsm_ok_def)

lemma tsm_ok_others:
  assumes "tsm_ok lib busy"
  shows "busy (sl_address_add lib d m a l) = busy l" "busy (sl_set_instance lib j l) = busy l"
    "busy (sl_who_is lib u v l) = busy l" "busy (sl_maintenance lib n l) = busy l"
    "busy (sl_tsm_timer lib e l) = busy l"
  using assms by (simp_all add: tsm_ok_def)

lemma store_in_cache_idle: "store_in_cache lib now av st h = (st', h') \<Longrightarrow> active_invoke_id st' = 0"
  by (auto simp: store_in_cache_def Let_def split: prod.splits if_splits)

text \<open>The three ways a handler ends a request.\<close>

lemma finish_read_tracked:
  assumes "tsm_ok lib busy" "tracked busy c" "map_of (invoke_id_to_key c) i = Some k" "active_invoke_id st = 0"
    and "object_states c' = AList.update k st (object_states c)"
    and "invoke_id_to_key c' = AList.delete i (invoke_id_to_key c)"
    and "write_pending_map c' = write_pending_map c" "stack c' = sl_tsm_free lib i (stack c)"
  shows "tracked busy c'"
  using assms consistent_finish_read [of _ "map_of (invoke_id_to_key c)" _ _ i k st]
  by (simp add: tracked_simps tsm_ok_free)

lemma finish_write_tracked:
  assumes "tsm_ok lib busy" "tracked busy c" "map_of (invoke_id_to_key c) i = None" "i = 0 \<or> stack c' = sl_tsm_free lib i (stack c)"
    and "i = 0 \<Longrightarrow> stack c' = stack c"
    and "object_states c' = object_states c" "invoke_id_to_key c' = invoke_id_to_key c"
    and "write_pending_map c' = AList.delete i (write_pending_map c)"
  shows "tracked busy c'"
proof (cases "i = 0")
  case True
  with assms(2) have "map_of (write_pending_map c) 0 = None"
    using consistent_no_zero unfolding tracked_def by blast
  then have "(map_of (write_pending_map c))(0 := None) = map_of (write_pending_map c)"
    by (simp add: fun_upd_idem)
  with assms True show ?thesis by (simp add: tracked_simps)
next
  case False
  with assms show ?thesis by (simp add: tracked_simps tsm_ok_free consistent_finish_write)
qed

lemma free_unused_tracked:
  assumes "tsm_ok lib busy" "tracked busy c" "map_of (invoke_id_to_key c) i = None"
    and "map_of (write_pending_map c) i = None" "same_requests c c'"
    and "stack c' = sl_tsm_free lib i (stack c) \<or> stack c' = stack c"
  shows "tracked busy c'"
  using assms by (auto simp: tracked_def same_requests_def tsm_ok_free consistent_free_unused)

lemma tracked_read_id:
  assumes "tracked busy c" "map_of (invoke_id_to_key c) i = Some k"
  obtains st where "i \<noteq> 0" "map_of (object_states c) k = Some st" "active_invoke_id st = i"
  using assms consistent_id unfolding tracked_def by metis

lemma handle_read_property_ack_tracked:
  assumes lib: "tsm_ok lib busy" and c: "tracked busy c" and p: "orderly c (ReadAck decoded src i)"
  shows "tracked busy (handle_read_property_ack lib now decoded src i c)"
proof (cases "\<not> initialized c \<or> decoded = None")
  case False
  with p obtain av where d: "decoded = Some (Some av)" and w: "map_of (write_pending_map c) i = None"
    by (auto simp: orderly_def)
  show ?thesis
  proof (cases "map_of (invoke_id_to_key c) i")
    case None
    show ?thesis
      by (rule free_unused_tracked [OF lib c None w])
        (use False d None in \<open>simp_all add: handle_read_property_ack_def same_requests_def split: prod.split\<close>)
  next
    case (Some k)
    obtain st where st: "map_of (object_states c) k = Some st" using tracked_read_id [OF c Some] by metis
    obtain st' h' where s: "store_in_cache lib now av st (bc_heap c) = (st', h')" by fastforce
    show ?thesis
      by (rule finish_read_tracked [OF lib c Some store_in_cache_idle [OF s]])
        (use False d Some st s in \<open>simp_all add: handle_read_property_ack_def Let_def split: prod.split\<close>)
  qed
qed (use c in \<open>auto simp: handle_read_property_ack_def\<close>)

lemma fail_read_tracked:
  assumes lib: "tsm_ok lib busy" and c: "tracked busy c" and k: "map_of (invoke_id_to_key c) i = Some k"
  shows "tracked busy (free_if_valid lib i (fail_object k s
    (c\<lparr>invoke_id_to_key := AList.delete i (invoke_id_to_key c)\<rparr>)))"
proof -
  obtain st where st: "i \<noteq> 0" "map_of (object_states c) k = Some st" using tracked_read_id [OF c k] by metis
  show ?thesis
    by (rule finish_read_tracked [OF lib c k, of "st\<lparr>st_status := s, active_invoke_id := 0\<rparr>"])
      (use st in \<open>simp_all add: fail_object_def\<close>)
qed

lemma npdu_handler_tracked:
  assumes lib: "tsm_ok lib busy" and c: "tracked busy c" and p: "orderly c p"
  shows "tracked busy (npdu_handler lib now p c)"
proof (cases "initialized c")
  case False
  with c show ?thesis
    by (cases p) (simp_all add: npdu_handler_def handle_iam_callback_def handle_read_property_ack_def
        handle_write_property_ack_def handle_error_response_def handle_abort_response_def handle_reject_response_def)
next
  case init: True
  have unused: "tracked busy (free_if_valid lib i c)"
    if "map_of (invoke_id_to_key c) i = None" "map_of (write_pending_map c) i = None" for i
    by (rule free_unused_tracked [OF lib c that]) (simp_all add: same_requests_def)
  have wdone: "tracked busy (free_if_valid lib i (c\<lparr>write_pending_map := AList.delete i (write_pending_map c)\<rparr>))"
    if "map_of (invoke_id_to_key c) i = None" for i
    by (rule finish_write_tracked [OF lib c that]) simp_all
  show ?thesis
  proof (cases p)
    case (IAm d src)
    have "same_requests c (handle_iam_callback lib d src c)"
      "busy (stack (handle_iam_callback lib d src c)) = busy (stack c)"
      by (auto simp: handle_iam_callback_def same_requests_def tsm_ok_others [OF lib] split: option.splits prod.splits)
    with IAm show ?thesis using tracked_same [OF c] by (simp add: npdu_handler_def)
  next
    case (ReadAck d src i)
    with p show ?thesis by (simp add: npdu_handler_def handle_read_property_ack_tracked [OF lib c])
  next
    case (WriteAck i)
    with p init wdone [of i] show ?thesis
      by (simp add: npdu_handler_def handle_write_property_ack_def orderly_def)
  next
    case (ErrorResponse i code)
    with init wdone [of i] fail_read_tracked [OF lib c, of i] show ?thesis
      by (auto simp: npdu_handler_def handle_error_response_def split: option.splits)
  next
    case (AbortResponse i)
    with p init unused [of i] fail_read_tracked [OF lib c, of i] show ?thesis
      by (auto simp: npdu_handler_def handle_abort_response_def orderly_def split: option.splits)
  next
    case (RejectResponse i)
    with p init unused [of i] fail_read_tracked [OF lib c, of i] show ?thesis
      by (auto simp: npdu_handler_def handle_reject_response_def orderly_def split: option.splits)
  next
    case OtherPacket
    with c show ?thesis by (simp add: npdu_handler_def)
  qed
qed

end
