(* ===== verification/Bacnet_Cleanup.thy ===== *)
theory Bacnet_Cleanup
  imports Bacnet_Machine
begin

text \<open>
  The clean-up of the worker thread, exactly: the requests that are too old end with
  \<open>PROTO_TIMEOUT\<close>, the unconfirmed writes that are too old are forgotten, everything else stays.
\<close>

definition read_expired :: "bacnet_config \<Rightarrow> nat \<Rightarrow> object_state \<Rightarrow> bool" where
  "read_expired cfg now st \<longleftrightarrow> uint (stale_threshold cfg) < int now - int (st_timestamp st)"

definition expire :: "bacnet_config \<Rightarrow> nat \<Rightarrow> object_state \<Rightarrow> object_state" where
  "expire cfg now st =
     (if active_invoke_id st \<noteq> 0 \<and> read_expired cfg now st
      then st\<lparr>active_invoke_id := 0, st_status := PROTO_TIMEOUT\<rparr> else st)"

lemma clean_read_entry:
  fixes now :: nat
  assumes lib: "tsm_ok lib busy" and c: "tracked busy c" and i: "map_of (invoke_id_to_key c) i = Some k"
  defines "c' \<equiv> clean_read lib now c (i, k)"
  shows "tracked busy c'"
    and "map_of (object_states c') = (map_of (object_states c))(k := map_option (expire (bc_config c) now) (map_of (object_states c) k))"
    and "j \<noteq> i \<Longrightarrow> map_of (invoke_id_to_key c') j = map_of (invoke_id_to_key c) j"
    and "write_pending_map c' = write_pending_map c" and "bc_config c' = bc_config c"
proof -
  obtain st where st: "i \<noteq> 0" "map_of (object_states c) k = Some st" "active_invoke_id st = i"
    using tracked_read_id [OF c i] by metis
  have "tracked busy c' \<and>
    map_of (object_states c') = (map_of (object_states c))(k := map_option (expire (bc_config c) now) (map_of (object_states c) k)) \<and>
    (j \<noteq> i \<longrightarrow> map_of (invoke_id_to_key c') j = map_of (invoke_id_to_key c) j) \<and>
    write_pending_map c' = write_pending_map c \<and> bc_config c' = bc_config c"
  proof (cases "read_expired (bc_config c) now st")
    case True
    let ?st = "st\<lparr>active_invoke_id := 0, st_status := PROTO_TIMEOUT\<rparr>"
    have c': "c' = (tsm_free lib i (c\<lparr>object_states := AList.update k ?st (object_states c)\<rparr>))
        \<lparr>invoke_id_to_key := AList.delete i (invoke_id_to_key c)\<rparr>"
      using True st by (simp add: c'_def clean_read_def read_expired_def Let_def free_if_valid_def)
    have "tracked busy c'"
      by (rule finish_read_tracked [OF lib c i, of ?st]) (simp_all add: c')
    then show ?thesis
      using True st by (simp add: c' expire_def update_conv' alist_delete_other)
  next
    case False
    with st c show ?thesis
      by (simp add: c'_def clean_read_def read_expired_def expire_def fun_upd_idem)
  qed
  then show "tracked busy c'"
    "map_of (object_states c') = (map_of (object_states c))(k := map_option (expire (bc_config c) now) (map_of (object_states c) k))"
    "j \<noteq> i \<Longrightarrow> map_of (invoke_id_to_key c') j = map_of (invoke_id_to_key c) j"
    "write_pending_map c' = write_pending_map c" "bc_config c' = bc_config c" by blast+
qed

lemma clean_reads:
  fixes now :: nat
  assumes lib: "tsm_ok lib busy" and c: "tracked busy c" and d: "distinct (map fst es)"
    and es: "\<forall>(i, k) \<in> set es. map_of (invoke_id_to_key c) i = Some k"
  defines "c' \<equiv> foldl (clean_read lib now) c es"
  shows "tracked busy c' \<and> write_pending_map c' = write_pending_map c \<and> bc_config c' = bc_config c \<and>
    (\<forall>k. map_of (object_states c') k = (if k \<in> snd ` set es
       then map_option (expire (bc_config c) now) (map_of (object_states c) k) else map_of (object_states c) k))"
  using c d es unfolding c'_def
proof (induction es arbitrary: c)
  case (Cons e es)
  obtain i k where e: "e = (i, k)" by fastforce
  with Cons.prems have i: "map_of (invoke_id_to_key c) i = Some k" "i \<notin> fst ` set es" by auto
  note one = clean_read_entry [OF lib Cons.prems(1) i(1), where now = now]
  let ?c = "clean_read lib now c (i, k)"
  have entries: "\<forall>(j, k') \<in> set es. map_of (invoke_id_to_key c) j = Some k'" using Cons.prems(3) by auto
  have "\<forall>(j, k') \<in> set es. map_of (invoke_id_to_key ?c) j = Some k'"
    using entries i(2) one(3) by (force simp: image_iff)
  from Cons.IH [OF one(1) _ this] Cons.prems(2)
  have IH: "tracked busy (foldl (clean_read lib now) ?c es)"
      "write_pending_map (foldl (clean_read lib now) ?c es) = write_pending_map c"
      "bc_config (foldl (clean_read lib now) ?c es) = bc_config c"
      "\<forall>k'. map_of (object_states (foldl (clean_read lib now) ?c es)) k' = (if k' \<in> snd ` set es
         then map_option (expire (bc_config c) now) (map_of (object_states ?c) k') else map_of (object_states ?c) k')"
    using one(4,5) by simp_all
  have new: "k \<notin> snd ` set es"
  proof
    assume "k \<in> snd ` set es"
    then obtain j where j: "(j, k) \<in> set es" by force
    with entries have "map_of (invoke_id_to_key c) j = Some k" by auto
    then obtain st where "map_of (object_states c) k = Some st" "active_invoke_id st = j"
      using tracked_read_id [OF Cons.prems(1)] by metis
    moreover obtain st' where "map_of (object_states c) k = Some st'" "active_invoke_id st' = i"
      using tracked_read_id [OF Cons.prems(1) i(1)] by metis
    ultimately show False using j i(2) by force
  qed
  show ?case using IH new by (auto simp: e one(2))
qed simp

lemma clean_write_entry:
  fixes now :: nat
  assumes lib: "tsm_ok lib busy" and c: "tracked busy c" and i: "map_of (write_pending_map c) i = Some it"
  defines "c' \<equiv> clean_write lib now c (i, it)"
  shows "tracked busy c'" "object_states c' = object_states c" "invoke_id_to_key c' = invoke_id_to_key c"
    "map_of (write_pending_map c') = (map_of (write_pending_map c))(i := (if write_expired now it then None else Some it))"
proof -
  have it: "wi_invoke_id it = i" "i \<noteq> 0" "map_of (invoke_id_to_key c) i = None"
    using c i unfolding tracked_def by (auto dest: consistent_write)
  show "object_states c' = object_states c" "invoke_id_to_key c' = invoke_id_to_key c"
    by (simp_all add: c'_def clean_write_def)
  show "map_of (write_pending_map c') = (map_of (write_pending_map c))(i := (if write_expired now it then None else Some it))"
    using i by (simp add: c'_def clean_write_def delete_conv' fun_upd_idem)
  show "tracked busy c'"
  proof (cases "write_expired now it")
    case True
    show ?thesis
      by (rule finish_write_tracked [OF lib c it(3)]) (use True it in \<open>simp_all add: c'_def clean_write_def\<close>)
  qed (use c in \<open>simp add: c'_def clean_write_def\<close>)
qed

lemma clean_writes:
  fixes now :: nat
  assumes lib: "tsm_ok lib busy" and c: "tracked busy c" and d: "distinct (map fst es)"
    and es: "\<forall>(i, it) \<in> set es. map_of (write_pending_map c) i = Some it"
  defines "c' \<equiv> foldl (clean_write lib now) c es"
  shows "tracked busy c' \<and> object_states c' = object_states c \<and> invoke_id_to_key c' = invoke_id_to_key c \<and>
    (\<forall>i. map_of (write_pending_map c') i =
       (case map_of (write_pending_map c) i of
          Some it \<Rightarrow> if i \<in> fst ` set es \<and> write_expired now it then None else Some it | None \<Rightarrow> None))"
  using c d es unfolding c'_def
proof (induction es arbitrary: c)
  case Nil
  then show ?case by (simp split: option.split)
next
  case (Cons e es)
  obtain i it where e: "e = (i, it)" by fastforce
  with Cons.prems have i: "map_of (write_pending_map c) i = Some it" "i \<notin> fst ` set es" by auto
  note one = clean_write_entry [OF lib Cons.prems(1) i(1), where now = now]
  let ?c = "clean_write lib now c (i, it)"
  have "\<forall>(j, it') \<in> set es. map_of (write_pending_map ?c) j = Some it'"
    using Cons.prems(3) i(2) one(4) by (force simp: image_iff)
  from Cons.IH [OF one(1) _ this] Cons.prems(2) one(2,3) i
  show ?case by (auto simp: e one(4) split: option.splits)
qed

lemma tracked_distinct:
  assumes "tracked busy c"
  shows "distinct (map fst (invoke_id_to_key c))" "distinct (map fst (write_pending_map c))"
    "\<forall>(i, k) \<in> set (invoke_id_to_key c). map_of (invoke_id_to_key c) i = Some k"
    "\<forall>(i, it) \<in> set (write_pending_map c). map_of (write_pending_map c) i = Some it"
  using assms by (auto simp: tracked_def)

lemma cleanup_tables:
  fixes now :: nat
  assumes lib: "tsm_ok lib busy" and c: "tracked busy c"
  defines "c' \<equiv> cleanup_stale_requests lib now c"
  shows "tracked busy c'"
    and "map_of (object_states c') k = map_option (expire (bc_config c) now) (map_of (object_states c) k)"
    and "map_of (write_pending_map c') i =
      (case map_of (write_pending_map c) i of
         Some it \<Rightarrow> if write_expired now it then None else Some it | None \<Rightarrow> None)"
proof -
  let ?c = "foldl (clean_read lib now) c (invoke_id_to_key c)"
  have r: "tracked busy ?c" "write_pending_map ?c = write_pending_map c"
    "\<forall>k. map_of (object_states ?c) k = (if k \<in> snd ` set (invoke_id_to_key c)
       then map_option (expire (bc_config c) now) (map_of (object_states c) k) else map_of (object_states c) k)"
    using clean_reads [OF lib c, where es = "invoke_id_to_key c" and now = now] tracked_distinct [OF c] by auto
  have w: "tracked busy c'" "object_states c' = object_states ?c"
    "\<forall>i. map_of (write_pending_map c') i =
      (case map_of (write_pending_map ?c) i of
         Some it \<Rightarrow> if i \<in> fst ` set (write_pending_map ?c) \<and> write_expired now it then None else Some it | None \<Rightarrow> None)"
    using clean_writes [OF lib r(1), where es = "write_pending_map ?c" and now = now] tracked_distinct [OF r(1)]
    unfolding c'_def cleanup_stale_requests_def Let_def by auto
  show "tracked busy c'" by (rule w(1))
  show "map_of (write_pending_map c') i =
      (case map_of (write_pending_map c) i of
         Some it \<Rightarrow> if write_expired now it then None else Some it | None \<Rightarrow> None)"
    using w(3) r(2) by (auto split: option.splits dest: map_of_SomeD) (force dest: map_of_SomeD)+
  show "map_of (object_states c') k = map_option (expire (bc_config c) now) (map_of (object_states c) k)"
  proof (cases "k \<in> snd ` set (invoke_id_to_key c)")
    case True
    with w(2) r(3) show ?thesis by simp
  next
    case False
    have "expire (bc_config c) now st = st" if "map_of (object_states c) k = Some st" for st
    proof (cases "active_invoke_id st = 0")
      case nz: False
      from c that nz have "map_of (invoke_id_to_key c) (active_invoke_id st) = Some k"
        unfolding tracked_def by (blast intro: consistent_object)
      with False show ?thesis by (force dest: map_of_SomeD)
    qed (simp add: expire_def)
    with False w(2) r(3) show ?thesis by (cases "map_of (object_states c) k") auto
  qed
qed

end
