(* ===== verification/Bacnet_Steps.thy ===== *)
theory Bacnet_Steps
  imports Bacnet_Cleanup
begin

text \<open>
  The step relation of a connected driver: reads and writes of the PLC, packets (those that satisfy
  \<open>good\<close>), the clean-up, the timers, and the bookkeeping that leaves the requests alone. The worker
  thread and the discovery are sequences of these steps; the tables stay consistent along orderly
  ones.
\<close>

definition same_but_flags :: "'l bctx \<Rightarrow> 'l bctx \<Rightarrow> bool" where
  "same_but_flags c c' \<longleftrightarrow> same_requests c c' \<and> stack c' = stack c \<and> initialized c' = initialized c \<and>
     bc_config c' = bc_config c \<and> bc_heap c' = bc_heap c"

inductive bstep :: "'l stack_lib \<Rightarrow> ('l bctx \<Rightarrow> packet \<Rightarrow> bool) \<Rightarrow> 'l bctx \<Rightarrow> 'l bctx \<Rightarrow> bool"
  for lib good where
  Read: "read_object lib now r c = (rc, out, c') \<Longrightarrow> bstep lib good c c'"
| Write: "execute_write_property lib now (Some c) (Some r) = Some (rc, out, Some c') \<Longrightarrow> bstep lib good c c'"
| Packet: "good c p \<Longrightarrow> bstep lib good c (npdu_handler lib now p c)"
| Stale: "bstep lib good c (cleanup_stale_requests lib now c)"
| Timer: "bstep lib good c (c\<lparr>stack := sl_maintenance lib n (sl_tsm_timer lib e (stack c))\<rparr>)"
| Maintenance: "bstep lib good c (c\<lparr>stack := sl_maintenance lib n (stack c)\<rparr>)"
| WhoIs: "bstep lib good c (c\<lparr>stack := sl_who_is lib a b (sl_set_instance lib j (stack c))\<rparr>)"
| Flags: "same_but_flags c c' \<Longrightarrow> bstep lib good c c'"

inductive_cases bstepE: "bstep lib good c c'"

section \<open>The worker thread is made of these steps\<close>

abbreviation bsteps :: "'l stack_lib \<Rightarrow> 'l bctx \<Rightarrow> 'l bctx \<Rightarrow> bool" where
  "bsteps lib \<equiv> (bstep lib (\<lambda>_ _. True))\<^sup>*\<^sup>*"

lemma bsteps_step: "bsteps lib c0 c \<Longrightarrow> bstep lib (\<lambda>_ _. True) c c' \<Longrightarrow> bsteps lib c0 c'"
  by simp

lemma flags_step: "same_but_flags c c' \<Longrightarrow> bsteps lib c0 c \<Longrightarrow> bsteps lib c0 c'"
  by (erule bsteps_step) (rule bstep.Flags)

lemma flags_simps [simp]:
  "same_but_flags c (set_connection_state s c)" "same_but_flags c (trigger_callback t st c)"
  "same_but_flags c (c\<lparr>worker_stop := b\<rparr>)" "same_but_flags c (c\<lparr>target_found := b\<rparr>)"
  "same_but_flags c (c\<lparr>bc_reconnect_attempts := m\<rparr>)" "same_but_flags c (c\<lparr>last_reconnect_attempt := m\<rparr>)"
  by (simp_all add: same_but_flags_def same_requests_def set_connection_state_def trigger_callback_def
      split: option.splits prod.splits)

lemma packet_steps: "bsteps lib c0 c \<Longrightarrow> bsteps lib c0 (npdu_handler lib now p c)"
  by (erule bsteps_step) (simp add: bstep.Packet)

lemma maintenance_steps: "bsteps lib c0 c \<Longrightarrow> bsteps lib c0 (c\<lparr>stack := sl_maintenance lib n (stack c)\<rparr>)"
  by (erule bsteps_step) (rule bstep.Maintenance)

lemma discover_pass_steps:
  assumes "bsteps lib c0 c" "discover_pass lib ms r (t0, c) = (t1, c')"
  shows "bsteps lib c0 c'"
  using assms packet_steps [of lib c0 c] maintenance_steps [of lib c0]
  by (auto simp: discover_pass_def Let_def split: option.splits if_splits)

lemma stop_asked_steps: "bsteps lib c0 c \<Longrightarrow> bsteps lib c0 (stop_asked r c)"
  unfolding stop_asked_def by (auto intro: flags_step [rotated])

lemma discover_loop_steps:
  "discover_loop lib start timeout ms rounds s = Some (rc, c') \<Longrightarrow> bsteps lib c0 (snd s) \<Longrightarrow> bsteps lib c0 c'"
proof (induction lib start timeout ms rounds s rule: discover_loop.induct)
  case (1 lib start timeout ms t0 c)
  then show ?case by (auto split: if_splits)
next
  case (2 lib start timeout ms r rs t0 c)
  obtain t1 c1 where p: "discover_pass lib ms r (t0, stop_asked r c) = (t1, c1)" by fastforce
  have a: "bsteps lib c0 (stop_asked r c)" using "2.prems"(2) stop_asked_steps by simp
  show ?case
    using 2 p discover_pass_steps [OF a p] a
    by (auto simp: Let_def split: if_splits intro: flags_step [rotated])
qed

lemma discover_start_steps:
  assumes "bsteps lib c0 c"
  shows "bsteps lib c0 (discover_start lib c)"
proof -
  have "bsteps lib c0 (set_connection_state BACNET_CONN_CONNECTING (c\<lparr>target_found := False\<rparr>))"
    by (rule flags_step [OF flags_simps(1) flags_step [OF flags_simps(4) assms]])
  then show ?thesis
    using bsteps_step [OF _ bstep.WhoIs] unfolding discover_start_def Let_def by blast
qed

lemma discover_target_device_steps:
  assumes "discover_target_device lib now rounds c = Some (rc, c')" "bsteps lib c0 c"
  shows "bsteps lib c0 c'"
proof -
  from assms(1) obtain rc1 c2 where loop: "discover_loop lib now (discovery_timeout (bc_config c))
      (maintenance_interval (bc_config c)) rounds (now, discover_start lib c) = Some (rc1, c2)"
    and c': "c' = c2 \<or> c' = (set_connection_state BACNET_CONN_CONNECTED c2)\<lparr>bc_reconnect_attempts := 0\<rparr>"
    unfolding discover_target_device_def by (auto split: option.splits if_splits)
  have c2: "bsteps lib c0 c2"
    using discover_loop_steps [OF loop] discover_start_steps [OF assms(2)] by simp
  with c' flags_step [OF flags_simps(5) flags_step [OF flags_simps(1) c2]] show ?thesis by blast
qed

lemma reconnect_attempt_steps:
  assumes "reconnect_attempt lib now rounds c = Some c'" "bsteps lib c0 c"
  shows "bsteps lib c0 c'"
proof -
  from assms(1) obtain rc c2 where d: "discover_target_device lib now rounds c = Some (rc, c2)"
    and c': "c' = trigger_callback ''reconnect'' PROTO_SUCCESS
         (set_connection_state BACNET_CONN_CONNECTED (c2\<lparr>bc_reconnect_attempts := 0\<rparr>)) \<or>
       c' = c2\<lparr>bc_reconnect_attempts := bc_reconnect_attempts c2 + 1\<rparr> \<or>
       c' = trigger_callback ''reconnect'' PROTO_ERROR_CONNECT (c2\<lparr>bc_reconnect_attempts := bc_reconnect_attempts c2 + 1\<rparr>)"
    unfolding reconnect_attempt_def Let_def by (cases "discover_target_device lib now rounds c") (auto split: if_splits)
  have c2: "bsteps lib c0 (c2\<lparr>bc_reconnect_attempts := m\<rparr>)" for m
    by (rule flags_step [OF flags_simps(5) discover_target_device_steps [OF d assms(2)]])
  show ?thesis
    using c' flags_step [OF flags_simps(2) flags_step [OF flags_simps(1) c2]] flags_step [OF flags_simps(2) c2] c2
    by blast
qed

lemma check_and_reconnect_steps:
  assumes "check_and_reconnect_if_needed lib sec now rounds c = Some c'" "bsteps lib c0 c"
  shows "bsteps lib c0 c'"
proof -
  have "c' = c \<or> reconnect_attempt lib now rounds (c\<lparr>last_reconnect_attempt := sec\<rparr>) = Some c'"
    using assms(1) by (auto simp: check_and_reconnect_if_needed_def split: if_splits option.splits)
  moreover have "bsteps lib c0 (c\<lparr>last_reconnect_attempt := sec\<rparr>)"
    by (rule flags_step [OF flags_simps(6) assms(2)])
  ultimately show ?thesis using assms(2) reconnect_attempt_steps by blast
qed

lemma worker_pass_steps:
  assumes "worker_pass lib r (k, c) = Some (k', c')" "bsteps lib c0 c"
  shows "bsteps lib c0 c'"
proof -
  obtain k1 c1 where t: "worker_timers lib (wr_now r) (k, c) = (k1, c1)" by fastforce
  obtain k2 c2 where w: "worker_cleanup lib (wr_now r) (k1, c1) = (k2, c2)" by fastforce
  define c3 where "c3 = (case wr_packet r of None \<Rightarrow> c2 | Some p \<Rightarrow> npdu_handler lib (wr_now r) p c2)"
  have "bsteps lib c0 c1"
    using t assms(2) bsteps_step [OF assms(2) bstep.Timer] by (auto simp: worker_timers_def Let_def split: if_splits)
  then have "bsteps lib c0 c2"
    using w bsteps_step [OF _ bstep.Stale] by (auto simp: worker_cleanup_def Let_def split: if_splits)
  then have "bsteps lib c0 c3" by (simp add: c3_def packet_steps split: option.split)
  moreover have "c' = c3 \<or> check_and_reconnect_if_needed lib (wr_seconds r) (wr_now r) (wr_discovery r) c3 = Some c'"
    using assms(1) by (auto simp: worker_pass_def t w c3_def [symmetric] split: if_splits)
  ultimately show ?thesis using check_and_reconnect_steps by blast
qed

end
