(* ===== verification/Bacnet_Safety.thy ===== *)
theory Bacnet_Safety
  imports Bacnet_Steps
begin

text \<open>
  What holds along every run of the driver: the invariant on the tables along orderly steps, the fate
  of an object whose request the tables have lost along any steps, and a sample protocol stack that
  meets the contract.
\<close>

section \<open>The invariant along a run\<close>

lemma bstep_tracked [inv_intros]:
  assumes "tsm_ok lib busy" "bstep lib orderly c c'" "tracked busy c"
  shows "tracked busy c'"
  using assms(2,1,3)
proof (cases rule: bstep.cases)
  case (Read now r rc out)
  with assms show ?thesis by (blast intro: read_object_tracked)
next
  case (Write now r rc out)
  with assms show ?thesis by (blast intro: write_tracked)
next
  case (Packet p now)
  with assms show ?thesis by (simp add: npdu_handler_tracked)
next
  case (Stale now)
  with assms show ?thesis by (simp add: cleanup_tables(1))
next
  case (Flags)
  with assms show ?thesis by (auto simp: same_but_flags_def intro: tracked_same)
qed (use assms in \<open>simp_all add: tracked_def tsm_ok_others\<close>)

lemma bsteps_tracked:
  assumes "(bstep lib orderly)\<^sup>*\<^sup>* c c'" "tsm_ok lib busy" "tracked busy c"
  shows "tracked busy c'"
  using assms(1,3) by (induction rule: rtranclp_induct) (auto intro: bstep_tracked [OF assms(2)])

lemma empty_tracked:
  "object_states c = [] \<Longrightarrow> invoke_id_to_key c = [] \<Longrightarrow> write_pending_map c = [] \<Longrightarrow> tracked busy c"
  by (simp add: tracked_def consistent_empty [simplified])

section \<open>An object the tables have lost\<close>

text \<open>The object has a request in flight, but no id leads to it.\<close>

definition lost :: "object_key \<Rightarrow> object_state \<Rightarrow> 'l bctx \<Rightarrow> bool" where
  "lost k st c \<longleftrightarrow> map_of (object_states c) k = Some st \<and> active_invoke_id st \<noteq> 0 \<and>
     (\<forall>i. (i, k) \<notin> set (invoke_id_to_key c))"

lemma in_delete: "e \<in> set (AList.delete i m) \<Longrightarrow> e \<in> set m"
  by (auto simp: AList.delete_eq)

lemma in_update: "(j, k) \<in> set (AList.update i k' m) \<Longrightarrow> (j, k) \<in> set m \<or> j = i \<and> k = k'"
  by (induction m) (auto split: if_splits)

lemma lost_other_key: "lost k st c \<Longrightarrow> map_of (invoke_id_to_key c) i = Some k' \<Longrightarrow> k' \<noteq> k"
  by (auto simp: lost_def dest: map_of_SomeD)

lemma lost_same_requests: "lost k st c \<Longrightarrow> same_requests c c' \<Longrightarrow> lost k st c'"
  by (simp add: lost_def same_requests_def)

lemma lost_read:
  assumes "lost k st c" "read_object lib now r c = (rc, out, c')"
  shows "lost k st c'"
proof (cases "read_key r = k")
  case True
  with assms show ?thesis by (auto simp: lost_def read_object_def split: if_splits)
next
  case False
  have "lost k st c'" if s: "send_read lib now r c = (rc, out, c')"
    using s
  proof (cases rule: send_read_cases)
    case (Sent i st')
    with assms(1) False show ?thesis
      by (auto simp: lost_def update_conv' dest: in_update)
  qed (use assms(1) lost_same_requests in blast)+
  with assms show ?thesis by (auto simp: read_object_def split: option.splits if_splits)
qed

lemma lost_fail_object:
  assumes "lost k st c" "map_of (invoke_id_to_key c) i = Some k'"
  shows "lost k st (free_if_valid lib i (fail_object k' s (c\<lparr>invoke_id_to_key := AList.delete i (invoke_id_to_key c)\<rparr>)))"
proof -
  have "k' \<noteq> k" using assms by (rule lost_other_key)
  with assms(1) show ?thesis
    by (auto simp: lost_def fail_object_def update_conv' split: option.splits dest: in_delete)
qed

lemma lost_packet:
  assumes l: "lost k st c"
  shows "lost k st (npdu_handler lib now p c)"
proof (cases "initialized c")
  case False
  with l show ?thesis
    by (cases p) (simp_all add: npdu_handler_def handle_iam_callback_def handle_read_property_ack_def
        handle_write_property_ack_def handle_error_response_def handle_abort_response_def handle_reject_response_def)
next
  case True
  show ?thesis
  proof (cases p)
    case (ReadAck d src i)
    have "k' \<noteq> k" if "map_of (invoke_id_to_key c) i = Some k'" for k'
      using l that by (rule lost_other_key)
    with l True show ?thesis
      unfolding ReadAck npdu_handler_def packet.case handle_read_property_ack_def Let_def
      by (auto simp: lost_def update_conv' split: option.splits prod.splits dest: in_delete)
  next
    case (ErrorResponse i code)
    with l True lost_fail_object [OF l, of i] show ?thesis
      by (auto simp: npdu_handler_def handle_error_response_def lost_def split: option.splits)
  next
    case (AbortResponse i)
    with l True lost_fail_object [OF l, of i] show ?thesis
      by (auto simp: npdu_handler_def handle_abort_response_def lost_def split: option.splits)
  next
    case (RejectResponse i)
    with l True lost_fail_object [OF l, of i] show ?thesis
      by (auto simp: npdu_handler_def handle_reject_response_def lost_def split: option.splits)
  qed (use l True in \<open>auto simp: npdu_handler_def handle_iam_callback_def handle_write_property_ack_def lost_def
      split: option.splits prod.splits\<close>)
qed

lemma lost_clean_read:
  assumes "lost k st c" "k' \<noteq> k"
  shows "lost k st (clean_read lib now c (i, k'))"
  using assms by (auto simp: lost_def clean_read_def Let_def update_conv' split: option.splits dest: in_delete)

lemma lost_clean_write: "lost k st c \<Longrightarrow> lost k st (clean_write lib now c e)"
  by (auto simp: lost_def clean_write_def split: prod.splits)

lemma lost_cleanup:
  assumes "lost k st c"
  shows "lost k st (cleanup_stale_requests lib now c)"
proof -
  have "lost k st (foldl (clean_read lib now) c es)" if "\<forall>i. (i, k) \<notin> set es" "lost k st c" for es c
    using that
  proof (induction es arbitrary: c)
    case (Cons e es)
    obtain i k' where "e = (i, k')" by fastforce
    with Cons.prems have "lost k st (clean_read lib now c e)" by (auto intro: lost_clean_read)
    with Cons show ?case by simp
  qed simp
  then have "lost k st (foldl (clean_read lib now) c (invoke_id_to_key c))"
    using assms by (auto simp: lost_def)
  moreover have "lost k st (foldl (clean_write lib now) c es)" if "lost k st c" for es c
    using that by (rule foldl_preserves [rotated]) (rule lost_clean_write)
  ultimately show ?thesis by (simp add: cleanup_stale_requests_def Let_def)
qed

lemma lost_write:
  assumes "lost k st c" "execute_write_property lib now (Some c) (Some r) = Some (rc, out, Some c')"
  shows "lost k st c'"
  using assms(2)
proof (cases rule: execute_write_property_cases)
  case (Sent c1 i item)
  with assms(1) show ?thesis by (simp add: lost_def)
qed (use assms(1) lost_same_requests in auto)

lemma bstep_lost [inv_intros]:
  assumes "bstep lib good c c'" "lost k st c"
  shows "lost k st c'"
  using assms
proof (cases rule: bstep.cases)
  case (Flags)
  with assms(2) show ?thesis by (auto simp: same_but_flags_def intro: lost_same_requests)
qed (use assms(2) in \<open>auto intro: lost_read lost_write lost_packet lost_cleanup simp: lost_def [of k st "c\<lparr>stack := _\<rparr>"]\<close>,
  simp_all add: lost_def)

lemma bsteps_lost:
  assumes "(bstep lib good)\<^sup>*\<^sup>* c c'" "lost k st c"
  shows "lost k st c'"
  using assms by (induction rule: rtranclp_induct) (auto intro: bstep_lost)

end
