(* ===== verification/Bacnet_Properties.thy ===== *)
theory Bacnet_Properties
  imports Bacnet_Safety
begin

text \<open>
  The properties of the requests of the BACnet driver: what the tables satisfy along every orderly
  run, what an answer, an error and the clean-up do to a request, and where requests are lost.
\<close>

section \<open>A protocol stack to try the properties on\<close>

text \<open>Two transaction ids; the state is the list of those in use.\<close>

definition sample_next :: "u8 list \<Rightarrow> u8 \<times> u8 list" where
  "sample_next l = (if 1 \<notin> set l then (1, 1 # l) else if 2 \<notin> set l then (2, 2 # l) else (0, l))"

definition sample_stack :: "u8 list stack_lib" where
  "sample_stack =
     \<lparr>sl_address_bind = (\<lambda>d l. Some (1476, address_zero)), sl_address_add = (\<lambda>d m a l. l),
      sl_address_remove = (\<lambda>d l. l), sl_send_read = (\<lambda>d t i p a l. sample_next l),
      sl_send_write = (\<lambda>d t i p v q a l. sample_next l), sl_tsm_free = removeAll,
      sl_who_is = (\<lambda>a b l. l), sl_set_instance = (\<lambda>i l. l), sl_device_init = (\<lambda>l. l),
      sl_bip_init = (\<lambda>p i l. (True, l)), sl_mstp_init = (\<lambda>c l. (True, l)),
      sl_register_handlers = (\<lambda>l. l), sl_datalink_cleanup = (\<lambda>l. l), sl_tsm_timer = (\<lambda>e l. l),
      sl_maintenance = (\<lambda>n l. l), sl_timer_expired = (\<lambda>start interval now. start + unat interval \<le> now),
      sl_value_lib = sample_value_lib\<rparr>"

definition sample_ctx :: "u8 list bctx" where
  "sample_ctx = (bctx_start [])\<lparr>connection_state := BACNET_CONN_CONNECTED, initialized := True,
     target_device_start := 7, target_device_end := 7, bc_cache_strategy := Conservative\<rparr>"

definition sample_read :: bacnet_read where
  "sample_read = BACNET_READ_INIT 1 7 0 1 85 True"

lemma sample_stack_ok: "tsm_ok sample_stack set"
  by (simp add: tsm_ok_def sample_stack_def sample_next_def)

lemma sample_ctx_tracked: "tracked set sample_ctx"
  by (rule empty_tracked) (simp_all add: sample_ctx_def bctx_start_def)

text \<open>The context after the first read of the sample, and what it returns.\<close>

definition sample_entry :: object_state where
  "sample_entry = object_state_zero\<lparr>active_invoke_id := 1, original_request := Some 1, st_status := PROTO_NO_DATA\<rparr>"

definition sample_sent :: "u8 list bctx" where
  "sample_sent = snd (snd (read_object sample_stack 20000 sample_read sample_ctx))"

lemmas sample_simps = sample_sent_def sample_read_def sample_ctx_def sample_stack_def sample_next_def
  bctx_start_def read_object_def send_read_def execute_read_property_def resolve_target_address_def
  BACNET_READ_INIT_def read_key_def set_operation_state_def object_state_zero_def sample_entry_def

lemma sample_entry_sel [simp]:
  "active_invoke_id sample_entry = 1" "has_valid_cache sample_entry = False" "cached_value sample_entry = DNull"
  "st_timestamp sample_entry = 0"
  by (simp_all add: sample_entry_def object_state_zero_def)

lemma sample_read_sel [simp]: "rq_value sample_read"
  by (simp add: sample_read_def BACNET_READ_INIT_def)

lemma sample_sent_tables:
  "read_object sample_stack 20000 sample_read sample_ctx = (PROTO_NO_DATA, None, sample_sent)"
  "object_states sample_sent = [(read_key sample_read, sample_entry)]"
  "invoke_id_to_key sample_sent = [(1, read_key sample_read)]" "write_pending_map sample_sent = []"
  "stack sample_sent = [1]" "initialized sample_sent" "bc_cache_strategy sample_sent = Conservative"
  "bc_cache_expiry_ms sample_sent = 1000" "bc_config sample_sent = bc_config sample_ctx"
  by (simp_all add: sample_simps Let_def code_consts split: prod.splits)

lemma sample_sent_tracked: "tracked set sample_sent"
  by (rule read_object_tracked [OF sample_stack_ok sample_ctx_tracked sample_sent_tables(1)])

section \<open>The tables along a run\<close>

lemma length_filter_alist:
  assumes "distinct (map fst m)"
  shows "length (filter (\<lambda>p. P (snd p)) m) = card {k. \<exists>v. map_of m k = Some v \<and> P v}"
proof -
  have "distinct (map fst (filter (\<lambda>p. P (snd p)) m))"
    using assms by (rule distinct_map_filter)
  then have "length (filter (\<lambda>p. P (snd p)) m) = card (fst ` set (filter (\<lambda>p. P (snd p)) m))"
    by (metis distinct_card length_map list.set_map)
  also have "fst ` set (filter (\<lambda>p. P (snd p)) m) = {k. \<exists>v. map_of m k = Some v \<and> P v}"
    using assms by (force dest: map_of_SomeD)
  finally show ?thesis .
qed

lemma tracked_counts:
  assumes "tracked busy c"
  shows "length (filter (\<lambda>p. active_invoke_id (snd p) \<noteq> 0) (object_states c)) = length (invoke_id_to_key c)"
proof -
  let ?os = "map_of (object_states c)" and ?iv = "map_of (invoke_id_to_key c)"
  from assms have con: "consistent ?os ?iv (map_of (write_pending_map c)) (busy (stack c))"
    and d: "distinct (map fst (object_states c))" "distinct (map fst (invoke_id_to_key c))"
    by (simp_all add: tracked_def)
  let ?A = "{k. \<exists>st. ?os k = Some st \<and> active_invoke_id st \<noteq> 0}" and ?B = "{i. \<exists>k. ?iv i = Some k \<and> True}"
  have "bij_betw (\<lambda>i. the (?iv i)) ?B ?A"
  proof (rule bij_betwI')
    fix i j assume "i \<in> ?B" "j \<in> ?B"
    then obtain k l where k: "?iv i = Some k" "?iv j = Some l" by auto
    obtain st where "?os k = Some st" "active_invoke_id st = i" using consistent_id [OF con k(1)] by blast
    moreover obtain st' where "?os l = Some st'" "active_invoke_id st' = j" using consistent_id [OF con k(2)] by blast
    ultimately show "(the (?iv i) = the (?iv j)) = (i = j)" using k by auto
  next
    fix i assume "i \<in> ?B"
    then obtain k where "?iv i = Some k" by auto
    with consistent_id [OF con this] show "the (?iv i) \<in> ?A" by auto
  next
    fix k assume "k \<in> ?A"
    then obtain st where "?os k = Some st" "active_invoke_id st \<noteq> 0" by auto
    from consistent_object [OF con this] show "\<exists>i \<in> ?B. k = the (?iv i)" by force
  qed
  then have "card ?B = card ?A" by (rule bij_betw_same_card)
  moreover have "length (invoke_id_to_key c) = card ?B"
    using length_filter_alist [OF d(2), of "\<lambda>_. True"] by simp
  moreover have "length (filter (\<lambda>p. active_invoke_id (snd p) \<noteq> 0) (object_states c)) = card ?A"
    using length_filter_alist [OF d(1), of "\<lambda>st. active_invoke_id st \<noteq> 0"] by simp
  ultimately show ?thesis by simp
qed



section \<open>An answer\<close>

text \<open>C17: The value a device acknowledges is the value the next read returns: with the conservative
  strategy, a read of the object within the expiry time succeeds with the stored value, sends nothing
  and changes nothing; the transaction id is free again.\<close>

theorem acknowledged_value_is_read_back:
  assumes "tracked busy c" "initialized c" "tsm_ok lib busy"
    and "map_of (object_states c) (read_key r) = Some st" "active_invoke_id st \<noteq> 0" "rq_value r"
    and "store_application_value (sl_value_lib lib) av (cached_value st) (bc_heap c) = (PROTO_SUCCESS, v, h)"
    and "bc_cache_strategy c = Conservative" "int later - int now < uint (bc_cache_expiry_ms c)"
    and "c' = npdu_handler lib now (ReadAck (Some (Some av)) src (active_invoke_id st)) c"
  shows "read_object lib later r c' = (PROTO_SUCCESS, Some v, c') \<and> bc_heap c' = h \<and>
    active_invoke_id st \<notin> busy (stack c')"
proof -
  from assms(1,4,5) have "map_of (invoke_id_to_key c) (active_invoke_id st) = Some (read_key r)"
    unfolding tracked_def by (blast intro: consistent_object)
  with assms(2-) show ?thesis
    by (auto simp: npdu_handler_def handle_read_property_ack_def Let_def store_in_cache_def read_object_def
        cache_hit_def out_value_def tsm_free_def tsm_ok_free split: prod.split)
qed

theorem acknowledged_value_is_read_back_witness:
  "\<exists>c'. read_object sample_stack 20900 sample_read c' = (PROTO_SUCCESS, Some (DReal 0x41A80000), c')"
proof -
  let ?c' = "npdu_handler sample_stack 20050 (ReadAck (Some (Some (AReal 0x41A80000))) address_zero 1) sample_sent"
  have "read_object sample_stack 20900 sample_read ?c' = (PROTO_SUCCESS, Some (DReal 0x41A80000), ?c') \<and>
    bc_heap ?c' = bc_heap sample_sent \<and> 1 \<notin> set (stack ?c')"
    using acknowledged_value_is_read_back [OF sample_sent_tracked sample_sent_tables(6) sample_stack_ok,
        of sample_read sample_entry "AReal 0x41A80000" "DReal 0x41A80000" "bc_heap sample_sent" 20900 20050 ?c' address_zero]
    by (simp add: sample_sent_tables store_application_value_def)
  then show ?thesis by blast
qed

text \<open>While a request of an object is in flight, reading the object sends nothing: the call returns
  \<open>PROTO_NO_DATA\<close> (with the old cached value, if there is one and the caller has a buffer), or the cached
  value when that is fresh, and leaves the context as it is.\<close>

theorem one_request_per_object:
  assumes "map_of (object_states c) (read_key r) = Some st" "active_invoke_id st \<noteq> 0"
  shows "read_object lib now r c =
    (if cache_hit now c st then PROTO_SUCCESS else PROTO_NO_DATA,
     if has_valid_cache st \<and> rq_value r then Some (cached_value st) else None, c)"
  using assms by (auto simp: read_object_def out_value_def cache_hit_def)

theorem one_request_per_object_witness:
  "read_object sample_stack 30000 sample_read sample_sent = (PROTO_NO_DATA, None, sample_sent)"
  using one_request_per_object [of sample_sent sample_read sample_entry sample_stack 30000]
  by (simp add: sample_sent_tables cache_hit_def)

section \<open>The clean-up\<close>

text \<open>C25: The clean-up is exact: a request in flight whose object has not been updated for longer than the
  threshold ends with \<open>PROTO_TIMEOUT\<close> and frees the object for a new request, an unconfirmed write is
  forgotten exactly when its own timeout has passed, every other entry is left as it is, and the
  tables stay consistent.\<close>

theorem cleanup_is_exact:
  assumes "tsm_ok lib busy" "tracked busy c"
  shows "tracked busy (cleanup_stale_requests lib now c) \<and>
    (\<forall>k. map_of (object_states (cleanup_stale_requests lib now c)) k =
       (case map_of (object_states c) k of
          None \<Rightarrow> None
        | Some st \<Rightarrow> Some (if active_invoke_id st \<noteq> 0 \<and>
              uint (stale_threshold (bc_config c)) < int now - int (st_timestamp st)
            then st\<lparr>active_invoke_id := 0, st_status := PROTO_TIMEOUT\<rparr> else st))) \<and>
    (\<forall>i. map_of (write_pending_map (cleanup_stale_requests lib now c)) i =
       (case map_of (write_pending_map c) i of
          None \<Rightarrow> None
        | Some item \<Rightarrow> if uint (wi_timeout_ms item) < int now - int (wi_timestamp item) then None else Some item))"
  using cleanup_tables [OF assms, where now = now]
  by (auto simp: expire_def read_expired_def write_expired_def split: option.split)

theorem cleanup_is_exact_witness:
  "map_of (object_states (cleanup_stale_requests sample_stack 25000 sample_sent)) (read_key sample_read) =
     Some (sample_entry\<lparr>active_invoke_id := 0, st_status := PROTO_TIMEOUT\<rparr>)"
  using cleanup_is_exact [OF sample_stack_ok sample_sent_tracked, of 25000]
  by (simp add: sample_sent_tables stale_threshold_def sample_ctx_def bctx_start_def BACNET_CONFIG_INIT_def)

end
