(* ===== verification/Bacnet_Errors.thy ===== *)
theory Bacnet_Errors
  imports Bacnet_Properties
begin

text \<open>
  Where the BACnet driver loses requests: the packets that \<open>orderly\<close> excludes, and the age the clean-up
  takes for a request.
\<close>

section \<open>Data that does not decode\<close>

lemma undecodable_loses:
  assumes "tracked busy c" "initialized c" "map_of (object_states c) k = Some st" "active_invoke_id st \<noteq> 0"
  shows "lost k st (npdu_handler lib now (ReadAck (Some None) src (active_invoke_id st)) c)"
proof -
  let ?i = "active_invoke_id st"
  have con: "consistent (map_of (object_states c)) (map_of (invoke_id_to_key c)) (map_of (write_pending_map c))
      (busy (stack c))" and d: "distinct (map fst (invoke_id_to_key c))"
    using assms(1) by (simp_all add: tracked_def)
  have k: "map_of (invoke_id_to_key c) ?i = Some k" by (rule consistent_object [OF con assms(3,4)])
  have "(j, k) \<notin> set (AList.delete ?i (invoke_id_to_key c))" for j
  proof
    assume "(j, k) \<in> set (AList.delete ?i (invoke_id_to_key c))"
    then have j: "j \<noteq> ?i" "(j, k) \<in> set (invoke_id_to_key c)" by (auto simp: AList.delete_eq)
    with d have "map_of (invoke_id_to_key c) j = Some k" by simp
    from consistent_id [OF con this] assms(3) j(1) show False by auto
  qed
  with assms k show ?thesis
    by (auto simp: lost_def npdu_handler_def handle_read_property_ack_def Let_def split: prod.split)
qed

text \<open>C38: An acknowledgement whose application data does not decode blocks its object for good: whatever
  happens afterwards (reads, writes, any packets, clean-ups, timers), no request of the object is ever
  sent again and none times out; every read of it returns \<open>PROTO_NO_DATA\<close> or the old cached value, until
  the driver is reset.\<close>

theorem undecodable_data_blocks_object:
  assumes "tracked busy c" "initialized c"
    and "map_of (object_states c) (read_key r) = Some st" "active_invoke_id st \<noteq> 0"
    and "(bstep lib (\<lambda>_ _. True))\<^sup>*\<^sup>*
           (npdu_handler lib now (ReadAck (Some None) src (active_invoke_id st)) c) c'"
  shows "read_object lib later r c' =
    (if cache_hit later c' st then PROTO_SUCCESS else PROTO_NO_DATA,
     if has_valid_cache st \<and> rq_value r then Some (cached_value st) else None, c')"
proof -
  have "lost (read_key r) st c'"
    by (rule bsteps_lost [OF assms(5) undecodable_loses [OF assms(1-4)]])
  then show ?thesis
    using assms(4) by (auto simp: lost_def read_object_def out_value_def cache_hit_def)
qed

theorem undecodable_data_blocks_object_witness:
  "let c = cleanup_stale_requests sample_stack 99000
             (npdu_handler sample_stack 20050 (ReadAck (Some None) address_zero 1) sample_sent)
   in read_object sample_stack 100000 sample_read c = (PROTO_NO_DATA, None, c)"
proof -
  have "(bstep sample_stack (\<lambda>_ _. True))\<^sup>*\<^sup>*
      (npdu_handler sample_stack 20050 (ReadAck (Some None) address_zero (active_invoke_id sample_entry)) sample_sent)
      (cleanup_stale_requests sample_stack 99000
        (npdu_handler sample_stack 20050 (ReadAck (Some None) address_zero (active_invoke_id sample_entry)) sample_sent))"
    by (rule r_into_rtranclp) (rule bstep.Stale)
  from undecodable_data_blocks_object [OF sample_sent_tracked sample_sent_tables(6) _ _ this, of sample_read 100000]
  show ?thesis by (simp add: sample_sent_tables cache_hit_def)
qed

section \<open>An aborted write\<close>

text \<open>The abort of a write frees its transaction id but leaves the write in the table of unconfirmed
  writes: the tables are no longer consistent, the stack may give the id to the next request, and the
  clean-up that later removes the write frees the id of that request.\<close>

theorem aborted_write_keeps_its_entry:
  assumes "tsm_ok lib busy" "tracked busy c" "initialized c" "map_of (write_pending_map c) i = Some item"
    and "c' = npdu_handler lib now (AbortResponse i) c"
  shows "map_of (write_pending_map c') i = Some item \<and> i \<notin> busy (stack c') \<and> \<not> tracked busy c'"
proof -
  have "i \<noteq> 0" "map_of (invoke_id_to_key c) i = None"
    using assms(2,4) unfolding tracked_def by (auto dest: consistent_write)
  then have c': "map_of (write_pending_map c') i = Some item" "i \<notin> busy (stack c')"
    using assms by (simp_all add: npdu_handler_def handle_abort_response_def tsm_ok_free)
  then have "\<not> tracked busy c'"
    unfolding tracked_def by (auto dest: consistent_write)
  with c' show ?thesis by blast
qed

definition sample_write :: bacnet_write where
  "sample_write = BACNET_WRITE_INIT 1 7 1 1 85 (DReal 0x41A80000)"

definition sample_written :: "u8 list bctx" where
  "sample_written = the (snd (snd (the (execute_write_property sample_stack 20000 (Some sample_ctx) (Some sample_write)))))"

lemma sample_written_tables:
  "execute_write_property sample_stack 20000 (Some sample_ctx) (Some sample_write) =
     Some (PROTO_SUCCESS, Some 1, Some sample_written)"
  "map fst (write_pending_map sample_written) = [1]" "initialized sample_written"
  by (simp_all add: sample_written_def sample_write_def execute_write_property_def sample_ctx_def sample_stack_def
      sample_next_def bctx_start_def resolve_target_address_def BACNET_WRITE_INIT_def set_operation_state_def
      convert_to_application_value_def Let_def code_consts)

theorem aborted_write_keeps_its_entry_witness:
  "\<not> tracked set (npdu_handler sample_stack 20100 (AbortResponse 1) sample_written)"
proof -
  obtain item where "map_of (write_pending_map sample_written) 1 = Some item"
    using sample_written_tables(2) by (cases "write_pending_map sample_written") auto
  from aborted_write_keeps_its_entry [OF sample_stack_ok
      write_tracked [OF sample_stack_ok sample_ctx_tracked sample_written_tables(1)] sample_written_tables(3) this refl]
  show ?thesis by blast
qed

section \<open>The age of a request\<close>

text \<open>The clean-up measures the age of a request by the time its object was last updated, and an object
  that was never updated counts from the start of the clock: the first request of an object, once the
  machine is up for longer than the threshold, is ended with \<open>PROTO_TIMEOUT\<close> by the next clean-up, even one
  that runs at the very moment it is sent, and its answer is dropped.\<close>

theorem first_request_is_reaped:
  assumes "tsm_ok lib busy" "tracked busy c"
    and "map_of (object_states c) (read_key r) = None"
    and "read_object lib now r c = (PROTO_NO_DATA, None, c1)"
    and "uint (stale_threshold (bc_config c)) < int now"
  shows "\<exists>i st. map_of (invoke_id_to_key c1) i = Some (read_key r) \<and>
    map_of (object_states (cleanup_stale_requests lib now c1)) (read_key r) = Some st \<and>
    active_invoke_id st = 0 \<and> st_status st = PROTO_TIMEOUT \<and>
    (\<forall>st'. map_of (object_states (npdu_handler lib later (ReadAck (Some body) src i)
        (cleanup_stale_requests lib now c1))) (read_key r) = Some st' \<longrightarrow> st' = st)"
proof -
  let ?c2 = "cleanup_stale_requests lib now c1"
  have s: "send_read lib now r c = (PROTO_NO_DATA, None, c1)"
    using assms(3,4) by (simp add: read_object_def)
  then obtain i st0 where i: "i \<noteq> 0" "object_states c1 = AList.update (read_key r) st0 (object_states c)"
    "invoke_id_to_key c1 = AList.update i (read_key r) (invoke_id_to_key c)" "bc_config c1 = bc_config c"
    "st0 = object_state_zero\<lparr>active_invoke_id := i, original_request := Some (rq_self r), st_status := PROTO_NO_DATA\<rparr>"
  proof (cases rule: send_read_cases)
    case Refused
    then show ?thesis by simp
  next
    case Unsent
    then show ?thesis by (simp add: code_consts)
  next
    case (Sent i st)
    with assms(3) show ?thesis by (intro that [of i st]) auto
  qed
  note t1 = read_object_tracked [OF assms(1,2,4)]
  have st: "map_of (object_states ?c2) (read_key r) = Some (st0\<lparr>active_invoke_id := 0, st_status := PROTO_TIMEOUT\<rparr>)"
    using cleanup_tables(2) [OF assms(1) t1, of now "read_key r"] i assms(5)
    by (simp add: expire_def read_expired_def object_state_zero_def)
  note t2 = cleanup_tables(1) [OF assms(1) t1, of now]
  have "map_of (invoke_id_to_key ?c2) i \<noteq> Some (read_key r)"
    using tracked_read_id [OF t2, of i "read_key r"] st i(1) by auto
  then have "map_of (object_states (npdu_handler lib later (ReadAck (Some body) src i) ?c2)) (read_key r) =
      map_of (object_states ?c2) (read_key r)"
    by (auto simp: npdu_handler_def handle_read_property_ack_def Let_def update_conv'
        split: option.splits prod.splits)
  with st i(3) show ?thesis by (intro exI [of _ i]) auto
qed

theorem first_request_is_reaped_witness:
  "\<exists>st. map_of (object_states (cleanup_stale_requests sample_stack 20000 sample_sent)) (read_key sample_read) = Some st \<and>
     st_status st = PROTO_TIMEOUT"
  using first_request_is_reaped [OF sample_stack_ok sample_ctx_tracked _ sample_sent_tables(1)]
  by (force simp: sample_ctx_def bctx_start_def stale_threshold_def BACNET_CONFIG_INIT_def)

end
