(* ===== verification/Bacnet_Lifecycle.thy ===== *)
theory Bacnet_Lifecycle
  imports Bacnet_Errors
begin

text \<open>
  Properties of discovery, reconnection and the life cycle: when a discovery succeeds, fails or is still
  waiting, when a disconnection returns, how long the driver waits between attempts, what the worker
  thread is made of, and the monitor of the configuration file.
\<close>

section \<open>The outcome of a discovery\<close>

text \<open>What the rounds of a discovery say, independently of the loop.\<close>

definition answered :: "'l bctx \<Rightarrow> disc_round \<Rightarrow> bool" where
  "answered c r \<longleftrightarrow> (case dr_packet r of None \<Rightarrow> False | Some p \<Rightarrow> iam_in_range c p)"

definition given_up :: "'l stack_lib \<Rightarrow> nat \<Rightarrow> u32 \<Rightarrow> disc_round \<Rightarrow> bool" where
  "given_up lib start timeout_ms r \<longleftrightarrow> sl_timer_expired lib start timeout_ms (dr_now r) \<or> dr_stop r"

text \<open>Some round holds while no earlier one (this one included, for \<open>found_in\<close>) is stopped.\<close>

definition found_in :: "(disc_round \<Rightarrow> bool) \<Rightarrow> (disc_round \<Rightarrow> bool) \<Rightarrow> disc_round list \<Rightarrow> bool" where
  "found_in ans quit rs \<longleftrightarrow> (\<exists>n < length rs. ans (rs ! n) \<and> (\<forall>m < Suc n. \<not> quit (rs ! m)))"

definition lost_in :: "(disc_round \<Rightarrow> bool) \<Rightarrow> (disc_round \<Rightarrow> bool) \<Rightarrow> disc_round list \<Rightarrow> bool" where
  "lost_in ans quit rs \<longleftrightarrow> (\<exists>n < length rs. quit (rs ! n) \<and> (\<forall>m < n. \<not> ans (rs ! m)))"

lemma found_in_simps [simp]:
  "\<not> found_in ans quit []"
  "found_in ans quit (r # rs) \<longleftrightarrow> \<not> quit r \<and> (ans r \<or> found_in ans quit rs)"
  unfolding found_in_def by (simp_all add: Ex_less_Suc2 All_less_Suc2 del: All_less_Suc) blast?

lemma lost_in_simps [simp]:
  "\<not> lost_in ans quit []"
  "lost_in ans quit (r # rs) \<longleftrightarrow> quit r \<or> \<not> ans r \<and> lost_in ans quit rs"
  unfolding lost_in_def by (simp_all add: Ex_less_Suc2 All_less_Suc2) blast?

lemma discover_pass_frame:
  assumes "discover_pass lib ms r (t, c) = (t', c')"
  shows "initialized c' = initialized c" "worker_stop c' = worker_stop c"
    "target_device_start c' = target_device_start c" "target_device_end c' = target_device_end c"
    "target_found c' \<longleftrightarrow> target_found c \<or> initialized c \<and> answered c r"
  using assms
  by (auto simp: discover_pass_def answered_def npdu_handler_flags npdu_handler_target_found Let_def
      split: option.splits if_splits)

lemma answered_frame:
  "target_device_start c' = target_device_start c \<Longrightarrow> target_device_end c' = target_device_end c \<Longrightarrow>
   answered c' = answered c"
  by (auto simp: answered_def iam_in_range_def fun_eq_iff split: option.splits packet.splits)

lemma discover_loop_outcome:
  assumes "initialized c" "\<not> worker_stop c"
  shows "((\<exists>c'. discover_loop lib start timeout_ms ms rs (t, c) = Some (PROTO_SUCCESS, c')) \<longleftrightarrow>
      target_found c \<or> found_in (answered c) (given_up lib start timeout_ms) rs) \<and>
    ((\<exists>c'. discover_loop lib start timeout_ms ms rs (t, c) = Some (PROTO_ERROR_CONNECT, c') \<and>
        connection_state c' = BACNET_CONN_DISCONNECTED) \<longleftrightarrow>
      \<not> target_found c \<and> lost_in (answered c) (given_up lib start timeout_ms) rs) \<and>
    (discover_loop lib start timeout_ms ms rs (t, c) = None \<longleftrightarrow>
      \<not> target_found c \<and> \<not> found_in (answered c) (given_up lib start timeout_ms) rs \<and>
      \<not> lost_in (answered c) (given_up lib start timeout_ms) rs)"
  using assms
proof (induction rs arbitrary: t c)
  case Nil
  then show ?case by (simp add: code_consts)
next
  case (Cons r rs)
  obtain t' c1 where p: "discover_pass lib ms r (t, c) = (t', c1)" by fastforce
  note f = discover_pass_frame [OF p]
  note a = answered_frame [OF f(3,4)]
  have step: "discover_loop lib start timeout_ms ms (r # rs) (t, c) =
      (if target_found c then Some (PROTO_SUCCESS, c)
       else if given_up lib start timeout_ms r
       then Some (PROTO_ERROR_CONNECT, set_connection_state BACNET_CONN_DISCONNECTED
              (if sl_timer_expired lib start timeout_ms (dr_now r) then c else stop_asked r c))
       else discover_loop lib start timeout_ms ms rs (t', c1))"
    using Cons.prems p by (simp add: given_up_def stop_asked_def Let_def)
  have ne: "PROTO_ERROR_CONNECT \<noteq> PROTO_SUCCESS" by (simp add: code_consts)
  note ih = Cons.IH [of c1 t', unfolded f(1,2) a f(5), OF Cons.prems]
  show ?case unfolding step using ih ne Cons.prems by (cases "target_found c") auto
qed

lemma discover_start_sel [simp]:
  "initialized (discover_start lib c) = initialized c" "worker_stop (discover_start lib c) = worker_stop c"
  "\<not> target_found (discover_start lib c)" "bc_config (discover_start lib c) = bc_config c"
  "target_device_start (discover_start lib c) = target_device_start c"
  "target_device_end (discover_start lib c) = target_device_end c"
  by (simp_all add: discover_start_def set_connection_state_def Let_def)

text \<open>C20: A discovery is decided by its rounds alone: it succeeds, connected, exactly when some round brings
  an I-Am of a device in the configured range and no round up to that one finds the timeout over or the
  stop asked; it fails, disconnected, exactly when a round finds one of these before any answer; and it
  is still waiting exactly when neither happened.\<close>

theorem discovery_outcome:
  assumes "initialized c" "\<not> worker_stop c"
  shows "((\<exists>c'. discover_target_device lib now rounds c = Some (PROTO_SUCCESS, c') \<and>
        connection_state c' = BACNET_CONN_CONNECTED) \<longleftrightarrow>
      found_in (answered c) (given_up lib now (discovery_timeout (bc_config c))) rounds) \<and>
    ((\<exists>c'. discover_target_device lib now rounds c = Some (PROTO_ERROR_CONNECT, c') \<and>
        connection_state c' = BACNET_CONN_DISCONNECTED) \<longleftrightarrow>
      lost_in (answered c) (given_up lib now (discovery_timeout (bc_config c))) rounds) \<and>
    (discover_target_device lib now rounds c = None \<longleftrightarrow>
      \<not> found_in (answered c) (given_up lib now (discovery_timeout (bc_config c))) rounds \<and>
      \<not> lost_in (answered c) (given_up lib now (discovery_timeout (bc_config c))) rounds)"
proof -
  let ?d = "discover_loop lib now (discovery_timeout (bc_config c)) (maintenance_interval (bc_config c)) rounds
      (now, discover_start lib c)"
  have a: "answered (discover_start lib c) = answered c" by (rule answered_frame) simp_all
  have "initialized (discover_start lib c)" "\<not> worker_stop (discover_start lib c)" using assms by simp_all
  from discover_loop_outcome [OF this, where lib = lib and start = now and rs = rounds and t = now and
      timeout_ms = "discovery_timeout (bc_config c)" and ms = "maintenance_interval (bc_config c)", unfolded a]
  show ?thesis
    by (cases ?d) (auto simp: discover_target_device_def code_consts set_connection_state_def)
qed

theorem discovery_outcome_witness:
  "\<exists>c'. discover_target_device sample_stack 0 [\<lparr>dr_now = 100, dr_stop = False, dr_packet = Some OtherPacket\<rparr>,
       \<lparr>dr_now = 200, dr_stop = False, dr_packet = Some (IAm (Some (7, 480)) address_zero)\<rparr>] sample_ctx =
     Some (PROTO_SUCCESS, c') \<and> connection_state c' = BACNET_CONN_CONNECTED"
proof -
  have "initialized sample_ctx" "\<not> worker_stop sample_ctx" by (simp_all add: sample_ctx_def bctx_start_def)
  note outcome = conjunct1 [OF discovery_outcome [OF this, where lib = sample_stack and now = 0]]
  show ?thesis unfolding outcome
    by (simp add: answered_def given_up_def iam_in_range_def sample_ctx_def sample_stack_def bctx_start_def
        discovery_timeout_def code_consts BACNET_CONFIG_INIT_def)
qed

text \<open>No discovery waits for ever: once the clock of a round is past the timeout, or a round is asked to
  stop, it has returned, in whatever state it began.\<close>

theorem discovery_returns:
  assumes "\<exists>r \<in> set rounds. given_up lib now (discovery_timeout (bc_config c)) r"
  shows "\<exists>rc c'. discover_target_device lib now rounds c = Some (rc, c')"
proof -
  have "discover_loop lib start timeout_ms ms rs (t, c) \<noteq> None"
    if "\<exists>r \<in> set rs. given_up lib start timeout_ms r" for start timeout_ms ms t c rs
    using that
  proof (induction rs arbitrary: t c)
    case (Cons r rs)
    obtain t' c1 where "discover_pass lib ms r (t, stop_asked r c) = (t', c1)" by fastforce
    with Cons.prems Cons.IH [of t' c1] show ?case by (auto simp: given_up_def stop_asked_def Let_def)
  qed simp
  from this [OF assms] show ?thesis
    by (fastforce simp: discover_target_device_def split: option.splits)
qed

theorem discovery_returns_witness:
  "\<exists>rc c'. discover_target_device sample_stack 0
     [\<lparr>dr_now = 100, dr_stop = False, dr_packet = None\<rparr>, \<lparr>dr_now = 200, dr_stop = True, dr_packet = None\<rparr>]
     sample_ctx = Some (rc, c')"
  by (rule discovery_returns) (simp add: given_up_def)


section \<open>Disconnection\<close>

definition sample_world :: "u8 list bctx \<Rightarrow> u8 list bworld" where
  "sample_world c = \<lparr>bw_ctx = c, bw_monitor = hot_monitor_start, bw_file = NoFile, bw_mtime = Some 1,
     bw_cleanup_registered = True\<rparr>"

lemma stop_worker_sel [simp]:
  "stack (stop_worker_thread c) = stack c" "initialized (stop_worker_thread c) = initialized c"
  "target_device_start (stop_worker_thread c) = target_device_start c"
  "target_device_end (stop_worker_thread c) = target_device_end c"
  "worker_stop (stop_worker_thread c) = (worker_stop c \<or> worker_running c)"
  by (simp_all add: stop_worker_thread_def)

lemma reset_active_range [simp]:
  "target_device_start (reset_active_operation_locked c) = target_device_start c"
  "target_device_end (reset_active_operation_locked c) = target_device_end c"
  "initialized (reset_active_operation_locked c) = initialized c"
  "worker_stop (reset_active_operation_locked c) = worker_stop c"
  by (simp_all add: reset_active_operation_locked_def)

text \<open>C28: The loop that forgets the devices of the range returns exactly when the range does not end at the
  greatest device number, after it removed every device of the range once, in order. With the greatest
  number the 32-bit counter wraps, and a disconnection, a clean-up and a reset never return.\<close>

theorem disconnection_terminates:
  "(disconnect_device lib c \<noteq> None \<longleftrightarrow> target_device_end c \<noteq> - 1) \<and>
   (reset lib c \<noteq> None \<longleftrightarrow> target_device_end c \<noteq> - 1) \<and>
   map_option stack (disconnect_device lib c) =
     (if target_device_end c = - 1 then None
      else Some (foldl (\<lambda>l d. sl_address_remove lib d l) (stack c)
             (device_range (target_device_start c) (target_device_end c))))"
  by (cases "target_device_end c = - 1")
     (simp_all add: disconnect_device_def reset_def cleanup_context_def remove_devices_endless remove_devices_done option.map_comp comp_def)

text \<open>The stop flag survives a disconnection.\<close>

lemma disconnect_device_flags:
  assumes "disconnect_device lib c = Some c'"
  shows "worker_stop c' = (worker_stop c \<or> worker_running c)" "initialized c' = initialized c"
    "connection_state c' = BACNET_CONN_DISCONNECTED"
  using assms
  by (auto simp: disconnect_device_def Let_def)

lemma stopped_discovery_fails:
  assumes "worker_stop c" "rounds \<noteq> []"
  obtains c' where "discover_target_device lib now rounds c = Some (PROTO_ERROR_CONNECT, c')"
    "connection_state c' = BACNET_CONN_DISCONNECTED"
proof -
  obtain r rs where "rounds = r # rs" using assms(2) by (cases rounds) auto
  moreover obtain c' where "discover_loop lib now (discovery_timeout (bc_config c)) (maintenance_interval (bc_config c))
      (r # rs) (now, discover_start lib c) = Some (PROTO_ERROR_CONNECT, c')" "connection_state c' = BACNET_CONN_DISCONNECTED"
    using assms(1) by (cases "sl_timer_expired lib now (discovery_timeout (bc_config c)) (dr_now r)"; cases "dr_stop r")
      (auto simp: stop_asked_def Let_def)
  ultimately show thesis
    by (intro that [of c']) (simp_all add: discover_target_device_def code_consts del: discover_loop.simps)
qed

text \<open>A driver that is disconnected by hand cannot be connected again: stopping the worker thread leaves
  its stop flag set, only a connected driver starts the thread that clears it, and a discovery gives up at
  its first look at the flag, whatever the devices answer.\<close>

theorem disconnected_driver_stays_disconnected:
  assumes "initialized (bw_ctx w)" "worker_running (bw_ctx w)" "driver_disconnect lib w = Some w'" "rounds \<noteq> []"
  shows "\<exists>w''. driver_connect lib now rounds w' = Some (PROTO_ERROR_CONNECT, w'') \<and>
    connection_state (bw_ctx w'') = BACNET_CONN_DISCONNECTED"
proof -
  obtain c' where c': "disconnect_device lib (bw_ctx w) = Some c'" "w' = w\<lparr>bw_ctx := c'\<rparr>"
    using assms(1,3) by (auto simp: driver_disconnect_def)
  note f = disconnect_device_flags [OF c'(1)]
  obtain c2 where d: "discover_target_device lib now rounds (set_connection_state BACNET_CONN_CONNECTING c') =
      Some (PROTO_ERROR_CONNECT, c2)"
    using stopped_discovery_fails [of "set_connection_state BACNET_CONN_CONNECTING c'" rounds lib now] f assms(2,4)
    by auto
  show ?thesis
    using f assms(1) c'(2) d by (auto simp: driver_connect_def connect_device_def Let_def code_consts)
qed

theorem disconnected_driver_stays_disconnected_witness:
  "\<exists>w''. driver_connect sample_stack 0
      [\<lparr>dr_now = 10, dr_stop = False, dr_packet = Some (IAm (Some (7, 480)) address_zero)\<rparr>]
      (the (driver_disconnect sample_stack (sample_world (sample_ctx\<lparr>worker_running := True\<rparr>)))) =
      Some (PROTO_ERROR_CONNECT, w'') \<and> connection_state (bw_ctx w'') = BACNET_CONN_DISCONNECTED"
proof (rule disconnected_driver_stays_disconnected)
  show "driver_disconnect sample_stack (sample_world (sample_ctx\<lparr>worker_running := True\<rparr>)) =
      Some (the (driver_disconnect sample_stack (sample_world (sample_ctx\<lparr>worker_running := True\<rparr>))))"
    by (simp add: driver_disconnect_def disconnect_device_def remove_devices_done sample_world_def sample_ctx_def bctx_start_def)
qed (simp_all add: sample_world_def sample_ctx_def bctx_start_def)

section \<open>Reconnection\<close>



section \<open>The worker thread\<close>



section \<open>The monitor of the configuration file\<close>

text \<open>While the file can be read, the monitor thread calls the driver once for each change of its time, and
  keeps running.\<close>

theorem monitor_calls_once_per_change:
  assumes "hm_running g" "hm_callback g = Some f"
  shows "bac_monitor_loop call (map (\<lambda>t. \<lparr>pl_stop = False, pl_mtime = Some t\<rparr>) ts @ [\<lparr>pl_stop = True, pl_mtime = m\<rparr>]) (g, w) =
    Some (g\<lparr>hm_last_mtime := last (hm_last_mtime g # ts), hm_running := False\<rparr>, (call f ^^ changes (hm_last_mtime g) ts) w)"
  using assms by (simp add: bac_monitor_loop_append)

theorem monitor_calls_once_per_change_witness:
  "snd (the (bac_monitor_loop (\<lambda>_ n. Suc n) (map (\<lambda>t. \<lparr>pl_stop = False, pl_mtime = Some t\<rparr>) [1, 1, 2, 2, 1] @
      [\<lparr>pl_stop = True, pl_mtime = None\<rparr>])
     (hot_monitor_start\<lparr>hm_running := True, hm_callback := Some ON_CONFIG_CHANGED, hm_last_mtime := 1\<rparr>, 0))) = 2"
  by (subst monitor_calls_once_per_change [where f = ON_CONFIG_CHANGED])
     (simp_all add: hot_monitor_start_def numeral_2_eq_2)

text \<open>One look at the file while it is missing (an editor that replaces it, for example) ends the monitor
  thread for good: nothing is called any more, and the monitor still says it is running.\<close>

theorem monitor_ends_on_missing_file:
  assumes "hm_running g" "hm_callback g = Some f"
  shows "\<exists>g'. bac_monitor_loop call (map (\<lambda>t. \<lparr>pl_stop = False, pl_mtime = Some t\<rparr>) ts @
        \<lparr>pl_stop = False, pl_mtime = None\<rparr> # later) (g, w) = Some (g', (call f ^^ changes (hm_last_mtime g) ts) w) \<and>
      monitor_is_running g'"
  using assms by (simp add: bac_monitor_loop_append monitor_is_running_def)

theorem monitor_ends_on_missing_file_witness:
  "\<exists>g'. bac_monitor_loop (\<lambda>_ n. Suc n) (map (\<lambda>t. \<lparr>pl_stop = False, pl_mtime = Some t\<rparr>) [] @
      [\<lparr>pl_stop = False, pl_mtime = None\<rparr>, \<lparr>pl_stop = False, pl_mtime = Some 7\<rparr>])
      (hot_monitor_start\<lparr>hm_running := True, hm_callback := Some ON_CONFIG_CHANGED\<rparr>, 0) = Some (g', 0) \<and>
    monitor_is_running g'"
  using monitor_ends_on_missing_file [where g = "hot_monitor_start\<lparr>hm_running := True, hm_callback := Some ON_CONFIG_CHANGED\<rparr>"
      and f = ON_CONFIG_CHANGED and ts = "[]" and later = "[\<lparr>pl_stop = False, pl_mtime = Some 7\<rparr>]"
      and call = "\<lambda>_ n. Suc n" and w = 0]
  by simp

end
