(* ===== verification/Lock_Order.thy ===== *)
theory Lock_Order
  imports Proto_Prelude
begin

text \<open>
  Threads that wait for each other: programs that lock and unlock mutexes and join threads, their
  interleavings, and a discipline (an order on the mutexes) under which no set of threads is ever stuck.
  The drivers interpret it on what their operations lock.
\<close>

section \<open>Threads, mutexes and interleavings\<close>

datatype 'm lock_action = Lock 'm | Unlock 'm | Join nat

definition with_lock :: "'m \<Rightarrow> 'm lock_action list \<Rightarrow> 'm lock_action list" where
  "with_lock m body = Lock m # body @ [Unlock m]"

text \<open>The owners of the mutexes, and what each thread still has to do. A mutex is not recursive: a thread
  that locks one it holds waits for itself.\<close>

type_synonym 'm threads = "('m \<rightharpoonup> nat) \<times> 'm lock_action list list"

inductive lstep :: "'m threads \<Rightarrow> 'm threads \<Rightarrow> bool" where
  Locks: "t < length ps \<Longrightarrow> ps ! t = Lock m # p \<Longrightarrow> ow m = None \<Longrightarrow> lstep (ow, ps) (ow(m \<mapsto> t), ps[t := p])"
| Unlocks: "t < length ps \<Longrightarrow> ps ! t = Unlock m # p \<Longrightarrow> ow m = Some t \<Longrightarrow> lstep (ow, ps) (ow(m := None), ps[t := p])"
| Joins: "t < length ps \<Longrightarrow> ps ! t = Join u # p \<Longrightarrow> u < length ps \<Longrightarrow> ps ! u = [] \<Longrightarrow> lstep (ow, ps) (ow, ps[t := p])"

inductive_cases lstepE: "lstep s s'"

definition deadlocked :: "'m threads \<Rightarrow> bool" where
  "deadlocked s \<longleftrightarrow> (\<exists>t < length (snd s). snd s ! t \<noteq> []) \<and> (\<forall>s'. \<not> lstep s s')"

section \<open>An order on the mutexes\<close>

text \<open>The mutexes a thread holds after a piece of its program, \<open>None\<close> when it does not keep to the order:
  a mutex is locked only above all those held, a thread is joined only if its level is above them, and
  all that is waited for is above the level of the thread itself.\<close>

fun held_after :: "('m \<Rightarrow> nat) \<Rightarrow> (nat \<Rightarrow> nat) \<Rightarrow> nat \<Rightarrow> 'm list \<Rightarrow> 'm lock_action list \<Rightarrow> 'm list option" where
  "held_after rank level own held [] = Some held"
| "held_after rank level own held (Lock m # p) =
     (if (\<forall>h \<in> set held. rank h < rank m) \<and> own < rank m then held_after rank level own (m # held) p else None)"
| "held_after rank level own held (Unlock m # p) =
     (if m \<in> set held then held_after rank level own (removeAll m held) p else None)"
| "held_after rank level own held (Join u # p) =
     (if (\<forall>h \<in> set held. rank h < level u) \<and> own < level u then held_after rank level own held p else None)"

definition orderly_program :: "('m \<Rightarrow> nat) \<Rightarrow> (nat \<Rightarrow> nat) \<Rightarrow> nat \<Rightarrow> 'm lock_action list \<Rightarrow> bool" where
  "orderly_program rank level t p \<longleftrightarrow> held_after rank level (level t) [] p = Some []"

lemma held_after_append:
  "held_after rank level own held (p @ q) =
     Option.bind (held_after rank level own held p) (\<lambda>h. held_after rank level own h q)"
  by (induction rank level own held p rule: held_after.induct) auto

lemma held_after_concat:
  assumes "\<forall>p \<in> set ps. held_after rank level own held p = Some held"
  shows "held_after rank level own held (concat ps) = Some held"
  using assms by (induction ps) (auto simp: held_after_append)

lemma held_after_with_lock:
  assumes "\<forall>h \<in> set held. rank h < rank m" "own < rank m" "held_after rank level own (m # held) p = Some (m # held)"
  shows "held_after rank level own held (with_lock m p) = Some held"
proof -
  have "removeAll m held = held" using assms(1) by (intro removeAll_id) auto
  with assms show ?thesis by (simp add: with_lock_def held_after_append)
qed

text \<open>The threads keep to the order at every moment.\<close>

definition lock_inv :: "('m \<Rightarrow> nat) \<Rightarrow> (nat \<Rightarrow> nat) \<Rightarrow> 'm threads \<Rightarrow> bool" where
  "lock_inv rank level s \<longleftrightarrow>
     (\<forall>m t. fst s m = Some t \<longrightarrow> t < length (snd s)) \<and>
     (\<forall>t < length (snd s). \<exists>held. set held = {m. fst s m = Some t} \<and>
        held_after rank level (level t) held (snd s ! t) = Some [])"

lemma lock_inv_step:
  assumes "lstep s s'" "lock_inv rank level s"
  shows "lock_inv rank level s'"
  using assms
proof (cases rule: lstep.cases)
  case (Locks t ps m p ow)
  show ?thesis unfolding lock_inv_def
  proof (intro conjI allI impI)
    fix m' t' assume "fst s' m' = Some t'"
    then show "t' < length (snd s')" using Locks assms(2) by (auto simp: lock_inv_def split: if_splits)
  next
    fix u assume u: "u < length (snd s')"
    obtain held where h: "set held = {m. ow m = Some u}" "held_after rank level (level u) held (ps ! u) = Some []"
      using assms(2) Locks u by (auto simp: lock_inv_def)
    show "\<exists>held. set held = {m. fst s' m = Some u} \<and> held_after rank level (level u) held (snd s' ! u) = Some []"
    proof (cases "u = t")
      case True
      with h Locks show ?thesis by (intro exI [of _ "m # held"]) (auto split: if_splits)
    next
      case False
      with h Locks show ?thesis by (intro exI [of _ held]) auto
    qed
  qed
next
  case (Unlocks t ps m p ow)
  show ?thesis unfolding lock_inv_def
  proof (intro conjI allI impI)
    fix m' t' assume "fst s' m' = Some t'"
    then show "t' < length (snd s')" using Unlocks assms(2) by (auto simp: lock_inv_def split: if_splits)
  next
    fix u assume u: "u < length (snd s')"
    obtain held where h: "set held = {m. ow m = Some u}" "held_after rank level (level u) held (ps ! u) = Some []"
      using assms(2) Unlocks u by (auto simp: lock_inv_def)
    show "\<exists>held. set held = {m. fst s' m = Some u} \<and> held_after rank level (level u) held (snd s' ! u) = Some []"
    proof (cases "u = t")
      case True
      with h Unlocks show ?thesis by (intro exI [of _ "removeAll m held"]) (auto split: if_splits)
    next
      case False
      with h Unlocks show ?thesis by (intro exI [of _ held]) auto
    qed
  qed
next
  case (Joins t ps u p ow)
  show ?thesis unfolding lock_inv_def
  proof (intro conjI allI impI)
    fix m' t' assume "fst s' m' = Some t'"
    then show "t' < length (snd s')" using Joins assms(2) by (auto simp: lock_inv_def)
  next
    fix v assume v: "v < length (snd s')"
    obtain held where "set held = {m. ow m = Some v}" "held_after rank level (level v) held (ps ! v) = Some []"
      using assms(2) Joins v by (auto simp: lock_inv_def)
    with Joins show "\<exists>held. set held = {m. fst s' m = Some v} \<and> held_after rank level (level v) held (snd s' ! v) = Some []"
      by (intro exI [of _ held]) (cases "v = t", auto split: if_splits)
  qed
qed

lemma lock_inv_start:
  "\<forall>t < length ps. orderly_program rank level t (ps ! t) \<Longrightarrow> lock_inv rank level (Map.empty, ps)"
  by (auto simp: lock_inv_def orderly_program_def intro!: exI [of _ "[]"])

section \<open>Ordered threads are never stuck\<close>

text \<open>What the next action of a thread waits for.\<close>

definition waits_at :: "('m \<Rightarrow> nat) \<Rightarrow> (nat \<Rightarrow> nat) \<Rightarrow> 'm lock_action list \<Rightarrow> nat" where
  "waits_at rank level p = (case p of Lock m # _ \<Rightarrow> rank m | Join u # _ \<Rightarrow> level u | _ \<Rightarrow> 0)"

lemma blocked_waits_higher:
  assumes inv: "lock_inv rank level (ow, ps)" and stuck: "\<forall>s'. \<not> lstep (ow, ps) s'"
    and t: "t < length ps" "ps ! t \<noteq> []" and joins: "\<forall>t < length ps. \<forall>u. Join u \<in> set (ps ! t) \<longrightarrow> u < length ps"
  shows "\<exists>u < length ps. ps ! u \<noteq> [] \<and> waits_at rank level (ps ! t) < waits_at rank level (ps ! u)"
proof -
  have own: "\<exists>held. set held = {m. ow m = Some u} \<and> held_after rank level (level u) held (ps ! u) = Some []"
    if "u < length ps" for u using inv that by (auto simp: lock_inv_def)
  have no_unlock: "\<nexists>m p. ps ! u = Unlock m # p" if u: "u < length ps" for u
  proof
    assume "\<exists>m p. ps ! u = Unlock m # p"
    then obtain m p where p: "ps ! u = Unlock m # p" by blast
    with own [OF u] have "ow m = Some u" by (auto split: if_splits)
    with stuck lstep.Unlocks [OF u p] show False by blast
  qed
  have waits: "x < waits_at rank level (ps ! u)"
    if u: "u < length ps" "ps ! u \<noteq> []" and x: "x = level u \<or> (\<exists>m. ow m = Some u \<and> x = rank m)" for u x
  proof -
    obtain held where h: "set held = {m. ow m = Some u}" "held_after rank level (level u) held (ps ! u) = Some []"
      using own [OF u(1)] by blast
    obtain a p where p: "ps ! u = a # p" using u(2) by (cases "ps ! u") auto
    with h x no_unlock [OF u(1)] show ?thesis
      by (cases a) (auto simp: waits_at_def split: if_splits)
  qed
  obtain a p where p: "ps ! t = a # p" using t(2) by (cases "ps ! t") auto
  show ?thesis
  proof (cases a)
    case (Lock m)
    then have "ow m \<noteq> None" using stuck lstep.Locks [OF t(1)] p by blast
    then obtain u where u: "ow m = Some u" by auto
    then have "u < length ps" using inv by (auto simp: lock_inv_def)
    moreover have "ps ! u \<noteq> []"
    proof
      assume "ps ! u = []"
      with own [OF \<open>u < length ps\<close>] u show False by auto
    qed
    ultimately show ?thesis using waits [of u "rank m"] u p Lock by (auto simp: waits_at_def)
  next
    case (Unlock m)
    with no_unlock [OF t(1)] p show ?thesis by blast
  next
    case (Join u)
    with joins t(1) p have u: "u < length ps" by (metis list.set_intros(1))
    then have "ps ! u \<noteq> []" using stuck lstep.Joins [OF t(1)] p Join by blast
    with u waits [of u "level u"] p Join show ?thesis by (auto simp: waits_at_def)
  qed
qed

lemma lstep_joins:
  assumes "lstep (ow, ps) (ow', ps')"
  shows "length ps' = length ps" "t < length ps \<Longrightarrow> set (ps' ! t) \<subseteq> set (ps ! t)"
proof -
  show "length ps' = length ps" using assms by (auto elim: lstepE)
  show "set (ps' ! t) \<subseteq> set (ps ! t)" if "t < length ps"
    using assms
  proof (cases rule: lstep.cases)
    case (Locks u m p)
    with that show ?thesis by (cases "t = u") auto
  next
    case (Unlocks u m p)
    with that show ?thesis by (cases "t = u") auto
  next
    case (Joins u v p)
    with that show ?thesis by (cases "t = u") auto
  qed
qed

lemma ordered_threads_not_deadlocked:
  assumes ord: "\<forall>t < length ps. orderly_program rank level t (ps ! t)"
    and joins: "\<forall>t < length ps. \<forall>u. Join u \<in> set (ps ! t) \<longrightarrow> u < length ps"
    and steps: "lstep\<^sup>*\<^sup>* (Map.empty, ps) s"
  shows "\<not> deadlocked s"
proof
  have inv: "lock_inv rank level s \<and> (\<forall>t < length (snd s). \<forall>u. Join u \<in> set (snd s ! t) \<longrightarrow> u < length (snd s))"
    using steps
  proof (induction rule: rtranclp_induct)
    case base
    show ?case using lock_inv_start [OF ord] joins by simp
  next
    case (step s1 s2)
    obtain ow1 ps1 ow2 ps2 where s: "s1 = (ow1, ps1)" "s2 = (ow2, ps2)" by fastforce
    note l = lstep_joins [OF step.hyps(2) [unfolded s]]
    show ?case using lock_inv_step [OF step.hyps(2)] step.IH l s by fastforce
  qed
  obtain ow qs where s: "s = (ow, qs)" by fastforce
  assume "deadlocked s"
  then obtain t where t: "t < length qs" "qs ! t \<noteq> []" and stuck: "\<forall>s'. \<not> lstep (ow, qs) s'"
    by (auto simp: deadlocked_def s)
  let ?W = "(\<lambda>u. waits_at rank level (qs ! u)) ` {u. u < length qs \<and> qs ! u \<noteq> []}"
  have fin: "finite ?W" by simp
  have "Max ?W \<in> ?W" using t by (intro Max_in fin) auto
  then obtain u where u: "u < length qs" "qs ! u \<noteq> []" "waits_at rank level (qs ! u) = Max ?W" by auto
  from blocked_waits_higher [OF inv [unfolded s, THEN conjunct1] stuck u(1,2)] inv s
  obtain v where v: "v < length qs" "qs ! v \<noteq> []" "Max ?W < waits_at rank level (qs ! v)" using u(3) by auto
  then have "waits_at rank level (qs ! v) \<le> Max ?W" by (intro Max_ge fin) auto
  with v(3) show False by simp
qed

section \<open>Every run ends\<close>

definition finished :: "'m threads \<Rightarrow> bool" where
  "finished s \<longleftrightarrow> (\<forall>p \<in> set (snd s). p = [])"

text \<open>Each step takes one action off a program.\<close>

lemma lstep_actions:
  assumes "lstep s s'"
  shows "sum_list (map length (snd s')) < sum_list (map length (snd s))"
proof -
  have shorter: "sum_list (map length (ps[t := p])) < sum_list (map length ps)"
    if "t < length ps" "ps ! t = a # p" for t and ps :: "'m lock_action list list" and a p
  proof -
    have ps: "ps = take t ps @ (a # p) # drop (Suc t) ps" using that by (metis id_take_nth_drop)
    have "ps[t := p] = take t ps @ p # drop (Suc t) ps" using that(1) by (rule upd_conv_take_nth_drop)
    then show ?thesis by (subst (2) ps) simp
  qed
  from assms show ?thesis by (cases rule: lstep.cases) (auto intro: shorter)
qed

lemma finishes_unless_deadlocked:
  assumes "\<And>s'. lstep\<^sup>*\<^sup>* s s' \<Longrightarrow> \<not> deadlocked s'"
  shows "\<exists>s'. lstep\<^sup>*\<^sup>* s s' \<and> finished s'"
  using assms
proof (induction s rule: measure_induct_rule [where f = "\<lambda>s. sum_list (map length (snd s))"])
  case (less s)
  show ?case
  proof (cases "finished s")
    case False
    then obtain t where "t < length (snd s)" "snd s ! t \<noteq> []" by (auto simp: finished_def in_set_conv_nth)
    with less.prems [of s] obtain s1 where s1: "lstep s s1" by (auto simp: deadlocked_def)
    then have "\<exists>s'. lstep\<^sup>*\<^sup>* s1 s' \<and> finished s'"
      by (intro less.IH lstep_actions less.prems) (auto intro: converse_rtranclp_into_rtranclp)
    with s1 show ?thesis by (blast intro: converse_rtranclp_into_rtranclp)
  qed blast
qed

text \<open>
  The discipline the operations of a program keep, whoever runs them: \<open>operation t p\<close> says that thread \<open>t\<close>
  may run the operation \<open>p\<close>. Any threads made of such operations are free of deadlocks.
\<close>

locale lock_discipline =
  fixes rank :: "'m \<Rightarrow> nat"
    and level :: "nat \<Rightarrow> nat"
    and operation :: "nat \<Rightarrow> 'm lock_action list \<Rightarrow> bool"
    and joinable :: nat
  assumes operation_ordered: "operation t p \<Longrightarrow> held_after rank level (level t) [] p = Some []"
    and operation_joins: "operation t p \<Longrightarrow> Join u \<in> set p \<Longrightarrow> u < joinable"
begin

lemma operations_ordered: "\<forall>p \<in> set os. operation t p \<Longrightarrow> orderly_program rank level t (concat os)"
  by (auto simp: orderly_program_def operation_ordered intro: held_after_concat)

lemma never_deadlocked:
  assumes threads: "\<forall>t < length ps. \<exists>os. ps ! t = concat os \<and> (\<forall>p \<in> set os. operation t p)"
    and "joinable \<le> length ps" "lstep\<^sup>*\<^sup>* (Map.empty, ps) s"
  shows "\<not> deadlocked s"
proof (rule ordered_threads_not_deadlocked [OF _ _ assms(3)])
  show "\<forall>t < length ps. orderly_program rank level t (ps ! t)"
    using threads operations_ordered by metis
  have "u < length ps" if "t < length ps" "Join u \<in> set (ps ! t)" for t u
  proof -
    obtain os where "ps ! t = concat os" "\<forall>p \<in> set os. operation t p" using threads \<open>t < length ps\<close> by blast
    with that(2) operation_joins assms(2) show ?thesis by fastforce
  qed
  then show "\<forall>t < length ps. \<forall>u. Join u \<in> set (ps ! t) \<longrightarrow> u < length ps" by blast
qed

lemma all_finish:
  assumes "\<forall>t < length ps. \<exists>os. ps ! t = concat os \<and> (\<forall>p \<in> set os. operation t p)"
    and "joinable \<le> length ps" "lstep\<^sup>*\<^sup>* (Map.empty, ps) s"
  shows "\<not> deadlocked s \<and> (\<exists>s'. lstep\<^sup>*\<^sup>* s s' \<and> finished s')"
  using never_deadlocked [OF assms(1,2)] finishes_unless_deadlocked [of s] assms(3) by (meson rtranclp_trans)

end

section \<open>A program that runs while the others pause\<close>

lemma runs_alone:
  assumes "held_after rank level own held p = Some []" "\<forall>u. Join u \<notin> set p"
    and "\<forall>m. ow m = (if m \<in> set held then Some t else None)" "t < length ps" "ps ! t = p @ q"
  shows "lstep\<^sup>*\<^sup>* (ow, ps) (Map.empty, ps[t := q])"
  using assms
proof (induction rank level own held p arbitrary: ow ps rule: held_after.induct)
  case (1 rank level own held)
  then have "ow = Map.empty" "ps[t := q] = ps" by (auto simp: fun_eq_iff list_update_same_conv)
  then show ?case by simp
next
  case (2 rank level own held m p)
  then have "lstep (ow, ps) (ow(m \<mapsto> t), ps[t := p @ q])" by (intro lstep.Locks) (auto split: if_splits)
  moreover have "lstep\<^sup>*\<^sup>* (ow(m \<mapsto> t), ps[t := p @ q]) (Map.empty, (ps[t := p @ q])[t := q])"
    by (rule "2.IH") (use "2.prems" in \<open>auto split: if_splits\<close>)
  ultimately show ?case by (auto intro: converse_rtranclp_into_rtranclp)
next
  case (3 rank level own held m p)
  then have "lstep (ow, ps) (ow(m := None), ps[t := p @ q])" by (intro lstep.Unlocks) (auto split: if_splits)
  moreover have "lstep\<^sup>*\<^sup>* (ow(m := None), ps[t := p @ q]) (Map.empty, (ps[t := p @ q])[t := q])"
    by (rule "3.IH") (use "3.prems" in \<open>auto split: if_splits\<close>)
  ultimately show ?case by (auto intro: converse_rtranclp_into_rtranclp)
qed auto

lemma alone_runs:
  assumes "held_after rank level own [] p = Some []" "\<And>u. Join u \<notin> set p" "t < length ps" "ps ! t = p @ q" "ps' = ps[t := q]"
  shows "lstep\<^sup>*\<^sup>* (Map.empty, ps) (Map.empty, ps')"
  using runs_alone [OF assms(1) _ _ assms(3,4)] assms(2,5) by simp

section \<open>Running a schedule\<close>

fun advance :: "nat \<Rightarrow> 'm threads \<Rightarrow> 'm threads option" where
  "advance t (ow, ps) =
     (if t < length ps
      then (case ps ! t of
              [] \<Rightarrow> None
            | Lock m # p \<Rightarrow> if ow m = None then Some (ow(m \<mapsto> t), ps[t := p]) else None
            | Unlock m # p \<Rightarrow> if ow m = Some t then Some (ow(m := None), ps[t := p]) else None
            | Join u # p \<Rightarrow> if u < length ps \<and> ps ! u = [] then Some (ow, ps[t := p]) else None)
      else None)"

fun schedule :: "nat list \<Rightarrow> 'm threads \<Rightarrow> 'm threads option" where
  "schedule [] s = Some s"
| "schedule (t # ts) s = Option.bind (advance t s) (schedule ts)"

lemma advance_lstep:
  assumes "advance t s = Some s'"
  shows "lstep s s'"
proof -
  obtain ow ps where s: "s = (ow, ps)" by fastforce
  with assms obtain a p where t: "t < length ps" "ps ! t = a # p"
    by (cases "ps ! t") (auto split: if_splits)
  show ?thesis
  proof (cases a)
    case (Lock m)
    with assms s t lstep.Locks [of t ps m p ow] show ?thesis by (simp split: if_splits)
  next
    case (Unlock m)
    with assms s t lstep.Unlocks [of t ps m p ow] show ?thesis by (simp split: if_splits)
  next
    case (Join u)
    with assms s t lstep.Joins [of t ps u p ow] show ?thesis by (simp split: if_splits)
  qed
qed

lemma lstep_advance:
  assumes "lstep s s'"
  shows "\<exists>t < length (snd s). advance t s = Some s'"
  using assms
proof (cases rule: lstep.cases)
  case (Locks t ps m p ow)
  then show ?thesis by (intro exI [of _ t]) simp
next
  case (Unlocks t ps m p ow)
  then show ?thesis by (intro exI [of _ t]) simp
next
  case (Joins t ps u p ow)
  then show ?thesis by (intro exI [of _ t]) simp
qed

lemma schedule_lsteps: "schedule ts s = Some s' \<Longrightarrow> lstep\<^sup>*\<^sup>* s s'"
proof (induction ts arbitrary: s)
  case (Cons t ts)
  then obtain s1 where "advance t s = Some s1" "schedule ts s1 = Some s'"
    by (auto simp del: advance.simps split: Option.bind_splits)
  with Cons.IH advance_lstep show ?case by (blast intro: converse_rtranclp_into_rtranclp)
qed simp

lemma schedule_deadlock:
  assumes "schedule ts s = Some s'" "\<exists>t < length (snd s'). snd s' ! t \<noteq> []" "\<forall>t < length (snd s'). advance t s' = None"
  shows "\<exists>s'. lstep\<^sup>*\<^sup>* s s' \<and> deadlocked s'"
proof -
  have "\<not> lstep s' s''" for s'' using lstep_advance [of s' s''] assms(3) by (metis option.distinct(1))
  with assms(2) schedule_lsteps [OF assms(1)] show ?thesis unfolding deadlocked_def by blast
qed

end
