(* ===== verification/Bacnet_Locks.thy ===== *)
theory Bacnet_Locks
  imports Bacnet_Callbacks Lock_Order
begin

text \<open>
  The mutexes of the BACnet driver. \<open>Bacnet_Lock_Use\<close> says what each operation locks, unlocks and joins, in
  the order of the code; what the operations do under their locks is the subject of the other theories.
\<close>

datatype mutex =
    G_plc | Driver_mutex | Monitor_mutex | Plc_mutex | Object_states | Operation | Invoke_id_to_key
  | Write_pending | Callback_mutex | Hot_config

type_synonym action = "mutex lock_action"

end
