(* ===== verification/Bacnet_Lock_Use.thy ===== *)
theory Bacnet_Lock_Use
  imports Bacnet_Locks
begin

text \<open>
  What the operations of the driver lock, along each of their paths: the branches a path takes are its
  arguments. Threads of the PLC have any number but 0 and 1, which are the worker thread and the thread of
  the configuration monitor.
\<close>

definition worker_tid :: nat where "worker_tid = 0"
definition monitor_tid :: nat where "monitor_tid = 1"

section \<open>Requests\<close>

datatype request_path = RefusedPath | UnsentPath | SentPath

definition execute_read_locks :: "request_path \<Rightarrow> action list" where
  "execute_read_locks r =
     (case r of RefusedPath \<Rightarrow> []
      | UnsentPath \<Rightarrow> with_lock Operation []
      | SentPath \<Rightarrow> with_lock Operation (with_lock Invoke_id_to_key []))"

definition execute_write_locks :: "request_path \<Rightarrow> action list" where
  "execute_write_locks r =
     (case r of RefusedPath \<Rightarrow> []
      | UnsentPath \<Rightarrow> with_lock Operation []
      | SentPath \<Rightarrow> with_lock Operation (with_lock Write_pending []))"

section \<open>Packets and the clean-up\<close>

text \<open>Whether the invoke id of the packet has a mapping.\<close>

definition handler_locks :: "bool \<Rightarrow> packet \<Rightarrow> action list" where
  "handler_locks found p =
     (case p of
        ReadAck (Some body) src i \<Rightarrow>
          with_lock Invoke_id_to_key [] @ (if found \<and> body \<noteq> None then with_lock Object_states [] else [])
      | WriteAck i \<Rightarrow> with_lock Write_pending []
      | ErrorResponse i code \<Rightarrow>
          with_lock Invoke_id_to_key [] @ (if found then with_lock Object_states [] else with_lock Write_pending [])
      | AbortResponse i \<Rightarrow> with_lock Invoke_id_to_key (if found then with_lock Object_states [] else [])
      | RejectResponse i \<Rightarrow> with_lock Invoke_id_to_key (if found then with_lock Object_states [] else [])
      | _ \<Rightarrow> [])"

definition cleanup_stale_locks :: "action list" where
  "cleanup_stale_locks = with_lock Invoke_id_to_key (with_lock Object_states []) @ with_lock Write_pending []"

definition cache_stats_locks :: "action list" where
  "cache_stats_locks = with_lock Object_states [] @ with_lock Invoke_id_to_key [] @ with_lock Write_pending []"

text \<open>A discovery handles packets in the thread that runs it; a callback is looked up after it.\<close>

definition discovery_locks :: "(bool \<times> packet) list \<Rightarrow> action list" where
  "discovery_locks packets = concat (map (\<lambda>(found, p). handler_locks found p) packets)"

definition callback_locks :: "bool \<Rightarrow> action list" where
  "callback_locks triggered = (if triggered then with_lock Callback_mutex [] else [])"

text \<open>One round of the worker thread.\<close>

record worker_path =
  wp_cleanup :: bool
  wp_stats :: bool
  wp_packet :: "(bool \<times> packet) option"
  wp_reconnect :: "((bool \<times> packet) list \<times> bool) option"

definition worker_pass_locks :: "worker_path \<Rightarrow> action list" where
  "worker_pass_locks w =
     (if wp_cleanup w then cleanup_stale_locks else []) @
     (if wp_stats w then cache_stats_locks else []) @
     (case wp_packet w of None \<Rightarrow> [] | Some (found, p) \<Rightarrow> handler_locks found p) @
     (case wp_reconnect w of None \<Rightarrow> [] | Some (ps, triggered) \<Rightarrow> discovery_locks ps @ callback_locks triggered)"

section \<open>Life cycle\<close>

definition stop_worker_locks :: "bool \<Rightarrow> action list" where
  "stop_worker_locks running = (if running then [Join worker_tid] else [])"

definition reset_locks :: "bool \<Rightarrow> action list" where
  "reset_locks running =
     with_lock Plc_mutex (stop_worker_locks running @ with_lock Operation [] @
       with_lock Object_states [] @ with_lock Invoke_id_to_key [] @ with_lock Write_pending [])"

definition hot_stop_locks :: "action list" where
  "hot_stop_locks = with_lock Monitor_mutex [Join monitor_tid]"

definition release_locks :: "bool \<Rightarrow> bool \<Rightarrow> bool \<Rightarrow> action list" where
  "release_locks initialised monitor_running working =
     with_lock Driver_mutex
       (if initialised then (if monitor_running then hot_stop_locks else []) @ reset_locks working else [])"

text \<open>A context that is not initialised is initialised, and the monitor started.\<close>

definition initialize_locks :: "bool \<Rightarrow> action list" where
  "initialize_locks monitored =
     with_lock Driver_mutex (with_lock Plc_mutex [] @
       (if monitored then with_lock Monitor_mutex [] @ with_lock Monitor_mutex [] else []))"

definition connect_locks :: "(bool \<times> packet) list \<Rightarrow> bool \<Rightarrow> action list" where
  "connect_locks packets triggered = with_lock Driver_mutex (discovery_locks packets @ callback_locks triggered)"

definition disconnect_locks :: "bool \<Rightarrow> action list" where
  "disconnect_locks running =
     with_lock Driver_mutex (stop_worker_locks running @ with_lock Operation [] @ callback_locks True)"

definition driver_read_locks :: "request_path \<Rightarrow> action list" where
  "driver_read_locks r = with_lock Driver_mutex (execute_read_locks r)"

definition driver_write_locks :: "request_path \<Rightarrow> action list" where
  "driver_write_locks r = with_lock Driver_mutex (execute_write_locks r)"

section \<open>The entry points\<close>

text \<open>What initialisation and connection on demand do: nothing, one, or both.\<close>

record demand_path =
  dp_initialize :: "bool option"
  dp_connect :: "((bool \<times> packet) list \<times> bool) option"

definition ensure_locks :: "demand_path \<Rightarrow> action list" where
  "ensure_locks d =
     (case dp_initialize d of None \<Rightarrow> [] | Some monitored \<Rightarrow> initialize_locks monitored) @
     (case dp_connect d of None \<Rightarrow> [] | Some (ps, triggered) \<Rightarrow> connect_locks ps triggered)"

text \<open>A pending reload: whether it is still pending under the lock, and how the release goes.\<close>

definition reload_locks :: "(bool \<times> bool \<times> bool \<times> bool) option \<Rightarrow> action list" where
  "reload_locks pending =
     (case pending of None \<Rightarrow> []
      | Some (still, initialised, monitor_running, working) \<Rightarrow>
          with_lock Hot_config
            (if still then with_lock G_plc (release_locks initialised monitor_running working) else []))"

text \<open>\<open>request = None\<close>: the cache answers, or a request is in flight.\<close>

definition plc_read_locks ::
  "(bool \<times> bool \<times> bool \<times> bool) option \<Rightarrow> demand_path \<Rightarrow> request_path option option \<Rightarrow> action list" where
  "plc_read_locks pending d body =
     reload_locks pending @ with_lock G_plc (ensure_locks d) @
     (case body of None \<Rightarrow> []
      | Some request \<Rightarrow> with_lock Object_states (case request of None \<Rightarrow> [] | Some r \<Rightarrow> execute_read_locks r))"

definition plc_write_locks ::
  "(bool \<times> bool \<times> bool \<times> bool) option \<Rightarrow> demand_path \<Rightarrow> request_path option \<Rightarrow> action list" where
  "plc_write_locks pending d body =
     reload_locks pending @ with_lock G_plc (ensure_locks d) @
     (case body of None \<Rightarrow> [] | Some r \<Rightarrow> execute_write_locks r)"

definition reload_config_locks :: "bool \<Rightarrow> action list" where
  "reload_config_locks initialised = (if initialised then with_lock Hot_config [] else [])"

section \<open>The order of the mutexes\<close>

fun rank :: "mutex \<Rightarrow> nat" where
  "rank G_plc = 1" | "rank Driver_mutex = 2" | "rank Monitor_mutex = 3" | "rank Plc_mutex = 5"
| "rank Object_states = 7" | "rank Operation = 8" | "rank Invoke_id_to_key = 9" | "rank Write_pending = 10"
| "rank Callback_mutex = 11" | "rank Hot_config = 12"

definition level :: "nat \<Rightarrow> nat" where
  "level t = (if t = worker_tid then 6 else if t = monitor_tid then 4 else 0)"

text \<open>The handlers that lock in the order: not abort and reject of a known request.\<close>

fun ordered_packet :: "bool \<times> packet \<Rightarrow> bool" where
  "ordered_packet (found, AbortResponse i) = (\<not> found)"
| "ordered_packet (found, RejectResponse i) = (\<not> found)"
| "ordered_packet _ = True"

definition ordered_demand :: "demand_path \<Rightarrow> bool" where
  "ordered_demand d \<longleftrightarrow> (case dp_connect d of None \<Rightarrow> True | Some (ps, _) \<Rightarrow> list_all ordered_packet ps)"

text \<open>What each thread does, one operation at a time, without the operations of the two theorems below.\<close>

inductive plc_operation :: "action list \<Rightarrow> bool" where
  Read: "ordered_demand d \<Longrightarrow> plc_operation (plc_read_locks None d body)"
| Write: "ordered_demand d \<Longrightarrow> plc_operation (plc_write_locks None d wbody)"
| Release: "plc_operation (release_locks i m w)"
| Initialize: "plc_operation (initialize_locks mon)"
| Connect: "list_all ordered_packet ps \<Longrightarrow> plc_operation (connect_locks ps tr)"
| Disconnect: "plc_operation (disconnect_locks w)"
| Driver_read: "plc_operation (driver_read_locks r)"
| Driver_write: "plc_operation (driver_write_locks r)"
| Reload: "plc_operation (reload_config_locks i)"

inductive worker_operation :: "action list \<Rightarrow> bool" where
  "\<not> wp_cleanup w \<Longrightarrow> (case wp_packet w of None \<Rightarrow> True | Some fp \<Rightarrow> ordered_packet fp) \<Longrightarrow>
   (case wp_reconnect w of None \<Rightarrow> True | Some (ps, _) \<Rightarrow> list_all ordered_packet ps) \<Longrightarrow>
   worker_operation (worker_pass_locks w)"

lemma handler_ordered:
  assumes "ordered_packet (found, p)" "\<forall>h \<in> set held. rank h < 7" "own < 7"
  shows "held_after rank level own held (handler_locks found p) = Some held"
proof -
  have r: "\<forall>h \<in> set held. rank h < n" if "7 \<le> n" for n using assms(2) that by fastforce
  have w: "held_after rank level own held (with_lock m []) = Some held" if "7 \<le> rank m" for m
    using assms(2,3) that by (intro held_after_with_lock) fastforce+
  have n: "held_after rank level own (m # held) [] = Some (m # held)" for m by simp
  show ?thesis
    using assms(1) w
    by (cases "(found, p)" rule: ordered_packet.cases)
       (auto simp: handler_locks_def held_after_append split: option.splits)
qed

lemma discovery_ordered:
  assumes "list_all ordered_packet ps" "\<forall>h \<in> set held. rank h < 7" "own < 7"
  shows "held_after rank level own held (discovery_locks ps) = Some held"
  unfolding discovery_locks_def
  by (rule held_after_concat) (use assms handler_ordered in \<open>auto simp: list_all_iff\<close>)

lemma callback_ordered:
  "\<forall>h \<in> set held. rank h < 11 \<Longrightarrow> own < 11 \<Longrightarrow> held_after rank level own held (callback_locks b) = Some held"
  by (auto simp: callback_locks_def intro!: held_after_with_lock)

lemmas lock_simps = with_lock_def held_after_append execute_read_locks_def execute_write_locks_def
  stop_worker_locks_def reset_locks_def hot_stop_locks_def release_locks_def initialize_locks_def
  disconnect_locks_def driver_read_locks_def driver_write_locks_def reload_config_locks_def
  cache_stats_locks_def

lemma level_simps [simp]: "level worker_tid = 6" "level monitor_tid = 4"
  by (simp_all add: level_def worker_tid_def monitor_tid_def)

lemma connect_ordered:
  assumes "list_all ordered_packet ps" "held = [] \<or> held = [G_plc]"
  shows "held_after rank level 0 held (connect_locks ps tr) = Some held"
  unfolding connect_locks_def using assms
  by (intro held_after_with_lock) (auto simp: held_after_append discovery_ordered callback_ordered)

lemma initialize_ordered:
  "held = [] \<or> held = [G_plc] \<Longrightarrow> held_after rank level 0 held (initialize_locks mon) = Some held"
  by (auto simp: lock_simps)

lemma ensure_ordered:
  "ordered_demand d \<Longrightarrow> held_after rank level 0 [] (with_lock G_plc (ensure_locks d)) = Some []"
  by (rule held_after_with_lock)
     (auto simp: ensure_locks_def ordered_demand_def held_after_append connect_ordered initialize_ordered
        split: option.splits)

lemma request_ordered:
  "held = [] \<or> held = [Object_states] \<or> held = [Driver_mutex] \<Longrightarrow>
     held_after rank level 0 held (execute_read_locks r) = Some held"
  "held = [] \<or> held = [Driver_mutex] \<Longrightarrow> held_after rank level 0 held (execute_write_locks r) = Some held"
  by (auto simp: lock_simps split: request_path.splits)

lemma plc_operation_ordered: "plc_operation p \<Longrightarrow> held_after rank level 0 [] p = Some []"
proof (induction rule: plc_operation.induct)
  case (Read d body)
  then show ?case
    by (auto simp: plc_read_locks_def reload_locks_def held_after_append ensure_ordered request_ordered
        intro!: held_after_with_lock split: option.splits)
next
  case (Write d body)
  then show ?case
    by (auto simp: plc_write_locks_def reload_locks_def held_after_append ensure_ordered request_ordered
        split: option.splits)
next
  case (Driver_read r)
  show ?case unfolding driver_read_locks_def by (rule held_after_with_lock) (simp_all add: request_ordered)
next
  case (Driver_write r)
  show ?case unfolding driver_write_locks_def by (rule held_after_with_lock) (simp_all add: request_ordered)
qed (auto simp: connect_ordered initialize_ordered callback_locks_def lock_simps)

lemma worker_operation_ordered: "worker_operation p \<Longrightarrow> held_after rank level 6 [] p = Some []"
proof (induction rule: worker_operation.induct)
  case (1 w)
  have "held_after rank level 6 [] cache_stats_locks = Some []" by (simp add: lock_simps)
  with 1 show ?case
    by (auto simp: worker_pass_locks_def held_after_append handler_ordered discovery_ordered callback_ordered
        split: option.splits)
qed

section \<open>No deadlock in the order\<close>

text \<open>Only the worker and the monitor are ever joined.\<close>

lemma joined_threads:
  assumes "held_after rank level own held p \<noteq> None" "Join u \<in> set p"
  shows "u < 2"
proof -
  have "own < level u"
    using assms by (induction rank level own held p rule: held_after.induct) (auto split: if_splits)
  then show ?thesis by (auto simp: level_def worker_tid_def monitor_tid_def split: if_splits)
qed

text \<open>Who runs what: the worker its rounds, the monitor its callback, every other thread the operations of
  the PLC.\<close>

definition driver_operation :: "nat \<Rightarrow> action list \<Rightarrow> bool" where
  "driver_operation t p \<longleftrightarrow>
     (if t = worker_tid then worker_operation p
      else if t = monitor_tid then p = reload_config_locks True
      else plc_operation p)"

lemma driver_operation_ordered: "driver_operation t p \<Longrightarrow> held_after rank level (level t) [] p = Some []"
  using plc_operation_ordered [of p] worker_operation_ordered [of p]
  by (auto simp: driver_operation_def level_def lock_simps split: if_splits)

interpretation dl: lock_discipline rank level driver_operation 2
  by unfold_locales (auto dest: driver_operation_ordered intro: joined_threads)

definition driver_threads :: "action list list \<Rightarrow> bool" where
  "driver_threads ps \<longleftrightarrow> 2 \<le> length ps \<and>
     (\<forall>t < length ps. \<exists>os. ps ! t = concat os \<and> (\<forall>p \<in> set os. driver_operation t p))"

text \<open>C18: With no reload pending, no clean-up due and no abort or reject of a known request, the driver has a
  lock order: any number of PLC threads, each running any sequence of reads, writes, connections,
  disconnections and releases along any of their paths, together with the worker thread and the
  configuration monitor, never reach a deadlock, in whatever order they run: from every point they reach, all
  of them can still finish.\<close>

theorem ordered_operations_never_deadlock:
  assumes "driver_threads ps" "lstep\<^sup>*\<^sup>* (Map.empty, ps) s"
  shows "\<not> deadlocked s \<and> (\<exists>s'. lstep\<^sup>*\<^sup>* s s' \<and> finished s')"
  by (rule dl.all_finish) (use assms in \<open>auto simp: driver_threads_def\<close>)

definition no_demand :: demand_path where
  "no_demand = \<lparr>dp_initialize = None, dp_connect = None\<rparr>"

definition sample_pass :: worker_path where
  "sample_pass = \<lparr>wp_cleanup = False, wp_stats = True, wp_packet = Some (True, ErrorResponse 1 31), wp_reconnect = None\<rparr>"

theorem ordered_operations_never_deadlock_witness:
  "\<exists>s'. lstep\<^sup>*\<^sup>* (Map.empty, [worker_pass_locks sample_pass, reload_config_locks True,
     plc_read_locks None no_demand (Some (Some SentPath)), release_locks True True True]) s' \<and> finished s'"
proof (rule ordered_operations_never_deadlock [OF _ rtranclp.rtrancl_refl, THEN conjunct2])
  have one: "\<exists>os. p = concat os \<and> (\<forall>q \<in> set os. driver_operation t q)" if "driver_operation t p" for t p
    using that by (intro exI [of _ "[p]"]) simp
  have "driver_operation 0 (worker_pass_locks sample_pass)"
    by (auto simp: driver_operation_def worker_tid_def sample_pass_def intro!: worker_operation.intros)
  moreover have "driver_operation 1 (reload_config_locks True)"
    by (simp add: driver_operation_def worker_tid_def monitor_tid_def)
  moreover have "driver_operation 2 (plc_read_locks None no_demand (Some (Some SentPath)))"
    by (auto simp: driver_operation_def worker_tid_def monitor_tid_def no_demand_def ordered_demand_def
        intro!: plc_operation.Read)
  moreover have "driver_operation 3 (release_locks True True True)"
    by (auto simp: driver_operation_def worker_tid_def monitor_tid_def intro: plc_operation.Release)
  ultimately show "driver_threads [worker_pass_locks sample_pass, reload_config_locks True,
     plc_read_locks None no_demand (Some (Some SentPath)), release_locks True True True]"
    using one unfolding driver_threads_def by (auto simp: less_Suc_eq eval_nat_numeral)
qed

section \<open>Deadlocks outside the order\<close>

text \<open>The first two mutexes of each thread, and the schedule that crosses them.\<close>

lemma crossed_locks_deadlock:
  "\<exists>s. lstep\<^sup>*\<^sup>* (Map.empty, [Lock Invoke_id_to_key # Lock Object_states # p, [],
       Lock G_plc # Unlock G_plc # Lock Object_states # Lock Operation # Lock Invoke_id_to_key # q]) s \<and> deadlocked s"
  by (rule schedule_deadlock [where ts = "[2, 2, 2, 2, 0]"])
     (auto simp: less_Suc_eq numeral_2_eq_2)

text \<open>C36: A read and the worker thread can wait for each other for ever: the read holds the table of objects
  while its request is mapped, which takes the table of invoke ids; the clean-up of stale requests, and the
  handlers of an abort or a reject of a known request, hold the table of invoke ids and take the table of
  objects.\<close>

theorem read_and_worker_deadlock:
  assumes "wp_cleanup w \<or> \<not> wp_stats w \<and> wp_packet w \<in> {Some (True, AbortResponse i), Some (True, RejectResponse i)}"
  shows "\<exists>s. lstep\<^sup>*\<^sup>* (Map.empty, [worker_pass_locks w, [], plc_read_locks None no_demand (Some (Some SentPath))]) s \<and>
    deadlocked s"
proof -
  obtain p where w: "worker_pass_locks w = Lock Invoke_id_to_key # Lock Object_states # p"
    using assms by (cases "wp_cleanup w")
      (auto simp: worker_pass_locks_def cleanup_stale_locks_def handler_locks_def with_lock_def)
  obtain q where r: "plc_read_locks None no_demand (Some (Some SentPath)) =
      Lock G_plc # Unlock G_plc # Lock Object_states # Lock Operation # Lock Invoke_id_to_key # q"
    by (simp add: plc_read_locks_def reload_locks_def ensure_locks_def no_demand_def execute_read_locks_def with_lock_def)
  show ?thesis unfolding w r by (rule crossed_locks_deadlock)
qed

theorem read_and_worker_deadlock_witness:
  "\<exists>s. lstep\<^sup>*\<^sup>* (Map.empty, [worker_pass_locks (sample_pass\<lparr>wp_cleanup := True\<rparr>), [],
      plc_read_locks None no_demand (Some (Some SentPath))]) s \<and> deadlocked s"
  by (rule read_and_worker_deadlock) (simp add: sample_pass_def)

text \<open>C37: A reload can block the driver for ever: the call that carries out a pending reload holds the mutex of
  the reload flag while it releases the driver, which joins the monitor thread; a monitor that has just seen
  a further change waits for that mutex to set the flag.\<close>

theorem reload_and_monitor_deadlock:
  "\<exists>s. lstep\<^sup>*\<^sup>* (Map.empty, [[], reload_config_locks True,
       plc_read_locks (Some (True, True, True, working)) d body]) s \<and> deadlocked s"
proof -
  obtain q where r: "plc_read_locks (Some (True, True, True, working)) d body =
      Lock Hot_config # Lock G_plc # Lock Driver_mutex # Lock Monitor_mutex # Join monitor_tid # q"
    by (simp add: plc_read_locks_def reload_locks_def release_locks_def hot_stop_locks_def with_lock_def)
  show ?thesis unfolding r
    by (rule schedule_deadlock [where ts = "[2, 2, 2, 2]"])
       (auto simp: less_Suc_eq numeral_2_eq_2 monitor_tid_def reload_config_locks_def with_lock_def)
qed

end
