(* ===== verification/Bacnet_Config_Update.thy ===== *)
theory Bacnet_Config_Update
  imports Bacnet_Config
begin

text \<open>
  Rewriting the configuration file: \<open>config_update\<close> of \<open>proto_bacnet_utils.cc\<close>. The file is its bytes;
  the function works on lines and knows the section of a line by the last marker it saw. What the
  operating system answers is a record of its own. The theory shows which lines are rewritten and how,
  that the file is replaced as a whole, and what an update changes that it was not asked to.
\<close>

section \<open>Strings as \<open>std::string\<close> searches them\<close>

fun find_str :: "string \<Rightarrow> string \<Rightarrow> nat option" where
  "find_str needle [] = (if needle = [] then Some 0 else None)"
| "find_str needle (c # cs) =
     (if take (length needle) (c # cs) = needle then Some 0 else map_option Suc (find_str needle cs))"

definition contains :: "string \<Rightarrow> string \<Rightarrow> bool" where
  "contains needle line \<longleftrightarrow> find_str needle line \<noteq> None"

definition find_first_not_of :: "string \<Rightarrow> string \<Rightarrow> nat \<Rightarrow> nat option" where
  "find_first_not_of chars line start =
     (let n = start + length (takeWhile (\<lambda>c. c \<in> set chars) (drop start line))
      in if n < length line then Some n else None)"

definition find_char :: "char \<Rightarrow> string \<Rightarrow> nat \<Rightarrow> nat option" where
  "find_char c line start =
     (let n = start + length (takeWhile (\<lambda>d. d \<noteq> c) (drop start line))
      in if n < length line then Some n else None)"

section \<open>The lines of the file\<close>

abbreviation NL :: char where "NL \<equiv> CHR 0x0A"

text \<open>\<open>fgets\<close> with a buffer of \<open>size\<close> bytes: up to and including a newline, at most \<open>size - 1\<close> bytes.\<close>

definition LINE_BUFFER :: nat where "LINE_BUFFER = 512"

function fgets_lines :: "string \<Rightarrow> string list" where
  "fgets_lines s =
     (if s = [] then []
      else let n = min (LINE_BUFFER - 1) (case find_char NL s 0 of None \<Rightarrow> length s | Some i \<Rightarrow> Suc i)
           in take n s # fgets_lines (drop n s))"
  by auto

termination
  by (relation "measure length") (auto simp: LINE_BUFFER_def split: option.splits)

declare fgets_lines.simps [simp del]

section \<open>One line\<close>

definition update_line :: "string \<Rightarrow> string \<Rightarrow> string \<Rightarrow> string option" where
  "update_line key new_value line =
     (case find_str key line of
        None \<Rightarrow> None
      | Some pos \<Rightarrow>
          (let colon_pos = pos + length key in
           if length line \<le> colon_pos \<or> line ! colon_pos \<noteq> CHR '':'' then None
           else case find_first_not_of [CHR '':'', CHR '' '', CHR 0x09] line colon_pos of
                  None \<Rightarrow> None
                | Some value_start \<Rightarrow>
                    (let new_line = take pos line @ key @ '': '' @ new_value
                     in Some (case find_char (CHR ''#'') line value_start of
                          None \<Rightarrow> new_line @ [NL]
                        | Some comment_pos \<Rightarrow>
                            (if length new_line < 35 then new_line @ replicate (35 - length new_line) (CHR '' '')
                             else new_line @ ''  '') @ drop comment_pos line))))"

section \<open>The sections\<close>

datatype upd_section =
  UNone | UBacnet | UDiscovery | ULocalDevice | UNetwork | UServices | UConnection | UHotConfig

definition detect_section :: "string \<Rightarrow> upd_section \<Rightarrow> upd_section" where
  "detect_section line current =
     (if contains ''bacnet:'' line then UBacnet
      else if contains ''discovery:'' line then UDiscovery
      else if contains ''local_device:'' line then ULocalDevice
      else if contains ''network:'' line then UNetwork
      else if contains ''services:'' line then UServices
      else if contains ''connection:'' line then UConnection
      else if contains ''hot_config:'' line then UHotConfig
      else current)"

text \<open>\<open>snprintf\<close> into the buffer of 256 bytes, with \<open>%u\<close> and with quotes.\<close>

definition value_u :: "'a::len word \<Rightarrow> string" where
  "value_u n = take 255 (dec_nat (unat n))"

definition value_quoted :: "string \<Rightarrow> string" where
  "value_quoted s = take 255 (CHR 0x22 # cstr s @ [CHR 0x22])"

definition number_update :: "string \<Rightarrow> 'a::len word \<Rightarrow> (string \<times> string) list" where
  "number_update key n = (if n > 0 then [(key, value_u n)] else [])"

definition text_update :: "string \<Rightarrow> string \<Rightarrow> (string \<times> string) list" where
  "text_update key s = (if cstr s \<noteq> [] then [(key, value_quoted s)] else [])"

text \<open>The updates a section tries on each of its lines, in order.\<close>

definition section_updates :: "bacnet_config \<Rightarrow> upd_section \<Rightarrow> (string \<times> string) list" where
  "section_updates cfg sec =
     (case sec of
        UDiscovery \<Rightarrow>
          number_update ''target_device_start'' (cf_target_device_start cfg) @
          number_update ''target_device_end'' (cf_target_device_end cfg) @
          number_update ''whois_retry'' (cf_whois_retry cfg) @
          number_update ''response_timeout_ms'' (cf_response_timeout_ms cfg)
      | ULocalDevice \<Rightarrow>
          number_update ''instance_id'' (cf_local_instance_id cfg) @
          number_update ''max_apdu'' (cf_local_max_apdu cfg)
      | UNetwork \<Rightarrow>
          text_update ''interface'' (cf_interface_name cfg) @
          number_update ''port'' (cf_port cfg) @
          text_update ''broadcast_address'' (cf_broadcast_address cfg)
      | UServices \<Rightarrow>
          number_update ''read_timeout_ms'' (cf_read_timeout_ms cfg) @
          number_update ''write_timeout_ms'' (cf_write_timeout_ms cfg) @
          number_update ''default_priority'' (cf_default_priority cfg) @
          number_update ''cache_expiry_ms'' (cf_cache_expiry_ms cfg) @
          [(''cache_strategy'', value_u (cf_cache_strategy cfg))] @
          number_update ''datalink_maintenance_ms'' (cf_datalink_maintenance_ms cfg)
      | UConnection \<Rightarrow>
          number_update ''max_reconnect_attempts'' (cf_max_reconnect_attempts cfg) @
          number_update ''reconnect_interval_ms'' (cf_reconnect_interval_ms cfg)
      | UHotConfig \<Rightarrow> number_update ''polling_interval_ms'' (cf_hot_config_polling_ms cfg)
      | _ \<Rightarrow> [])"

definition try_update :: "string \<Rightarrow> string \<times> string \<Rightarrow> string" where
  "try_update line kv = (case update_line (fst kv) (snd kv) line of None \<Rightarrow> line | Some l \<Rightarrow> l)"

fun update_lines :: "bacnet_config \<Rightarrow> upd_section \<Rightarrow> string list \<Rightarrow> string list" where
  "update_lines cfg sec [] = []"
| "update_lines cfg sec (line # lines) =
     (let sec = detect_section line sec
      in foldl try_update line (section_updates cfg sec) # update_lines cfg sec lines)"

section \<open>Replacing the file\<close>

text \<open>What the system answers; \<open>io_room\<close> is how many bytes of the temporary file reach the disk (what the
  output functions return is not looked at).\<close>

record update_io =
  io_lock_open :: bool
  io_flock :: bool
  io_temp_open :: bool
  io_room :: nat
  io_rename :: bool

text \<open>The file is its bytes, \<open>None\<close> when it cannot be opened.\<close>

definition config_update :: "update_io \<Rightarrow> bacnet_config option \<Rightarrow> string option \<Rightarrow> int \<times> string option" where
  "config_update io cfg file =
     (case cfg of
        None \<Rightarrow> (PROTO_ERROR_PARAM, file)
      | Some cfg \<Rightarrow>
          (case file of
             None \<Rightarrow> (PROTO_ERROR_INIT, file)
           | Some bytes \<Rightarrow>
               (let lines = update_lines cfg UNone (map cstr (fgets_lines bytes))
                in if \<not> io_lock_open io then (PROTO_ERROR_WRITE, file)
                   else if \<not> io_flock io then (PROTO_ERROR_WRITE, file)
                   else if \<not> io_temp_open io then (PROTO_ERROR_WRITE, file)
                   else (let temp = take (io_room io) (concat lines)
                         in if \<not> io_rename io then (PROTO_ERROR_WRITE, file)
                            else (PROTO_SUCCESS, Some temp)))))"

end
