(* ===== verification/Bacnet_Config_Rewrite.thy ===== *)
theory Bacnet_Config_Rewrite
  imports Bacnet_Config_Update "HOL-Library.Sublist"
begin

text \<open>
  What an update of the configuration file does, over files whose lines are taken apart: markers of
  sections, settings (indentation, key, value, comment) and other lines. The operations on bytes refine the
  update of the settings.
\<close>

section \<open>Searching\<close>

lemma find_str_sound: "find_str k s = Some p \<Longrightarrow> \<exists>a b. s = a @ k @ b \<and> length a = p"
proof (induction s arbitrary: p)
  case (Cons c s)
  show ?case
  proof (cases "take (length k) (c # s) = k")
    case True
    then have "c # s = k @ drop (length k) (c # s)" by (metis append_take_drop_id)
    with Cons.prems True show ?thesis by (intro exI [of _ "[]"] exI [of _ "drop (length k) (c # s)"]) simp
  next
    case False
    with Cons.prems obtain q where q: "find_str k s = Some q" "p = Suc q" by auto
    from Cons.IH [OF q(1)] obtain a b where "s = a @ k @ b" "length a = q" by blast
    with q(2) show ?thesis by (intro exI [of _ "c # a"] exI [of _ b]) simp
  qed
qed (auto split: if_splits)

lemma find_str_complete: "find_str k (a @ k @ b) \<noteq> None"
proof (induction a)
  case Nil
  show ?case by (cases "k @ b") (auto dest: arg_cong [where f = "take (length k)"])
qed simp

lemma contains_iff: "contains k s \<longleftrightarrow> (\<exists>a b. s = a @ k @ b)"
  unfolding contains_def using find_str_sound [of k s] find_str_complete [of k] by fastforce

lemma find_str_indented:
  assumes "k \<noteq> []" "hd k \<noteq> c"
  shows "find_str k (replicate n c @ k @ b) = Some n"
proof (induction n)
  case 0
  with assms(1) show ?case by (cases k) auto
next
  case (Suc n)
  with assms show ?case by (cases k) auto
qed

lemma find_first_not_of_at:
  assumes "\<forall>x \<in> set ws. x \<in> set chars" "c \<notin> set chars"
  shows "find_first_not_of chars (pre @ ws @ c # rest) (length pre) = Some (length pre + length ws)"
  using assms by (simp add: find_first_not_of_def takeWhile_append2)

lemma takeWhile_neq: "c \<notin> set v \<Longrightarrow> takeWhile (\<lambda>d. d \<noteq> c) (v @ c # rest) = v"
    "c \<notin> set v \<Longrightarrow> takeWhile (\<lambda>d. d \<noteq> c) v = v"
  by (induction v) auto

lemma find_char_at: "c \<notin> set v \<Longrightarrow> find_char c (pre @ v @ c # rest) (length pre) = Some (length pre + length v)"
  by (simp add: find_char_def takeWhile_neq)

lemma find_char_none: "c \<notin> set v \<Longrightarrow> find_char c (pre @ v) (length pre) = None"
  by (simp add: find_char_def takeWhile_neq)

section \<open>Settings\<close>

record setting =
  st_indent :: nat
  st_key :: string
  st_space :: nat
  st_value :: string
  st_gap :: nat
  st_comment :: "string option"

abbreviation spaces :: "nat \<Rightarrow> string" where "spaces n \<equiv> replicate n (CHR '' '')"

definition render_setting :: "setting \<Rightarrow> string" where
  "render_setting s = spaces (st_indent s) @ st_key s @ CHR '':'' # spaces (st_space s) @ st_value s @
     (case st_comment s of None \<Rightarrow> [NL] | Some c \<Rightarrow> spaces (st_gap s) @ CHR ''#'' # c)"

definition put_value :: "string \<Rightarrow> setting \<Rightarrow> setting" where
  "put_value v s = s\<lparr>st_space := 1, st_value := v,
     st_gap := (let n = st_indent s + length (st_key s) + 2 + length v in if n < 35 then 35 - n else 2)\<rparr>"

definition good_setting :: "setting \<Rightarrow> bool" where
  "good_setting s \<longleftrightarrow> st_key s \<noteq> [] \<and> hd (st_key s) \<noteq> CHR '' '' \<and> st_value s \<noteq> [] \<and>
     hd (st_value s) \<notin> {CHR '':'', CHR '' '', CHR 0x09} \<and> CHR ''#'' \<notin> set (st_value s)"

lemma update_line_setting:
  assumes "good_setting s"
  shows "update_line (st_key s) v (render_setting s) = Some (render_setting (put_value v s))"
proof -
  let ?pre = "spaces (st_indent s) @ st_key s"
  let ?tail = "case st_comment s of None \<Rightarrow> [NL] | Some c \<Rightarrow> spaces (st_gap s) @ CHR ''#'' # c"
  obtain x xs where v: "st_value s = x # xs" using assms by (cases "st_value s") (auto simp: good_setting_def)
  have line: "render_setting s = ?pre @ (CHR '':'' # spaces (st_space s)) @ x # (xs @ ?tail)"
    by (simp add: render_setting_def v)
  have pos: "find_str (st_key s) (render_setting s) = Some (st_indent s)"
    unfolding render_setting_def by (rule find_str_indented) (use assms in \<open>simp_all add: good_setting_def\<close>)
  have vs: "find_first_not_of [CHR '':'', CHR '' '', CHR 0x09] (render_setting s) (length ?pre) =
      Some (length ?pre + length (CHR '':'' # spaces (st_space s)))"
    unfolding line by (rule find_first_not_of_at) (use assms in \<open>auto simp: good_setting_def v\<close>)
  let ?before = "?pre @ CHR '':'' # spaces (st_space s)"
  have cm: "find_char (CHR ''#'') (render_setting s) (length ?before) =
      (case st_comment s of None \<Rightarrow> None | Some c \<Rightarrow> Some (length ?before + length (st_value s) + st_gap s))"
  proof (cases "st_comment s")
    case None
    then have "render_setting s = ?before @ (st_value s @ [NL])" by (simp add: render_setting_def)
    moreover have "CHR ''#'' \<notin> set (st_value s @ [NL])" using assms by (simp add: good_setting_def)
    ultimately show ?thesis using None find_char_none [of "CHR ''#''" "st_value s @ [NL]" ?before] by simp
  next
    case (Some c)
    then have "render_setting s = ?before @ (st_value s @ spaces (st_gap s)) @ CHR ''#'' # c" by (simp add: render_setting_def)
    moreover have "CHR ''#'' \<notin> set (st_value s @ spaces (st_gap s))" using assms by (auto simp: good_setting_def)
    ultimately show ?thesis
      using Some find_char_at [of "CHR ''#''" "st_value s @ spaces (st_gap s)" ?before c] by (simp add: add.assoc)
  qed
  have d: "drop (length ?before + length (st_value s) + st_gap s) (render_setting s) = CHR ''#'' # c"
    if "st_comment s = Some c" for c
  proof -
    have "render_setting s = (?before @ st_value s @ spaces (st_gap s)) @ CHR ''#'' # c"
      by (simp add: render_setting_def that)
    then show ?thesis by (simp only: append_eq_conv_conj) simp
  qed
  have colon: "length (render_setting s) > length ?pre" "render_setting s ! length ?pre = CHR '':''"
    "take (st_indent s) (render_setting s) = spaces (st_indent s)"
    by (simp_all add: line nth_append)
  show ?thesis
    using pos vs cm d colon
    by (cases "st_comment s") (auto simp: update_line_def put_value_def render_setting_def [of "put_value _ _"] render_setting_def [of "s\<lparr>st_space := _, st_value := _, st_gap := _\<rparr>"] Let_def add.assoc numeral_2_eq_2)
qed

lemma update_line_other: "\<not> contains (k @ '':'') line \<Longrightarrow> update_line k v line = None"
proof (cases "find_str k line")
  case (Some pos)
  assume n: "\<not> contains (k @ '':'') line"
  obtain a b where l: "line = a @ k @ b" "length a = pos" using find_str_sound [OF Some] by blast
  have "b = [] \<or> hd b \<noteq> CHR '':''"
  proof (rule ccontr)
    assume "\<not> (b = [] \<or> hd b \<noteq> CHR '':'')"
    then obtain b' where "line = a @ (k @ '':'') @ b'" using l by (cases b) auto
    with n show False unfolding contains_iff by blast
  qed
  with l Some show ?thesis by (cases b) (auto simp: update_line_def nth_append)
qed (simp add: update_line_def)

section \<open>Files\<close>

datatype cfg_line = Marker upd_section string | Setting setting | Plain string

fun render_line :: "cfg_line \<Rightarrow> string" where
  "render_line (Marker sec t) = t"
| "render_line (Setting s) = render_setting s"
| "render_line (Plain t) = t"

text \<open>The keys a section may write.\<close>

definition section_keys :: "upd_section \<Rightarrow> string list" where
  "section_keys sec =
     (case sec of
        UDiscovery \<Rightarrow> [''target_device_start'', ''target_device_end'', ''whois_retry'', ''response_timeout_ms'']
      | ULocalDevice \<Rightarrow> [''instance_id'', ''max_apdu'']
      | UNetwork \<Rightarrow> [''interface'', ''port'', ''broadcast_address'']
      | UServices \<Rightarrow> [''read_timeout_ms'', ''write_timeout_ms'', ''default_priority'', ''cache_expiry_ms'',
          ''cache_strategy'', ''datalink_maintenance_ms'']
      | UConnection \<Rightarrow> [''max_reconnect_attempts'', ''reconnect_interval_ms'']
      | UHotConfig \<Rightarrow> [''polling_interval_ms'']
      | _ \<Rightarrow> [])"

definition mentions_no :: "string list \<Rightarrow> string \<Rightarrow> bool" where
  "mentions_no keys line \<longleftrightarrow> (\<forall>k \<in> set keys. \<not> contains (k @ '':'') line)"

text \<open>A setting after the update.\<close>

definition updated :: "bacnet_config \<Rightarrow> upd_section \<Rightarrow> setting \<Rightarrow> setting" where
  "updated cfg sec s =
     (case map_of (section_updates cfg sec) (st_key s) of None \<Rightarrow> s | Some v \<Rightarrow> put_value v s)"

text \<open>The lines are what they are taken for, and no key of the section hides in the rest of a line, before
  or after the update.\<close>

fun good_file :: "bacnet_config \<Rightarrow> upd_section \<Rightarrow> cfg_line list \<Rightarrow> bool" where
  "good_file cfg sec [] = True"
| "good_file cfg sec (Marker sec' t # ls) =
     (sec' \<noteq> UNone \<and> detect_section t UNone = sec' \<and> mentions_no (section_keys sec') t \<and> good_file cfg sec' ls)"
| "good_file cfg sec (Setting s # ls) =
     (detect_section (render_setting s) UNone = UNone \<and> good_setting s \<and>
      mentions_no (removeAll (st_key s) (section_keys sec)) (render_setting s) \<and>
      mentions_no (removeAll (st_key s) (section_keys sec)) (render_setting (updated cfg sec s)) \<and> good_file cfg sec ls)"
| "good_file cfg sec (Plain t # ls) =
     (detect_section t UNone = UNone \<and> mentions_no (section_keys sec) t \<and> good_file cfg sec ls)"

fun updated_file :: "bacnet_config \<Rightarrow> upd_section \<Rightarrow> cfg_line list \<Rightarrow> cfg_line list" where
  "updated_file cfg sec [] = []"
| "updated_file cfg sec (Marker sec' t # ls) = Marker sec' t # updated_file cfg sec' ls"
| "updated_file cfg sec (Setting s # ls) = Setting (updated cfg sec s) # updated_file cfg sec ls"
| "updated_file cfg sec (Plain t # ls) = Plain t # updated_file cfg sec ls"

section \<open>The updates of a line\<close>

lemma detect_section_other:
  "detect_section t cur = (if detect_section t UNone = UNone then cur else detect_section t UNone)"
  by (simp add: detect_section_def)

lemma subseq_updates:
  "subseq (map fst ([] :: (string \<times> string) list)) []"
  "subseq (map fst us) ks \<Longrightarrow> subseq (map fst (number_update k n @ us)) (k # ks)"
  "subseq (map fst us) ks \<Longrightarrow> subseq (map fst (text_update k t @ us)) (k # ks)"
  "subseq (map fst us) ks \<Longrightarrow> subseq (map fst ((k, v) # us)) (k # ks)"
  "subseq (map fst (number_update k n)) [k]" "subseq (map fst (text_update k t)) [k]"
  by (auto simp: number_update_def text_update_def)

lemma section_updates_subseq: "subseq (map fst (section_updates cfg sec)) (section_keys sec)"
  by (cases sec) (simp_all add: section_updates_def section_keys_def subseq_updates del: map_append list.map)

lemma distinct_section_keys: "distinct (section_keys sec)"
  by (cases sec) (simp_all add: section_keys_def)

lemma section_updates_keys:
  "set (map fst (section_updates cfg sec)) \<subseteq> set (section_keys sec)" "distinct (map fst (section_updates cfg sec))"
proof -
  obtain N where "map fst (section_updates cfg sec) = nths (section_keys sec) N"
    using section_updates_subseq [of cfg sec] by (metis subseq_conv_nths)
  then show "set (map fst (section_updates cfg sec)) \<subseteq> set (section_keys sec)"
    "distinct (map fst (section_updates cfg sec))"
    using distinct_section_keys [of sec] by (simp_all add: set_nths_subset distinct_nthsI del: set_map)
qed

lemma updates_skip:
  "\<forall>kv \<in> set us. \<not> contains (fst kv @ '':'') line \<Longrightarrow> foldl try_update line us = line"
  by (induction us) (auto simp: try_update_def update_line_other)

lemma updates_setting:
  assumes "good_setting s" "distinct (map fst us)"
    and "\<forall>kv \<in> set us. fst kv \<noteq> st_key s \<longrightarrow> \<not> contains (fst kv @ '':'') (render_setting s)"
    and "\<forall>kv \<in> set us. fst kv \<noteq> st_key s \<longrightarrow> (\<forall>v. map_of us (st_key s) = Some v \<longrightarrow>
           \<not> contains (fst kv @ '':'') (render_setting (put_value v s)))"
  shows "foldl try_update (render_setting s) us =
    render_setting (case map_of us (st_key s) of None \<Rightarrow> s | Some v \<Rightarrow> put_value v s)"
  using assms(2-4)
proof (induction us)
  case (Cons u us)
  obtain k v where u: "u = (k, v)" by fastforce
  show ?case
  proof (cases "k = st_key s")
    case True
    have "foldl try_update (render_setting (put_value v s)) us = render_setting (put_value v s)"
      by (rule updates_skip) (use Cons.prems True u in \<open>force\<close>)
    moreover have "try_update (render_setting s) u = render_setting (put_value v s)"
      using True u by (simp add: try_update_def update_line_setting [OF assms(1)])
    ultimately show ?thesis using True u by simp
  next
    case False
    with Cons.prems(2) u have "try_update (render_setting s) u = render_setting s"
      by (simp add: try_update_def update_line_other)
    with Cons False u show ?thesis by simp
  qed
qed simp

lemma update_lines_refines:
  "good_file cfg sec ls \<Longrightarrow> update_lines cfg sec (map render_line ls) = map render_line (updated_file cfg sec ls)"
proof (induction cfg sec ls rule: good_file.induct)
  case (2 cfg sec sec' t ls)
  then have "detect_section t sec = sec'" by (subst detect_section_other) simp
  moreover have "foldl try_update t (section_updates cfg sec') = t"
    using 2 section_updates_keys(1) [of cfg sec'] by (intro updates_skip) (auto simp: mentions_no_def)
  ultimately show ?case using 2 by simp
next
  case (3 cfg sec s ls)
  then have "detect_section (render_setting s) sec = sec" by (subst detect_section_other) simp
  moreover have "foldl try_update (render_setting s) (section_updates cfg sec) = render_setting (updated cfg sec s)"
    unfolding updated_def
    by (rule updates_setting)
       (use 3 section_updates_keys [of cfg sec] in \<open>auto simp: mentions_no_def updated_def\<close>)
  ultimately show ?case using 3 by simp
next
  case (4 cfg sec t ls)
  then have "detect_section t sec = sec" by (subst detect_section_other) simp
  moreover have "foldl try_update t (section_updates cfg sec) = t"
    using 4 section_updates_keys(1) [of cfg sec] by (intro updates_skip) (auto simp: mentions_no_def)
  ultimately show ?case using 4 by simp
qed simp

section \<open>Reading the lines\<close>

definition text_line :: "string \<Rightarrow> bool" where
  "text_line t \<longleftrightarrow> t \<noteq> [] \<and> last t = NL \<and> NL \<notin> set (butlast t) \<and> NUL \<notin> set t \<and> length t < LINE_BUFFER"

lemma fgets_lines_concat: "\<forall>t \<in> set ls. text_line t \<Longrightarrow> fgets_lines (concat ls) = ls"
proof (induction ls)
  case Nil
  show ?case by (simp add: fgets_lines.simps)
next
  case (Cons t ls)
  then have tl: "text_line t" by simp
  then have t: "t = butlast t @ [NL]" "NL \<notin> set (butlast t)" "length t < LINE_BUFFER"
    unfolding text_line_def by (metis append_butlast_last_id, simp, simp)
  have "concat (t # ls) = [] @ butlast t @ NL # concat ls" by (subst t(1)) simp
  then have "find_char NL (concat (t # ls)) 0 = Some (length (butlast t))"
    using find_char_at [OF t(2), of "[]" "concat ls"] by (simp only: list.size append_Nil add_0)
  moreover have "Suc (length (butlast t)) = length t" using tl by (cases t) (auto simp: text_line_def)
  moreover have "min (LINE_BUFFER - 1) (length t) = length t" using t(3) by simp
  ultimately show ?case
    using Cons t(1) by (subst fgets_lines.simps) (auto simp: Let_def)
qed

lemma cstr_text_line: "text_line t \<Longrightarrow> cstr t = t"
  by (simp add: text_line_def cstr_id)

section \<open>The update of a file\<close>


definition sample_setting :: "string \<Rightarrow> nat \<Rightarrow> setting" where
  "sample_setting v gap = \<lparr>st_indent = 2, st_key = ''read_timeout_ms'', st_space = 1, st_value = v, st_gap = gap,
     st_comment = Some ('' ms'' @ [NL])\<rparr>"

definition sample_file :: "cfg_line list" where
  "sample_file = [Plain (''protocols:'' @ [NL]), Marker UServices (''services:'' @ [NL]), Setting (sample_setting ''6000'' 3)]"

definition sample_io :: update_io where
  "sample_io = \<lparr>io_lock_open = True, io_flock = True, io_temp_open = True, io_room = 4096, io_rename = True\<rparr>"

definition sample_update :: bacnet_config where
  "sample_update = BACNET_CONFIG_INIT\<lparr>cf_read_timeout_ms := 8000\<rparr>"

fun starts :: "string \<Rightarrow> string \<Rightarrow> bool" where
  "starts [] s = True"
| "starts (a # as) [] = False"
| "starts (a # as) (c # cs) = (a = c \<and> starts as cs)"

lemma starts_take: "starts k s \<longleftrightarrow> take (length k) s = k"
  by (induction k s rule: starts.induct) auto

lemma contains_simps:
  "contains k [] \<longleftrightarrow> k = []" "contains k (c # cs) \<longleftrightarrow> starts k (c # cs) \<or> contains k cs"
  by (simp_all add: contains_def starts_take)

lemma sample_rendered:
  "render_setting (sample_setting ''6000'' 3) = ''  read_timeout_ms: 6000   # ms'' @ [NL]"
  "render_setting (sample_setting ''8000'' 12) = ''  read_timeout_ms: 8000            # ms'' @ [NL]"
  by (simp_all add: render_setting_def sample_setting_def eval_nat_numeral)

lemma sample_value: "value_u (8000 :: u32) = ''8000''"
  by (simp add: value_u_def dec_nat.simps digit_char_def char_of_def bit_0)

lemma sample_updates: "section_updates sample_update UServices = [(''read_timeout_ms'', ''8000''), (''cache_strategy'', value_u (0 :: u8))]"
  by (simp add: section_updates_def number_update_def sample_update_def BACNET_CONFIG_INIT_def sample_value)

lemma sample_updated: "updated sample_update UServices (sample_setting ''6000'' 3) = sample_setting ''8000'' 12"
  by (simp add: updated_def sample_updates) (simp add: sample_setting_def put_value_def)

lemma sample_sections:
  "detect_section (''protocols:'' @ [NL]) UNone = UNone" "detect_section (''services:'' @ [NL]) UNone = UServices"
  "detect_section (render_setting (sample_setting ''6000'' 3)) UNone = UNone"
  by (simp_all add: detect_section_def contains_simps sample_rendered)

lemma sample_keys:
  "mentions_no (section_keys UServices) (''services:'' @ [NL])"
  "mentions_no (removeAll ''read_timeout_ms'' (section_keys UServices)) (render_setting (sample_setting ''6000'' 3))"
  "mentions_no (removeAll ''read_timeout_ms'' (section_keys UServices)) (render_setting (sample_setting ''8000'' 12))"
  by (simp_all add: mentions_no_def section_keys_def contains_simps sample_rendered)


end
