(* ===== verification/Bacnet_Config_Readback.thy ===== *)
theory Bacnet_Config_Readback
  imports Bacnet_Config_Rewrite
begin

text \<open>
  What the loader reads from the values an update writes, and the settings an update changes without being
  asked to. A scalar is read as YAML defines it: a plain scalar is itself, a quoted one (without escapes)
  is the text between the quotes.
\<close>

section \<open>Numbers and texts\<close>

lemma word_of_to_int32:
  assumes "LENGTH('a::len) \<le> 32"
  shows "(word_of_int (to_int32 x) :: 'a word) = word_of_int x"
proof -
  have "2 ^ LENGTH('a) dvd (2 ^ 32 :: int)" by (rule le_imp_power_dvd [OF assms])
  moreover have "(2 :: int) ^ 32 dvd x - to_int32 x"
    by (simp add: to_int32_def mod_eq_dvd_iff [symmetric] algebra_simps minus_mod_eq_mult_div [symmetric])
  ultimately have "2 ^ LENGTH('a) dvd x - to_int32 x" by (rule dvd_trans)
  then have "x mod 2 ^ LENGTH('a) = to_int32 x mod 2 ^ LENGTH('a)" by (simp only: mod_eq_dvd_iff)
  then show ?thesis by (simp add: word_of_int_eq_iff take_bit_eq_mod)
qed

lemma value_u_reads_back:
  fixes n :: "'a::len word"
  assumes "LENGTH('a) \<le> 32"
  shows "word_of_int (atoi (value_u n)) = n" "value_u n \<noteq> []" "hd (value_u n) \<noteq> CHR 0x22"
proof -
  have b: "unat n < 2 ^ 32"
    using unsigned_less [of n, where 'a = nat] power_increasing [OF assms, of "2 :: nat"] by linarith
  have u: "uint n < 2 ^ 32"
    using unsigned_less [of n, where 'a = int] power_increasing [OF assms, of "2 :: int"] by linarith
  have "length (dec_nat (unat n)) \<le> 10" by (rule length_dec_nat) (use b in simp_all)
  then have v: "value_u n = dec_int (int (unat n))" by (simp add: value_u_def dec_int_def)
  have "atoi (value_u n) = to_int32 (int (unat n))"
    unfolding v atoi_def by (subst strtol10_dec_int) (use u order.trans [of "- 9223372036854775808", OF _ uint_ge_0 [of n]] in \<open>simp_all add: LONG_MIN_def LONG_MAX_def\<close>)
  then show "word_of_int (atoi (value_u n)) = n"
    by (simp add: word_of_to_int32 [OF assms])
  show "value_u n \<noteq> []" by (simp add: value_u_def)
  have "isdigit (hd (value_u n))" using hd_dec_nat [of "unat n"] by (simp add: value_u_def)
  then show "hd (value_u n) \<noteq> CHR 0x22" using isdigit_ascii(5) by blast
qed

definition scalar_of :: "string \<Rightarrow> string" where
  "scalar_of v = (if v \<noteq> [] \<and> hd v = CHR 0x22 then butlast (tl v) else v)"

text \<open>A text the configuration can hold, without quotes or escapes.\<close>

definition plain_text :: "nat \<Rightarrow> string \<Rightarrow> bool" where
  "plain_text n s \<longleftrightarrow> length s < n \<and> NUL \<notin> set s \<and> CHR 0x22 \<notin> set s \<and> CHR 0x5C \<notin> set s"

lemma scalar_of_number: "LENGTH('a::len) \<le> 32 \<Longrightarrow> scalar_of (value_u (n :: 'a word)) = value_u n"
  using value_u_reads_back(3) [of n] by (simp add: scalar_of_def)

lemma scalar_of_quoted: "plain_text m s \<Longrightarrow> m \<le> 200 \<Longrightarrow> copy_str m (scalar_of (value_quoted s)) = s"
proof -
  assume p: "plain_text m s" and m: "m \<le> 200"
  have "value_quoted s = CHR 0x22 # s @ [CHR 0x22]"
    unfolding value_quoted_def by (subst take_all) (use p m in \<open>simp_all add: plain_text_def cstr_id\<close>)
  with p show ?thesis by (simp add: scalar_of_def plain_text_def copy_str_id)
qed

section \<open>Reading the written values\<close>

fun loader_section :: "upd_section \<Rightarrow> cfg_section" where
  "loader_section UNone = Root" | "loader_section UBacnet = Bacnet" | "loader_section UDiscovery = Discovery"
| "loader_section ULocalDevice = LocalDevice" | "loader_section UNetwork = Network"
| "loader_section UServices = Services" | "loader_section UConnection = Connection"
| "loader_section UHotConfig = HotConfig"

definition read_back :: "bacnet_config \<Rightarrow> bacnet_config \<Rightarrow> upd_section \<Rightarrow> bacnet_config" where
  "read_back cfg d sec =
     foldl (\<lambda>d (k, v). set_field (loader_section sec) k (scalar_of v) d) d (section_updates cfg sec)"

definition given :: "'a::len word \<Rightarrow> 'a word \<Rightarrow> 'a word" where
  "given new old = (if new = 0 then old else new)"

definition given_text :: "string \<Rightarrow> string \<Rightarrow> string" where
  "given_text new old = (if new = [] then old else new)"

text \<open>The configuration after an update, as the update is asked for: what is given, on top of what was there.
  The MS/TP fields and the switch of the monitor are never written; the cache strategy always is.\<close>

definition merged :: "bacnet_config \<Rightarrow> bacnet_config \<Rightarrow> bacnet_config" where
  "merged cfg d = d
     \<lparr>cf_target_device_start := given (cf_target_device_start cfg) (cf_target_device_start d),
      cf_target_device_end := given (cf_target_device_end cfg) (cf_target_device_end d),
      cf_whois_retry := given (cf_whois_retry cfg) (cf_whois_retry d),
      cf_response_timeout_ms := given (cf_response_timeout_ms cfg) (cf_response_timeout_ms d),
      cf_local_instance_id := given (cf_local_instance_id cfg) (cf_local_instance_id d),
      cf_local_max_apdu := given (cf_local_max_apdu cfg) (cf_local_max_apdu d),
      cf_interface_name := given_text (cf_interface_name cfg) (cf_interface_name d),
      cf_port := given (cf_port cfg) (cf_port d),
      cf_broadcast_address := given_text (cf_broadcast_address cfg) (cf_broadcast_address d),
      cf_read_timeout_ms := given (cf_read_timeout_ms cfg) (cf_read_timeout_ms d),
      cf_write_timeout_ms := given (cf_write_timeout_ms cfg) (cf_write_timeout_ms d),
      cf_default_priority := given (cf_default_priority cfg) (cf_default_priority d),
      cf_cache_expiry_ms := given (cf_cache_expiry_ms cfg) (cf_cache_expiry_ms d),
      cf_cache_strategy := cf_cache_strategy cfg,
      cf_datalink_maintenance_ms := given (cf_datalink_maintenance_ms cfg) (cf_datalink_maintenance_ms d),
      cf_max_reconnect_attempts := given (cf_max_reconnect_attempts cfg) (cf_max_reconnect_attempts d),
      cf_reconnect_interval_ms := given (cf_reconnect_interval_ms cfg) (cf_reconnect_interval_ms d),
      cf_hot_config_polling_ms := given (cf_hot_config_polling_ms cfg) (cf_hot_config_polling_ms d)\<rparr>"

text \<open>One update of one field.\<close>

lemma read_number:
  fixes n :: "'a::len word"
  assumes "\<And>v d. set_field sec key v d = upd (word_of_int (atoi v)) d" "LENGTH('a) \<le> 32"
    and "\<And>d. upd (get d) d = d"
  shows "foldl (\<lambda>d (k, v). set_field sec k (scalar_of v) d) d (number_update key n) = upd (given n (get d)) d"
  using assms(1,3) value_u_reads_back [OF assms(2), of n] scalar_of_number [OF assms(2), of n]
  by (simp add: number_update_def given_def word_neq_0_conv)

lemma read_number_default:
  fixes n dflt :: "'a::len word"
  assumes "\<And>v d. set_field sec key v d = upd (or_default (word_of_int (atoi v)) dflt) d" "LENGTH('a) \<le> 32"
    and "\<And>d. upd (get d) d = d"
  shows "foldl (\<lambda>d (k, v). set_field sec k (scalar_of v) d) d (number_update key n) = upd (given n (get d)) d"
  using assms(1,3) value_u_reads_back [OF assms(2), of n] scalar_of_number [OF assms(2), of n]
  by (simp add: number_update_def given_def or_default_def word_neq_0_conv)

lemma read_text:
  assumes "\<And>v d. set_field sec key v d = upd (copy_str m v) d" "plain_text m t" "m \<le> 200"
    and "\<And>d. upd (get d) d = d"
  shows "foldl (\<lambda>d (k, v). set_field sec k (scalar_of v) d) d (text_update key t) = upd (given_text t (get d)) d"
proof -
  have "cstr t = t" using assms(2) by (simp add: plain_text_def cstr_id)
  then show ?thesis
    using assms(1,4) scalar_of_quoted [OF assms(2,3)] by (simp add: text_update_def given_text_def)
qed

text \<open>The keys of the fields.\<close>

lemma field_keys:
  "set_field Discovery ''target_device_start'' v d = d\<lparr>cf_target_device_start := word_of_int (atoi v)\<rparr>"
  "set_field Discovery ''target_device_end'' v d = d\<lparr>cf_target_device_end := word_of_int (atoi v)\<rparr>"
  "set_field Discovery ''whois_retry'' v d = d\<lparr>cf_whois_retry := word_of_int (atoi v)\<rparr>"
  "set_field Discovery ''response_timeout_ms'' v d = d\<lparr>cf_response_timeout_ms := word_of_int (atoi v)\<rparr>"
  "set_field LocalDevice ''instance_id'' v d = d\<lparr>cf_local_instance_id := word_of_int (atoi v)\<rparr>"
  "set_field LocalDevice ''max_apdu'' v d = d\<lparr>cf_local_max_apdu := word_of_int (atoi v)\<rparr>"
  "set_field Network ''interface'' v d = d\<lparr>cf_interface_name := copy_str BACNET_MAX_INTERFACE_LEN v\<rparr>"
  "set_field Network ''port'' v d = d\<lparr>cf_port := word_of_int (atoi v)\<rparr>"
  "set_field Network ''broadcast_address'' v d = d\<lparr>cf_broadcast_address := copy_str BACNET_MAX_ADDRESS_LEN v\<rparr>"
  "set_field Services ''read_timeout_ms'' v d = d\<lparr>cf_read_timeout_ms := or_default (word_of_int (atoi v)) kReadTimeoutMs\<rparr>"
  "set_field Services ''write_timeout_ms'' v d = d\<lparr>cf_write_timeout_ms := or_default (word_of_int (atoi v)) kWriteTimeoutMs\<rparr>"
  "set_field Services ''default_priority'' v d = d\<lparr>cf_default_priority := or_default (word_of_int (atoi v)) kDefaultPriority\<rparr>"
  "set_field Services ''cache_expiry_ms'' v d = d\<lparr>cf_cache_expiry_ms := word_of_int (atoi v)\<rparr>"
  "set_field Services ''datalink_maintenance_ms'' v d = d\<lparr>cf_datalink_maintenance_ms := or_default (word_of_int (atoi v)) kDatalinkMaintenanceMs\<rparr>"
  "set_field Connection ''max_reconnect_attempts'' v d = d\<lparr>cf_max_reconnect_attempts := or_default (word_of_int (atoi v)) kMaxReconnectAttempts\<rparr>"
  "set_field Connection ''reconnect_interval_ms'' v d = d\<lparr>cf_reconnect_interval_ms := or_default (word_of_int (atoi v)) kReconnectIntervalMs\<rparr>"
  "set_field HotConfig ''polling_interval_ms'' v d = d\<lparr>cf_hot_config_polling_ms := or_default (word_of_int (atoi v)) kHotConfigPollingIntervalMs\<rparr>"
  by (simp_all add: set_field_def)

lemmas read_fields =
  read_number [where upd = "\<lambda>x d. d\<lparr>cf_target_device_start := x\<rparr>" and get = cf_target_device_start, OF field_keys(1)]
  read_number [where upd = "\<lambda>x d. d\<lparr>cf_target_device_end := x\<rparr>" and get = cf_target_device_end, OF field_keys(2)]
  read_number [where upd = "\<lambda>x d. d\<lparr>cf_whois_retry := x\<rparr>" and get = cf_whois_retry, OF field_keys(3)]
  read_number [where upd = "\<lambda>x d. d\<lparr>cf_response_timeout_ms := x\<rparr>" and get = cf_response_timeout_ms, OF field_keys(4)]
  read_number [where upd = "\<lambda>x d. d\<lparr>cf_local_instance_id := x\<rparr>" and get = cf_local_instance_id, OF field_keys(5)]
  read_number [where upd = "\<lambda>x d. d\<lparr>cf_local_max_apdu := x\<rparr>" and get = cf_local_max_apdu, OF field_keys(6)]
  read_text [where upd = "\<lambda>x d. d\<lparr>cf_interface_name := x\<rparr>" and get = cf_interface_name and m = BACNET_MAX_INTERFACE_LEN, OF field_keys(7)]
  read_number [where upd = "\<lambda>x d. d\<lparr>cf_port := x\<rparr>" and get = cf_port, OF field_keys(8)]
  read_text [where upd = "\<lambda>x d. d\<lparr>cf_broadcast_address := x\<rparr>" and get = cf_broadcast_address and m = BACNET_MAX_ADDRESS_LEN, OF field_keys(9)]
  read_number_default [where upd = "\<lambda>x d. d\<lparr>cf_read_timeout_ms := x\<rparr>" and get = cf_read_timeout_ms and dflt = kReadTimeoutMs, OF field_keys(10)]
  read_number_default [where upd = "\<lambda>x d. d\<lparr>cf_write_timeout_ms := x\<rparr>" and get = cf_write_timeout_ms and dflt = kWriteTimeoutMs, OF field_keys(11)]
  read_number_default [where upd = "\<lambda>x d. d\<lparr>cf_default_priority := x\<rparr>" and get = cf_default_priority and dflt = kDefaultPriority, OF field_keys(12)]
  read_number [where upd = "\<lambda>x d. d\<lparr>cf_cache_expiry_ms := x\<rparr>" and get = cf_cache_expiry_ms, OF field_keys(13)]
  read_number_default [where upd = "\<lambda>x d. d\<lparr>cf_datalink_maintenance_ms := x\<rparr>" and get = cf_datalink_maintenance_ms and dflt = kDatalinkMaintenanceMs, OF field_keys(14)]
  read_number_default [where upd = "\<lambda>x d. d\<lparr>cf_max_reconnect_attempts := x\<rparr>" and get = cf_max_reconnect_attempts and dflt = kMaxReconnectAttempts, OF field_keys(15)]
  read_number_default [where upd = "\<lambda>x d. d\<lparr>cf_reconnect_interval_ms := x\<rparr>" and get = cf_reconnect_interval_ms and dflt = kReconnectIntervalMs, OF field_keys(16)]
  read_number_default [where upd = "\<lambda>x d. d\<lparr>cf_hot_config_polling_ms := x\<rparr>" and get = cf_hot_config_polling_ms and dflt = kHotConfigPollingIntervalMs, OF field_keys(17)]

lemma strategy_reads_back:
  "foldl (\<lambda>d (k, v). set_field Services k (scalar_of v) d) d [(''cache_strategy'', value_u (n :: u8))] =
    d\<lparr>cf_cache_strategy := n\<rparr>"
  using value_u_reads_back(1) [of n] scalar_of_number [of n] by (simp add: set_field_def)

lemma reading_lines:
  "foldl f d (us @ vs) = foldl f (foldl f d us) vs" "foldl f d [] = d"
  by simp_all



section \<open>The port of the serial line\<close>

text \<open>The setting of the shipped file.\<close>

definition mstp_line :: string where "mstp_line = ''mstp:'' @ [NL]"

definition mstp_port_setting :: setting where
  "mstp_port_setting = \<lparr>st_indent = 2, st_key = ''port'', st_space = 1,
     st_value = CHR 0x22 # ''/dev/ttyUSB0'' @ [CHR 0x22], st_gap = 0, st_comment = None\<rparr>"

lemma mstp_lines_good:
  assumes "cf_port cfg \<noteq> 0"
  shows "good_file cfg UNetwork [Plain mstp_line, Setting mstp_port_setting]"
    "updated cfg UNetwork mstp_port_setting = put_value (value_u (cf_port cfg)) mstp_port_setting"
proof -
  show u: "updated cfg UNetwork mstp_port_setting = put_value (value_u (cf_port cfg)) mstp_port_setting"
    using assms by (simp add: updated_def section_updates_def text_update_def number_update_def mstp_port_setting_def word_neq_0_conv)
  have r: "render_setting mstp_port_setting = ''  port: '' @ CHR 0x22 # ''/dev/ttyUSB0'' @ [CHR 0x22, NL]"
    "render_setting (put_value v mstp_port_setting) = ''  port: '' @ v @ [NL]" for v
    by (simp_all add: render_setting_def mstp_port_setting_def put_value_def eval_nat_numeral)
  have c: "contains k t \<Longrightarrow> set k \<subseteq> set t" for k t by (auto simp: contains_iff)
  have d: "CHR ''c'' \<notin> set (value_u (cf_port cfg))"
    using dec_nat_digits by (force simp: value_u_def isdigit_def dest: in_set_takeD)
  have "mentions_no [''interface'', ''broadcast_address''] (''  port: '' @ value_u (cf_port cfg) @ [NL])"
    using d c [of "''interface:''" "''  port: '' @ value_u (cf_port cfg) @ [NL]"]
      c [of "''broadcast_address:''" "''  port: '' @ value_u (cf_port cfg) @ [NL]"] by (auto simp: mentions_no_def)
  moreover have "mentions_no [''interface'', ''broadcast_address''] (render_setting mstp_port_setting)"
    by (simp add: mentions_no_def r contains_simps)
  moreover have "mentions_no [''interface'', ''port'', ''broadcast_address''] mstp_line"
    by (simp add: mentions_no_def mstp_line_def contains_simps)
  moreover have "good_setting mstp_port_setting" "st_key mstp_port_setting = ''port''"
    by (simp_all add: good_setting_def mstp_port_setting_def)
  moreover have "detect_section mstp_line UNone = UNone" "detect_section (render_setting mstp_port_setting) UNone = UNone"
    by (simp_all add: detect_section_def mstp_line_def r contains_simps)
  ultimately show "good_file cfg UNetwork [Plain mstp_line, Setting mstp_port_setting]"
    by (simp add: section_keys_def u r)
qed

text \<open>An update of the BACnet/IP port also replaces the port of the serial line: the update does not know the
  section of MS/TP and takes its lines for lines of the network. The next load reads the number of the UDP
  port as the path of the serial device.\<close>

theorem port_update_overwrites_serial_port:
  assumes "cf_port cfg \<noteq> 0"
  shows "update_lines cfg UNetwork [mstp_line, render_setting mstp_port_setting] =
      [mstp_line, render_setting (put_value (value_u (cf_port cfg)) mstp_port_setting)] \<and>
    cf_mstp_port (set_field MSTP ''port'' (scalar_of (value_u (cf_port cfg))) d) = dec_nat (unat (cf_port cfg))"
proof -
  have "unat (cf_port cfg) < 10 ^ 5" using unsigned_less [of "cf_port cfg", where 'a = nat] by simp
  then have "length (dec_nat (unat (cf_port cfg))) \<le> 5" by (rule length_dec_nat) simp
  moreover have "NUL \<notin> set (dec_nat (unat (cf_port cfg)))" using dec_nat_digits isdigit_ascii(1) by blast
  ultimately have "copy_str BACNET_MAX_INTERFACE_LEN (value_u (cf_port cfg)) = dec_nat (unat (cf_port cfg))"
    by (simp add: value_u_def copy_str_id code_consts)
  then show ?thesis
    using update_lines_refines [OF mstp_lines_good(1) [OF assms]] mstp_lines_good(2) [OF assms]
    by (simp add: set_field_def scalar_of_number)
qed

theorem port_update_overwrites_serial_port_witness:
  "cf_mstp_port (set_field MSTP ''port'' (scalar_of (value_u (cf_port bacnet_config_defaults))) bacnet_config_defaults) =
     dec_nat 47808"
  using conjunct2 [OF port_update_overwrites_serial_port [of bacnet_config_defaults]]
  by (simp add: bacnet_config_defaults_def code_consts)

end
