(* ===== verification/Bacnet_Cache.thy ===== *)
theory Bacnet_Cache
  imports Bacnet_Properties
begin

text \<open>
  The values in the cache: along every run, whatever packets arrive, a cached string points to a block of
  its own length, and what a read hands out is that same pointer.
\<close>

section \<open>Typed values\<close>

text \<open>A value whose block, if it has one, is live and has the length the value says.\<close>

definition value_typed :: "heap \<Rightarrow> data_value \<Rightarrow> bool" where
  "value_typed h v \<longleftrightarrow>
     (case v of
        DOctetString (Some a) n \<Rightarrow> (\<exists>b. blocks h a = Some b \<and> length b = n)
      | DCharacterString (Some a) n \<Rightarrow> (\<exists>b. blocks h a = Some (b @ [NUL]) \<and> length b = n)
      | _ \<Rightarrow> True)"

definition heap_fresh :: "heap \<Rightarrow> bool" where
  "heap_fresh h \<longleftrightarrow> (\<forall>a. next_block h \<le> a \<longrightarrow> blocks h a = None)"

definition cache_typed :: "'l bctx \<Rightarrow> bool" where
  "cache_typed c \<longleftrightarrow> heap_fresh (bc_heap c) \<and>
     (\<forall>k st. map_of (object_states c) k = Some st \<longrightarrow> value_typed (bc_heap c) (cached_value st))"

lemma heap_alloc_typed:
  assumes "heap_alloc b h = (a, h')" "heap_fresh h"
  shows "heap_fresh h'" "value_typed h v \<Longrightarrow> value_typed h' v" "blocks h' a = Some b"
  using assms
  by (auto simp: heap_alloc_def heap_fresh_def value_typed_def split: data_value.splits option.splits)

lemma store_application_value_typed:
  assumes "store_application_value lib av out h = (rc, v, h')" "heap_fresh h" "value_typed h out"
  shows "heap_fresh h'" "value_typed h' v" "value_typed h w \<Longrightarrow> value_typed h' w"
  using assms heap_alloc_typed
  by (auto simp: store_application_value_def value_typed_def [of _ "DOctetString _ _"] value_typed_def [of _ "DCharacterString _ _"]
      value_typed_def [of _ DNull] value_typed_def [of _ "DBoolean _"] value_typed_def [of _ "DUnsigned _"]
      value_typed_def [of _ "DSigned _"] value_typed_def [of _ "DReal _"] value_typed_def [of _ "DDouble _"]
      value_typed_def [of _ "DEnum _"]
      split: app_value.splits if_splits prod.splits)

section \<open>The operations keep the cache typed\<close>

lemma cache_typed_update:
  assumes "cache_typed c" "value_typed (bc_heap c) (cached_value st)"
  shows "cache_typed (c\<lparr>object_states := AList.update k st (object_states c)\<rparr>)"
  using assms by (auto simp: cache_typed_def update_conv')

lemma cache_typed_frame:
  "object_states c' = object_states c \<Longrightarrow> bc_heap c' = bc_heap c \<Longrightarrow> cache_typed c' = cache_typed c"
  by (simp add: cache_typed_def)

lemma tsm_free_typed [simp]: "cache_typed (tsm_free lib i c) = cache_typed c"
  by (rule cache_typed_frame) simp_all

lemma free_if_valid_typed [simp]: "cache_typed (free_if_valid lib i c) = cache_typed c"
  by (simp add: free_if_valid_def)

lemma table_updates_typed [simp]:
  "cache_typed (c\<lparr>invoke_id_to_key := m\<rparr>) = cache_typed c"
  "cache_typed (c\<lparr>write_pending_map := wp\<rparr>) = cache_typed c"
  "cache_typed (c\<lparr>device_address_to_id := d\<rparr>) = cache_typed c"
  "cache_typed (c\<lparr>stack := l\<rparr>) = cache_typed c"
  by (simp_all add: cache_typed_def)

lemma cached_value_typed:
  "cache_typed c \<Longrightarrow> map_of (object_states c) k = Some st \<Longrightarrow> value_typed (bc_heap c) (cached_value st)"
  by (simp add: cache_typed_def)

lemma fail_object_typed: "cache_typed c \<Longrightarrow> cache_typed (fail_object k s c)"
  by (auto simp: fail_object_def cached_value_typed intro!: cache_typed_update split: option.splits)

lemma store_in_cache_typed:
  assumes "cache_typed c" "map_of (object_states c) k = Some st" "store_in_cache lib now av st (bc_heap c) = (st', h)"
    and "object_states c' = AList.update k st' (object_states c)" "bc_heap c' = h"
  shows "cache_typed c'"
proof -
  obtain rc v where s: "store_application_value (sl_value_lib lib) av (cached_value st) (bc_heap c) = (rc, v, h)"
    "cached_value st' = v"
    using assms(3) by (cases "store_application_value (sl_value_lib lib) av (cached_value st) (bc_heap c)")
      (auto simp: store_in_cache_def Let_def split: if_splits)
  note t = store_application_value_typed [OF s(1) _ cached_value_typed [OF assms(1,2)]]
  show ?thesis using assms(1,4,5) s(2) t by (auto simp: cache_typed_def update_conv')
qed

lemma read_ack_typed:
  "cache_typed c \<Longrightarrow> cache_typed (handle_read_property_ack lib now d src i c)"
  by (auto simp: handle_read_property_ack_def Let_def split: option.splits prod.splits intro: store_in_cache_typed)

lemma npdu_handler_typed:
  assumes "cache_typed c"
  shows "cache_typed (npdu_handler lib now p c)"
proof -
  have f: "cache_typed (fail_object k s (c\<lparr>invoke_id_to_key := m\<rparr>))" for k s m
    by (rule fail_object_typed) (simp add: assms)
  have t: "cache_typed (c\<lparr>stack := l, device_address_to_id := d, target_found := b\<rparr>)" for l d b
    using assms by (simp add: cache_typed_def)
  show ?thesis
    using assms f t read_ack_typed [OF assms]
    by (cases p) (auto simp: npdu_handler_def handle_iam_callback_def handle_write_property_ack_def
        handle_error_response_def handle_abort_response_def handle_reject_response_def split: option.splits)
qed

lemma read_object_typed:
  assumes "read_object lib now r c = (rc, out, c')" "cache_typed c"
  shows "cache_typed c'"
proof -
  consider "c' = c" | "send_read lib now r c = (rc, out, c')"
    using assms(1) by (auto simp: read_object_def split: option.splits if_splits)
  then show ?thesis
  proof cases
    case 2
    then show ?thesis
    proof (cases rule: send_read_cases)
      case Refused
      with assms(2) show ?thesis by simp
    next
      case Unsent
      with assms(2) show ?thesis by (simp add: cache_typed_def same_requests_def)
    next
      case (Sent i st)
      have "value_typed (bc_heap c) (cached_value st)"
      proof (cases "map_of (object_states c) (read_key r)")
        case None
        with Sent show ?thesis by (simp add: object_state_zero_def value_typed_def)
      next
        case (Some st0)
        with Sent cached_value_typed [OF assms(2) Some] show ?thesis by simp
      qed
      with Sent assms(2) show ?thesis by (auto simp: cache_typed_def update_conv')
    qed
  qed (use assms(2) in simp)
qed

lemma clean_read_typed: "cache_typed c \<Longrightarrow> cache_typed (clean_read lib now c e)"
  by (auto simp: clean_read_def Let_def cached_value_typed intro!: cache_typed_update split: prod.splits option.splits)

lemma clean_write_typed: "cache_typed c \<Longrightarrow> cache_typed (clean_write lib now c e)"
  by (auto simp: clean_write_def split: prod.splits)

interpretation cr: stepwise_invariant "clean_read lib now" cache_typed for lib now
  by unfold_locales (rule clean_read_typed)

interpretation cw: stepwise_invariant "clean_write lib now" cache_typed for lib now
  by unfold_locales (rule clean_write_typed)

lemma cleanup_typed: "cache_typed c \<Longrightarrow> cache_typed (cleanup_stale_requests lib now c)"
  by (simp add: cleanup_stale_requests_def Let_def cr.run_inv cw.run_inv)

lemma write_typed:
  assumes "execute_write_property lib now (Some c) (Some r) = Some (rc, out, Some c')" "cache_typed c"
  shows "cache_typed c'"
  using assms(1)
proof (cases rule: execute_write_property_cases)
  case Refused
  with assms(2) show ?thesis by simp
next
  case (Unsent c2)
  with assms(2) show ?thesis by (simp add: cache_typed_def same_requests_def)
next
  case (Sent c2 i item)
  with assms(2) show ?thesis by (simp add: cache_typed_def)
qed

lemma bstep_typed: "bstep lib good c c' \<Longrightarrow> cache_typed c \<Longrightarrow> cache_typed c'"
proof (induction rule: bstep.induct)
  case (Flags c c')
  then show ?case by (simp add: cache_typed_def same_but_flags_def same_requests_def)
qed (simp_all add: read_object_typed write_typed npdu_handler_typed cleanup_typed)

section \<open>What a read hands out\<close>

lemma read_object_out:
  assumes "read_object lib now r c = (rc, Some v, c')"
  obtains st where "map_of (object_states c') (read_key r) = Some st" "cached_value st = v"
proof -
  consider st where "map_of (object_states c) (read_key r) = Some st" "c' = c" "cached_value st = v"
    | "send_read lib now r c = (rc, Some v, c')"
    using assms by (auto simp: read_object_def out_value_def split: option.splits if_splits)
  then show thesis
  proof cases
    case 2
    then show thesis by (cases rule: send_read_cases) (auto simp: update_conv' intro: that split: if_splits)
  qed (auto intro: that)
qed

text \<open>Along every run of a connected driver that began with empty tables, whatever packets arrive, the cache
  is well typed: a cached string points to a live block that has exactly the length the value says (and a
  final NUL, for a text). So every value a read hands out can be read back.\<close>

theorem cache_is_well_typed:
  assumes "object_states c0 = []" "heap_fresh (bc_heap c0)" "bsteps lib c0 c"
    and "read_object lib now r c = (rc, Some v, c')"
  shows "cache_typed c' \<and> value_typed (bc_heap c') v"
proof -
  have "cache_typed c"
    using assms(3)
  proof (induction rule: rtranclp_induct)
    case base
    show ?case using assms(1,2) by (simp add: cache_typed_def)
  qed (rule bstep_typed)
  note t = read_object_typed [OF assms(4) this]
  from read_object_out [OF assms(4)] t show ?thesis by (metis cache_typed_def)
qed

text \<open>The text \<open>on\<close> arrives for the sample request.\<close>

definition sample_text :: "u8 list bctx" where
  "sample_text = npdu_handler sample_stack 20100 (ReadAck (Some (Some (ACharacterString ''on''))) address_zero 1) sample_sent"

definition sample_text_entry :: object_state where
  "sample_text_entry = sample_entry\<lparr>active_invoke_id := 0, st_status := PROTO_SUCCESS,
     cached_value := DCharacterString (Some 1) 2, has_valid_cache := True, st_timestamp := 20100\<rparr>"

lemma sample_sent_heap: "bc_heap sample_sent = \<lparr>blocks = Map.empty, next_block = 1\<rparr>"
    "device_address_to_id sample_sent = []"
  by (simp_all add: sample_simps Let_def code_consts split: prod.splits)

lemma sample_text_tables:
  "object_states sample_text = [(read_key sample_read, sample_text_entry)]"
  "bc_heap sample_text = \<lparr>blocks = [1 \<mapsto> ''on'' @ [NUL]], next_block = 2\<rparr>"
  "bc_cache_strategy sample_text = Conservative" "bc_cache_expiry_ms sample_text = 1000"
  by (simp_all add: sample_text_def npdu_handler_def handle_read_property_ack_def sample_sent_tables sample_sent_heap
      device_index_def store_in_cache_def store_application_value_def sample_stack_def sample_value_lib_def
      heap_alloc_def tsm_free_def Let_def code_consts sample_text_entry_def)

lemma sample_text_hit: "cache_hit 20200 sample_text sample_text_entry"
  by (simp add: cache_hit_def sample_text_tables sample_text_entry_def)

lemma sample_text_read:
  "read_object sample_stack 20200 sample_read sample_text = (PROTO_SUCCESS, Some (DCharacterString (Some 1) 2), sample_text)"
  using sample_text_hit by (simp add: read_object_def sample_text_tables out_value_def) (simp add: sample_text_entry_def)

lemma sample_text_reached: "bsteps sample_stack sample_ctx sample_text"
proof -
  have "bsteps sample_stack sample_ctx sample_sent"
    by (rule r_into_rtranclp, rule bstep.Read [OF sample_sent_tables(1)])
  then show ?thesis unfolding sample_text_def by (rule packet_steps)
qed

theorem cache_is_well_typed_witness:
  "cache_typed sample_text \<and> value_typed (bc_heap sample_text) (DCharacterString (Some 1) 2)"
  by (rule cache_is_well_typed [OF _ _ sample_text_reached sample_text_read])
     (simp_all add: sample_ctx_def bctx_start_def heap_fresh_def)

section \<open>Releasing a value\<close>

text \<open>C39: A string that was read is the string in the cache: a caller that releases it, as the header
  asks, leaves the cache with the freed block. The next read that hits the cache hands out the same pointer, and
  releasing that value frees the block a second time.\<close>

theorem released_value_is_handed_out_again:
  assumes "map_of (object_states c) (read_key r) = Some st" "cache_hit now c st" "rq_value r"
    and "bacnet_data_value_free (cached_value st) (bc_heap c) = Some (v, h)" "v \<noteq> cached_value st"
  shows "read_object lib now r (c\<lparr>bc_heap := h\<rparr>) = (PROTO_SUCCESS, Some (cached_value st), c\<lparr>bc_heap := h\<rparr>) \<and>
    \<not> value_typed h (cached_value st) \<and> bacnet_data_value_free (cached_value st) h = None"
proof -
  have "cache_hit now (c\<lparr>bc_heap := h\<rparr>) st" using assms(2) by (simp add: cache_hit_def)
  moreover have "\<not> value_typed h (cached_value st) \<and> bacnet_data_value_free (cached_value st) h = None"
    using assms(4,5)
    by (auto simp: bacnet_data_value_free_def heap_free_def value_typed_def split: data_value.splits option.splits if_splits)
  ultimately show ?thesis using assms(1,3) by (simp add: read_object_def out_value_def)
qed

theorem released_value_is_handed_out_again_witness:
  "read_object sample_stack 20200 sample_read (sample_text\<lparr>bc_heap := \<lparr>blocks = Map.empty, next_block = 2\<rparr>\<rparr>) =
      (PROTO_SUCCESS, Some (cached_value sample_text_entry), sample_text\<lparr>bc_heap := \<lparr>blocks = Map.empty, next_block = 2\<rparr>\<rparr>) \<and>
    \<not> value_typed \<lparr>blocks = Map.empty, next_block = 2\<rparr> (cached_value sample_text_entry) \<and>
    bacnet_data_value_free (cached_value sample_text_entry) \<lparr>blocks = Map.empty, next_block = 2\<rparr> = None"
proof (rule released_value_is_handed_out_again [OF _ sample_text_hit])
  show "bacnet_data_value_free (cached_value sample_text_entry) (bc_heap sample_text) = Some (DCharacterString None 0, \<lparr>blocks = Map.empty, next_block = 2\<rparr>)"
    by (simp add: sample_text_tables sample_text_entry_def bacnet_data_value_free_def heap_free_def)
qed (simp_all add: sample_text_tables sample_text_entry_def)

end
