(* ===== verification/Bacnet_Batch.thy ===== *)
theory Bacnet_Batch
  imports Bacnet_Cache
begin

text \<open>
  Reading the properties of an object one after the other (\<open>proto_bacnet_batch.cpp\<close>): the polling read of
  one property, the conversion and copying of the values, and the release of the strings. Each attempt of
  a polling read has the input of its call and what the other threads do while it sleeps. Numbers of
  floating point are their bits.
\<close>

section \<open>Reading one property\<close>

record 'l attempt =
  at_input :: call_input
  at_meanwhile :: "'l bworld \<Rightarrow> 'l bworld"

definition max_retries :: nat where "max_retries = 10"

definition seen_unsupported :: "object_key \<Rightarrow> 'l bworld \<Rightarrow> bool" where
  "seen_unsupported key w \<longleftrightarrow> initialized (bw_ctx w) \<and>
     (case map_of (object_states (bw_ctx w)) key of None \<Rightarrow> False | Some st \<Rightarrow> st_status st = PROTO_ERROR_UNSUPPORTED)"

fun sync_loop ::
  "'l stack_lib \<Rightarrow> build \<Rightarrow> bacnet_read \<Rightarrow> 'l attempt list \<Rightarrow> 'l bworld \<Rightarrow> (data_value option \<times> 'l bworld) option" where
  "sync_loop lib bld req [] w = Some (None, w)"
| "sync_loop lib bld req (a # as) w =
     (case bacnet_plc_read lib bld (at_input a) (Some req) w of
        None \<Rightarrow> None
      | Some (result, out, w) \<Rightarrow>
          if result = PROTO_SUCCESS then Some (out, w)
          else if result = PROTO_NO_DATA
          then (let w = at_meanwhile a w
                in if seen_unsupported (read_key req) w then Some (None, w) else sync_loop lib bld req as w)
          else Some (None, w))"

definition read_property_sync ::
  "'l stack_lib \<Rightarrow> build \<Rightarrow> addr \<Rightarrow> u32 \<Rightarrow> u16 \<Rightarrow> u32 \<Rightarrow> u32 \<Rightarrow> 'l attempt list \<Rightarrow> 'l bworld \<Rightarrow>
   (data_value option \<times> 'l bworld) option" where
  "read_property_sync lib bld self dev ty inst prop attempts w =
     sync_loop lib bld (BACNET_READ_INIT self dev ty inst prop True) (take max_retries attempts) w"

section \<open>Numbers of floating point\<close>

text \<open>The \<open>double\<close> of sign \<open>s\<close> and absolute value \<open>n * 2 ^ e\<close>, for \<open>n < 2 ^ 53\<close> in the range of normal numbers.\<close>

function top_bit :: "int \<Rightarrow> nat" where
  "top_bit n = (if n < 2 then 0 else Suc (top_bit (n div 2)))"
  by auto

termination top_bit
  by (relation "measure nat") auto

declare top_bit.simps [simp del]

definition pack_double :: "bool \<Rightarrow> int \<Rightarrow> int \<Rightarrow> u64" where
  "pack_double s n e =
     (let sign = (if s then 2 ^ 63 else 0); t = top_bit n
      in word_of_int (if n = 0 then sign
                      else sign + (e + int t + 1023) * 2 ^ 52 + (n - 2 ^ t) * 2 ^ (52 - t)))"

definition double_of_float :: "u32 \<Rightarrow> u64" where
  "double_of_float w =
     (let s = bit w 31; e = uint w div 2 ^ 23 mod 2 ^ 8; f = uint w mod 2 ^ 23
      in if e = 255
         then word_of_int ((if s then 2 ^ 63 else 0) + 0x7FF * 2 ^ 52 + (if f = 0 then 0 else or (f * 2 ^ 29) (2 ^ 51)))
         else if e = 0 then pack_double s f (- 149)
         else pack_double s (f + 2 ^ 23) (e - 150))"

definition double_of_unsigned :: "u32 \<Rightarrow> u64" where
  "double_of_unsigned n = pack_double False (uint n) 0"

section \<open>The properties of an object\<close>

text \<open>\<open>bacnet_object_properties_t\<close>. A member that is copied from the union of the value without a look at its
  type is \<open>None\<close> when the value has another type: what it holds then depends on the layout.\<close>

record object_properties =
  pr_object_identifier :: u32
  pr_object_type :: u16
  pr_object_name :: "addr option"
  pr_present_value :: u64
  pr_status_flags :: u32
  pr_out_of_service :: "u8 option"
  pr_event_state :: "u32 option"
  pr_description :: "addr option"
  pr_units :: "32 word option"
  pr_relinquish_default :: u64
  pr_cov_increment :: "u32 option"

definition MINUS_ONE :: u64 where "MINUS_ONE = 0xBFF0000000000000"
definition MINUS_ONE_F :: u32 where "MINUS_ONE_F = 0xBF800000"

definition invalid_properties :: "u16 \<Rightarrow> object_properties" where
  "invalid_properties ty =
     \<lparr>pr_object_identifier = 0, pr_object_type = ty, pr_object_name = None, pr_present_value = MINUS_ONE,
      pr_status_flags = 0xFFFFFFFF, pr_out_of_service = Some 0xFF, pr_event_state = Some 0xFFFFFFFF,
      pr_description = None, pr_units = Some (- 1), pr_relinquish_default = MINUS_ONE,
      pr_cov_increment = Some MINUS_ONE_F\<rparr>"

text \<open>\<open>strdup_safe\<close>; \<open>None\<close> when the bytes cannot be read.\<close>

definition strdup_safe :: "value_lib \<Rightarrow> addr option \<Rightarrow> nat \<Rightarrow> heap \<Rightarrow> (addr option \<times> heap) option" where
  "strdup_safe vl src n h =
     (case src of
        None \<Rightarrow> Some (None, h)
      | Some a \<Rightarrow>
          if n = 0 then Some (None, h)
          else if \<not> vl_malloc_ok vl (n + 1) h then Some (None, h)
          else map_option (\<lambda>b. let (p, h) = heap_alloc (b @ [NUL]) h in (Some p, h)) (heap_read a n h))"

section \<open>Storing the values\<close>

text \<open>One function for each property: the properties, the count of successes and the heap.\<close>

type_synonym batch = "object_properties \<times> nat \<times> heap"

definition store_name :: "value_lib \<Rightarrow> data_value \<Rightarrow> batch \<Rightarrow> batch option" where
  "store_name vl v b =
     (let (p, n, h) = b in
      case v of
        DCharacterString a len \<Rightarrow> map_option (\<lambda>(s, h). (p\<lparr>pr_object_name := s\<rparr>, n + 1, h)) (strdup_safe vl a len h)
      | _ \<Rightarrow> Some b)"

text \<open>The last test repeats the one before it: a signed value is not converted.\<close>

definition store_present_value :: "value_lib \<Rightarrow> data_value \<Rightarrow> batch \<Rightarrow> batch option" where
  "store_present_value vl v b =
     (let (p, n, h) = b;
          p = (case v of
                 DReal r \<Rightarrow> p\<lparr>pr_present_value := double_of_float r\<rparr>
               | DDouble d \<Rightarrow> p\<lparr>pr_present_value := d\<rparr>
               | DUnsigned u \<Rightarrow> p\<lparr>pr_present_value := double_of_unsigned u\<rparr>
               | _ \<Rightarrow> p)
      in Some (p, n + 1, h))"

definition store_status_flags :: "value_lib \<Rightarrow> data_value \<Rightarrow> batch \<Rightarrow> batch option" where
  "store_status_flags vl v b =
     (let (p, n, h) = b
      in Some (case v of DUnsigned u \<Rightarrow> p\<lparr>pr_status_flags := and u 0x0F\<rparr> | _ \<Rightarrow> p, n + 1, h))"

definition union_boolean :: "data_value \<Rightarrow> bool option" where
  "union_boolean v = (case v of DBoolean b \<Rightarrow> Some b | _ \<Rightarrow> None)"

definition union_enum :: "data_value \<Rightarrow> u32 option" where
  "union_enum v = (case v of DEnum e \<Rightarrow> Some e | DUnsigned u \<Rightarrow> Some u | DSigned i \<Rightarrow> Some i | DReal r \<Rightarrow> Some r | _ \<Rightarrow> None)"

definition store_out_of_service :: "value_lib \<Rightarrow> data_value \<Rightarrow> batch \<Rightarrow> batch option" where
  "store_out_of_service vl v b =
     (let (p, n, h) = b
      in Some (p\<lparr>pr_out_of_service := map_option (\<lambda>x. if x then 1 else 0) (union_boolean v)\<rparr>, n + 1, h))"

definition store_event_state :: "value_lib \<Rightarrow> data_value \<Rightarrow> batch \<Rightarrow> batch option" where
  "store_event_state vl v b = (let (p, n, h) = b in Some (p\<lparr>pr_event_state := union_enum v\<rparr>, n + 1, h))"

definition store_description :: "value_lib \<Rightarrow> data_value \<Rightarrow> batch \<Rightarrow> batch option" where
  "store_description vl v b =
     (let (p, n, h) = b in
      case v of
        DCharacterString (Some a) len \<Rightarrow>
          map_option (\<lambda>(s, h). (p\<lparr>pr_description := s\<rparr>, n + 1, h)) (strdup_safe vl (Some a) len h)
      | _ \<Rightarrow> Some b)"

definition store_units :: "value_lib \<Rightarrow> data_value \<Rightarrow> batch \<Rightarrow> batch option" where
  "store_units vl v b = (let (p, n, h) = b in Some (p\<lparr>pr_units := union_enum v\<rparr>, n, h))"

definition store_relinquish_default :: "value_lib \<Rightarrow> data_value \<Rightarrow> batch \<Rightarrow> batch option" where
  "store_relinquish_default vl v b =
     (let (p, n, h) = b
      in Some (case v of
                 DReal r \<Rightarrow> p\<lparr>pr_relinquish_default := double_of_float r\<rparr>
               | DDouble d \<Rightarrow> p\<lparr>pr_relinquish_default := d\<rparr>
               | _ \<Rightarrow> p, n, h))"

definition store_cov_increment :: "value_lib \<Rightarrow> data_value \<Rightarrow> batch \<Rightarrow> batch option" where
  "store_cov_increment vl v b = (let (p, n, h) = b in Some (p\<lparr>pr_cov_increment := union_enum v\<rparr>, n, h))"

section \<open>The batch\<close>

text \<open>The properties in the order they are read, with what becomes of their values.\<close>

definition batch_steps :: "(u32 \<times> (value_lib \<Rightarrow> data_value \<Rightarrow> batch \<Rightarrow> batch option)) list" where
  "batch_steps =
     [(77, store_name), (85, store_present_value), (111, store_status_flags), (81, store_out_of_service),
      (36, store_event_state), (28, store_description), (117, store_units), (104, store_relinquish_default),
      (22, store_cov_increment)]"

definition set_heap :: "heap \<Rightarrow> 'l bworld \<Rightarrow> 'l bworld" where
  "set_heap h w = w\<lparr>bw_ctx := (bw_ctx w)\<lparr>bc_heap := h\<rparr>\<rparr>"

text \<open>Each step has its list of attempts; steps without one read nothing.\<close>

fun batch_loop ::
  "'l stack_lib \<Rightarrow> build \<Rightarrow> addr \<Rightarrow> u32 \<Rightarrow> u16 \<Rightarrow> u32 \<Rightarrow>
   ((u32 \<times> (value_lib \<Rightarrow> data_value \<Rightarrow> batch \<Rightarrow> batch option)) \<times> 'l attempt list) list \<Rightarrow>
   object_properties \<times> nat \<times> 'l bworld \<Rightarrow> (object_properties \<times> nat \<times> 'l bworld) option" where
  "batch_loop lib bld self dev ty inst [] s = Some s"
| "batch_loop lib bld self dev ty inst (((prop, store), attempts) # steps) (p, n, w) =
     (case read_property_sync lib bld self dev ty inst prop attempts w of
        None \<Rightarrow> None
      | Some (None, w) \<Rightarrow> batch_loop lib bld self dev ty inst steps (p, n, w)
      | Some (Some v, w) \<Rightarrow>
          (case store (sl_value_lib lib) v (p, n, bc_heap (bw_ctx w)) of
             None \<Rightarrow> None
           | Some (p, n, h) \<Rightarrow> batch_loop lib bld self dev ty inst steps (p, n, set_heap h w)))"

text \<open>The object identifier is counted first.\<close>

definition object_identifier :: "u16 \<Rightarrow> u32 \<Rightarrow> u32" where
  "object_identifier ty inst = or (push_bit 22 (ucast ty)) inst"

definition plc_proto_read_object_properties ::
  "'l stack_lib \<Rightarrow> build \<Rightarrow> addr \<Rightarrow> u32 \<Rightarrow> u16 \<Rightarrow> u32 \<Rightarrow> bool \<Rightarrow> 'l attempt list list \<Rightarrow> 'l bworld \<Rightarrow>
   (int \<times> object_properties option \<times> 'l bworld) option" where
  "plc_proto_read_object_properties lib bld self dev ty inst has_buffer attempts w =
     (if \<not> has_buffer then Some (PROTO_ERROR_PARAM, None, w)
      else
        let p = (invalid_properties ty)\<lparr>pr_object_identifier := object_identifier ty inst\<rparr>; success_count = 1
        in case batch_loop lib bld self dev ty inst (zip batch_steps attempts) (p, success_count, w) of
             None \<Rightarrow> None
           | Some (p, success_count, w) \<Rightarrow>
               Some (if success_count > 0 then PROTO_SUCCESS else PROTO_TIMEOUT, Some p, w))"

definition plc_proto_free_object_properties :: "object_properties \<Rightarrow> heap \<Rightarrow> (object_properties \<times> heap) option" where
  "plc_proto_free_object_properties p h = do {
     h \<leftarrow> (case pr_object_name p of None \<Rightarrow> Some h | Some a \<Rightarrow> heap_free a h);
     h \<leftarrow> (case pr_description p of None \<Rightarrow> Some h | Some a \<Rightarrow> heap_free a h);
     Some (p\<lparr>pr_object_name := None, pr_description := None\<rparr>, h)
   }"

section \<open>What a polling read returns\<close>

lemma plc_read_out:
  assumes "bacnet_plc_read lib bld inp (Some r) w = Some (rc, Some v, w')"
  shows "\<exists>st. map_of (object_states (bw_ctx w')) (read_key r) = Some st \<and> cached_value st = v"
proof -
  obtain w1 c where "read_object lib (ci_now inp) r (bw_ctx w1) = (rc, Some v, c)" "w' = w1\<lparr>bw_ctx := c\<rparr>"
    using assms by (auto simp: bacnet_plc_read_def split: Option.bind_splits if_splits prod.splits)
  with read_object_out show ?thesis by fastforce
qed

text \<open>A value the batch takes for a property is the value the cache holds for exactly that property of that
  object and device at that moment, whatever the other threads did while the polling read slept, and however
  many of its ten attempts it needed.\<close>

theorem batch_takes_the_cached_value:
  assumes "read_property_sync lib bld self dev ty inst prop attempts w = Some (Some v, w')"
  shows "\<exists>st. map_of (object_states (bw_ctx w'))
      \<lparr>key_device = dev, key_type = ty, key_instance = inst, key_property = prop\<rparr> = Some st \<and> cached_value st = v"
proof -
  let ?r = "BACNET_READ_INIT self dev ty inst prop True"
  have k: "read_key ?r = \<lparr>key_device = dev, key_type = ty, key_instance = inst, key_property = prop\<rparr>"
    by (simp add: read_key_def BACNET_READ_INIT_def)
  have "\<exists>st. map_of (object_states (bw_ctx w')) (read_key ?r) = Some st \<and> cached_value st = v"
    if "sync_loop lib bld ?r as w = Some (Some v, w')" for as w
    using that
  proof (induction as arbitrary: w)
    case (Cons a as)
    obtain rc out w1 where p: "bacnet_plc_read lib bld (at_input a) (Some ?r) w = Some (rc, out, w1)"
      using Cons.prems by (auto split: option.splits)
    show ?case
    proof (cases "rc = PROTO_SUCCESS")
      case True
      with Cons.prems p have "bacnet_plc_read lib bld (at_input a) (Some ?r) w = Some (rc, Some v, w')" by simp
      then show ?thesis by (rule plc_read_out)
    next
      case False
      with Cons p show ?thesis by (auto simp: Let_def split: if_splits)
    qed
  qed simp
  with assms show ?thesis by (simp add: read_property_sync_def k)
qed

definition sample_attempt :: "nat \<Rightarrow> u8 list attempt" where
  "sample_attempt now = \<lparr>at_input = \<lparr>ci_connect_time = now, ci_rounds = [], ci_now = now\<rparr>, at_meanwhile = (\<lambda>w. w)\<rparr>"

definition cached_world :: "u8 list bworld" where
  "cached_world = \<lparr>bw_ctx = sample_text, bw_monitor = hot_monitor_start, bw_file = NoFile, bw_mtime = None,
     bw_cleanup_registered = True\<rparr>"

lemma sample_text_connected: "initialized sample_text" "pending_reload sample_text = False"
    "connection_state sample_text = BACNET_CONN_CONNECTED"
proof -
  have "pending_reload sample_sent = False" "connection_state sample_sent = BACNET_CONN_CONNECTED"
    by (simp_all add: sample_simps Let_def code_consts split: prod.splits)
  then show "initialized sample_text" "pending_reload sample_text = False"
    "connection_state sample_text = BACNET_CONN_CONNECTED"
    by (simp_all add: sample_text_def npdu_handler_def handle_read_property_ack_def sample_sent_tables sample_sent_heap
        device_index_def tsm_free_def Let_def split: prod.splits)
qed

lemma cached_world_read:
  "read_property_sync sample_stack \<lparr>bacdl_multiple = False, bacdl_mstp = False\<rparr> 1 7 0 1 85 [sample_attempt 20200] cached_world =
     Some (Some (DCharacterString (Some 1) 2), cached_world)"
  using sample_text_read sample_text_connected
  by (simp add: read_property_sync_def max_retries_def bacnet_plc_read_def release_if_pending_def
      ensure_init_and_connect_locked_def get_connection_state_def sample_attempt_def cached_world_def sample_read_def)

theorem batch_takes_the_cached_value_witness:
  "\<exists>st. map_of (object_states (bw_ctx cached_world))
      \<lparr>key_device = 7, key_type = 0, key_instance = 1, key_property = 85\<rparr> = Some st \<and>
    cached_value st = DCharacterString (Some 1) 2"
  by (rule batch_takes_the_cached_value [OF cached_world_read])

section \<open>The result of the batch\<close>

text \<open>A batch that returns reports success, even when not one property could be read: the identifier, which
  is not read at all, counts as the first success, so that \<open>PROTO_TIMEOUT\<close> is never returned.\<close>

theorem batch_always_succeeds:
  assumes "plc_proto_read_object_properties lib bld self dev ty inst True attempts w = Some (rc, p, w')"
  shows "rc = PROTO_SUCCESS"
proof -
  have store: "n \<le> n'" if "(pid, store) \<in> set batch_steps" "store vl v (p, n, h) = Some (p', n', h')"
    for pid store vl v p n h p' n' h'
    using that
    by (auto simp: batch_steps_def store_name_def store_present_value_def store_status_flags_def store_out_of_service_def
        store_event_state_def store_description_def store_units_def store_relinquish_default_def
        store_cov_increment_def split: data_value.splits option.splits)
  have "n \<le> n'" if "batch_loop lib bld self dev ty inst steps (p, n, w) = Some (p', n', w')"
    "fst ` set steps \<subseteq> set batch_steps" for steps p n w p' n' w'
    using that
  proof (induction steps arbitrary: p n w)
    case (Cons s steps)
    obtain pid st attempts where s: "s = ((pid, st), attempts)" by (metis prod_cases3 surj_pair)
    with Cons show ?case
      by (auto split: option.splits prod.splits dest!: store intro: order_trans)
  qed simp
  moreover have "fst ` set (zip batch_steps attempts) \<subseteq> set batch_steps" by (auto dest: set_zip_leftD)
  ultimately show ?thesis
    using assms by (fastforce simp: plc_proto_read_object_properties_def Let_def split: option.splits prod.splits)
qed

text \<open>Device 9 is not in the configured range: every read is refused.\<close>

lemma refused_read:
  "read_property_sync sample_stack \<lparr>bacdl_multiple = False, bacdl_mstp = False\<rparr> 1 9 0 1 pid [sample_attempt 20200] cached_world =
     Some (None, cached_world)"
proof -
  have "target_device_end sample_text = 7" "target_device_start sample_text = 7"
  proof -
    have "target_device_end sample_sent = 7" "target_device_start sample_sent = 7"
      by (simp_all add: sample_simps Let_def code_consts split: prod.splits)
    then show "target_device_end sample_text = 7" "target_device_start sample_text = 7"
      by (simp_all add: sample_text_def npdu_handler_flags)
  qed
  then have "execute_read_property sample_stack 20200 (Some sample_text) (Some (BACNET_READ_INIT 1 9 0 1 pid True)) =
      (PROTO_ERROR_PARAM, None, Some sample_text)"
    using sample_text_connected
    by (simp add: execute_read_property_def resolve_target_address_def BACNET_READ_INIT_def code_consts)
  moreover have "map_of (object_states sample_text) (read_key (BACNET_READ_INIT 1 9 0 1 pid True)) = None"
    by (simp add: sample_text_tables read_key_def BACNET_READ_INIT_def sample_read_def)
  ultimately show ?thesis
    using sample_text_connected
    by (simp add: read_property_sync_def max_retries_def bacnet_plc_read_def release_if_pending_def
        ensure_init_and_connect_locked_def get_connection_state_def sample_attempt_def cached_world_def
        read_object_def send_read_def code_consts)
qed

lemma refused_batch:
  "batch_loop sample_stack \<lparr>bacdl_multiple = False, bacdl_mstp = False\<rparr> 1 9 0 1
     (zip steps (replicate n [sample_attempt 20200])) (p, k, cached_world) = Some (p, k, cached_world)"
proof (induction steps arbitrary: n)
  case (Cons s steps)
  obtain pid st where "s = (pid, st)" by fastforce
  with Cons show ?case by (cases n) (simp_all add: refused_read del: One_nat_def)
qed simp

theorem batch_always_succeeds_witness:
  "fst (the (plc_proto_read_object_properties sample_stack \<lparr>bacdl_multiple = False, bacdl_mstp = False\<rparr> 1 9 0 1 True
     (replicate 9 [sample_attempt 20200]) cached_world)) = PROTO_SUCCESS"
proof -
  obtain rc p w' where b: "plc_proto_read_object_properties sample_stack \<lparr>bacdl_multiple = False, bacdl_mstp = False\<rparr> 1 9 0 1 True
     (replicate 9 [sample_attempt 20200]) cached_world = Some (rc, p, w')"
    by (simp only: plc_proto_read_object_properties_def Let_def refused_batch) simp
  from batch_always_succeeds [OF b] b show ?thesis by simp
qed

end
