(* ===== verification/Bacnet_Reload.thy ===== *)
theory Bacnet_Reload
  imports Bacnet_Lifecycle
begin

text \<open>
  A reload from the change of the file to the next request: the flag the monitor sets, the release of the
  driver, its initialisation from the new file, the connection, and the request on empty tables.
\<close>

section \<open>Frames\<close>

definition keeps_setup :: "'l bctx \<Rightarrow> 'l bctx \<Rightarrow> bool" where
  "keeps_setup c c' \<longleftrightarrow> bc_config c' = bc_config c \<and> pending_reload c' = pending_reload c \<and>
     initialized c' = initialized c \<and> target_device_start c' = target_device_start c \<and>
     target_device_end c' = target_device_end c \<and>
     (object_states c = [] \<and> invoke_id_to_key c = [] \<longrightarrow> object_states c' = [] \<and> invoke_id_to_key c' = [])"

lemma keeps_setup_refl [simp]: "keeps_setup c c"
  by (simp add: keeps_setup_def)

lemma keeps_setup_trans: "keeps_setup c c1 \<Longrightarrow> keeps_setup c1 c2 \<Longrightarrow> keeps_setup c c2"
  by (auto simp: keeps_setup_def)

text \<open>The driver's bookkeeping can be dropped from the right of a frame.\<close>

lemma keeps_setup_bookkeeping [simp]:
  "keeps_setup c (set_connection_state s d) = keeps_setup c d" "keeps_setup c (trigger_callback t st d) = keeps_setup c d"
  "keeps_setup c (d\<lparr>worker_stop := b\<rparr>) = keeps_setup c d" "keeps_setup c (d\<lparr>target_found := b\<rparr>) = keeps_setup c d"
  "keeps_setup c (d\<lparr>bc_reconnect_attempts := m\<rparr>) = keeps_setup c d" "keeps_setup c (d\<lparr>stack := l\<rparr>) = keeps_setup c d"
  "keeps_setup c (start_worker_thread d) = keeps_setup c d" "keeps_setup c (discover_start lib d) = keeps_setup c d"
  "keeps_setup c (stop_asked r d) = keeps_setup c d"
  by (auto simp: keeps_setup_def set_connection_state_def trigger_callback_def start_worker_thread_def
      discover_start_def stop_asked_def Let_def split: option.splits prod.splits)

lemma npdu_handler_keeps_setup: "keeps_setup c (npdu_handler lib now p c)"
  by (cases p; simp add: keeps_setup_def npdu_handler_def handle_iam_callback_def handle_read_property_ack_def
      handle_write_property_ack_def handle_error_response_def handle_abort_response_def
      handle_reject_response_def fail_object_def free_if_valid_def tsm_free_def Let_def
      split: option.splits prod.splits)

lemma discover_pass_keeps_setup:
  "keeps_setup c d \<Longrightarrow> discover_pass lib ms r (t, d) = (t', d') \<Longrightarrow> keeps_setup c d'"
  using keeps_setup_trans [OF _ npdu_handler_keeps_setup [of d lib "dr_now r"]]
  by (auto simp: discover_pass_def Let_def split: option.splits if_splits)

lemma discover_loop_keeps_setup:
  "keeps_setup c d \<Longrightarrow> discover_loop lib start timeout_ms ms rs (t, d) = Some (rc, d') \<Longrightarrow> keeps_setup c d'"
proof (induction rs arbitrary: t d)
  case (Cons r rs)
  obtain t' d1 where p: "discover_pass lib ms r (t, stop_asked r d) = (t', d1)" by fastforce
  have "keeps_setup c d1" using discover_pass_keeps_setup [OF _ p] Cons.prems(1) by simp
  with Cons.prems Cons.IH p show ?case by (auto simp: Let_def split: if_splits)
qed (auto split: if_splits)

lemma discover_keeps_setup:
  assumes "keeps_setup c d" "discover_target_device lib now rounds d = Some (rc, d')"
  shows "keeps_setup c d'"
  using assms discover_loop_keeps_setup [of c "discover_start lib d"]
  by (auto simp: discover_target_device_def split: option.splits if_splits)

lemma connect_device_keeps_setup:
  assumes "connect_device lib now rounds c = Some (rc, c')"
  shows "keeps_setup c c'"
  using assms discover_keeps_setup [of c "set_connection_state BACNET_CONN_CONNECTING c"]
  by (auto simp: connect_device_def Let_def split: if_splits Option.bind_splits)

section \<open>The reload\<close>

lemma reset_clears:
  assumes "reset lib c = Some c'"
  shows "object_states c' = []" "invoke_id_to_key c' = []" "\<not> initialized c'" "pending_reload c' = pending_reload c"
  using assms
  by (auto simp: reset_def cleanup_context_def Let_def reset_active_operation_locked_def stop_worker_thread_def
      split: if_splits)

lemma release_for_reload:
  assumes "release_if_pending lib w = Some w1" "initialized (bw_ctx w)" "pending_reload (bw_ctx w)"
  shows "object_states (bw_ctx w1) = []" "invoke_id_to_key (bw_ctx w1) = []" "\<not> initialized (bw_ctx w1)"
    "\<not> pending_reload (bw_ctx w1)" "bw_file w1 = bw_file w"
  using assms
  by (auto simp: release_if_pending_def driver_release_def Let_def dest: reset_clears split: if_splits)

text \<open>What a context holds after the file was loaded into it.\<close>

definition set_up_from :: "yaml_source \<Rightarrow> 'l bctx \<Rightarrow> bool" where
  "set_up_from src c \<longleftrightarrow> (let cfg = snd (bacnet_load_config_from_yaml src) in
     bc_config c = cfg \<and> target_device_start c = cf_target_device_start cfg \<and>
     target_device_end c = cf_target_device_end cfg)"

lemma load_status [simp]: "fst (bacnet_load_config_from_yaml src) = 0"
  by (cases src) (simp_all add: bacnet_load_config_from_yaml_def)

lemma initialize_all_datalinks_stack:
  obtains st l where "initialize_all_datalinks lib bld (Some c) = (st, Some (c\<lparr>stack := l\<rparr>))"
proof (cases "bacdl_multiple bld")
  case False
  then have "initialize_all_datalinks lib bld (Some c) = (PROTO_SUCCESS, Some (c\<lparr>stack := stack c\<rparr>))"
    by (simp add: initialize_all_datalinks_def)
  then show thesis by (rule that)
next
  case True
  obtain ok l where b: "sl_bip_init lib (cf_port (bc_config c))
      (if cf_interface_name (bc_config c) \<noteq> [] then Some (cf_interface_name (bc_config c)) else None) (stack c) = (ok, l)"
    by fastforce
  have "initialize_all_datalinks lib bld (Some c) =
      (if ok then PROTO_SUCCESS else PROTO_ERROR_INIT, Some (c\<lparr>stack :=
         if ok \<and> bacdl_mstp bld \<and> cf_mstp_port (bc_config c) \<noteq> []
         then snd (sl_mstp_init lib (bc_config c) l) else l\<rparr>))"
    using b by (simp add: initialize_all_datalinks_def True Let_def)
  then show thesis by (rule that)
qed

text \<open>What initialisation does after the file was read.\<close>

lemma initialize_context_sets_up:
  assumes "initialize_context lib bld src c = (rc, c')"
  shows "set_up_from src c' \<and> pending_reload c' = pending_reload c \<and> object_states c' = object_states c \<and>
    invoke_id_to_key c' = invoke_id_to_key c \<and> bc_heap c' = bc_heap c \<and> initialized c' = initialized c"
proof -
  obtain cfg where load: "bacnet_load_config_from_yaml src = (0, cfg)" by (metis load_status prod.collapse)
  let ?c = "c\<lparr>bc_config := cfg, target_device_start := cf_target_device_start cfg,
      target_device_end := cf_target_device_end cfg,
      bc_cache_strategy := (if cf_cache_strategy cfg = 0 then Aggressive else Conservative),
      bc_cache_expiry_ms := cf_cache_expiry_ms cfg, stack := sl_device_init lib (stack (c\<lparr>bc_config := cfg\<rparr>))\<rparr>"
  obtain st l where d: "initialize_all_datalinks lib bld (Some ?c) = (st, Some (?c\<lparr>stack := l\<rparr>))"
    by (rule initialize_all_datalinks_stack)
  define d1 where "d1 = ?c\<lparr>stack := l\<rparr>"
  have "c' = d1 \<or> c' = (set_operation_state BACNET_OP_IDLE (set_connection_state BACNET_CONN_IDLE
      (reset_active_operation_locked (the (register_bacnet_handlers lib (Some d1))))))
      \<lparr>target_found := False, bc_reconnect_attempts := 0, worker_stop := False, worker_running := False\<rparr>"
    using assms unfolding initialize_context_def
    by (simp only: load prod.case Let_def d option.sel d1_def [symmetric] simp_thms if_False prod.inject split: if_split_asm)
  moreover have "bc_config d1 = cfg" "target_device_start d1 = cf_target_device_start cfg"
    "target_device_end d1 = cf_target_device_end cfg" "pending_reload d1 = pending_reload c"
    "object_states d1 = object_states c" "invoke_id_to_key d1 = invoke_id_to_key c" "bc_heap d1 = bc_heap c" "initialized d1 = initialized c"
    by (simp_all add: d1_def)
  ultimately show ?thesis
    unfolding set_up_from_def load
    by (elim disjE) (simp_all add: register_bacnet_handlers_def reset_active_operation_locked_def
        set_connection_state_def set_operation_state_def)
qed

lemma initialize_sets_up:
  assumes "initialize lib bld src c = Some (rc, c')"
  shows "set_up_from src c'" "pending_reload c' = pending_reload c" "object_states c' = object_states c"
    "invoke_id_to_key c' = invoke_id_to_key c" "bc_heap c' = bc_heap c"
proof -
  obtain st c1 where i: "initialize_context lib bld src c = (st, c1)" by fastforce
  have "c' = c1 \<or> c' = c1\<lparr>initialized := True\<rparr>"
    using assms i by (auto simp: initialize_def split: if_splits)
  then show "set_up_from src c'" "pending_reload c' = pending_reload c" "object_states c' = object_states c"
    "invoke_id_to_key c' = invoke_id_to_key c" "bc_heap c' = bc_heap c"
    using initialize_context_sets_up [OF i] by (auto simp: set_up_from_def Let_def)
qed

lemma driver_initialize_ctx:
  assumes "driver_initialize lib bld w = Some (rc, w')"
  obtains st where "initialize lib bld (bw_file w) (bw_ctx w) = Some (st, bw_ctx w')"
  using assms by (auto simp: driver_initialize_def Let_def split: if_splits Option.bind_splits)

lemma driver_connect_ctx:
  assumes "driver_connect lib now rounds w = Some (rc, w')"
  shows "keeps_setup (bw_ctx w) (bw_ctx w')"
  using assms connect_device_keeps_setup by (fastforce simp: driver_connect_def split: if_splits)

lemma ensure_from_scratch:
  assumes "ensure_init_and_connect_locked lib bld inp w = Some (rc, w')" "\<not> initialized (bw_ctx w)"
    "object_states (bw_ctx w) = []" "invoke_id_to_key (bw_ctx w) = []"
  shows "set_up_from (bw_file w) (bw_ctx w')" "pending_reload (bw_ctx w') = pending_reload (bw_ctx w)"
    "object_states (bw_ctx w') = []" "invoke_id_to_key (bw_ctx w') = []"
proof -
  obtain rc1 w1 where i: "driver_initialize lib bld w = Some (rc1, w1)"
    using assms(1,2) by (auto simp: ensure_init_and_connect_locked_def split: Option.bind_splits)
  then obtain st where "initialize lib bld (bw_file w) (bw_ctx w) = Some (st, bw_ctx w1)"
    by (rule driver_initialize_ctx)
  note s = initialize_sets_up [OF this]
  have "keeps_setup (bw_ctx w1) (bw_ctx w')"
    using assms(1,2) i
    by (auto simp: ensure_init_and_connect_locked_def dest: driver_connect_ctx split: if_splits Option.bind_splits)
  then show "set_up_from (bw_file w) (bw_ctx w')" "pending_reload (bw_ctx w') = pending_reload (bw_ctx w)"
    "object_states (bw_ctx w') = []" "invoke_id_to_key (bw_ctx w') = []"
    using s assms(3,4) by (auto simp: keeps_setup_def set_up_from_def Let_def)
qed

lemma read_on_empty_tables:
  assumes "read_object lib now r c = (rc, out, c')" "object_states c = []" "invoke_id_to_key c = []"
  shows "out = None" "bc_config c' = bc_config c" "pending_reload c' = pending_reload c"
    "target_device_start c' = target_device_start c" "target_device_end c' = target_device_end c"
    "set (map fst (object_states c')) \<subseteq> {read_key r}" "snd ` set (invoke_id_to_key c') \<subseteq> {read_key r}"
  using assms
  by (auto simp: read_object_def send_read_def execute_read_property_def read_key_def object_state_zero_def
      set_operation_state_def Let_def split: if_splits prod.splits)

text \<open>A read that finds a reload pending works on the file as it is now, and on empty tables.\<close>

lemma reload_read:
  assumes "initialized (bw_ctx w)" "pending_reload (bw_ctx w)"
    and "bacnet_plc_read lib bld inp (Some r) w = Some (rc, out, w')"
  shows "set_up_from (bw_file w) (bw_ctx w') \<and> \<not> pending_reload (bw_ctx w') \<and> out = None \<and>
    fst ` set (object_states (bw_ctx w')) \<subseteq> {read_key r} \<and> snd ` set (invoke_id_to_key (bw_ctx w')) \<subseteq> {read_key r}"
proof -
  obtain w1 rc2 w2 where rel: "release_if_pending lib w = Some w1"
    and ens: "ensure_init_and_connect_locked lib bld inp w1 = Some (rc2, w2)"
    and rest: "(if rc2 \<noteq> PROTO_SUCCESS then Some (rc2, None, w2)
        else let (rc, out, c) = read_object lib (ci_now inp) r (bw_ctx w2) in Some (rc, out, w2\<lparr>bw_ctx := c\<rparr>)) =
        Some (rc, out, w')"
    using assms(3) by (auto simp: bacnet_plc_read_def split: Option.bind_splits)
  note r = release_for_reload [OF rel assms(1,2)]
  note e = ensure_from_scratch [OF ens r(3,1,2)]
  show ?thesis
  proof (cases "rc2 = PROTO_SUCCESS")
    case True
    obtain rc3 out3 c where ro: "read_object lib (ci_now inp) r (bw_ctx w2) = (rc3, out3, c)" by (metis prod_cases3)
    with rest True have "out = out3" "w' = w2\<lparr>bw_ctx := c\<rparr>" by auto
    with read_on_empty_tables [OF ro e(3,4)] e r show ?thesis
      by (auto simp: set_up_from_def Let_def)
  next
    case False
    with rest e r show ?thesis by auto
  qed
qed

end
