(* ===== verification/Bacnet_World.thy ===== *)
theory Bacnet_World
  imports Bacnet_Reload Bacnet_Batch
begin

text \<open>
  The whole driver as a state machine: the calls of the PLC and of the driver object, the passes of the worker
  thread, the rounds of the monitor thread, and changes of the configuration file, in any order. The invariant
  covers the cache, the configuration in use, the exit handler and the monitor.
\<close>

section \<open>What the operations leave alone\<close>

definition same_setup :: "'l bctx \<Rightarrow> 'l bctx \<Rightarrow> bool" where
  "same_setup c c' \<longleftrightarrow> bc_config c' = bc_config c \<and> initialized c' = initialized c \<and>
     pending_reload c' = pending_reload c"

lemma keeps_same_setup: "keeps_setup c c' \<Longrightarrow> same_setup c c'"
  by (simp add: keeps_setup_def same_setup_def)

lemma clean_read_keeps_setup: "keeps_setup c (clean_read lib now c e)"
  by (auto simp: keeps_setup_def clean_read_def free_if_valid_def tsm_free_def Let_def
      split: option.splits prod.splits)

lemma clean_write_keeps_setup: "keeps_setup c (clean_write lib now c e)"
  by (auto simp: keeps_setup_def clean_write_def free_if_valid_def tsm_free_def split: prod.splits)

lemma foldl_keeps_setup:
  "(\<And>c e. keeps_setup c (f c e)) \<Longrightarrow> keeps_setup c (foldl f c es)"
  by (induction es arbitrary: c) (auto intro: keeps_setup_trans)

lemma cleanup_keeps_setup: "keeps_setup c (cleanup_stale_requests lib now c)"
  unfolding cleanup_stale_requests_def Let_def
  by (rule keeps_setup_trans [OF foldl_keeps_setup foldl_keeps_setup])
     (rule clean_read_keeps_setup clean_write_keeps_setup)+

lemma reconnect_attempt_keeps_setup:
  assumes "reconnect_attempt lib now rounds d = Some d'" "keeps_setup c d"
  shows "keeps_setup c d'"
  using assms discover_keeps_setup [OF assms(2)]
  by (auto simp: reconnect_attempt_def Let_def split: option.splits if_splits)

lemma last_reconnect_keeps_setup [simp]: "keeps_setup c (d\<lparr>last_reconnect_attempt := m\<rparr>) = keeps_setup c d"
  by (simp add: keeps_setup_def)

lemma worker_pass_keeps_setup:
  assumes "worker_pass lib r (k, c) = Some (k', c')"
  shows "keeps_setup c c'"
proof -
  obtain k1 c1 where t: "worker_timers lib (wr_now r) (k, c) = (k1, c1)" by fastforce
  obtain k2 c2 where w: "worker_cleanup lib (wr_now r) (k1, c1) = (k2, c2)" by fastforce
  define c3 where "c3 = (case wr_packet r of None \<Rightarrow> c2 | Some p \<Rightarrow> npdu_handler lib (wr_now r) p c2)"
  have "keeps_setup c c1" using t by (auto simp: worker_timers_def Let_def split: if_splits)
  then have "keeps_setup c c2"
    using w keeps_setup_trans [OF _ cleanup_keeps_setup] by (auto simp: worker_cleanup_def Let_def split: if_splits)
  then have c3: "keeps_setup c c3"
    using keeps_setup_trans [OF _ npdu_handler_keeps_setup] by (auto simp: c3_def split: option.split)
  moreover have "c' = c3 \<or> check_and_reconnect_if_needed lib (wr_seconds r) (wr_now r) (wr_discovery r) c3 = Some c'"
    using assms by (auto simp: worker_pass_def t w c3_def [symmetric] split: if_splits)
  ultimately show ?thesis
    by (auto simp: check_and_reconnect_if_needed_def dest: reconnect_attempt_keeps_setup [where c = c]
        split: if_splits option.splits)
qed

lemma read_object_same_setup: "read_object lib now r c = (rc, out, c') \<Longrightarrow> same_setup c c'"
  by (auto simp: read_object_def send_read_def execute_read_property_def same_setup_def set_operation_state_def
      Let_def split: option.splits if_splits prod.splits)

lemma write_same_setup:
  assumes "execute_write_property lib now (Some c) (Some r) = Some (rc, out, ctx)"
  shows "same_setup c (the ctx)"
  using assms
  by (auto simp: execute_write_property_def same_setup_def set_operation_state_def Let_def
      split: option.splits if_splits prod.splits)

section \<open>The cache of a connected driver\<close>

lemma start_worker_steps: "bsteps lib c0 c \<Longrightarrow> bsteps lib c0 (start_worker_thread c)"
  by (erule flags_step [rotated])
     (simp add: start_worker_thread_def same_but_flags_def same_requests_def)

lemma connect_device_steps:
  assumes "connect_device lib now rounds c = Some (rc, c')"
  shows "bsteps lib c c'"
proof (cases "connection_state c \<in> {BACNET_CONN_CONNECTED, BACNET_CONN_CONNECTING}")
  case True
  with assms show ?thesis by (auto simp: connect_device_def)
next
  case False
  with assms obtain st c1 where
    d: "discover_target_device lib now rounds (set_connection_state BACNET_CONN_CONNECTING c) = Some (st, c1)"
    by (auto simp: connect_device_def split: Option.bind_splits)
  have "bsteps lib c c1"
    by (rule discover_target_device_steps [OF d flags_step [OF flags_simps(1)]]) simp
  then have "bsteps lib c (set_connection_state s c1)" for s by (rule flags_step [OF flags_simps(1)])
  moreover from this have "bsteps lib c ((start_worker_thread (set_connection_state s c1))\<lparr>bc_reconnect_attempts := n\<rparr>)" for s n
    by (rule flags_step [OF flags_simps(5) start_worker_steps])
  ultimately show ?thesis
    using assms d False
    by (auto simp: connect_device_def Let_def split: if_splits
        intro: flags_step [OF flags_simps(2)] flags_step [OF flags_simps(5)])
qed

lemma bsteps_typed: "bsteps lib c c' \<Longrightarrow> cache_typed c \<Longrightarrow> cache_typed c'"
  by (induction rule: rtranclp_induct) (auto intro: bstep_typed)

section \<open>The invariant of the driver\<close>

definition world_ok :: "'l bworld \<Rightarrow> bool" where
  "world_ok w \<longleftrightarrow>
     cache_typed (bw_ctx w) \<and>
     (initialized (bw_ctx w) \<longrightarrow> bacnet_config_usable (bc_config (bw_ctx w)) \<and> bw_cleanup_registered w) \<and>
     monitor_ok (bw_monitor w) \<and>
     (hm_running (bw_monitor w) \<longrightarrow> initialized (bw_ctx w) \<and> hm_callback (bw_monitor w) = Some ON_CONFIG_CHANGED)"

text \<open>An operation of the context.\<close>

lemma world_ok_ctx:
  "world_ok w \<Longrightarrow> same_setup (bw_ctx w) c \<Longrightarrow> cache_typed c \<Longrightarrow> world_ok (w\<lparr>bw_ctx := c\<rparr>)"
  by (simp add: world_ok_def same_setup_def)

lemma world_ok_pending: "world_ok w \<Longrightarrow> world_ok (w\<lparr>bw_ctx := (bw_ctx w)\<lparr>pending_reload := b\<rparr>\<rparr>)"
  by (simp add: world_ok_def cache_typed_def)

text \<open>Bookkeeping on the right of a frame, and under the cache.\<close>

lemma bookkeeping_ok [simp]:
  "cache_typed (set_connection_state s d) = cache_typed d" "same_setup c (set_connection_state s d) = same_setup c d"
  "cache_typed (trigger_callback t st d) = cache_typed d" "same_setup c (trigger_callback t st d) = same_setup c d"
  "cache_typed (reset_active_operation_locked d) = cache_typed d"
  "same_setup c (reset_active_operation_locked d) = same_setup c d"
  "cache_typed (stop_worker_thread d) = cache_typed d" "same_setup c (stop_worker_thread d) = same_setup c d"
  "cache_typed (d\<lparr>target_found := b\<rparr>) = cache_typed d" "same_setup c (d\<lparr>target_found := b\<rparr>) = same_setup c d"
  "cache_typed (d\<lparr>stack := l\<rparr>) = cache_typed d" "same_setup c (d\<lparr>stack := l\<rparr>) = same_setup c d"
  "same_setup c c"
  by (auto simp: cache_typed_def same_setup_def set_connection_state_def trigger_callback_def
      reset_active_operation_locked_def stop_worker_thread_def split: option.split prod.split)

lemma world_ok_typed: "world_ok w \<Longrightarrow> cache_typed (bw_ctx w)"
  by (simp add: world_ok_def)

lemma world_ok_connect:
  assumes "driver_connect lib now rounds w = Some (rc, w')" "world_ok w"
  shows "world_ok w'"
proof (cases "initialized (bw_ctx w)")
  case True
  with assms(1) obtain c where c: "connect_device lib now rounds (bw_ctx w) = Some (rc, c)" "w' = w\<lparr>bw_ctx := c\<rparr>"
    by (auto simp: driver_connect_def)
  show ?thesis
    unfolding c(2)
    by (rule world_ok_ctx [OF assms(2) keeps_same_setup [OF connect_device_keeps_setup [OF c(1)]]
          bsteps_typed [OF connect_device_steps [OF c(1)] world_ok_typed [OF assms(2)]]])
qed (use assms in \<open>simp add: driver_connect_def\<close>)

lemma disconnect_device_ok:
  "disconnect_device lib c = Some c' \<Longrightarrow> cache_typed c' = cache_typed c \<and> same_setup c c'"
  by (auto simp: disconnect_device_def Let_def)

lemma world_ok_disconnect:
  assumes "driver_disconnect lib w = Some w'" "world_ok w"
  shows "world_ok w'"
  using assms world_ok_typed
  by (auto simp: driver_disconnect_def dest!: disconnect_device_ok split: if_splits intro!: world_ok_ctx)

lemma reset_typed: "reset lib c = Some c' \<Longrightarrow> cache_typed c \<Longrightarrow> cache_typed c'"
  by (auto simp: reset_def cleanup_context_def cache_typed_def reset_active_operation_locked_def
      stop_worker_thread_def Let_def split: if_splits)

lemma world_ok_release:
  assumes "driver_release lib w = Some w'" "world_ok w"
  shows "world_ok w'" "\<not> initialized (bw_ctx w')" "bw_file w' = bw_file w"
    "pending_reload (bw_ctx w') = pending_reload (bw_ctx w)"
  using assms monitor_stop_ok [of "bw_monitor w" False]
  by (auto simp: driver_release_def world_ok_def monitor_is_running_def Let_def
      dest: reset_typed reset_clears split: if_splits)

lemma set_up_usable: "set_up_from src c \<Longrightarrow> bacnet_config_usable (bc_config c)"
  by (simp add: set_up_from_def Let_def bacnet_load_usable)

lemma set_polling_interval_sel [simp]:
  "monitor_ok (set_polling_interval n g) = monitor_ok g" "hm_running (set_polling_interval n g) = hm_running g"
  "hm_callback (set_polling_interval n g) = hm_callback g"
  by (simp_all add: set_polling_interval_def monitor_ok_def)

lemma initialize_flag:
  assumes "initialize lib bld src c = Some (st, c')"
  shows "st = PROTO_SUCCESS \<longleftrightarrow> initialized c'"
proof -
  obtain st0 c0 where i: "initialize_context lib bld src c = (st0, c0)" by fastforce
  have "\<not> initialized c" using assms by (simp add: initialize_def split: if_splits)
  with assms i initialize_context_sets_up [OF i] show ?thesis
    by (cases "st0 = PROTO_SUCCESS") (simp_all add: initialize_def, auto)
qed

text \<open>Initialisation returns from a world where it may be called, and then the context is set up.\<close>

lemma driver_initialize_ok:
  assumes "world_ok w" "\<not> initialized (bw_ctx w)"
  obtains rc w' where "driver_initialize lib bld w = Some (rc, w')" "world_ok w'"
    "rc = PROTO_SUCCESS \<longleftrightarrow> initialized (bw_ctx w')" "set_up_from (bw_file w) (bw_ctx w')"
    "pending_reload (bw_ctx w') = pending_reload (bw_ctx w)"
proof -
  obtain st c where i: "initialize lib bld (bw_file w) (bw_ctx w) = Some (st, c)"
    using assms(2) by (fastforce simp: initialize_def Let_def split: prod.split)
  note s = initialize_sets_up [OF i]
  have init: "st = PROTO_SUCCESS \<longleftrightarrow> initialized c" by (rule initialize_flag [OF i])
  have typed: "cache_typed c" using assms(1) s(3,5) by (simp add: world_ok_def cache_typed_def)
  have mon: "monitor_ok (bw_monitor w)" "\<not> hm_running (bw_monitor w)"
    using assms by (auto simp: world_ok_def)
  obtain ret g where m: "monitor_init (Some kConfigPath) (Some ON_CONFIG_CHANGED) None (bw_mtime w) False (bw_monitor w) =
      Some (ret, g)" "monitor_ok g" "ret = 0 \<Longrightarrow> hm_running g \<and> hm_callback g = Some ON_CONFIG_CHANGED"
      "ret \<noteq> 0 \<Longrightarrow> g = bw_monitor w"
    by (rule monitor_init_ok [OF mon(1), of "Some kConfigPath" "Some ON_CONFIG_CHANGED" None "bw_mtime w" False]) auto
  have g: "hm_running g \<Longrightarrow> hm_callback g = Some ON_CONFIG_CHANGED" using m(3,4) mon(2) by (cases "ret = 0") auto
  show thesis
  proof (cases "st = PROTO_SUCCESS")
    case False
    with i init typed mon s show thesis
      by (intro that [of st "w\<lparr>bw_ctx := c\<rparr>"]) (auto simp: driver_initialize_def world_ok_def)
  next
    case True
    with i init typed mon s m g set_up_usable [OF s(1)] show thesis
      by (intro that [of PROTO_SUCCESS "snd (the (driver_initialize lib bld w))"])
         (auto simp: driver_initialize_def world_ok_def Let_def)
  qed
qed

lemma world_ok_initialize:
  assumes "driver_initialize lib bld w = Some (rc, w')" "world_ok w"
  shows "world_ok w'"
proof -
  have "\<not> initialized (bw_ctx w)" using assms(1) by (auto simp: driver_initialize_def initialize_def)
  from driver_initialize_ok [OF assms(2) this, where lib = lib and bld = bld] assms(1) show ?thesis by auto
qed

lemma world_ok_release_pending:
  assumes "release_if_pending lib w = Some w'" "world_ok w"
  shows "world_ok w'"
  using assms world_ok_release(1) [OF _ world_ok_pending [OF assms(2)]]
  by (auto simp: release_if_pending_def split: if_splits)

lemma world_ok_ensure:
  assumes "ensure_init_and_connect_locked lib bld inp w = Some (rc, w')" "world_ok w"
  shows "world_ok w'"
  using assms world_ok_connect world_ok_initialize
  by (auto simp: ensure_init_and_connect_locked_def split: if_splits Option.bind_splits) blast+

lemma execute_write_ctx:
  assumes "execute_write_property lib now (Some c) (Some r) = Some (rc, out, ctx)"
  obtains c' where "ctx = Some c'"
  using assms by (cases rule: execute_write_property_cases) auto

lemma write_ok:
  assumes "execute_write_property lib now (Some (bw_ctx w)) (Some r) = Some (rc, out, ctx)" "world_ok w"
  shows "world_ok (w\<lparr>bw_ctx := the ctx\<rparr>)"
proof -
  obtain c' where "ctx = Some c'" by (rule execute_write_ctx [OF assms(1)])
  with world_ok_ctx [OF assms(2) write_same_setup [OF assms(1)]] write_typed [of lib now "bw_ctx w" r rc out c']
    world_ok_typed [OF assms(2)] assms(1) show ?thesis by simp
qed

lemma world_ok_read_half:
  "read_object lib now r (bw_ctx w) = (rc, out, c') \<Longrightarrow> world_ok w \<Longrightarrow> world_ok (w\<lparr>bw_ctx := c'\<rparr>)"
  by (auto intro: world_ok_ctx read_object_same_setup read_object_typed world_ok_typed)

section \<open>The steps\<close>

text \<open>What the function pointer of the monitor does.\<close>

definition config_callback :: "fn_ptr \<Rightarrow> 'l bworld \<Rightarrow> 'l bworld" where
  "config_callback f w = (if f = ON_CONFIG_CHANGED then snd (bacnet_reload_config w) else w)"

text \<open>One round of the monitor thread: it sees the time of the file as it is.\<close>

definition monitor_step :: "'l bworld \<Rightarrow> bool \<times> 'l bworld" where
  "monitor_step w =
     (case bac_monitor_round config_callback \<lparr>pl_stop = False, pl_mtime = bw_mtime w\<rparr> (bw_monitor w, w) of
        (go_on, g, w) \<Rightarrow> (go_on, w\<lparr>bw_monitor := g\<rparr>))"

text \<open>
  A read or a write of the PLC is not one step: it gives up \<open>g_plc_mutex\<close> between taking a pending reload, the
  release, making the driver ready, and the request itself, and the other threads may run in each gap. The
  request halves are steps in every state, ready or not. A release is not one step either: it stops the monitor,
  cleans up the stack, and then clears the tables one mutex at a time. (It holds the mutex of the driver object
  throughout, so that no initialisation starts the monitor again before the last of these steps.)
\<close>

inductive reset_step :: "'l stack_lib \<Rightarrow> 'l bctx \<Rightarrow> 'l bctx \<Rightarrow> bool" for lib where
  Cleaned_Up: "cleanup_context lib c = Some c' \<Longrightarrow> reset_step lib c c'"
| Objects_Cleared: "reset_step lib c (c\<lparr>object_states := []\<rparr>)"
| Ids_Cleared: "reset_step lib c (c\<lparr>invoke_id_to_key := []\<rparr>)"
| Writes_Cleared: "reset_step lib c (c\<lparr>write_pending_map := []\<rparr>)"
| Down: "reset_step lib c (c\<lparr>initialized := False\<rparr>)"

lemma reset_run:
  assumes "reset lib c = Some c'"
  shows "(reset_step lib)\<^sup>*\<^sup>* c c'"
proof -
  from assms obtain d where d: "cleanup_context lib c = Some d"
    and c': "c' = d\<lparr>object_states := []\<rparr>\<lparr>invoke_id_to_key := []\<rparr>\<lparr>write_pending_map := []\<rparr>\<lparr>initialized := False\<rparr>"
    by (auto simp: reset_def)
  show ?thesis
    unfolding c' by (rule rtranclp.intros reset_step.intros d)+
qed

inductive wstep :: "'l stack_lib \<Rightarrow> build \<Rightarrow> 'l bworld \<Rightarrow> 'l bworld \<Rightarrow> bool"
  for lib bld where
  Reload_Taken: "initialized (bw_ctx w) \<Longrightarrow> pending_reload (bw_ctx w) \<Longrightarrow>
    wstep lib bld w (w\<lparr>bw_ctx := (bw_ctx w)\<lparr>pending_reload := False\<rparr>\<rparr>)"
| Ready: "ensure_init_and_connect_locked lib bld inp w = Some (rc, w') \<Longrightarrow> wstep lib bld w w'"
| Read_Half: "read_object lib now r (bw_ctx w) = (rc, out, c') \<Longrightarrow> wstep lib bld w (w\<lparr>bw_ctx := c'\<rparr>)"
| Write_Half: "execute_write_property lib now (Some (bw_ctx w)) (Some q) = Some (rc, iout, Some c') \<Longrightarrow>
    wstep lib bld w (w\<lparr>bw_ctx := c'\<rparr>)"
| Initialize: "driver_initialize lib bld w = Some (rc, w') \<Longrightarrow> wstep lib bld w w'"
| Connect: "driver_connect lib now rounds w = Some (rc, w') \<Longrightarrow> wstep lib bld w w'"
| Disconnect: "driver_disconnect lib w = Some w' \<Longrightarrow> wstep lib bld w w'"
| Monitor_Stop: "monitor_is_running (bw_monitor w) \<Longrightarrow>
    wstep lib bld w (w\<lparr>bw_monitor := monitor_stop False (bw_monitor w)\<rparr>)"
| Reset: "reset_step lib (bw_ctx w) c' \<Longrightarrow> \<not> monitor_is_running (bw_monitor w) \<Longrightarrow>
    wstep lib bld w (w\<lparr>bw_ctx := c'\<rparr>)"
| Driver_Read: "driver_read lib now req w = (rc, w') \<Longrightarrow> wstep lib bld w w'"
| Driver_Write: "driver_write lib now wreq w = Some (rc, w') \<Longrightarrow> wstep lib bld w w'"
| Driver_Reload: "driver_reload_config w = (rc, w') \<Longrightarrow> wstep lib bld w w'"
| Worker: "worker_pass lib r (k, bw_ctx w) = Some (k', c') \<Longrightarrow> wstep lib bld w (w\<lparr>bw_ctx := c'\<rparr>)"
| Monitor: "monitor_step w = (go_on, w') \<Longrightarrow> wstep lib bld w w'"
| File: "wstep lib bld w (w\<lparr>bw_file := src, bw_mtime := t\<rparr>)"
| Text: "strdup_safe vl a n (bc_heap (bw_ctx w)) = Some (p, h) \<Longrightarrow> wstep lib bld w (set_heap h w)"

section \<open>Every step keeps the invariant\<close>

lemma world_ok_driver_read:
  assumes "driver_read lib now req w = (rc, w')" "world_ok w"
  shows "world_ok w'"
proof (cases "initialized (bw_ctx w) \<and> req \<noteq> None")
  case True
  then obtain r where req: "req = Some r" by auto
  obtain rc1 out ctx where e: "execute_read_property lib now (Some (bw_ctx w)) (Some r) = (rc1, out, ctx)"
    by (metis prod_cases3)
  have "w' = w\<lparr>bw_ctx := the ctx\<rparr>" using assms(1) True req e by (simp add: driver_read_def)
  moreover have "same_setup (bw_ctx w) (the ctx) \<and> cache_typed (the ctx) = cache_typed (bw_ctx w)"
    using e
    by (auto simp: execute_read_property_def same_setup_def cache_typed_def set_operation_state_def Let_def
        split: if_splits prod.splits)
  ultimately show ?thesis using world_ok_ctx assms(2) world_ok_typed by metis
next
  case False
  with assms show ?thesis by (auto simp: driver_read_def execute_read_property_def split: if_splits)
qed

lemma world_ok_driver_write:
  assumes "driver_write lib now req w = Some (rc, w')" "world_ok w"
  shows "world_ok w'"
  using assms
  by (cases req) (auto simp: driver_write_def execute_write_property_def [of lib now "Some (bw_ctx w)" None]
      intro: write_ok split: if_splits)

lemma world_ok_driver_reload: "driver_reload_config w = (rc, w') \<Longrightarrow> world_ok w \<Longrightarrow> world_ok w'"
  using bacnet_load_usable [of "bw_file w"]
  by (auto simp: driver_reload_config_def world_ok_def cache_typed_def split: if_splits prod.splits)

lemma monitor_step_cases:
  assumes "monitor_step w = (go_on, w')"
  obtains (Same) "w' = w"
  | (Changed) m g where "hm_running (bw_monitor w)" "g = (bw_monitor w)\<lparr>hm_last_mtime := m\<rparr>" "bw_mtime w = Some m"
      "m \<noteq> hm_last_mtime (bw_monitor w)" "go_on"
      "w' = (case hm_callback g of None \<Rightarrow> w | Some f \<Rightarrow> config_callback f w)\<lparr>bw_monitor := g\<rparr>"
proof -
  have upd: "w\<lparr>bw_monitor := bw_monitor w\<rparr> = w" by simp
  from assms show thesis
    using upd
    by (auto simp: monitor_step_def bac_monitor_round_def Let_def intro: that(1) that(2) split: if_splits option.splits)
qed

lemma world_ok_monitor: "monitor_step w = (go_on, w') \<Longrightarrow> world_ok w \<Longrightarrow> world_ok w'"
proof (erule monitor_step_cases)
  fix m g assume "world_ok w" "hm_running (bw_monitor w)" "g = (bw_monitor w)\<lparr>hm_last_mtime := m\<rparr>"
    "w' = (case hm_callback g of None \<Rightarrow> w | Some f \<Rightarrow> config_callback f w)\<lparr>bw_monitor := g\<rparr>"
  then show "world_ok w'"
    by (auto simp: world_ok_def config_callback_def bacnet_reload_config_def cache_typed_def monitor_ok_def)
qed simp

lemma strdup_typed:
  assumes "strdup_safe vl a n (bc_heap c) = Some (p, h)" "cache_typed c"
  shows "cache_typed (c\<lparr>bc_heap := h\<rparr>)"
proof -
  have "h = bc_heap c \<or> (\<exists>b q. heap_alloc b (bc_heap c) = (q, h))"
    using assms(1)
    by (auto simp: strdup_safe_def split: option.splits if_splits)
       (metis (no_types, lifting) case_prod_conv old.prod.exhaust prod.inject)
  then show ?thesis using assms(2) heap_alloc_typed(1,2) unfolding cache_typed_def by fastforce
qed

lemma reset_step_typed: "reset_step lib c c' \<Longrightarrow> cache_typed c \<Longrightarrow> cache_typed c'"
  by (induction rule: reset_step.induct)
     (auto simp: cleanup_context_def cache_typed_def reset_active_operation_locked_def stop_worker_thread_def Let_def)

lemma reset_step_setup: "reset_step lib c c' \<Longrightarrow> bc_config c' = bc_config c \<and> (initialized c' \<longrightarrow> initialized c)"
  by (induction rule: reset_step.induct)
     (auto simp: cleanup_context_def reset_active_operation_locked_def stop_worker_thread_def Let_def split: if_splits)

lemma monitor_stop_stops: "\<not> hm_running (monitor_stop own g)"
  by (simp add: monitor_stop_def stop_locked_def Let_def)

lemma wstep_ok [inv_intros]:
  assumes "wstep lib bld w w'" "world_ok w"
  shows "world_ok w'"
  using assms
proof (cases rule: wstep.cases)
  case (Write_Half now q rc iout c')
  from write_ok [OF Write_Half(2) assms(2)] Write_Half(1) show ?thesis by simp
next
  case Monitor_Stop
  with assms(2) monitor_stop_ok [of "bw_monitor w" False] show ?thesis by (simp add: world_ok_def)
next
  case (Reset c')
  with assms(2) reset_step_typed [OF Reset(2)] reset_step_setup [OF Reset(2)] show ?thesis
    by (auto simp: world_ok_def monitor_is_running_def)
next
  case (Worker r k k' c')
  have "cache_typed c'"
    using bsteps_typed [OF worker_pass_steps [OF Worker(2) rtranclp.rtrancl_refl]] world_ok_typed [OF assms(2)] .
  with Worker show ?thesis
    using world_ok_ctx [OF assms(2) keeps_same_setup [OF worker_pass_keeps_setup [OF Worker(2)]]] by simp
next
  case (File src t)
  with assms(2) show ?thesis by (simp add: world_ok_def)
next
  case (Text vl a n p h)
  have "same_setup (bw_ctx w) ((bw_ctx w)\<lparr>bc_heap := h\<rparr>)" by (simp add: same_setup_def)
  from world_ok_ctx [OF assms(2) this strdup_typed [OF Text(2) world_ok_typed [OF assms(2)]]] Text(1)
  show ?thesis by (simp add: set_heap_def)
qed (use assms(2) in \<open>blast intro: world_ok_pending world_ok_ensure world_ok_read_half world_ok_initialize world_ok_connect
  world_ok_disconnect world_ok_driver_read world_ok_driver_write world_ok_driver_reload
  world_ok_monitor\<close>)+

abbreviation wsteps :: "'l stack_lib \<Rightarrow> build \<Rightarrow> 'l bworld \<Rightarrow> 'l bworld \<Rightarrow> bool" where
  "wsteps lib bld \<equiv> (wstep lib bld)\<^sup>*\<^sup>*"

text \<open>A call that nothing overtakes is the run of its steps.\<close>

lemma driver_release_run:
  assumes "driver_release lib w = Some w'"
  shows "wsteps lib bld w w'"
proof (cases "initialized (bw_ctx w)")
  case True
  define w1 where "w1 = (if monitor_is_running (bw_monitor w) then w\<lparr>bw_monitor := monitor_stop False (bw_monitor w)\<rparr> else w)"
  have w1: "wsteps lib bld w w1" "\<not> monitor_is_running (bw_monitor w1)" "bw_ctx w1 = bw_ctx w"
    by (auto simp: w1_def monitor_is_running_def monitor_stop_stops
        intro: r_into_rtranclp [of "wstep lib bld", OF wstep.Monitor_Stop])
  from assms True obtain c where c: "reset lib (bw_ctx w1) = Some c" "w' = w1\<lparr>bw_ctx := c\<rparr>"
    by (auto simp: driver_release_def w1_def Let_def split: if_splits)
  have "wsteps lib bld w1 (w1\<lparr>bw_ctx := d\<rparr>)" if "(reset_step lib)\<^sup>*\<^sup>* (bw_ctx w1) d" for d
    using that
  proof (induction rule: rtranclp_induct)
    case (step d e)
    have "wstep lib bld (w1\<lparr>bw_ctx := d\<rparr>) (w1\<lparr>bw_ctx := d\<rparr>\<lparr>bw_ctx := e\<rparr>)"
      by (rule wstep.Reset) (use step w1(2) in simp_all)
    with step.IH show ?case by (simp add: rtranclp.rtrancl_into_rtrancl)
  qed simp
  from rtranclp_trans [OF w1(1) this [OF reset_run [OF c(1)]]] c(2) show ?thesis by simp
qed (use assms in \<open>simp add: driver_release_def\<close>)

lemma bacnet_cleanup_run: "bacnet_cleanup lib w = Some (rc, w') \<Longrightarrow> wsteps lib bld w w'"
  by (auto simp: bacnet_cleanup_def split: if_splits intro: driver_release_run)

lemma release_if_pending_run:
  assumes "release_if_pending lib w = Some w'"
  shows "wsteps lib bld w w'"
proof (cases "initialized (bw_ctx w) \<and> pending_reload (bw_ctx w)")
  case True
  with assms have "wsteps lib bld (w\<lparr>bw_ctx := (bw_ctx w)\<lparr>pending_reload := False\<rparr>\<rparr>) w'"
    by (intro driver_release_run) (simp add: release_if_pending_def)
  with True show ?thesis by (blast intro: converse_rtranclp_into_rtranclp wstep.Reload_Taken)
qed (use assms in \<open>auto simp: release_if_pending_def\<close>)

lemma ready_run:
  assumes "release_if_pending lib w = Some w1" "ensure_init_and_connect_locked lib bld inp w1 = Some (rc, w2)"
  shows "wsteps lib bld w w2"
  by (rule rtranclp.rtrancl_into_rtrancl [OF release_if_pending_run [OF assms(1)] wstep.Ready [OF assms(2)]])

lemma plc_read_run:
  assumes "bacnet_plc_read lib bld inp req w = Some (rc, out, w')"
  shows "wsteps lib bld w w'"
proof (cases req)
  case (Some r)
  with assms obtain w1 rc2 w2 where w2: "release_if_pending lib w = Some w1"
      "ensure_init_and_connect_locked lib bld inp w1 = Some (rc2, w2)"
    and "w' = w2 \<or> (\<exists>c. read_object lib (ci_now inp) r (bw_ctx w2) = (rc, out, c) \<and> w' = w2\<lparr>bw_ctx := c\<rparr>)"
    by (auto simp: bacnet_plc_read_def split: Option.bind_splits if_splits prod.splits)
  with ready_run [OF w2] show ?thesis by (auto intro: rtranclp.rtrancl_into_rtrancl wstep.Read_Half)
qed (use assms in \<open>auto simp: bacnet_plc_read_def\<close>)

lemma plc_write_run:
  assumes "bacnet_plc_write lib bld inp req w = Some (rc, out, w')"
  shows "wsteps lib bld w w'"
proof (cases req)
  case (Some r)
  with assms obtain w1 rc2 w2 where w2: "release_if_pending lib w = Some w1"
      "ensure_init_and_connect_locked lib bld inp w1 = Some (rc2, w2)"
    and rest: "w' = w2 \<or> (\<exists>rc out ctx. execute_write_property lib (ci_now inp) (Some (bw_ctx w2)) (Some r) = Some (rc, out, ctx) \<and>
        w' = w2\<lparr>bw_ctx := the ctx\<rparr>)"
    by (auto simp: bacnet_plc_write_def Let_def split: Option.bind_splits if_splits prod.splits)
  from rest show ?thesis
  proof (elim disjE exE conjE)
    fix rc out ctx
    assume e: "execute_write_property lib (ci_now inp) (Some (bw_ctx w2)) (Some r) = Some (rc, out, ctx)"
      "w' = w2\<lparr>bw_ctx := the ctx\<rparr>"
    obtain c' where "ctx = Some c'" by (rule execute_write_ctx [OF e(1)])
    with e have "wstep lib bld w2 w'" by (auto intro: wstep.Write_Half)
    with ready_run [OF w2] show ?thesis by (rule rtranclp.rtrancl_into_rtrancl)
  qed (use ready_run [OF w2] in simp)
qed (use assms in \<open>auto simp: bacnet_plc_write_def\<close>)

interpretation driver_run: relation_invariant "wstep lib bld" world_ok for lib bld
  by unfold_locales (rule wstep_ok)

text \<open>A process that has not called the driver yet.\<close>

definition bworld_start :: "'l \<Rightarrow> yaml_source \<Rightarrow> int option \<Rightarrow> 'l bworld" where
  "bworld_start l src t = \<lparr>bw_ctx = bctx_start l, bw_monitor = hot_monitor_start, bw_file = src, bw_mtime = t,
     bw_cleanup_registered = False\<rparr>"

lemma bworld_start_ok: "world_ok (bworld_start l src t)"
  by (simp add: world_ok_def bworld_start_def bctx_start_def hot_monitor_start_def monitor_ok_def cache_typed_def
      heap_fresh_def)

end
