(* ===== verification/Bacnet_Runs.thy ===== *)
theory Bacnet_Runs
  imports Bacnet_World
begin

text \<open>
  Properties of every run of the whole driver: the configuration it runs on, the values it hands out, when a
  call returns, and how a change of the configuration file takes effect.
\<close>

section \<open>A sample run\<close>

definition plain_build :: build where "plain_build = \<lparr>bacdl_multiple = False, bacdl_mstp = False\<rparr>"

text \<open>A process that reads a text of device 5678, from its first call to the delivery of the value.\<close>

definition first_call :: call_input where
  "first_call = \<lparr>ci_connect_time = 0,
     ci_rounds = [\<lparr>dr_now = 10, dr_stop = False, dr_packet = Some (IAm (Some (5678, 480)) address_zero)\<rparr>], ci_now = 20\<rparr>"

definition name_read :: bacnet_read where "name_read = BACNET_READ_INIT 1 5678 0 1 77 True"

definition asked_ctx :: "u8 list bctx" where
  "asked_ctx = (bctx_start [1])\<lparr>
     object_states := [(read_key name_read, sample_entry)],
     invoke_id_to_key := [(1, read_key name_read)], bc_config := bacnet_config_defaults,
     target_device_start := 5678, target_device_end := 5678, connection_state := BACNET_CONN_CONNECTED,
     operation_state := BACNET_OP_PENDING, target_found := True,
     active_operation := (active_op_reset active_op_zero)\<lparr>op_type := KindRead, op_request := Some 1,
        op_target := address_zero, op_device := 5678, op_start_time := 20,
        op_timeout_ms := choose_timeout 0 6000 6000, op_invoke_id := 1\<rparr>,
     worker_thread := True, worker_running := True, device_address_to_id := [(address_zero, 5678)],
     initialized := True\<rparr>"

definition asked_world :: "u8 list bworld" where
  "asked_world = \<lparr>bw_ctx = asked_ctx,
     bw_monitor = \<lparr>hm_path = kConfigPath, hm_thread = True, hm_running = True, hm_last_mtime = 1,
       hm_callback = Some ON_CONFIG_CHANGED, hm_userdata = None, hm_interval_ms = 1000\<rparr>,
     bw_file = NoFile, bw_mtime = Some 1, bw_cleanup_registered = True\<rparr>"

lemmas first_call_simps = bacnet_plc_read_def release_if_pending_def ensure_init_and_connect_locked_def
  driver_initialize_def initialize_def initialize_context_def bacnet_load_config_from_yaml_def bworld_start_def
  bctx_start_def plain_build_def initialize_all_datalinks_def register_bacnet_handlers_def
  reset_active_operation_locked_def set_connection_state_def set_operation_state_def monitor_init_def
  hot_monitor_start_def stop_locked_def assign_thread_def set_polling_interval_def get_connection_state_def
  driver_connect_def connect_device_def discover_target_device_def discover_start_def first_call_def
  discovery_timeout_def maintenance_interval_def sample_stack_def discover_pass_def npdu_handler_def
  handle_iam_callback_def stop_asked_def start_worker_thread_def trigger_callback_def
  code_consts

lemma first_call_asks:
  "bacnet_plc_read sample_stack plain_build first_call (Some name_read) (bworld_start [] NoFile (Some 1)) =
     Some (PROTO_NO_DATA, None, asked_world)"
  by (simp add: first_call_simps bacnet_config_defaults_def Let_def)
     (simp add: read_object_def send_read_def execute_read_property_def resolve_target_address_def
    sample_next_def Let_def code_consts set_operation_state_def
    name_read_def BACNET_READ_INIT_def read_key_def asked_world_def asked_ctx_def sample_entry_def object_state_zero_def bctx_start_def bacnet_config_defaults_def)

definition answer_pass :: worker_round where
  "answer_pass = \<lparr>wr_now = 30, wr_seconds = 0, wr_stop = False,
     wr_packet = Some (ReadAck (Some (Some (ACharacterString ''on''))) address_zero 1), wr_discovery = []\<rparr>"

definition answered_ctx :: "u8 list bctx" where
  "answered_ctx = asked_ctx\<lparr>object_states := [(read_key name_read, sample_entry\<lparr>active_invoke_id := 0,
       st_status := PROTO_SUCCESS, cached_value := DCharacterString (Some 1) 2, has_valid_cache := True,
       st_timestamp := 30\<rparr>)], invoke_id_to_key := [],
     bc_heap := \<lparr>blocks = [1 \<mapsto> ''on'' @ [NUL]], next_block = 2\<rparr>, stack := []\<rparr>"

lemma answer_arrives:
  "worker_pass sample_stack answer_pass (\<lparr>last_timer_update = 30, last_cleanup = 30, last_reconnect_check = 0\<rparr>, asked_ctx) =
     Some (\<lparr>last_timer_update = 30, last_cleanup = 30, last_reconnect_check = 0\<rparr>, answered_ctx)"
  by (simp add: worker_pass_def worker_timers_def worker_cleanup_def answer_pass_def Let_def npdu_handler_def handle_read_property_ack_def
   answered_ctx_def asked_ctx_def bctx_start_def sample_entry_def object_state_zero_def store_in_cache_def store_application_value_def
   sample_stack_def sample_value_lib_def device_index_def tsm_free_def heap_alloc_def code_consts)

text \<open>The driver answers the first call with nothing, the next one with the text.\<close>

lemma asked_reached: "wsteps sample_stack plain_build (bworld_start [] NoFile (Some 1)) asked_world"
  by (rule plc_read_run [OF first_call_asks])

lemma answered_reached:
  "wsteps sample_stack plain_build (bworld_start [] NoFile (Some 1)) (asked_world\<lparr>bw_ctx := answered_ctx\<rparr>)"
proof (rule rtranclp.rtrancl_into_rtrancl [OF asked_reached])
  show "wstep sample_stack plain_build asked_world (asked_world\<lparr>bw_ctx := answered_ctx\<rparr>)"
    by (rule wstep.Worker) (use answer_arrives in \<open>simp add: asked_world_def\<close>)
qed

lemma answer_is_read:
  "\<exists>w'. bacnet_plc_read sample_stack plain_build first_call (Some name_read) (asked_world\<lparr>bw_ctx := answered_ctx\<rparr>) =
     Some (PROTO_SUCCESS, Some (DCharacterString (Some 1) 2), w')"
  by (simp add: bacnet_plc_read_def release_if_pending_def ensure_init_and_connect_locked_def get_connection_state_def
      answered_ctx_def asked_ctx_def bctx_start_def read_object_def cache_hit_def send_read_def
      execute_read_property_def resolve_target_address_def name_read_def BACNET_READ_INIT_def sample_stack_def
      sample_next_def set_operation_state_def sample_entry_def object_state_zero_def read_key_def first_call_def
      code_consts Let_def)

section \<open>The configuration in use\<close>



section \<open>The values handed out\<close>



section \<open>When a call returns\<close>

text \<open>The configuration a call of the PLC works with.\<close>

definition call_config :: "'l bworld \<Rightarrow> bacnet_config" where
  "call_config w =
     (if initialized (bw_ctx w) \<and> \<not> pending_reload (bw_ctx w) then bc_config (bw_ctx w)
      else snd (bacnet_load_config_from_yaml (bw_file w)))"

lemma discover_loop_returns:
  "\<exists>r \<in> set rs. given_up lib start timeout_ms r \<Longrightarrow> discover_loop lib start timeout_ms ms rs (t, c) \<noteq> None"
proof (induction rs arbitrary: t c)
  case (Cons r rs)
  obtain t' c' where "discover_pass lib ms r (t, stop_asked r c) = (t', c')" by fastforce
  with Cons.prems Cons.IH [of t' c'] show ?case by (auto simp: given_up_def stop_asked_def Let_def)
qed simp

lemma connect_returns:
  assumes "\<exists>r \<in> set rounds. given_up lib now (discovery_timeout (bc_config c)) r"
  shows "connect_device lib now rounds c \<noteq> None"
proof -
  have "discover_target_device lib now rounds (set_connection_state BACNET_CONN_CONNECTING c) \<noteq> None"
    using discover_loop_returns [of rounds lib now "discovery_timeout (bc_config c)"] assms
    by (auto simp: discover_target_device_def set_connection_state_def split: option.splits) 
  then show ?thesis by (auto simp: connect_device_def Let_def)
qed

lemma ensure_returns:
  assumes "world_ok w"
    and cfg: "cfg = (if initialized (bw_ctx w) then bc_config (bw_ctx w) else snd (bacnet_load_config_from_yaml (bw_file w)))"
    and "\<exists>r \<in> set (ci_rounds inp). given_up lib (ci_connect_time inp) (discovery_timeout cfg) r"
  shows "ensure_init_and_connect_locked lib bld inp w \<noteq> None"
proof (cases "initialized (bw_ctx w)")
  case True
  then have "connect_device lib (ci_connect_time inp) (ci_rounds inp) (bw_ctx w) \<noteq> None"
    using connect_returns [of "ci_rounds inp" lib "ci_connect_time inp" "bw_ctx w"] assms(3) cfg by simp
  with True show ?thesis
    by (auto simp: ensure_init_and_connect_locked_def driver_connect_def split: Option.bind_splits)
next
  case False
  obtain rc w1 where i: "driver_initialize lib bld w = Some (rc, w1)" "rc = PROTO_SUCCESS \<longleftrightarrow> initialized (bw_ctx w1)"
    "set_up_from (bw_file w) (bw_ctx w1)"
    by (rule driver_initialize_ok [OF assms(1) False, where lib = lib and bld = bld])
  moreover have "cfg = bc_config (bw_ctx w1)" using i(3) cfg False by (simp add: set_up_from_def Let_def)
  moreover have "connect_device lib (ci_connect_time inp) (ci_rounds inp) (bw_ctx w1) \<noteq> None"
    using connect_returns [of "ci_rounds inp" lib "ci_connect_time inp" "bw_ctx w1"] assms(3) calculation(4) by simp
  ultimately show ?thesis
    using False
    by (auto simp: ensure_init_and_connect_locked_def driver_connect_def split: Option.bind_splits)
qed

lemma reset_returns: "target_device_end c \<noteq> - 1 \<Longrightarrow> reset lib c \<noteq> None"
  by (simp add: reset_def cleanup_context_def remove_devices_done)

lemma release_returns:
  assumes "world_ok w" "initialized (bw_ctx w) \<and> pending_reload (bw_ctx w) \<longrightarrow> target_device_end (bw_ctx w) \<noteq> - 1"
  obtains w1 where "release_if_pending lib w = Some w1" "world_ok w1" "bw_file w1 = bw_file w"
    "initialized (bw_ctx w1) \<longleftrightarrow> initialized (bw_ctx w) \<and> \<not> pending_reload (bw_ctx w)"
    "initialized (bw_ctx w1) \<longrightarrow> bw_ctx w1 = bw_ctx w"
proof (cases "initialized (bw_ctx w) \<and> pending_reload (bw_ctx w)")
  case False
  with assms(1) show thesis by (intro that [of w]) (auto simp: release_if_pending_def)
next
  case True
  let ?w = "w\<lparr>bw_ctx := (bw_ctx w)\<lparr>pending_reload := False\<rparr>\<rparr>"
  have "reset lib (bw_ctx ?w) \<noteq> None" using assms(2) True by (intro reset_returns) simp
  then have "driver_release lib ?w \<noteq> None" using True by (simp add: driver_release_def Let_def)
  then obtain w1 where r: "driver_release lib ?w = Some w1" by auto
  have ok: "world_ok ?w" by (rule world_ok_pending [OF assms(1)])
  from that [of w1] world_ok_release [OF r ok] r True show thesis by (simp add: release_if_pending_def)
qed

lemma read_returns:
  assumes "world_ok w"
    and "initialized (bw_ctx w) \<and> pending_reload (bw_ctx w) \<longrightarrow> target_device_end (bw_ctx w) \<noteq> - 1"
    and "\<exists>r \<in> set (ci_rounds inp). given_up lib (ci_connect_time inp) (discovery_timeout (call_config w)) r"
  shows "\<exists>rc out w'. bacnet_plc_read lib bld inp req w = Some (rc, out, w')"
proof -
  obtain w1 where w1: "release_if_pending lib w = Some w1" "world_ok w1" "bw_file w1 = bw_file w"
    "initialized (bw_ctx w1) \<longleftrightarrow> initialized (bw_ctx w) \<and> \<not> pending_reload (bw_ctx w)"
    "initialized (bw_ctx w1) \<longrightarrow> bw_ctx w1 = bw_ctx w"
    by (rule release_returns [OF assms(1) assms(2), where lib = lib])
  have "call_config w =
      (if initialized (bw_ctx w1) then bc_config (bw_ctx w1) else snd (bacnet_load_config_from_yaml (bw_file w1)))"
    using w1 by (auto simp: call_config_def)
  from ensure_returns [OF w1(2) this assms(3)] obtain rc w2 where
    "ensure_init_and_connect_locked lib bld inp w1 = Some (rc, w2)" by fastforce
  with w1(1) show ?thesis by (cases req; cases "rc = PROTO_SUCCESS") (auto simp: bacnet_plc_read_def split: prod.split)
qed


text \<open>A call that is given up at once.\<close>

definition hasty_call :: call_input where
  "hasty_call = \<lparr>ci_connect_time = 0, ci_rounds = [\<lparr>dr_now = 10, dr_stop = True, dr_packet = None\<rparr>], ci_now = 20\<rparr>"

lemma hasty_call_gives_up: "\<exists>r \<in> set (ci_rounds hasty_call). given_up lib (ci_connect_time hasty_call) t r"
  by (simp add: hasty_call_def given_up_def)


section \<open>From the change of the file to its effect\<close>

text \<open>What goes on by itself while the PLC makes no call.\<close>

inductive background :: "'l stack_lib \<Rightarrow> 'l bworld \<Rightarrow> 'l bworld \<Rightarrow> bool" for lib where
  Worker_Pass: "worker_pass lib r (k, bw_ctx w) = Some (k', c') \<Longrightarrow> background lib w (w\<lparr>bw_ctx := c'\<rparr>)"
| Monitor_Round: "monitor_step w = (go_on, w') \<Longrightarrow> background lib w w'"

definition reload_due :: "yaml_source \<Rightarrow> 'l bworld \<Rightarrow> bool" where
  "reload_due src w \<longleftrightarrow> initialized (bw_ctx w) \<and> pending_reload (bw_ctx w) \<and> bw_file w = src"

lemma monitor_reload_due: "monitor_step w = (go_on, w') \<Longrightarrow> reload_due src w \<Longrightarrow> reload_due src w'"
  by (erule monitor_step_cases)
     (auto simp: reload_due_def config_callback_def bacnet_reload_config_def split: option.split)

lemma background_reload_due: "background lib w w' \<Longrightarrow> reload_due src w \<Longrightarrow> reload_due src w'"
proof (induction rule: background.induct)
  case (Worker_Pass r k w k' c')
  with keeps_same_setup [OF worker_pass_keeps_setup [OF Worker_Pass(1)]] show ?case
    by (simp add: reload_due_def same_setup_def)
qed (rule monitor_reload_due)

interpretation bg: relation_invariant "background lib" "reload_due src" for lib src
  by unfold_locales (rule background_reload_due)

lemma monitor_sees_change:
  assumes "world_ok w" "hm_running (bw_monitor w)" "bw_mtime w = Some m" "m \<noteq> hm_last_mtime (bw_monitor w)"
    and "monitor_step w = (go_on, w')"
  shows "reload_due (bw_file w) w'" "go_on"
  using assms
  by (auto simp: monitor_step_def bac_monitor_round_def world_ok_def config_callback_def bacnet_reload_config_def
      reload_due_def Let_def)

text \<open>C15: A changed file takes effect with the next read. Whenever the monitor runs and the file is replaced, its
  next round (which sees another time) makes the driver reload: whatever the worker and monitor threads do
  in between, the next read of the PLC works with the configuration of the new file and its device range,
  returns nothing of the old cache, and leaves at most its own entry and request in the tables.\<close>

theorem changed_file_takes_effect:
  assumes "wsteps lib bld (bworld_start l src0 t0) w" "hm_running (bw_monitor w)"
    and "m \<noteq> hm_last_mtime (bw_monitor w)" "monitor_step (w\<lparr>bw_file := src, bw_mtime := Some m\<rparr>) = (go_on, w1)"
    and "(background lib)\<^sup>*\<^sup>* w1 w2" "bacnet_plc_read lib bld inp (Some r) w2 = Some (rc, out, w3)"
  shows "set_up_from src (bw_ctx w3) \<and> \<not> pending_reload (bw_ctx w3) \<and> out = None \<and>
    fst ` set (object_states (bw_ctx w3)) \<subseteq> {read_key r} \<and> snd ` set (invoke_id_to_key (bw_ctx w3)) \<subseteq> {read_key r}"
proof -
  let ?w = "w\<lparr>bw_file := src, bw_mtime := Some m\<rparr>"
  have "world_ok ?w" using driver_run.runs_inv [OF assms(1) bworld_start_ok] by (simp add: world_ok_def)
  from monitor_sees_change(1) [OF this _ _ _ assms(4)] assms(2,3) have "reload_due src w1" by simp
  with bg.runs_inv assms(5) have "reload_due src w2" by blast
  with reload_read [OF _ _ assms(6)] show ?thesis by (simp add: reload_due_def)
qed

theorem changed_file_takes_effect_witness:
  "\<exists>w1 rc w3. monitor_step (asked_world\<lparr>bw_file := Events [], bw_mtime := Some 2\<rparr>) = (True, w1) \<and>
    bacnet_plc_read sample_stack plain_build hasty_call (Some name_read) w1 = Some (rc, None, w3) \<and>
    set_up_from (Events []) (bw_ctx w3)"
proof -
  let ?w = "asked_world\<lparr>bw_file := Events [], bw_mtime := Some 2\<rparr>"
  obtain w1 where w1: "monitor_step ?w = (True, w1)" "target_device_end (bw_ctx w1) = 5678"
    by (simp add: monitor_step_def bac_monitor_round_def asked_world_def config_callback_def bacnet_reload_config_def
        asked_ctx_def)
  have "world_ok w1"
    using world_ok_monitor [OF w1(1)] driver_run.runs_inv [OF asked_reached bworld_start_ok] by (simp add: world_ok_def)
  from read_returns [OF this _ hasty_call_gives_up] w1(2) obtain rc out w3 where
    r: "bacnet_plc_read sample_stack plain_build hasty_call (Some name_read) w1 = Some (rc, out, w3)" by fastforce
  have "hm_running (bw_monitor asked_world)" "2 \<noteq> hm_last_mtime (bw_monitor asked_world)" by (simp_all add: asked_world_def)
  from changed_file_takes_effect [OF asked_reached this w1(1) rtranclp.rtrancl_refl r] w1(1) r show ?thesis by auto
qed

section \<open>The batch read is a run\<close>

lemma set_heap_same [simp]: "set_heap (bc_heap (bw_ctx w)) w = w"
  by (simp add: set_heap_def)

lemma store_run:
  assumes "(prop_id, st) \<in> set batch_steps" "st vl v (p, n, bc_heap (bw_ctx w)) = Some (p', n', h)"
  shows "wsteps lib bld w (set_heap h w)"
proof -
  have "h = bc_heap (bw_ctx w) \<or> (\<exists>a len q. strdup_safe vl a len (bc_heap (bw_ctx w)) = Some (q, h))"
    using assms
    by (auto simp: batch_steps_def store_name_def store_present_value_def store_status_flags_def store_out_of_service_def
        store_event_state_def store_description_def store_units_def store_relinquish_default_def store_cov_increment_def
        split: data_value.splits option.splits)
  then show ?thesis by (auto intro: wstep.Text)
qed

lemma sync_loop_run:
  assumes "\<forall>a \<in> set as. \<forall>w. wsteps lib bld w (at_meanwhile a w)" "sync_loop lib bld req as w = Some (out, w')"
  shows "wsteps lib bld w w'"
  using assms
proof (induction as arbitrary: w)
  case (Cons a as)
  obtain rc out1 w1 where r: "bacnet_plc_read lib bld (at_input a) (Some req) w = Some (rc, out1, w1)"
    using Cons.prems(2) by (auto split: option.splits)
  have w1: "wsteps lib bld w w1" by (rule plc_read_run [OF r])
  moreover have "wsteps lib bld w (at_meanwhile a w1)" using Cons.prems(1) rtranclp_trans [OF w1] by simp
  moreover have "w' = w1 \<or> w' = at_meanwhile a w1 \<or> sync_loop lib bld req as (at_meanwhile a w1) = Some (out, w')"
    using Cons.prems(2) r by (auto simp: Let_def split: if_splits)
  ultimately show ?case using rtranclp_trans [OF _ Cons.IH [of "at_meanwhile a w1"]] Cons.prems(1) by auto
qed simp

text \<open>A batch read is a run of the driver like any other: if what the other threads do while its polls sleep are
  runs, so is the whole batch, with its ten properties, its retries and the copies of the strings. What
  holds along every run thus holds along and after a batch.\<close>

theorem batch_is_a_run:
  assumes "\<forall>as \<in> set attempts. \<forall>a \<in> set as. \<forall>w. wsteps lib bld w (at_meanwhile a w)"
    and "plc_proto_read_object_properties lib bld self dev ty inst buf attempts w = Some (rc, p, w')"
  shows "wsteps lib bld w w'"
proof -
  have loop: "wsteps lib bld w w'"
    if "batch_loop lib bld self dev ty inst steps (p, n, w) = Some (p', n', w')" "fst ` set steps \<subseteq> set batch_steps"
      "\<forall>as \<in> snd ` set steps. \<forall>a \<in> set as. \<forall>w. wsteps lib bld w (at_meanwhile a w)" for steps p n w p' n' w'
    using that
  proof (induction steps arbitrary: p n w)
    case (Cons s steps)
    obtain pid st as where s: "s = ((pid, st), as)" by (metis prod_cases3 surj_pair)
    obtain v w1 where r: "read_property_sync lib bld self dev ty inst pid as w = Some (v, w1)"
      using Cons.prems(1) s by (auto split: option.splits)
    have "\<forall>a \<in> set (take max_retries as). \<forall>w. wsteps lib bld w (at_meanwhile a w)"
      using Cons.prems(3) s by (auto dest: in_set_takeD)
    then have w1: "wsteps lib bld w w1"
      by (rule sync_loop_run) (use r in \<open>simp add: read_property_sync_def\<close>)
    show ?case
    proof (cases v)
      case None
      with Cons r s w1 show ?thesis by (auto intro: rtranclp_trans)
    next
      case (Some x)
      with Cons.prems(1) r s obtain p2 n2 h where st: "st (sl_value_lib lib) x (p, n, bc_heap (bw_ctx w1)) = Some (p2, n2, h)"
        and next_loop: "batch_loop lib bld self dev ty inst steps (p2, n2, set_heap h w1) = Some (p', n', w')"
        by (auto split: option.splits)
      have "(pid, st) \<in> set batch_steps" using Cons.prems(2) s by auto
      from rtranclp_trans [OF w1 store_run [OF this st]] have "wsteps lib bld w (set_heap h w1)" .
      moreover have "wsteps lib bld (set_heap h w1) w'" using Cons.IH [OF next_loop] Cons.prems(2,3) by simp
      ultimately show ?thesis by (rule rtranclp_trans)
    qed
  qed simp
  define res where "res = batch_loop lib bld self dev ty inst (zip batch_steps attempts)
      ((invalid_properties ty)\<lparr>pr_object_identifier := object_identifier ty inst\<rparr>, 1, w)"
  have "w' = w \<or> (\<exists>p1 n1. res = Some (p1, n1, w'))"
    using assms(2) unfolding plc_proto_read_object_properties_def Let_def res_def [symmetric]
    by (cases buf; cases res) auto
  moreover have "fst ` set (zip batch_steps attempts) \<subseteq> set batch_steps" by (auto dest: set_zip_leftD)
  moreover have "\<forall>as \<in> snd ` set (zip batch_steps attempts). \<forall>a \<in> set as. \<forall>w. wsteps lib bld w (at_meanwhile a w)"
  proof
    fix as assume "as \<in> snd ` set (zip batch_steps attempts)"
    then have "as \<in> set attempts" by (auto dest: set_zip_rightD)
    with assms(1) show "\<forall>a \<in> set as. \<forall>w. wsteps lib bld w (at_meanwhile a w)" by simp
  qed
  ultimately show ?thesis unfolding res_def by (elim disjE exE) (simp, rule loop)
qed

theorem batch_is_a_run_witness:
  "wsteps sample_stack \<lparr>bacdl_multiple = False, bacdl_mstp = False\<rparr> cached_world cached_world"
proof -
  have "plc_proto_read_object_properties sample_stack \<lparr>bacdl_multiple = False, bacdl_mstp = False\<rparr> 1 9 0 1 True
      (replicate 9 [sample_attempt 20200]) cached_world =
      Some (PROTO_SUCCESS, Some ((invalid_properties 0)\<lparr>pr_object_identifier := object_identifier 0 1\<rparr>), cached_world)"
    by (simp only: plc_proto_read_object_properties_def Let_def refused_batch) simp
  then show ?thesis by (rule batch_is_a_run [rotated]) (simp add: sample_attempt_def)
qed

end
