(* ===== verification/Bacnet_Doubles.thy ===== *)
theory Bacnet_Doubles
  imports Bacnet_Batch Complex_Main
begin

text \<open>
  The numbers a batch read delivers: the conversions from \<open>float\<close> and from \<open>unsigned\<close> to \<open>double\<close> against the
  values the formats stand for.
\<close>

section \<open>What the bits stand for\<close>

text \<open>The finite numbers of the two formats, as reals: sign, exponent and fraction of IEEE 754.\<close>

definition float_value :: "u32 \<Rightarrow> real" where
  "float_value w =
     (let e = uint w div 2 ^ 23 mod 2 ^ 8; f = uint w mod 2 ^ 23
      in (if bit w 31 then - 1 else 1) *
         (if e = 0 then of_int f * 2 powi (- 149) else of_int (f + 2 ^ 23) * 2 powi (e - 150)))"

definition float_finite :: "u32 \<Rightarrow> bool" where
  "float_finite w \<longleftrightarrow> uint w div 2 ^ 23 mod 2 ^ 8 \<noteq> 255"

definition double_value :: "u64 \<Rightarrow> real" where
  "double_value w =
     (let e = uint w div 2 ^ 52 mod 2 ^ 11; f = uint w mod 2 ^ 52
      in (if bit w 63 then - 1 else 1) *
         (if e = 0 then of_int f * 2 powi (- 1074) else of_int (f + 2 ^ 52) * 2 powi (e - 1075)))"

definition double_finite :: "u64 \<Rightarrow> bool" where
  "double_finite w \<longleftrightarrow> uint w div 2 ^ 52 mod 2 ^ 11 \<noteq> 2047"

section \<open>Packing\<close>

lemma top_bit_bounds:
  assumes "0 < n"
  shows "2 ^ top_bit n \<le> n \<and> n < 2 ^ Suc (top_bit n)"
  using assms
proof (induction n rule: top_bit.induct)
  case (1 n)
  show ?case
  proof (cases "n < 2")
    case True
    with "1.prems" show ?thesis by (simp add: top_bit.simps)
  next
    case False
    with 1 have "2 ^ top_bit (n div 2) \<le> n div 2 \<and> n div 2 < 2 ^ Suc (top_bit (n div 2))" by simp
    with False show ?thesis by (subst (1 2) top_bit.simps) auto
  qed
qed

lemma top_bit_less:
  assumes "0 < n" "n < 2 ^ Suc k"
  shows "top_bit n \<le> k"
proof -
  have "(2 :: int) ^ top_bit n < 2 ^ Suc k" using top_bit_bounds [OF assms(1)] assms(2) by linarith
  then show ?thesis by (metis less_Suc_eq_le one_less_numeral_iff power_less_imp_less_exp semiring_norm(76))
qed

text \<open>The fields of a packed number.\<close>

lemma fields_of_sum:
  fixes x g :: int and s :: bool
  assumes "0 \<le> x" "x < 2 ^ 11" "0 \<le> g" "g < 2 ^ 52"
  defines "w \<equiv> word_of_int ((if s then 2 ^ 63 else 0) + x * 2 ^ 52 + g) :: u64"
  shows "uint w div 2 ^ 52 mod 2 ^ 11 = x" "uint w mod 2 ^ 52 = g" "bit w 63 = s"
proof -
  let ?u = "(if s then 2 ^ 63 else 0) + x * 2 ^ 52 + g"
  have x: "x * 2 ^ 52 + g < 2 ^ 63" "0 \<le> x * 2 ^ 52 + g" using assms(1-4) by simp_all
  then have "0 \<le> ?u" "?u < 2 ^ 64" by auto
  then have u: "uint w = ?u"
    unfolding w_def by (simp only: uint_word_of_int len_num1 len_bit0 len_bit1 mod_pos_pos_trivial) simp
  have "?u div 2 ^ 52 = (if s then 2 ^ 11 else 0) + x" using assms(3,4) by (simp add: div_add1_eq)
  with u assms(1,2) show "uint w div 2 ^ 52 mod 2 ^ 11 = x" by simp
  have "?u = ((if s then 2 ^ 11 else 0) + x) * 2 ^ 52 + g" by simp
  then have "?u mod 2 ^ 52 = g mod 2 ^ 52" by (simp only: mod_mult_self3)
  with u assms(3,4) show "uint w mod 2 ^ 52 = g" by simp
  have "bit w 63 = bit (uint w) 63" by (simp add: bit_uint_iff)
  also have "\<dots> = odd (uint w div 2 ^ 63)" by (rule bit_iff_odd)
  also have "uint w div 2 ^ 63 = (if s then 1 else 0)" using x u
    by (cases s) (simp_all add: div_pos_geq div_pos_pos_trivial)
  finally show "bit w 63 = s" by simp
qed

lemma pack_double_value:
  assumes "0 < n" "n < 2 ^ 53" "- 1022 \<le> e + int (top_bit n)" "e + int (top_bit n) \<le> 1023"
  shows "double_value (pack_double s n e) = (if s then - 1 else 1) * of_int n * 2 powi e"
    "double_finite (pack_double s n e)"
proof -
  define t where "t = top_bit n"
  define g where "g = (n - 2 ^ t) * 2 ^ (52 - t)"
  define x where "x = e + int t + 1023"
  have t: "t \<le> 52" using top_bit_less [OF assms(1), of 52] assms(2) by (simp add: t_def)
  have split: "(2 :: int) ^ 52 = 2 ^ t * 2 ^ (52 - t)" using t by (simp flip: power_add)
  have b: "2 ^ t \<le> n" "n < 2 * 2 ^ t" using top_bit_bounds [OF assms(1)] by (simp_all add: t_def)
  have g: "0 \<le> g" "g < 2 ^ 52"
    using b unfolding g_def split by simp_all
  have x: "0 < x" "x < 2047" using assms(3,4) by (simp_all add: x_def t_def)
  have p: "pack_double s n e = word_of_int ((if s then 2 ^ 63 else 0) + x * 2 ^ 52 + g)"
    using assms(1) by (simp add: pack_double_def x_def g_def t_def Let_def)
  note f = fields_of_sum [of x g s, folded p]
  have "of_int (g + 2 ^ 52) * 2 powi (x - 1075) = (of_int n * 2 ^ (52 - t)) * (2 :: real) powi (x - 1075)"
    unfolding g_def split by (simp add: algebra_simps)
  also have "\<dots> = of_int n * 2 powi e"
  proof -
    have "(2 :: real) ^ (52 - t) * 2 powi (x - 1075) = 2 powi (int (52 - t) + (x - 1075))"
      by (simp add: power_int_add)
    also have "int (52 - t) + (x - 1075) = e" using t by (simp add: x_def of_nat_diff)
    finally show ?thesis by (simp add: mult.assoc)
  qed
  finally show "double_value (pack_double s n e) = (if s then - 1 else 1) * of_int n * 2 powi e"
    using f x g by (simp add: double_value_def Let_def)
  show "double_finite (pack_double s n e)" using f x g by (simp add: double_finite_def)
qed

section \<open>The conversions\<close>

lemma top_bit_at_least:
  assumes "2 ^ k \<le> n"
  shows "k \<le> top_bit n"
proof -
  have "0 < n" using assms by (meson less_le_trans zero_less_numeral zero_less_power)
  then have "(2 :: int) ^ k < 2 ^ Suc (top_bit n)" using top_bit_bounds assms by (meson le_less_trans)
  then show ?thesis by (metis less_Suc_eq_le one_less_numeral_iff power_less_imp_less_exp semiring_norm(76))
qed

lemma pack_double_zero: "double_value (pack_double s 0 e) = 0 \<and> double_finite (pack_double s 0 e)"
  using fields_of_sum [of 0 0 s] by (simp add: pack_double_def double_value_def double_finite_def)

lemma double_of_float_exact:
  assumes "float_finite w"
  shows "double_finite (double_of_float w) \<and> double_value (double_of_float w) = float_value w"
proof -
  define x where "x = uint w div 2 ^ 23 mod 2 ^ 8"
  define f where "f = uint w mod 2 ^ 23"
  have f: "0 \<le> f" "f < 2 ^ 23" and x: "0 \<le> x" "x < 2 ^ 8" "x \<noteq> 255"
    using assms by (simp_all add: f_def x_def float_finite_def)
  have d: "double_of_float w =
      (if x = 0 then pack_double (bit w 31) f (- 149) else pack_double (bit w 31) (f + 2 ^ 23) (x - 150))"
    using x(3) by (simp only: double_of_float_def Let_def flip: x_def f_def) simp
  have v: "float_value w = (if bit w 31 then - 1 else 1) *
      (if x = 0 then of_int f * 2 powi (- 149) else of_int (f + 2 ^ 23) * 2 powi (x - 150))"
    by (simp only: float_value_def Let_def flip: x_def f_def)
  consider "x = 0" "f = 0" | "x = 0" "0 < f" | "0 < x" using f x by linarith
  then show ?thesis
  proof cases
    case 1
    with pack_double_zero show ?thesis by (simp add: d v)
  next
    case 2
    have "top_bit f \<le> 22" using top_bit_less [of f 22] f 2 by simp
    with pack_double_value [of f "- 149" "bit w 31"] 2 f show ?thesis
      by (simp add: d v)
  next
    case 3
    have "top_bit (f + 2 ^ 23) \<le> 23" "23 \<le> top_bit (f + 2 ^ 23)"
      using top_bit_less [of "f + 2 ^ 23" 23] top_bit_at_least [of 23 "f + 2 ^ 23"] f by simp_all
    then have "top_bit (f + 2 ^ 23) = 23" by simp
    with pack_double_value [of "f + 2 ^ 23" "x - 150" "bit w 31"] 3 f x show ?thesis
      by (simp add: d v)
  qed
qed

lemma double_of_unsigned_exact:
  "double_finite (double_of_unsigned n) \<and> double_value (double_of_unsigned n) = of_int (uint n)"
proof (cases "n = 0")
  case False
  have n: "0 < uint n" "uint n < 2 ^ 32" using False uint_lt2p [of n] by (simp_all add: word_gt_0 uint_0_iff order_less_le)
  then have "top_bit (uint n) \<le> 31" using top_bit_less [of "uint n" 31] by simp
  with pack_double_value [of "uint n" 0 False] n show ?thesis by (simp add: double_of_unsigned_def)
qed (use pack_double_zero in \<open>simp add: double_of_unsigned_def\<close>)



end
