(* ===== verification/Bacnet_Config_Sources.thy ===== *)
theory Bacnet_Config_Sources
  imports Bacnet_Config_Properties
begin

text \<open>
  Where the values of a configuration come from: the metadata the loader keeps beside the configuration
  (\<open>ConfigMetadata\<close>, \<open>g_config_metadata\<close>), and the rows of the table it prints. The frame of the table, made of
  characters outside ASCII, and its headings are left out.
\<close>

section \<open>The metadata\<close>

datatype config_source = FromDefault | FromYaml | FromUser

record config_metadata =
  md_environment :: config_source
  md_log_level :: config_source
  md_log_file :: config_source
  md_target_device_start :: config_source
  md_target_device_end :: config_source
  md_whois_retry :: config_source
  md_response_timeout_ms :: config_source
  md_instance_id :: config_source
  md_max_apdu :: config_source
  md_interface_name :: config_source
  md_port :: config_source
  md_broadcast_address :: config_source
  md_mstp_port :: config_source
  md_mstp_baud :: config_source
  md_mstp_mac :: config_source
  md_mstp_max_master :: config_source
  md_mstp_max_frames :: config_source
  md_read_timeout_ms :: config_source
  md_write_timeout_ms :: config_source
  md_default_priority :: config_source
  md_cache_expiry_ms :: config_source
  md_cache_strategy :: config_source
  md_datalink_maintenance_ms :: config_source
  md_max_reconnect_attempts :: config_source
  md_reconnect_interval_ms :: config_source
  md_hot_config_enabled :: config_source
  md_hot_config_polling_interval_ms :: config_source

text \<open>The global, before the first load.\<close>

definition g_config_metadata :: config_metadata where
  "g_config_metadata =
     \<lparr>md_environment = FromDefault, md_log_level = FromDefault, md_log_file = FromDefault,
      md_target_device_start = FromDefault, md_target_device_end = FromDefault,
      md_whois_retry = FromDefault, md_response_timeout_ms = FromDefault,
      md_instance_id = FromDefault, md_max_apdu = FromDefault,
      md_interface_name = FromDefault, md_port = FromDefault,
      md_broadcast_address = FromDefault, md_mstp_port = FromDefault,
      md_mstp_baud = FromDefault, md_mstp_mac = FromDefault,
      md_mstp_max_master = FromDefault, md_mstp_max_frames = FromDefault,
      md_read_timeout_ms = FromDefault, md_write_timeout_ms = FromDefault,
      md_default_priority = FromDefault, md_cache_expiry_ms = FromDefault,
      md_cache_strategy = FromDefault, md_datalink_maintenance_ms = FromDefault,
      md_max_reconnect_attempts = FromDefault, md_reconnect_interval_ms = FromDefault,
      md_hot_config_enabled = FromDefault, md_hot_config_polling_interval_ms = FromDefault\<rparr>"

definition mark_source :: "cfg_section \<Rightarrow> string \<Rightarrow> config_metadata \<Rightarrow> config_metadata" where
  "mark_source sec key m =
     (case sec of
        Discovery \<Rightarrow>
          if key = ''target_device_start'' then m\<lparr>md_target_device_start := FromYaml\<rparr>
          else if key = ''target_device_end'' then m\<lparr>md_target_device_end := FromYaml\<rparr>
          else if key = ''whois_retry'' then m\<lparr>md_whois_retry := FromYaml\<rparr>
          else if key = ''response_timeout_ms'' then m\<lparr>md_response_timeout_ms := FromYaml\<rparr>
          else m
      | LocalDevice \<Rightarrow>
          if key = ''instance_id'' then m\<lparr>md_instance_id := FromYaml\<rparr>
          else if key = ''max_apdu'' then m\<lparr>md_max_apdu := FromYaml\<rparr>
          else m
      | Network \<Rightarrow>
          if key = ''interface'' then m\<lparr>md_interface_name := FromYaml\<rparr>
          else if key = ''port'' then m\<lparr>md_port := FromYaml\<rparr>
          else if key = ''broadcast_address'' then m\<lparr>md_broadcast_address := FromYaml\<rparr>
          else m
      | MSTP \<Rightarrow>
          if key = ''port'' then m\<lparr>md_mstp_port := FromYaml\<rparr>
          else if key = ''baud_rate'' then m\<lparr>md_mstp_baud := FromYaml\<rparr>
          else if key = ''mac_address'' then m\<lparr>md_mstp_mac := FromYaml\<rparr>
          else if key = ''max_master'' then m\<lparr>md_mstp_max_master := FromYaml\<rparr>
          else if key = ''max_info_frames'' then m\<lparr>md_mstp_max_frames := FromYaml\<rparr>
          else m
      | Services \<Rightarrow>
          if key = ''read_timeout_ms'' then m\<lparr>md_read_timeout_ms := FromYaml\<rparr>
          else if key = ''write_timeout_ms'' then m\<lparr>md_write_timeout_ms := FromYaml\<rparr>
          else if key = ''default_priority'' then m\<lparr>md_default_priority := FromYaml\<rparr>
          else if key = ''cache_expiry_ms'' then m\<lparr>md_cache_expiry_ms := FromYaml\<rparr>
          else if key = ''cache_strategy'' then m\<lparr>md_cache_strategy := FromYaml\<rparr>
          else if key = ''datalink_maintenance_ms'' then m\<lparr>md_datalink_maintenance_ms := FromYaml\<rparr>
          else m
      | Connection \<Rightarrow>
          if key = ''max_reconnect_attempts'' then m\<lparr>md_max_reconnect_attempts := FromYaml\<rparr>
          else if key = ''reconnect_interval_ms'' then m\<lparr>md_reconnect_interval_ms := FromYaml\<rparr>
          else m
      | HotConfig \<Rightarrow>
          if key = ''enabled'' then m\<lparr>md_hot_config_enabled := FromYaml\<rparr>
          else if key = ''polling_interval_ms'' then m\<lparr>md_hot_config_polling_interval_ms := FromYaml\<rparr>
          else m
      | _ \<Rightarrow> m)"

text \<open>The loader marks a setting when it assigns it.\<close>

definition mark_step :: "cfg_loader \<Rightarrow> yaml_event \<Rightarrow> config_metadata \<Rightarrow> config_metadata" where
  "mark_step s e m =
     (case e of
        Scalar val \<Rightarrow> if last_key s = [] then m else mark_source (current_section s) (last_key s) m
      | _ \<Rightarrow> m)"

fun mark_loop :: "yaml_event list \<Rightarrow> cfg_loader \<Rightarrow> config_metadata \<Rightarrow> config_metadata" where
  "mark_loop [] s m = m"
| "mark_loop (e # es) s m =
     (if e = StreamEnd then m else mark_loop es (bacnet_yaml_step s e) (mark_step s e m))"

definition load_metadata :: "yaml_source \<Rightarrow> config_metadata \<Rightarrow> config_metadata" where
  "load_metadata src m =
     (case src of NoFile \<Rightarrow> m | NoParser \<Rightarrow> m | Events es \<Rightarrow> mark_loop es bacnet_loader_init m)"

section \<open>The table\<close>

definition source_to_string :: "config_source \<Rightarrow> string" where
  "source_to_string src = (if src = FromYaml then ''YAML   '' else ''DEFAULT'')"

text \<open>Numbers are aligned to the right of their column, texts to the left.\<close>

definition align_right :: "nat \<Rightarrow> string \<Rightarrow> string" where
  "align_right n s = replicate (n - length s) CHR '' '' @ s"

definition align_left :: "nat \<Rightarrow> string \<Rightarrow> string" where
  "align_left n s = s @ replicate (n - length s) CHR '' ''"

definition number_row :: "string \<Rightarrow> nat \<Rightarrow> 'a::len word \<Rightarrow> config_source \<Rightarrow> string" where
  "number_row label width v src =
     label @ align_right width (dec_word v) @ ''  ['' @ source_to_string src @ ''] ''"

definition text_row :: "string \<Rightarrow> string \<Rightarrow> config_source \<Rightarrow> string" where
  "text_row label v src = label @ align_left 20 v @ ''  ['' @ source_to_string src @ ''] ''"

definition mstp_rows :: "bacnet_config \<Rightarrow> config_metadata \<Rightarrow> string list" where
  "mstp_rows cfg m =
     (if cf_mstp_port cfg \<noteq> []
      then [text_row ''   port               : '' (cf_mstp_port cfg) (md_mstp_port m),
            number_row ''   baud_rate          : '' 20 (cf_mstp_baud cfg) (md_mstp_baud m),
            number_row ''   mac_address        : '' 20 (cf_mstp_mac cfg) (md_mstp_mac m),
            number_row ''   max_master         : '' 20 (cf_mstp_max_master cfg) (md_mstp_max_master m),
            number_row ''   max_info_frames    : '' 20 (cf_mstp_max_frames cfg) (md_mstp_max_frames m)]
      else [''   Status: Disabled (no port configured)                      ''])"

definition config_table :: "bacnet_config \<Rightarrow> config_metadata \<Rightarrow> string list" where
  "config_table cfg m =
     [number_row ''   target_device_start: '' 20 (cf_target_device_start cfg) (md_target_device_start m),
      number_row ''   target_device_end  : '' 20 (cf_target_device_end cfg) (md_target_device_end m),
      number_row ''   whois_retry        : '' 20 (cf_whois_retry cfg) (md_whois_retry m),
      number_row ''   response_timeout_ms: '' 20 (cf_response_timeout_ms cfg) (md_response_timeout_ms m),
      number_row ''   instance_id        : '' 20 (cf_local_instance_id cfg) (md_instance_id m),
      number_row ''   max_apdu           : '' 20 (cf_local_max_apdu cfg) (md_max_apdu m),
      text_row ''   interface          : '' (if cf_interface_name cfg \<noteq> [] then cf_interface_name cfg else ''(auto)'') (md_interface_name m),
      number_row ''   port               : '' 20 (cf_port cfg) (md_port m),
      text_row ''   broadcast_address  : '' (cf_broadcast_address cfg) (md_broadcast_address m)] @ mstp_rows cfg m @
     [number_row ''   read_timeout_ms    : '' 20 (cf_read_timeout_ms cfg) (md_read_timeout_ms m),
      number_row ''   write_timeout_ms   : '' 20 (cf_write_timeout_ms cfg) (md_write_timeout_ms m),
      number_row ''   default_priority   : '' 20 (cf_default_priority cfg) (md_default_priority m),
      number_row ''   cache_expiry_ms    : '' 20 (cf_cache_expiry_ms cfg) (md_cache_expiry_ms m),
      number_row ''   cache_strategy     : '' 20 (cf_cache_strategy cfg) (md_cache_strategy m),
      number_row ''   datalink_maint_ms  : '' 20 (cf_datalink_maintenance_ms cfg) (md_datalink_maintenance_ms m),
      number_row ''   max_reconnect_attempts: '' 17 (cf_max_reconnect_attempts cfg) (md_max_reconnect_attempts m),
      number_row ''   reconnect_interval_ms : '' 17 (cf_reconnect_interval_ms cfg) (md_reconnect_interval_ms m),
      text_row ''   enabled            : '' (if cf_hot_config_enabled cfg \<noteq> 0 then ''true'' else ''false'') (md_hot_config_enabled m),
      number_row ''   polling_interval_ms: '' 20 (cf_hot_config_polling_ms cfg) (md_hot_config_polling_interval_ms m)]"

section \<open>What the metadata says\<close>

text \<open>The settings the loader knows, with their members of the metadata.\<close>

definition known_settings :: "(cfg_section \<times> string \<times> (config_metadata \<Rightarrow> config_source)) list" where
  "known_settings =
     [(Discovery, ''target_device_start'', md_target_device_start),
      (Discovery, ''target_device_end'', md_target_device_end),
      (Discovery, ''whois_retry'', md_whois_retry),
      (Discovery, ''response_timeout_ms'', md_response_timeout_ms),
      (LocalDevice, ''instance_id'', md_instance_id),
      (LocalDevice, ''max_apdu'', md_max_apdu),
      (Network, ''interface'', md_interface_name),
      (Network, ''port'', md_port),
      (Network, ''broadcast_address'', md_broadcast_address),
      (MSTP, ''port'', md_mstp_port),
      (MSTP, ''baud_rate'', md_mstp_baud),
      (MSTP, ''mac_address'', md_mstp_mac),
      (MSTP, ''max_master'', md_mstp_max_master),
      (MSTP, ''max_info_frames'', md_mstp_max_frames),
      (Services, ''read_timeout_ms'', md_read_timeout_ms),
      (Services, ''write_timeout_ms'', md_write_timeout_ms),
      (Services, ''default_priority'', md_default_priority),
      (Services, ''cache_expiry_ms'', md_cache_expiry_ms),
      (Services, ''cache_strategy'', md_cache_strategy),
      (Services, ''datalink_maintenance_ms'', md_datalink_maintenance_ms),
      (Connection, ''max_reconnect_attempts'', md_max_reconnect_attempts),
      (Connection, ''reconnect_interval_ms'', md_reconnect_interval_ms),
      (HotConfig, ''enabled'', md_hot_config_enabled),
      (HotConfig, ''polling_interval_ms'', md_hot_config_polling_interval_ms)]"

lemma mark_source_known:
  assumes "(sec, k, field) \<in> set known_settings"
  shows "field (mark_source sec' k' m) = (if sec' = sec \<and> k' = k then FromYaml else field m)"
proof -
  have "\<forall>(sec, k, field) \<in> set known_settings.
      field (mark_source sec' k' m) = (if sec' = sec \<and> k' = k then FromYaml else field m)"
    unfolding known_settings_def list.set ball_simps prod.case
    by (intro conjI; cases sec'; simp add: mark_source_def)
  with assms show ?thesis by blast
qed

lemma mark_loop_append:
  "StreamEnd \<notin> set xs \<Longrightarrow>
   mark_loop (xs @ ys) s m = mark_loop ys (foldl bacnet_yaml_step s xs) (mark_loop xs s m)"
  by (induction xs arbitrary: s m) auto

lemma mark_pairs:
  assumes "bacnet_level sec" "\<forall>(k, v) \<in> set kvs. setting_key k"
  shows "mark_loop (pairs_events (map (\<lambda>(k, v). (k, YScalar v)) kvs))
      \<lparr>current_section = sec, last_key = [], ld_cfg = cfg\<rparr> m = foldl (\<lambda>m (k, v). mark_source sec k m) m kvs"
  using assms
proof (induction kvs arbitrary: cfg m)
  case (Cons kv kvs)
  obtain k v where kv: "kv = (k, v)" by fastforce
  from Cons.prems kv have k: "setting_key k" by simp
  then have "k \<noteq> []" "cstr k = k" by (simp_all add: setting_key_def cstr_id)
  with Cons kv k show ?case
    by (simp add: bacnet_yaml_step_def section_key_setting mark_step_def)
qed simp

lemma mark_sections:
  assumes "bacnet_level sec" "\<forall>(sec, kvs) \<in> set secs. sec \<in> set settings_sections \<and> (\<forall>(k, v) \<in> set kvs. setting_key k)"
  shows "mark_loop (pairs_events (map (\<lambda>(sec, kvs). (section_name sec, scalar_map kvs)) secs))
      \<lparr>current_section = sec, last_key = [], ld_cfg = cfg\<rparr> m =
    foldl (\<lambda>m (sec, kvs). foldl (\<lambda>m (k, v). mark_source sec k m) m kvs) m secs"
  using assms
proof (induction secs arbitrary: sec cfg m)
  case (Cons x secs)
  obtain sec' kvs where x: "x = (sec', kvs)" by fastforce
  with Cons.prems have s: "sec' \<in> set settings_sections" "\<forall>(k, v) \<in> set kvs. setting_key k" by auto
  have lvl: "bacnet_level sec'" using s(1) by (rule settings_sections_level)
  let ?one = "pairs_events [(section_name sec', scalar_map kvs)]"
  obtain sec'' where n: "bacnet_level sec''" and one:
    "foldl bacnet_yaml_step \<lparr>current_section = sec, last_key = [], ld_cfg = cfg\<rparr> ?one =
     \<lparr>current_section = sec'', last_key = [], ld_cfg = foldl (\<lambda>cfg (k, v). set_field sec' k v cfg) cfg kvs\<rparr>"
    using section_read [OF Cons.prems(1) s] by metis
  have split: "pairs_events (map (\<lambda>(sec, kvs). (section_name sec, scalar_map kvs)) (x # secs)) =
     ?one @ pairs_events (map (\<lambda>(sec, kvs). (section_name sec, scalar_map kvs)) secs)"
    by (simp add: x)
  have inner: "StreamEnd \<notin> set (pairs_events ps)" for ps by (simp add: StreamEnd_not_in_events)
  have "mark_loop ?one \<lparr>current_section = sec, last_key = [], ld_cfg = cfg\<rparr> m =
      foldl (\<lambda>m (k, v). mark_source sec' k m) m kvs"
    using Cons.prems(1) s
    by (simp add: scalar_map_def bacnet_yaml_step_def [of _ "Scalar _"] section_key_section mark_step_def
        bacnet_yaml_step_def [of _ MappingStart] mark_loop_append [OF inner] mark_pairs [OF lvl])
  then show ?case
    unfolding split mark_loop_append [OF inner] one
    using Cons.IH [OF n] Cons.prems(2) by (simp add: x)
qed simp

lemma marked_sections:
  assumes "(sec, k, field) \<in> set known_settings"
  shows "field (foldl (\<lambda>m (sec, kvs). foldl (\<lambda>m (k, v). mark_source sec k m) m kvs) m secs) =
    (if \<exists>kvs. (sec, kvs) \<in> set secs \<and> k \<in> fst ` set kvs then FromYaml else field m)"
proof -
  have one: "field (foldl (\<lambda>m (k, v). mark_source sec' k m) m kvs) =
      (if sec' = sec \<and> k \<in> fst ` set kvs then FromYaml else field m)" for sec' kvs m
    by (induction kvs arbitrary: m) (auto simp: mark_source_known [OF assms] split: prod.split)
  show ?thesis
    by (induction secs arbitrary: m) (auto simp: one split: prod.split)
qed

text \<open>The table of the sources is exact for one load, and wrong after the next: a setting of a shipped file
  is reported as read from the file exactly when the file sets it or when it was reported so before, because
  no load takes a mark back. A file that lost a setting, or is missing, still has it reported as YAML while the
  default is in force.\<close>

theorem sources_accumulate:
  assumes "\<forall>(sec, kvs) \<in> set secs. sec \<in> set settings_sections \<and> (\<forall>(k, v) \<in> set kvs. setting_key k)"
    and "(sec, k, field) \<in> set known_settings"
  shows "field (load_metadata (settings_document secs) m) =
      (if \<exists>kvs. (sec, kvs) \<in> set secs \<and> k \<in> fst ` set kvs then FromYaml else field m) \<and>
    load_metadata NoFile m = m"
proof -
  let ?mid = "pairs_events (map (\<lambda>(sec, kvs). (section_name sec, scalar_map kvs)) secs)"
  let ?start = "\<lparr>current_section = Bacnet, last_key = [], ld_cfg = bacnet_config_defaults\<rparr>"
  have "load_metadata (settings_document secs) m = mark_loop ?mid ?start m"
    by (simp add: load_metadata_def settings_document_def document_def mark_step_def bacnet_yaml_step_def
        bacnet_loader_init_def section_key_def mark_loop_append StreamEnd_not_in_events)
  also have "\<dots> = foldl (\<lambda>m (sec, kvs). foldl (\<lambda>m (k, v). mark_source sec k m) m kvs) m secs"
    by (rule mark_sections [OF _ assms(1)]) (simp add: bacnet_level_def)
  finally have "field (load_metadata (settings_document secs) m) =
      field (foldl (\<lambda>m (sec, kvs). foldl (\<lambda>m (k, v). mark_source sec k m) m kvs) m secs)"
    by (rule arg_cong)
  moreover have "load_metadata NoFile m = m" by (simp add: load_metadata_def)
  ultimately show ?thesis by (simp only: marked_sections [OF assms(2)] simp_thms)
qed

theorem sources_accumulate_witness:
  "md_port (load_metadata (settings_document []) (load_metadata (settings_document [(Network, [(''port'', ''47809'')])])
     g_config_metadata)) = FromYaml \<and>
   md_port g_config_metadata = FromDefault"
proof -
  have p: "(Network, ''port'', md_port) \<in> set known_settings" by (simp add: known_settings_def)
  have "md_port (load_metadata (settings_document [(Network, [(''port'', ''47809'')])]) g_config_metadata) = FromYaml"
    using sources_accumulate [of "[(Network, [(''port'', ''47809'')])]", OF _ p]
    by (simp add: settings_sections_def setting_key_def section_name_def)
  then show ?thesis using sources_accumulate [of "[]", OF _ p] by (simp add: g_config_metadata_def)
qed

end
