(* ===== verification/Bacnet_Provenance.thy ===== *)
theory Bacnet_Provenance
  imports Bacnet_Cache
begin

text \<open>
  Where a cached value comes from: along every run, from an acknowledgement that arrived under the id of a
  request that a read of exactly that object had sent.
\<close>

section \<open>The value of an object and the requests of an object\<close>

definition cached :: "'l bctx \<Rightarrow> object_key \<Rightarrow> data_value" where
  "cached c k = (case map_of (object_states c) k of None \<Rightarrow> DNull | Some st \<Rightarrow> cached_value st)"

abbreviation id_of :: "'l bctx \<Rightarrow> u8 \<Rightarrow> object_key option" where
  "id_of c \<equiv> map_of (invoke_id_to_key c)"

text \<open>A read of the object that sends a request, and the id the stack gives it.\<close>

definition sends :: "'l stack_lib \<Rightarrow> object_key \<Rightarrow> u8 \<Rightarrow> 'l bctx \<Rightarrow> 'l bctx \<Rightarrow> bool" where
  "sends lib k i c c' \<longleftrightarrow>
     (\<exists>now r rc out. read_object lib now r c = (rc, out, c') \<and> read_key r = k \<and> i \<noteq> 0 \<and>
        fst (sl_send_read lib (rq_device r) (rq_type r) (rq_instance r) (rq_property r)
          (choose_array_index (rq_array_index r)) (stack c)) = i)"

text \<open>The acknowledgement of the request \<open>i\<close>, with data that decodes.\<close>

definition answers :: "'l stack_lib \<Rightarrow> u8 \<Rightarrow> 'l bctx \<Rightarrow> 'l bctx \<Rightarrow> bool" where
  "answers lib i c c' \<longleftrightarrow>
     (\<exists>now av src. c' = npdu_handler lib now (ReadAck (Some (Some av)) src i) c)"

section \<open>What the other operations leave alone\<close>

definition keeps_values :: "'l bctx \<Rightarrow> 'l bctx \<Rightarrow> bool" where
  "keeps_values c c' \<longleftrightarrow> cached c' = cached c \<and> id_of c' \<subseteq>\<^sub>m id_of c"

lemma keeps_values_refl [simp]: "keeps_values c c"
  by (simp add: keeps_values_def)

lemma keeps_values_trans: "keeps_values c c1 \<Longrightarrow> keeps_values c1 c2 \<Longrightarrow> keeps_values c c2"
  by (auto simp: keeps_values_def intro: map_le_trans)

lemma keeps_values_same [intro]:
  "object_states c' = object_states c \<Longrightarrow> invoke_id_to_key c' = invoke_id_to_key c \<Longrightarrow> keeps_values c c'"
  by (simp add: keeps_values_def cached_def fun_eq_iff)

lemma delete_map_le: "map_of (AList.delete i m) \<subseteq>\<^sub>m map_of m"
  by (auto simp: map_le_def delete_conv')

lemma fail_object_keeps_values:
  "keeps_values c (free_if_valid lib i (fail_object k s (c\<lparr>invoke_id_to_key := AList.delete i (invoke_id_to_key c)\<rparr>)))"
  by (auto simp: keeps_values_def cached_def fail_object_def update_conv' delete_map_le fun_eq_iff split: option.split)

lemma packet_keeps_values:
  assumes "\<nexists>av src i. p = ReadAck (Some (Some av)) src i"
  shows "keeps_values c (npdu_handler lib now p c)"
proof (cases p)
  case (ErrorResponse i code)
  then show ?thesis
    by (auto simp: npdu_handler_def handle_error_response_def fail_object_keeps_values split: option.split)
next
  case (AbortResponse i)
  then show ?thesis
    by (auto simp: npdu_handler_def handle_abort_response_def fail_object_keeps_values split: option.split)
next
  case (RejectResponse i)
  then show ?thesis
    by (auto simp: npdu_handler_def handle_reject_response_def fail_object_keeps_values split: option.split)
next
  case (ReadAck d src i)
  with assms have "d = None \<or> d = Some None" by (cases d) auto
  with ReadAck show ?thesis
    by (auto simp: npdu_handler_def handle_read_property_ack_def keeps_values_def cached_def delete_map_le fun_eq_iff
        Let_def split: option.split prod.split)
qed (auto simp: npdu_handler_def handle_iam_callback_def handle_write_property_ack_def split: option.split prod.split)

lemma clean_read_keeps_values: "keeps_values c (clean_read lib now c e)"
  by (auto simp: clean_read_def keeps_values_def cached_def update_conv' delete_map_le fun_eq_iff Let_def
      split: option.split prod.split)

lemma clean_write_keeps_values: "keeps_values c (clean_write lib now c e)"
  by (auto simp: clean_write_def split: prod.split)

lemma foldl_keeps_values: "(\<And>c e. keeps_values c (f c e)) \<Longrightarrow> keeps_values c (foldl f c es)"
  by (induction es arbitrary: c) (auto intro: keeps_values_trans)

lemma cleanup_keeps_values: "keeps_values c (cleanup_stale_requests lib now c)"
  unfolding cleanup_stale_requests_def Let_def
  by (rule keeps_values_trans [OF foldl_keeps_values foldl_keeps_values])
     (rule clean_read_keeps_values clean_write_keeps_values)+

lemma write_keeps_values:
  assumes "execute_write_property lib now (Some c) (Some r) = Some (rc, out, Some c')"
  shows "keeps_values c c'"
  using assms by (cases rule: execute_write_property_cases) (auto simp: same_requests_def)

lemma read_values:
  assumes "read_object lib now r c = (rc, out, c')"
  shows "cached c' = cached c \<and> (id_of c' = id_of c \<or> (\<exists>i. sends lib (read_key r) i c c' \<and> id_of c' = (id_of c)(i \<mapsto> read_key r)))"
proof -
  consider "c' = c" | "send_read lib now r c = (rc, out, c')"
    using assms by (auto simp: read_object_def split: option.splits if_splits)
  then show ?thesis
  proof cases
    case 2
    then show ?thesis
    proof (cases rule: send_read_cases)
      case Refused
      then show ?thesis by simp
    next
      case Unsent
      then show ?thesis by (simp add: cached_def same_requests_def fun_eq_iff)
    next
      case (Sent i st)
      have "cached_value st = cached c (read_key r)"
        using Sent(13,14) by (cases "map_of (object_states c) (read_key r)") (auto simp: cached_def object_state_zero_def)
      then have "cached c' = cached c" using Sent(3) by (auto simp: cached_def update_conv' fun_eq_iff)
      moreover have "sends lib (read_key r) i c c'" using assms Sent(1,2) unfolding sends_def by force
      ultimately show ?thesis using Sent(8) by (auto simp: update_conv')
    qed
  qed simp
qed

section \<open>Every run\<close>

lemma ack_values:
  assumes "c' = npdu_handler lib now (ReadAck (Some (Some av)) src i) c"
  shows "id_of c' \<subseteq>\<^sub>m id_of c \<and> (cached c' k \<noteq> cached c k \<longrightarrow> id_of c i = Some k)"
  using assms
  by (auto simp: npdu_handler_def handle_read_property_ack_def cached_def update_conv' delete_map_le Let_def
      split: option.splits prod.splits if_splits)

lemma bstep_values:
  assumes "bstep lib good c c'"
  shows "(cached c' k = cached c k \<or> (\<exists>i. answers lib i c c' \<and> id_of c i = Some k)) \<and>
    (id_of c' i = Some k \<longrightarrow> id_of c i = Some k \<or> sends lib k i c c')"
proof -
  have frame: ?thesis if "keeps_values c c'"
    using that by (auto simp: keeps_values_def map_le_def dom_def)
  show ?thesis
    using assms
  proof (cases rule: bstep.cases)
    case (Read now r rc out)
    from read_values [OF this] show ?thesis by (auto split: if_splits)
  next
    case (Packet p now)
    show ?thesis
    proof (cases "\<exists>av src i. p = ReadAck (Some (Some av)) src i")
      case True
      then obtain av src j where p: "p = ReadAck (Some (Some av)) src j" by blast
      with Packet(1) ack_values [of c' lib now av src j c k] show ?thesis
        by (auto simp: answers_def map_le_def dom_def) (metis option.distinct(1))+
    next
      case False
      with Packet packet_keeps_values frame show ?thesis by blast
    qed
  next
    case Flags
    then show ?thesis by (intro frame keeps_values_same) (simp_all add: same_but_flags_def same_requests_def)
  next
    case (Write now r rc out)
    then show ?thesis by (rule frame [OF write_keeps_values])
  next
    case (Stale now)
    show ?thesis by (rule frame) (simp add: Stale cleanup_keeps_values)
  qed (use frame keeps_values_same [of c' c] in simp_all)
qed

lemma id_was_sent:
  assumes "bsteps lib c0 c" "invoke_id_to_key c0 = []" "id_of c i = Some k"
  shows "\<exists>c1 c2. bsteps lib c0 c1 \<and> sends lib k i c1 c2 \<and> bsteps lib c2 c"
  using assms(1,3)
proof (induction rule: rtranclp_induct)
  case (step c c')
  from bstep_values [OF step(2), of k i] step(4) consider "id_of c i = Some k" | "sends lib k i c c'" by blast
  then show ?case
  proof cases
    case 1
    with step show ?thesis by (blast intro: rtranclp.rtrancl_into_rtrancl)
  next
    case 2
    with step show ?thesis by blast
  qed
qed (use assms(2) in simp)



section \<open>Who may answer\<close>

text \<open>The id alone decides: an acknowledgement is taken whoever sends it, a device outside the configured range
  or another device than the one that was asked included.\<close>

theorem any_source_may_answer:
  "object_states (handle_read_property_ack lib now d src i c) = object_states (handle_read_property_ack lib now d src' i c) \<and>
   bc_heap (handle_read_property_ack lib now d src i c) = bc_heap (handle_read_property_ack lib now d src' i c) \<and>
   invoke_id_to_key (handle_read_property_ack lib now d src i c) =
     invoke_id_to_key (handle_read_property_ack lib now d src' i c)"
  by (simp add: handle_read_property_ack_def Let_def split: option.split prod.split)

end
