(* ===== verification/Bacnet_Batch_Answer.thy ===== *)
theory Bacnet_Batch_Answer
  imports Bacnet_Batch
begin

text \<open>
  A polling read whose device answers while it sleeps: under the conservative strategy the answer is what it
  returns; under the aggressive one it returns the answer only by sending a second request.
\<close>

definition ready :: "'l bctx \<Rightarrow> bool" where
  "ready c \<longleftrightarrow> initialized c \<and> \<not> pending_reload c \<and> connection_state c = BACNET_CONN_CONNECTED"

lemma ready_read:
  assumes "ready (bw_ctx w)" "read_object lib (ci_now inp) r (bw_ctx w) = (rc, out, c)"
  shows "bacnet_plc_read lib bld inp (Some r) w = Some (rc, out, w\<lparr>bw_ctx := c\<rparr>)"
  using assms by (simp add: ready_def bacnet_plc_read_def release_if_pending_def ensure_init_and_connect_locked_def
      get_connection_state_def code_consts)

text \<open>What an answer leaves of the object it is for.\<close>

lemma answered_object:
  assumes "tracked busy c" "tsm_ok lib busy" "ready c"
    and "map_of (object_states c) k = Some st" "active_invoke_id st \<noteq> 0"
    and "store_application_value (sl_value_lib lib) av (cached_value st) (bc_heap c) = (PROTO_SUCCESS, v, h)"
    and "c' = npdu_handler lib now (ReadAck (Some (Some av)) src (active_invoke_id st)) c"
  shows "\<exists>st'. map_of (object_states c') k = Some st' \<and> cached_value st' = v \<and> has_valid_cache st' \<and>
    active_invoke_id st' = 0 \<and> st_status st' = PROTO_SUCCESS \<and> st_timestamp st' = now \<and> ready c' \<and>
    bc_cache_strategy c' = bc_cache_strategy c \<and> bc_cache_expiry_ms c' = bc_cache_expiry_ms c"
proof -
  from assms(1,4,5) have "map_of (invoke_id_to_key c) (active_invoke_id st) = Some k"
    unfolding tracked_def by (blast intro: consistent_object)
  with assms show ?thesis
    by (auto simp: ready_def npdu_handler_def handle_read_property_ack_def Let_def store_in_cache_def tsm_free_def
        split: prod.split)
qed

lemma seen_unsupported_answered:
  assumes "map_of (object_states (bw_ctx w)) k = Some st" "st_status st = PROTO_SUCCESS"
  shows "\<not> seen_unsupported k w"
  using assms by (simp add: seen_unsupported_def code_consts)

text \<open>The second attempt, after the first had to wait.\<close>

lemma second_attempt:
  assumes "ready (bw_ctx w)" "ready c2" "r = BACNET_READ_INIT self dev ty inst prop True"
    and "read_object lib (ci_now (at_input a)) r (bw_ctx w) = (PROTO_NO_DATA, out, c1)"
    and "at_meanwhile a (w\<lparr>bw_ctx := c1\<rparr>) = w\<lparr>bw_ctx := c2\<rparr>" "\<not> seen_unsupported (read_key r) (w\<lparr>bw_ctx := c2\<rparr>)"
    and "read_object lib (ci_now (at_input b)) r c2 = (rc, out2, c3)"
  shows "rc = PROTO_SUCCESS \<Longrightarrow>
      read_property_sync lib bld self dev ty inst prop (a # b # as) w = Some (out2, w\<lparr>bw_ctx := c3\<rparr>)"
    and "rc \<noteq> PROTO_SUCCESS \<Longrightarrow> rc \<noteq> PROTO_NO_DATA \<Longrightarrow>
      read_property_sync lib bld self dev ty inst prop (a # b # as) w = Some (None, w\<lparr>bw_ctx := c3\<rparr>)"
proof -
  have "bacnet_plc_read lib bld (at_input a) (Some r) w = Some (PROTO_NO_DATA, out, w\<lparr>bw_ctx := c1\<rparr>)"
    by (rule ready_read [OF assms(1,4)])
  moreover have "bacnet_plc_read lib bld (at_input b) (Some r) (w\<lparr>bw_ctx := c2\<rparr>) = Some (rc, out2, w\<lparr>bw_ctx := c3\<rparr>)"
    using ready_read [of "w\<lparr>bw_ctx := c2\<rparr>" lib "at_input b" r rc out2 c3] assms(2,7) by simp
  ultimately show "rc = PROTO_SUCCESS \<Longrightarrow>
      read_property_sync lib bld self dev ty inst prop (a # b # as) w = Some (out2, w\<lparr>bw_ctx := c3\<rparr>)"
    "rc \<noteq> PROTO_SUCCESS \<Longrightarrow> rc \<noteq> PROTO_NO_DATA \<Longrightarrow>
      read_property_sync lib bld self dev ty inst prop (a # b # as) w = Some (None, w\<lparr>bw_ctx := c3\<rparr>)"
    using assms(3,5,6) by (simp_all add: read_property_sync_def max_retries_def numeral_eq_Suc code_consts)
qed

text \<open>Under the aggressive strategy a read of a cached object without a request in flight sends one.\<close>

lemma aggressive_read:
  assumes "read_object lib now r c = (rc, out, c')" "tsm_ok lib busy" "bc_cache_strategy c = Aggressive" "rq_value r"
    and "map_of (object_states c) (read_key r) = Some st" "active_invoke_id st = 0" "has_valid_cache st"
  shows "rc = PROTO_SUCCESS \<and> out = Some (cached_value st) \<and>
      (\<exists>st'. map_of (object_states c') (read_key r) = Some st' \<and> active_invoke_id st' \<noteq> 0 \<and>
        active_invoke_id st' \<in> busy (stack c')) \<or>
    rc \<noteq> PROTO_SUCCESS \<and> rc \<noteq> PROTO_NO_DATA"
proof -
  have "send_read lib now r c = (rc, out, c')"
    using assms by (simp add: read_object_def cache_hit_def)
  then show ?thesis
  proof (cases rule: send_read_cases)
    case (Sent i st')
    have "st' = st\<lparr>active_invoke_id := i, original_request := Some (rq_self r), st_status := PROTO_NO_DATA\<rparr>"
      using Sent(14) assms(5) by blast
    moreover have "i \<in> busy (stack c')" using Sent(1,2) assms(2) unfolding tsm_ok_def by (metis insertI1)
    ultimately show ?thesis using Sent assms(4,7) by (simp add: update_conv')
  qed (simp_all add: code_consts)
qed

text \<open>C34: A polled property that is answered. When the device answers the request of the first attempt while the
  polling read sleeps, the conservative strategy takes the answer from the cache (while it is fresh) and sends
  nothing more. The aggressive strategy never takes it without a second request for the same property: either
  the request is sent, and it is still in flight when the value is returned, or it cannot be sent, and the value
  that has arrived is not returned at all.\<close>

theorem answered_property_is_read:
  assumes "tsm_ok lib busy" "tracked busy c1" "ready (bw_ctx w)" "ready c1"
    and "r = BACNET_READ_INIT self dev ty inst prop True"
    and "read_object lib (ci_now (at_input a)) r (bw_ctx w) = (PROTO_NO_DATA, out, c1)"
    and "map_of (object_states c1) (read_key r) = Some st" "active_invoke_id st \<noteq> 0"
    and "store_application_value (sl_value_lib lib) av (cached_value st) (bc_heap c1) = (PROTO_SUCCESS, v, h)"
    and "c2 = npdu_handler lib now (ReadAck (Some (Some av)) src (active_invoke_id st)) c1"
    and "at_meanwhile a (w\<lparr>bw_ctx := c1\<rparr>) = w\<lparr>bw_ctx := c2\<rparr>"
  shows "(bc_cache_strategy c1 = Conservative \<and> int (ci_now (at_input b)) - int now < uint (bc_cache_expiry_ms c1) \<longrightarrow>
      read_property_sync lib bld self dev ty inst prop (a # b # as) w = Some (Some v, w\<lparr>bw_ctx := c2\<rparr>)) \<and>
    (bc_cache_strategy c1 = Aggressive \<longrightarrow>
      (\<exists>c3. read_property_sync lib bld self dev ty inst prop (a # b # as) w = Some (Some v, w\<lparr>bw_ctx := c3\<rparr>) \<and>
         (\<exists>st3. map_of (object_states c3) (read_key r) = Some st3 \<and> active_invoke_id st3 \<noteq> 0 \<and>
            active_invoke_id st3 \<in> busy (stack c3)) \<or>
       read_property_sync lib bld self dev ty inst prop (a # b # as) w = Some (None, w\<lparr>bw_ctx := c3\<rparr>)))"
proof -
  from answered_object [OF assms(2,1,4,7,8,9,10)] obtain st2 where
    st2: "map_of (object_states c2) (read_key r) = Some st2" "cached_value st2 = v" "has_valid_cache st2"
      "active_invoke_id st2 = 0" "st_status st2 = PROTO_SUCCESS" "st_timestamp st2 = now"
    and c2: "ready c2" "bc_cache_strategy c2 = bc_cache_strategy c1" "bc_cache_expiry_ms c2 = bc_cache_expiry_ms c1"
    by blast
  have val: "rq_value r" using assms(5) by (simp add: BACNET_READ_INIT_def)
  obtain rc out2 c3 where second: "read_object lib (ci_now (at_input b)) r c2 = (rc, out2, c3)" by (metis prod_cases3)
  have "\<not> seen_unsupported (read_key r) (w\<lparr>bw_ctx := c2\<rparr>)"
    by (rule seen_unsupported_answered) (use st2 in simp_all)
  note sync = second_attempt [OF assms(3) c2(1) assms(5,6,11) this second]
  show ?thesis
  proof (cases "bc_cache_strategy c1")
    case Aggressive
    with aggressive_read [OF second assms(1) _ val st2(1,4,3)] c2(2) st2(2) sync show ?thesis by auto
  next
    case Conservative
    have "rc = PROTO_SUCCESS \<and> out2 = Some v \<and> c3 = c2"
      if "int (ci_now (at_input b)) - int now < uint (bc_cache_expiry_ms c1)"
      using that second st2 c2 val Conservative by (simp add: read_object_def cache_hit_def out_value_def)
    with sync(1) Conservative show ?thesis by simp
  qed
qed

text \<open>The sample device answers \<open>21.0\<close> during the first attempt.\<close>

definition answered_attempt :: "u8 list attempt" where
  "answered_attempt = \<lparr>at_input = \<lparr>ci_connect_time = 0, ci_rounds = [], ci_now = 20000\<rparr>,
     at_meanwhile = (\<lambda>w. w\<lparr>bw_ctx := npdu_handler sample_stack 20050
       (ReadAck (Some (Some (AReal 0x41A80000))) address_zero 1) (bw_ctx w)\<rparr>)\<rparr>"

theorem answered_property_is_read_witness:
  "\<exists>w'. read_property_sync sample_stack \<lparr>bacdl_multiple = False, bacdl_mstp = False\<rparr> 1 7 0 1 85 [answered_attempt, sample_attempt 20100] (cached_world\<lparr>bw_ctx := sample_ctx\<rparr>) =
     Some (Some (DReal 0x41A80000), w')"
proof -
  let ?c2 = "npdu_handler sample_stack 20050 (ReadAck (Some (Some (AReal 0x41A80000))) address_zero 1) sample_sent"
  have r: "ready (bw_ctx (cached_world\<lparr>bw_ctx := sample_ctx\<rparr>))" by (simp add: ready_def sample_ctx_def bctx_start_def)
  have r1: "ready sample_sent"
    by (simp add: ready_def sample_simps Let_def code_consts split: prod.splits)
  have first: "read_object sample_stack (ci_now (at_input answered_attempt)) sample_read
      (bw_ctx (cached_world\<lparr>bw_ctx := sample_ctx\<rparr>)) = (PROTO_NO_DATA, None, sample_sent)"
    using sample_sent_tables(1) by (simp add: answered_attempt_def)
  have entry: "map_of (object_states sample_sent) (read_key sample_read) = Some sample_entry" "active_invoke_id sample_entry \<noteq> 0"
    by (simp_all add: sample_sent_tables)
  have value_of: "store_application_value (sl_value_lib sample_stack) (AReal 0x41A80000) (cached_value sample_entry) (bc_heap sample_sent) =
      (PROTO_SUCCESS, DReal 0x41A80000, bc_heap sample_sent)"
    by (simp add: store_application_value_def)
  have pause: "at_meanwhile answered_attempt (cached_world\<lparr>bw_ctx := sample_ctx, bw_ctx := sample_sent\<rparr>) =
      cached_world\<lparr>bw_ctx := sample_ctx, bw_ctx := ?c2\<rparr>"
    by (simp add: answered_attempt_def)
  from answered_property_is_read [OF sample_stack_ok sample_sent_tracked r r1 sample_read_def first entry value_of _ pause,
      of 20050 address_zero "sample_attempt 20100" "\<lparr>bacdl_multiple = False, bacdl_mstp = False\<rparr>" "[]"]
  show ?thesis by (simp add: sample_sent_tables sample_attempt_def)
qed

end
