(* ===== verification/Bacnet_Interleavings.thy ===== *)
theory Bacnet_Interleavings
  imports Bacnet_Runs
begin

text \<open>
  A release that overtakes a read or a write of another thread: the call has made the driver ready and lets go of
  \<open>g_plc_mutex\<close>, the release cleans the stack up, and then the second half of the call runs, between the last
  steps of the release or after them.
\<close>

section \<open>The address table\<close>

text \<open>What the driver relies on: a removed device is unknown until it is added again, and neither the removal of
  another device nor the end of the data link adds one.\<close>

definition forgets_devices :: "'l stack_lib \<Rightarrow> bool" where
  "forgets_devices lib \<longleftrightarrow>
     (\<forall>d l. sl_address_bind lib d (sl_address_remove lib d l) = None) \<and>
     (\<forall>d e l. sl_address_bind lib d l = None \<longrightarrow> sl_address_bind lib d (sl_address_remove lib e l) = None) \<and>
     (\<forall>d l. sl_address_bind lib d l = None \<longrightarrow> sl_address_bind lib d (sl_datalink_cleanup lib l) = None)"

text \<open>No device of the range is known.\<close>

definition range_forgotten :: "'l stack_lib \<Rightarrow> 'l bctx \<Rightarrow> bool" where
  "range_forgotten lib c \<longleftrightarrow>
     (\<forall>d. target_device_start c \<le> d \<longrightarrow> d \<le> target_device_end c \<longrightarrow> sl_address_bind lib d (stack c) = None)"

lemma in_device_range: "d \<in> set (device_range a b) \<longleftrightarrow> a \<le> d \<and> d \<le> b"
proof
  assume "d \<in> set (device_range a b)"
  then obtain n where n: "d = of_nat n" "unat a \<le> n" "n \<le> unat b" by (auto simp: device_range_def)
  then have "unat d = n" using unsigned_less [of b, where ?'a = nat] by (simp add: unat_of_nat)
  with n show "a \<le> d \<and> d \<le> b" by (simp add: word_le_nat_alt)
next
  assume "a \<le> d \<and> d \<le> b"
  then have "unat d \<in> set [unat a..<Suc (unat b)]" by (auto simp: word_le_nat_alt)
  then have "of_nat (unat d) \<in> set (device_range a b)" unfolding device_range_def set_map by (rule imageI)
  then show "d \<in> set (device_range a b)" by simp
qed

lemma removed_are_unknown:
  assumes "forgets_devices lib" "d \<in> set ds \<or> sl_address_bind lib d l = None"
  shows "sl_address_bind lib d (foldl (\<lambda>l d. sl_address_remove lib d l) l ds) = None"
  using assms(2)
proof (induction ds arbitrary: l)
  case (Cons e ds)
  have "d \<in> set ds \<or> sl_address_bind lib d (sl_address_remove lib e l) = None"
    using Cons.prems assms(1) by (auto simp: forgets_devices_def)
  with Cons.IH show ?case by simp
qed simp

lemma cleanup_forgets_range:
  assumes "forgets_devices lib" "cleanup_context lib c = Some c'"
  shows "range_forgotten lib c'"
proof -
  let ?first = "target_device_start c" and ?last = "target_device_end c"
  have "?last \<noteq> - 1"
    using assms(2)
    by (auto simp: cleanup_context_def reset_active_operation_locked_def stop_worker_thread_def remove_devices_endless
        Let_def split: if_splits)
  then have "stack c' = sl_datalink_cleanup lib
        (foldl (\<lambda>l d. sl_address_remove lib d l) (stack c) (device_range ?first ?last))"
    "target_device_start c' = ?first" "target_device_end c' = ?last"
    using assms(2)
    by (auto simp: cleanup_context_def reset_active_operation_locked_def stop_worker_thread_def remove_devices_done
        Let_def split: if_splits)
  then show ?thesis
    using removed_are_unknown [OF assms(1)] assms(1)
    by (auto simp: range_forgotten_def in_device_range forgets_devices_def)
qed

section \<open>The second half of an overtaken call\<close>

abbreviation refusal :: "int \<Rightarrow> bool" where
  "refusal rc \<equiv> rc = PROTO_ERROR_CONNECT \<or> rc = PROTO_ERROR_PARAM"

lemma unknown_target:
  "range_forgotten lib c \<Longrightarrow> resolve_target_address lib (Some c) d = (st, target) \<Longrightarrow> refusal st"
  by (auto simp: resolve_target_address_def range_forgotten_def not_less split: if_splits option.splits)

lemma refusal_not_success: "refusal rc \<Longrightarrow> rc \<noteq> PROTO_SUCCESS"
  by (auto simp: code_consts)

lemma late_read_property:
  assumes "range_forgotten lib c"
  obtains rc where "execute_read_property lib now (Some c) (Some r) = (rc, None, Some c)" "refusal rc"
proof -
  obtain st target where res: "resolve_target_address lib (Some c) (rq_device r) = (st, target)" by fastforce
  note bad = unknown_target [OF assms res]
  show thesis
    by (rule that [of "if \<not> rq_value r then PROTO_ERROR_PARAM
          else if connection_state c \<noteq> BACNET_CONN_CONNECTED then PROTO_ERROR_CONNECT else st"])
       (use res bad refusal_not_success [OF bad] in \<open>auto simp: execute_read_property_def\<close>)
qed

lemma late_write:
  assumes "range_forgotten lib c"
  shows "\<exists>rc. refusal rc \<and> execute_write_property lib now (Some c) (Some q) = Some (rc, None, Some c)"
proof -
  obtain st target where res: "resolve_target_address lib (Some c) (wq_device q) = (st, target)" by fastforce
  note bad = unknown_target [OF assms res]
  show ?thesis
    by (rule exI [of _ "if connection_state c \<noteq> BACNET_CONN_CONNECTED then PROTO_ERROR_CONNECT else st"])
       (use res bad refusal_not_success [OF bad] in \<open>auto simp: execute_write_property_def\<close>)
qed

lemma late_send_read:
  assumes "range_forgotten lib c"
  obtains rc where "send_read lib now r c = (rc, None, c)" "refusal rc"
proof -
  obtain rc where "execute_read_property lib now (Some c) (Some r) = (rc, None, Some c)" "refusal rc"
    by (rule late_read_property [OF assms, where now = now and r = r])
  then show thesis using refusal_not_success by (intro that [of rc]) (simp_all add: send_read_def)
qed

lemma late_read:
  assumes "range_forgotten lib c"
  shows "\<exists>rc out. read_object lib now r c = (rc, out, c) \<and>
    (map_of (object_states c) (read_key r) = None \<longrightarrow> refusal rc \<and> out = None)"
proof -
  obtain rc where "send_read lib now r c = (rc, None, c)" "refusal rc"
    by (rule late_send_read [OF assms, where now = now and r = r])
  then show ?thesis by (auto simp: read_object_def split: option.split)
qed

section \<open>Between the clean-up and the next initialisation\<close>

text \<open>What may happen from the moment the release has cleaned the stack up (the worker and the monitor have ended
  by then): the second halves of other calls, the clearing of the tables, and after it any number of calls
  of the driver object that find it uninitialised.\<close>

inductive overtaking :: "'l stack_lib \<Rightarrow> 'l bworld \<Rightarrow> 'l bworld \<Rightarrow> bool" for lib where
  Late_Read: "read_object lib now r (bw_ctx w) = (rc, out, c') \<Longrightarrow> overtaking lib w (w\<lparr>bw_ctx := c'\<rparr>)"
| Late_Write: "execute_write_property lib now (Some (bw_ctx w)) (Some q) = Some (rc, iout, Some c') \<Longrightarrow>
    overtaking lib w (w\<lparr>bw_ctx := c'\<rparr>)"
| Late_Objects: "overtaking lib w (w\<lparr>bw_ctx := (bw_ctx w)\<lparr>object_states := []\<rparr>\<rparr>)"
| Late_Ids: "overtaking lib w (w\<lparr>bw_ctx := (bw_ctx w)\<lparr>invoke_id_to_key := []\<rparr>\<rparr>)"
| Late_Writes: "overtaking lib w (w\<lparr>bw_ctx := (bw_ctx w)\<lparr>write_pending_map := []\<rparr>\<rparr>)"
| Late_Down: "overtaking lib w (w\<lparr>bw_ctx := (bw_ctx w)\<lparr>initialized := False\<rparr>\<rparr>)"
| Late_Object_Read: "driver_read lib now req w = (rc, w') \<Longrightarrow> \<not> initialized (bw_ctx w) \<Longrightarrow> overtaking lib w w'"
| Late_Object_Write: "driver_write lib now wreq w = Some (rc, w') \<Longrightarrow> \<not> initialized (bw_ctx w) \<Longrightarrow> overtaking lib w w'"
| Late_Connect: "driver_connect lib now rounds w = Some (rc, w') \<Longrightarrow> \<not> initialized (bw_ctx w) \<Longrightarrow> overtaking lib w w'"
| Late_Disconnect: "driver_disconnect lib w = Some w' \<Longrightarrow> \<not> initialized (bw_ctx w) \<Longrightarrow> overtaking lib w w'"
| Late_Release: "driver_release lib w = Some w' \<Longrightarrow> \<not> initialized (bw_ctx w) \<Longrightarrow> overtaking lib w w'"
| Late_Reload: "bacnet_reload_config w = (rc, w') \<Longrightarrow> \<not> initialized (bw_ctx w) \<Longrightarrow> overtaking lib w w'"
| Late_File: "overtaking lib w (w\<lparr>bw_file := src, bw_mtime := t\<rparr>)"

text \<open>These are steps of the whole driver.\<close>

lemma overtaking_is_run:
  assumes "overtaking lib w w'" "\<not> monitor_is_running (bw_monitor w)"
  shows "wsteps lib bld w w'"
  using assms
proof (induction rule: overtaking.induct)
  case (Late_Reload w rc w')
  then show ?case by (simp add: bacnet_reload_config_def)
next
  case (Late_Release w w')
  then show ?case by (simp add: driver_release_def)
qed (blast intro: wstep.intros reset_step.intros)+

text \<open>All of it leaves the stack alone, and the tables only ever get empty.\<close>

definition overtaken_from :: "'l stack_lib \<Rightarrow> 'l bctx \<Rightarrow> 'l bworld \<Rightarrow> bool" where
  "overtaken_from lib c w \<longleftrightarrow> range_forgotten lib (bw_ctx w) \<and> stack (bw_ctx w) = stack c \<and>
     object_states (bw_ctx w) \<in> {object_states c, []} \<and> invoke_id_to_key (bw_ctx w) \<in> {invoke_id_to_key c, []} \<and>
     write_pending_map (bw_ctx w) \<in> {write_pending_map c, []} \<and> bc_heap (bw_ctx w) = bc_heap c"

lemma overtaken_updates [simp]:
  "range_forgotten lib (c\<lparr>object_states := os\<rparr>) = range_forgotten lib c"
  "range_forgotten lib (c\<lparr>invoke_id_to_key := m\<rparr>) = range_forgotten lib c"
  "range_forgotten lib (c\<lparr>write_pending_map := wm\<rparr>) = range_forgotten lib c"
  "range_forgotten lib (c\<lparr>initialized := b\<rparr>) = range_forgotten lib c"
  by (simp_all add: range_forgotten_def)

lemma late_halves_change_nothing:
  assumes "range_forgotten lib c"
  shows "read_object lib now r c = (rc, out, c') \<Longrightarrow> c' = c"
    and "execute_write_property lib now (Some c) (Some q) = Some (rc, iout, Some c') \<Longrightarrow> c' = c"
  using late_read [OF assms, of now r] late_write [OF assms, of now q] by auto

lemma overtaking_keeps: "overtaking lib w w' \<Longrightarrow> overtaken_from lib c w \<Longrightarrow> overtaken_from lib c w'"
proof (induction rule: overtaking.induct)
  case (Late_Read now r w rc out c')
  with late_halves_change_nothing(1) show ?case by (fastforce simp: overtaken_from_def)
next
  case (Late_Write now w q rc iout c')
  with late_halves_change_nothing(2) show ?case by (fastforce simp: overtaken_from_def)
qed (auto simp: overtaken_from_def driver_read_def driver_write_def driver_connect_def driver_disconnect_def
    driver_release_def bacnet_reload_config_def)

interpretation late: relation_invariant "overtaking lib" "overtaken_from lib c" for lib c
  by unfold_locales (rule overtaking_keeps)

text \<open>C29: A release that overtakes a call does no harm. From the moment a release has cleaned the stack up to the next
  initialisation, in whatever order the second halves of overtaken reads and writes come between the last
  steps of the release, nothing is sent and no table gains an entry: a write is refused with a connection
  or parameter error (and its value is not even looked at, so a freed string is no fault), a read hands out
  what the cache still holds, or is refused the same way once its entry is cleared.\<close>

theorem overtaken_calls_fail_cleanly:
  assumes "forgets_devices lib" "cleanup_context lib (bw_ctx w0) = Some c"
    and "(overtaking lib)\<^sup>*\<^sup>* (w0\<lparr>bw_ctx := c\<rparr>) w"
  shows "overtaken_from lib c w \<and>
    (\<exists>rc. refusal rc \<and> execute_write_property lib now (Some (bw_ctx w)) (Some q) = Some (rc, None, Some (bw_ctx w))) \<and>
    (\<exists>rc out. read_object lib now r (bw_ctx w) = (rc, out, bw_ctx w) \<and>
      (map_of (object_states (bw_ctx w)) (read_key r) = None \<longrightarrow> refusal rc \<and> out = None))"
proof -
  have "overtaken_from lib c (w0\<lparr>bw_ctx := c\<rparr>)"
    using cleanup_forgets_range [OF assms(1,2)] by (simp add: overtaken_from_def)
  from late.runs_inv [OF assms(3) this] have ok: "overtaken_from lib c w" .
  then have "range_forgotten lib (bw_ctx w)" by (simp add: overtaken_from_def)
  from ok late_write [OF this, of now q] late_read [OF this, of now r] show ?thesis by blast
qed

text \<open>A stack that is nothing but its table of devices.\<close>

definition table_stack :: "u32 list stack_lib" where
  "table_stack =
     \<lparr>sl_address_bind = (\<lambda>d l. if d \<in> set l then Some (1476, address_zero) else None),
      sl_address_add = (\<lambda>d m a l. d # l), sl_address_remove = removeAll,
      sl_send_read = (\<lambda>d t i p a l. (1, l)), sl_send_write = (\<lambda>d t i p v q a l. (1, l)), sl_tsm_free = (\<lambda>i l. l),
      sl_who_is = (\<lambda>a b l. l), sl_set_instance = (\<lambda>i l. l), sl_device_init = (\<lambda>l. []),
      sl_bip_init = (\<lambda>p i l. (True, l)), sl_mstp_init = (\<lambda>c l. (True, l)),
      sl_register_handlers = (\<lambda>l. l), sl_datalink_cleanup = (\<lambda>l. l), sl_tsm_timer = (\<lambda>e l. l),
      sl_maintenance = (\<lambda>n l. l), sl_timer_expired = (\<lambda>start interval now. start + unat interval \<le> now),
      sl_value_lib = sample_value_lib\<rparr>"

lemma table_stack_forgets: "forgets_devices table_stack"
  by (auto simp: forgets_devices_def table_stack_def)

definition known_ctx :: "u32 list bctx" where
  "known_ctx = (bctx_start [7])\<lparr>connection_state := BACNET_CONN_CONNECTED, initialized := True,
     target_device_start := 7, target_device_end := 7\<rparr>"

definition known_world :: "u32 list bworld" where
  "known_world = \<lparr>bw_ctx = known_ctx, bw_monitor = hot_monitor_start, bw_file = NoFile, bw_mtime = None,
     bw_cleanup_registered = True\<rparr>"

definition forgotten_ctx :: "u32 list bctx" where
  "forgotten_ctx = (reset_active_operation_locked known_ctx)\<lparr>stack := []\<rparr>"

lemma known_ctx_cleaned: "cleanup_context table_stack known_ctx = Some forgotten_ctx"
  by (simp add: cleanup_context_def forgotten_ctx_def known_ctx_def bctx_start_def stop_worker_thread_def
      remove_devices_done device_range_def table_stack_def reset_active_operation_locked_def Let_def)

text \<open>The read that would be sent before the release is refused after it.\<close>

theorem overtaken_calls_fail_cleanly_witness:
  "fst (read_object table_stack 20 sample_read known_ctx) = PROTO_NO_DATA \<and>
   (\<exists>rc. refusal rc \<and> read_object table_stack 20 sample_read (forgotten_ctx\<lparr>object_states := []\<rparr>) =
      (rc, None, forgotten_ctx\<lparr>object_states := []\<rparr>))"
proof (intro conjI)
  let ?w = "known_world\<lparr>bw_ctx := forgotten_ctx\<rparr>" and ?c = "forgotten_ctx\<lparr>object_states := []\<rparr>"
  show "fst (read_object table_stack 20 sample_read known_ctx) = PROTO_NO_DATA"
    by (simp add: sample_simps known_ctx_def table_stack_def Let_def code_consts)
  have "overtaking table_stack ?w (?w\<lparr>bw_ctx := ?c\<rparr>)" using Late_Objects [of table_stack ?w] by simp
  moreover have "cleanup_context table_stack (bw_ctx known_world) = Some forgotten_ctx"
    by (simp add: known_world_def known_ctx_cleaned)
  ultimately show "\<exists>rc. refusal rc \<and> read_object table_stack 20 sample_read ?c = (rc, None, ?c)"
    using overtaken_calls_fail_cleanly [OF table_stack_forgets _ r_into_rtranclp, where r = sample_read and now = 20]
    by fastforce
qed

end
