(* ===== verification/Mqtt_Lock_Use.thy ===== *)
theory Mqtt_Lock_Use
  imports Lock_Order Mqtt_Properties
begin

text \<open>
  The mutexes of the MQTT driver: what the calls of the PLC, the thread of the configuration monitor, the
  callbacks of the library and the exit of the process lock and join along each of their paths, and the one
  place where the locks do not cover what the calls use. Which statuses a path sees, and what the library
  answers it, are its arguments; calls of the library stand for themselves.
\<close>

datatype mqtt_mutex = Ctx_mutex | Msg_mutex | State_mutex

type_synonym mqtt_action = "mqtt_mutex lock_action"

definition mqtt_monitor_tid :: nat where "mqtt_monitor_tid = 0"

section \<open>Operations of the driver\<close>

text \<open>An access to the connection or operation status takes the mutex of the state.\<close>

definition status_locks :: "mqtt_action list" where
  "status_locks = with_lock State_mutex []"

definition statuses :: "nat \<Rightarrow> mqtt_action list" where
  "statuses n = concat (replicate n status_locks)"

text \<open>A connection: nothing without a client, else the status it sees and whether the library accepts the
  request; and whether it returns \<open>PROTO_SUCCESS\<close>.\<close>

type_synonym connect_path = "(connect_status \<times> bool) option"

definition proto_connect_locks :: "connect_path \<Rightarrow> mqtt_action list" where
  "proto_connect_locks p =
     (case p of None \<Rightarrow> []
      | Some (st, took) \<Rightarrow> statuses (if st \<in> {CON_IDLE, DCON_OK} \<and> took then 3 else 2))"

definition proto_connect_succeeds :: "connect_path \<Rightarrow> bool" where
  "proto_connect_succeeds p =
     (case p of None \<Rightarrow> False
      | Some (st, took) \<Rightarrow> st \<in> {CON_OK, CON_PENDING} \<or> st \<in> {CON_IDLE, DCON_OK} \<and> took)"

definition proto_disconnect_locks :: "connect_path \<Rightarrow> mqtt_action list" where
  "proto_disconnect_locks p =
     (case p of None \<Rightarrow> [] | Some (st, took) \<Rightarrow> statuses (if st = CON_OK \<and> took then 3 else 2))"

text \<open>A read or a write: nothing without a context, else the status it sees, whether automatic
  reconnection is on, and the connection it may start.\<close>

type_synonym call_path = "(connect_status \<times> bool \<times> connect_path) option"

definition not_connected_locks :: "connect_status \<Rightarrow> bool \<Rightarrow> connect_path \<Rightarrow> mqtt_action list" where
  "not_connected_locks st auto_reconnect conn =
     (if auto_reconnect \<and> st = DCON_OK
      then proto_connect_locks conn @ (if proto_connect_succeeds conn then status_locks else [])
      else status_locks)"

definition mqtt_read_locks :: "call_path \<Rightarrow> mqtt_action list" where
  "mqtt_read_locks p =
     (case p of None \<Rightarrow> []
      | Some (st, auto_reconnect, conn) \<Rightarrow>
          status_locks @ (if st = CON_OK then with_lock Msg_mutex [] @ status_locks
                          else not_connected_locks st auto_reconnect conn))"

definition mqtt_write_locks :: "call_path \<Rightarrow> mqtt_action list" where
  "mqtt_write_locks p =
     (case p of None \<Rightarrow> []
      | Some (st, auto_reconnect, conn) \<Rightarrow>
          status_locks @ (if st = CON_OK then status_locks else not_connected_locks st auto_reconnect conn))"

section \<open>The process\<close>

text \<open>The release of the driver asks for the status when there is a client.\<close>

definition driver_release_locks :: "bool \<Rightarrow> mqtt_action list" where
  "driver_release_locks has_client = (if has_client then status_locks else [])"

text \<open>The reload: whether there is a driver to release and it has a client, and the connection after a
  successful initialisation.\<close>

definition on_config_changed_locks :: "bool option \<Rightarrow> connect_path option \<Rightarrow> mqtt_action list" where
  "on_config_changed_locks released conn =
     with_lock Ctx_mutex
       ((case released of None \<Rightarrow> [] | Some has_client \<Rightarrow> driver_release_locks has_client) @
        (case conn of None \<Rightarrow> [] | Some p \<Rightarrow> proto_connect_locks p))"

text \<open>Making the driver ready: \<open>None\<close> is an early return, else the status and the connection.\<close>

definition ensure_ready_locks :: "(connect_status \<times> connect_path) option \<Rightarrow> mqtt_action list" where
  "ensure_ready_locks ready =
     (case ready of None \<Rightarrow> []
      | Some (st, conn) \<Rightarrow> status_locks @ (if st \<noteq> CON_OK then proto_connect_locks conn else []))"

definition plc_proto_read_locks ::
  "(connect_status \<times> connect_path) option \<Rightarrow> call_path \<Rightarrow> mqtt_action list" where
  "plc_proto_read_locks ready body = with_lock Ctx_mutex (ensure_ready_locks ready) @ mqtt_read_locks body"

definition plc_proto_write_locks ::
  "(connect_status \<times> connect_path) option \<Rightarrow> call_path \<Rightarrow> mqtt_action list" where
  "plc_proto_write_locks ready body = with_lock Ctx_mutex (ensure_ready_locks ready) @ mqtt_write_locks body"

text \<open>The end of the process joins the monitor thread.\<close>

definition hot_config_cleanup_locks :: "bool \<Rightarrow> bool \<Rightarrow> mqtt_action list" where
  "hot_config_cleanup_locks running created = (if running \<and> created then [Join mqtt_monitor_tid] else [])"

section \<open>Callbacks of the library\<close>

text \<open>The two statuses that a test of two values sees; the second is only looked at when the first fails.\<close>

definition onConnectionLost_locks :: "connect_status \<Rightarrow> connect_status \<Rightarrow> mqtt_action list" where
  "onConnectionLost_locks st1 st2 =
     statuses (if st1 = CON_OK then 2 else if st2 = CON_PENDING then 3 else 2)"

definition messageArrived_locks :: "mqtt_action list" where
  "messageArrived_locks = with_lock Msg_mutex []"

definition onConnectSuccess_locks :: "connect_status \<Rightarrow> mqtt_action list" where
  "onConnectSuccess_locks st = statuses (if st \<noteq> CON_OK then 3 else 1)"

definition onDisconnectSuccess_locks :: "connect_status \<Rightarrow> connect_status \<Rightarrow> mqtt_action list" where
  "onDisconnectSuccess_locks st1 st2 =
     statuses (if st1 = CON_OK then 3 else if st2 = DCON_PENDING then 4 else 2)"

definition onFailure_locks :: "mqtt_action list" where
  "onFailure_locks = statuses 2"

definition onSend_locks :: "mqtt_action list" where
  "onSend_locks = statuses 1"

section \<open>No deadlock\<close>

text \<open>What a thread other than the monitor may run: calls of the PLC and of the driver's own interface, the
  callbacks on the threads of the library, and the end of the process.\<close>

inductive mqtt_call :: "mqtt_action list \<Rightarrow> bool" where
  Plc_Read: "mqtt_call (plc_proto_read_locks ready body)"
| Plc_Write: "mqtt_call (plc_proto_write_locks ready body)"
| Connect: "mqtt_call (proto_connect_locks conn)"
| Disconnect: "mqtt_call (proto_disconnect_locks conn)"
| Read: "mqtt_call (mqtt_read_locks body)"
| Write: "mqtt_call (mqtt_write_locks body)"
| Release: "mqtt_call (driver_release_locks has_client)"
| Lost: "mqtt_call (onConnectionLost_locks st1 st2)"
| Arrived: "mqtt_call messageArrived_locks"
| Connected: "mqtt_call (onConnectSuccess_locks st1)"
| Disconnected: "mqtt_call (onDisconnectSuccess_locks st1 st2)"
| Failed: "mqtt_call onFailure_locks"
| Sent: "mqtt_call onSend_locks"
| Cleanup: "mqtt_call (hot_config_cleanup_locks running created)"

definition mqtt_operation :: "nat \<Rightarrow> mqtt_action list \<Rightarrow> bool" where
  "mqtt_operation t p \<longleftrightarrow>
     (if t = mqtt_monitor_tid then \<exists>released conn. p = on_config_changed_locks released conn else mqtt_call p)"

fun mqtt_rank :: "mqtt_mutex \<Rightarrow> nat" where
  "mqtt_rank Ctx_mutex = 2" | "mqtt_rank State_mutex = 3" | "mqtt_rank Msg_mutex = 3"

definition mqtt_level :: "nat \<Rightarrow> nat" where
  "mqtt_level t = (if t = mqtt_monitor_tid then 1 else 0)"

text \<open>The status is asked for with no mutex held or with that of the context.\<close>

lemma statuses_ordered:
  "\<forall>h \<in> set held. mqtt_rank h < 3 \<Longrightarrow> own < 3 \<Longrightarrow> held_after mqtt_rank mqtt_level own held (statuses n) = Some held"
  unfolding statuses_def
  by (rule held_after_concat) (auto simp: status_locks_def intro!: held_after_with_lock)

lemma status_ordered:
  "\<forall>h \<in> set held. mqtt_rank h < 3 \<Longrightarrow> own < 3 \<Longrightarrow> held_after mqtt_rank mqtt_level own held status_locks = Some held"
  using statuses_ordered [of held own 1] by (simp add: statuses_def)

lemma proto_connect_ordered:
  "\<forall>h \<in> set held. mqtt_rank h < 3 \<Longrightarrow> own < 3 \<Longrightarrow> held_after mqtt_rank mqtt_level own held (proto_connect_locks p) = Some held"
  by (auto simp: proto_connect_locks_def statuses_ordered split: option.split)

lemma call_ordered:
  assumes "own < 3"
  shows "held_after mqtt_rank mqtt_level own [] (mqtt_read_locks body) = Some []"
    and "held_after mqtt_rank mqtt_level own [] (mqtt_write_locks body) = Some []"
proof -
  have "held_after mqtt_rank mqtt_level own [] (not_connected_locks st auto_reconnect conn) = Some []"
    for st auto_reconnect conn
    using assms by (auto simp: not_connected_locks_def held_after_append proto_connect_ordered status_ordered)
  moreover have "held_after mqtt_rank mqtt_level own [] (with_lock Msg_mutex []) = Some []"
    using assms by (intro held_after_with_lock) auto
  ultimately show "held_after mqtt_rank mqtt_level own [] (mqtt_read_locks body) = Some []"
    "held_after mqtt_rank mqtt_level own [] (mqtt_write_locks body) = Some []"
    using assms by (auto simp: mqtt_read_locks_def mqtt_write_locks_def held_after_append status_ordered split: option.split)
qed

lemma ensure_ready_ordered:
  "held_after mqtt_rank mqtt_level 0 [] (with_lock Ctx_mutex (ensure_ready_locks ready)) = Some []"
  by (rule held_after_with_lock)
     (auto simp: ensure_ready_locks_def held_after_append proto_connect_ordered status_ordered split: option.split)

lemma mqtt_call_ordered: "mqtt_call p \<Longrightarrow> held_after mqtt_rank mqtt_level 0 [] p = Some []"
proof (induction rule: mqtt_call.induct)
  case Arrived
  show ?case unfolding messageArrived_locks_def by (rule held_after_with_lock) auto
next
  case (Cleanup running created)
  show ?case by (simp add: hot_config_cleanup_locks_def mqtt_level_def)
qed (auto simp: plc_proto_read_locks_def plc_proto_write_locks_def held_after_append ensure_ready_ordered
    call_ordered proto_connect_ordered proto_disconnect_locks_def driver_release_locks_def statuses_ordered status_ordered
    onConnectionLost_locks_def onConnectSuccess_locks_def onDisconnectSuccess_locks_def onFailure_locks_def
    onSend_locks_def split: option.split)

lemma reload_ordered: "held_after mqtt_rank mqtt_level 1 [] (on_config_changed_locks released conn) = Some []"
  unfolding on_config_changed_locks_def
  by (rule held_after_with_lock)
     (auto simp: driver_release_locks_def held_after_append proto_connect_ordered status_ordered split: option.split)

text \<open>Only the end of the process joins, and only the monitor.\<close>

lemma mqtt_joins:
  assumes "held_after mqtt_rank mqtt_level own held p \<noteq> None" "Join u \<in> set p"
  shows "u < 1"
proof -
  have "own < mqtt_level u"
    using assms by (induction mqtt_rank mqtt_level own held p rule: held_after.induct) (auto split: if_splits)
  then show ?thesis by (auto simp: mqtt_level_def mqtt_monitor_tid_def split: if_splits)
qed

lemma mqtt_operation_ordered:
  "mqtt_operation t p \<Longrightarrow> held_after mqtt_rank mqtt_level (mqtt_level t) [] p = Some []"
  using mqtt_call_ordered [of p] reload_ordered
  by (auto simp: mqtt_operation_def mqtt_level_def split: if_splits)

interpretation ml: lock_discipline mqtt_rank mqtt_level mqtt_operation 1
proof
  show "u < 1" if "mqtt_operation t p" "Join u \<in> set p" for t p u
    using mqtt_joins [OF _ that(2)] mqtt_operation_ordered [OF that(1)] by (metis option.distinct(1))
qed (rule mqtt_operation_ordered)

text \<open>C8: The MQTT driver has no deadlock: any number of threads of the PLC and of the library, each running
  any sequence of reads, writes, connections, disconnections, releases and callbacks along any of their
  paths, together with the thread of the configuration monitor, which reloads the driver any number of
  times, and the end of the process, which joins it, can finish from every point they reach.\<close>

theorem mqtt_threads_finish:
  assumes "ps \<noteq> []" "\<forall>t < length ps. \<exists>os. ps ! t = concat os \<and> (\<forall>p \<in> set os. mqtt_operation t p)"
    and "lstep\<^sup>*\<^sup>* (Map.empty, ps) s"
  shows "\<not> deadlocked s \<and> (\<exists>s'. lstep\<^sup>*\<^sup>* s s' \<and> finished s')"
  by (rule ml.all_finish [OF assms(2) _ assms(3)]) (use assms(1) in \<open>simp add: Suc_le_eq\<close>)

theorem mqtt_threads_finish_witness:
  "\<exists>s'. lstep\<^sup>*\<^sup>* (Map.empty, [on_config_changed_locks (Some True) (Some (Some (CON_IDLE, True))),
      plc_proto_read_locks (Some (CON_OK, None)) (Some (CON_OK, True, None)), messageArrived_locks,
      hot_config_cleanup_locks True True]) s' \<and> finished s'"
proof (rule mqtt_threads_finish [OF _ _ rtranclp.rtrancl_refl, THEN conjunct2])
  have one: "\<exists>os. p = concat os \<and> (\<forall>q \<in> set os. mqtt_operation t q)" if "mqtt_operation t p" for t p
    using that by (intro exI [of _ "[p]"]) simp
  have "mqtt_operation 0 (on_config_changed_locks r c)" for r c
    by (auto simp: mqtt_operation_def mqtt_monitor_tid_def)
  moreover have "mqtt_operation 1 (plc_proto_read_locks e b)" for e b
    by (auto simp: mqtt_operation_def mqtt_monitor_tid_def intro: mqtt_call.intros)
  moreover have "mqtt_operation 2 messageArrived_locks" "mqtt_operation 3 (hot_config_cleanup_locks x y)" for x y
    by (auto simp: mqtt_operation_def mqtt_monitor_tid_def intro: mqtt_call.intros)
  ultimately show "\<forall>t < length [on_config_changed_locks (Some True) (Some (Some (CON_IDLE, True))),
      plc_proto_read_locks (Some (CON_OK, None)) (Some (CON_OK, True, None)), messageArrived_locks,
      hot_config_cleanup_locks True True].
      \<exists>os. [on_config_changed_locks (Some True) (Some (Some (CON_IDLE, True))),
      plc_proto_read_locks (Some (CON_OK, None)) (Some (CON_OK, True, None)), messageArrived_locks,
      hot_config_cleanup_locks True True] ! t = concat os \<and> (\<forall>p \<in> set os. mqtt_operation t p)"
    using one by (auto simp: less_Suc_eq eval_nat_numeral)
qed simp

section \<open>A context freed under its user\<close>

text \<open>A new context never gets the address of one that was in use before (\<open>malloc\<close> may give a freed block
  again; then the pointer of an overtaken call is that of another context).\<close>

lemma init_config_next_addr: "init_config env p w = Some (Inr (ca, w')) \<Longrightarrow> next_addr w \<le> next_addr w'"
  by (auto simp: init_config_def Let_def split: option.splits if_splits prod.splits)

lemma init_fresh_context:
  assumes "proto_driver_init env (Some p) w = Some (rc, Some q, w')" "ctx_userdata p = None"
  shows "ctx_userdata q = None \<or> (\<exists>a. ctx_userdata q = Some a \<and> next_addr w \<le> a)"
  using assms by (auto simp: proto_driver_init_def Let_def upd_ctx_def dest: init_config_next_addr
      split: bind_splits sum.splits if_splits prod.splits option.splits)

lemma release_outcome:
  assumes "proto_driver_release env (Some p) w = Some (q, w')" "driver_ok p w" "ctx_userdata p = Some a"
  shows "next_addr w' = next_addr w \<and> (\<exists>q'. q = Some q' \<and> idle_ok q' w')"
proof -
  from proto_driver_release_safe [OF assms(2,3), of env] assms(1) have "\<exists>q'. q = Some q' \<and> idle_ok q' w'" by auto
  moreover have "next_addr w' = next_addr w"
    using assms(1,3) by (auto simp: proto_driver_release_def Let_def split: bind_splits if_splits option.splits)
  ultimately show ?thesis by blast
qed

lemma reload_replaces_context:
  assumes "plc_ok s" "g_inited s" "ctx_userdata (g_mqtt_ctx s) = Some a" "on_config_changed env s = Some s'"
  shows "ctx_heap (plc_world s') a = None"
proof -
  have ok: "driver_ok (g_mqtt_ctx s) (plc_world s)" using assms(1) by (simp add: plc_ok_def)
  from live_cases [OF this assms(3)] have a: "a < next_addr (plc_world s)" by metis
  from proto_driver_release_safe [OF ok assms(3), of "mq_env env"] obtain q w1 where
    rel: "proto_driver_release (mq_env env) (Some (g_mqtt_ctx s)) (plc_world s) = Some (Some q, w1)" "idle_ok q w1"
    by blast
  have n: "next_addr w1 = next_addr (plc_world s)" using release_outcome [OF rel(1) ok assms(3)] by simp
  from proto_driver_init_safe [OF rel(2), of "mq_env env"] obtain rc q2 w2 where
    init: "proto_driver_init (mq_env env) (Some q) w1 = Some (rc, Some q2, w2)" by blast
  have "g_mqtt_ctx s' = q2"
    using assms(2,4) rel(1) init by (auto simp: on_config_changed_def Let_def split: bind_splits if_splits)
  with init_fresh_context [OF init] rel(2) n a have "ctx_userdata (g_mqtt_ctx s') \<noteq> Some a"
    by (auto simp: idle_ok_def)
  moreover have "plc_ok s'" using on_config_changed_safe [OF assms(1), of env] assms(4) by simp
  ultimately show ?thesis by (auto simp: plc_ok_def driver_ok_def split: option.splits)
qed

lemma reload_has_no_join: "Join u \<notin> set (on_config_changed_locks released conn)"
  by (auto simp: on_config_changed_locks_def driver_release_locks_def proto_connect_locks_def statuses_def
      status_locks_def with_lock_def split: option.split)

lemma ensure_ready_has_no_join: "Join u \<notin> set (with_lock Ctx_mutex (ensure_ready_locks ready))"
  by (auto simp: ensure_ready_locks_def proto_connect_locks_def statuses_def status_locks_def with_lock_def
      split: option.split)

text \<open>C9: A reload frees the context under a call. A read or write of the PLC lets go of the mutex of the context
  before it uses it: the monitor thread can run its whole reload at that point, and a call that has taken the
  pointers of the context before touches freed memory with its next access, whatever the library, the file and
  malloc answer. (A call that takes the pointers after the reload is safe.)\<close>

theorem reload_frees_context_in_use:
  assumes "plc_ok s" "g_inited s" "on_config_changed env s = Some s'"
  shows "lstep\<^sup>*\<^sup>* (Map.empty, [on_config_changed_locks released conn, plc_proto_read_locks ready body])
      (Map.empty, [[], mqtt_read_locks body]) \<and>
    lstep\<^sup>*\<^sup>* (Map.empty, [on_config_changed_locks released conn, plc_proto_write_locks ready body])
      (Map.empty, [[], mqtt_write_locks body]) \<and>
    mqtt_proto_read (mq_env env) (Some (g_mqtt_ctx s)) (Some r) (plc_world s') = None \<and>
    mqtt_proto_write (mq_env env) (Some (g_mqtt_ctx s)) (Some wr) (plc_world s') = None \<and>
    mqtt_proto_read (mq_env env) (Some (g_mqtt_ctx s')) (Some r) (plc_world s') \<noteq> None"
proof -
  from assms(1,2) obtain a where a: "ctx_userdata (g_mqtt_ctx s) = Some a" by (rule plc_ok_live)
  have gone: "get_connect_status (Some a) (plc_world s') = None"
    using reload_replaces_context [OF assms(1,2) a assms(3)] by (simp add: get_connect_status_def)
  have overtaken: "lstep\<^sup>*\<^sup>* (Map.empty, [on_config_changed_locks released conn,
      with_lock Ctx_mutex (ensure_ready_locks ready) @ q]) (Map.empty, [[], q])" for q
  proof (rule rtranclp_trans)
    show "lstep\<^sup>*\<^sup>* (Map.empty, [on_config_changed_locks released conn, with_lock Ctx_mutex (ensure_ready_locks ready) @ q])
        (Map.empty, [on_config_changed_locks released conn, q])"
      by (rule alone_runs [OF ensure_ready_ordered ensure_ready_has_no_join, where t = 1]) simp_all
    show "lstep\<^sup>*\<^sup>* (Map.empty, [on_config_changed_locks released conn, q]) (Map.empty, [[], q])"
      by (rule alone_runs [OF reload_ordered reload_has_no_join, where t = 0 and q = "[]"]) simp_all
  qed
  have "plc_ok s'" using on_config_changed_safe [OF assms(1), of env] assms(3) by simp
  from rest_of_call_safe(1) [OF this, of env r] have "mqtt_proto_read (mq_env env) (Some (g_mqtt_ctx s')) (Some r) (plc_world s') \<noteq> None"
    by auto
  then show ?thesis
    using overtaken a gone by (simp add: plc_proto_read_locks_def plc_proto_write_locks_def mqtt_proto_read_def mqtt_proto_write_def)
qed

definition live_plc :: mqtt_plc where
  "live_plc = \<lparr>plc_world = live_world CON_OK, g_mqtt_ctx = sample_proto, g_inited = True, g_hot = hot_config_zero\<rparr>"

theorem reload_frees_context_in_use_witness:
  "\<exists>s'. on_config_changed sample_plc_env live_plc = Some s' \<and>
     mqtt_proto_read sample_env (Some sample_proto) (Some sample_read_req) (plc_world s') = None"
proof -
  have ok: "plc_ok live_plc" using live_driver_ok by (simp add: plc_ok_def live_plc_def)
  then obtain s' where s': "on_config_changed sample_plc_env live_plc = Some s'" using on_config_changed_safe by blast
  have "g_inited live_plc" by (simp add: live_plc_def)
  from reload_frees_context_in_use [OF ok this s', of _ _ _ _ sample_read_req] s' show ?thesis
    by (simp add: live_plc_def sample_plc_env_def)
qed

end
