(* ===== verification/Spec2Isabelle.thy ===== *)
theory Spec2Isabelle
  imports Mqtt_Config_Properties Mqtt_Json Mqtt_Legacy Modbus Bacnet_Config_Properties Bacnet_Lifecycle
    Bacnet_Lock_Use Bacnet_Config_Readback Bacnet_Batch Bacnet_Runs Bacnet_Doubles Bacnet_Config_Sources
    Bacnet_Provenance Bacnet_Batch_Answer Bacnet_Interleavings Mqtt_Lock_Use
begin

text \<open>
  The protocol drivers of \<^verbatim>\<open>procto-manager\<close>, verified.

  The program. A PLC runtime talks to field devices through drivers with one interface (\<^verbatim>\<open>common/api\<close>):
  \<^verbatim>\<open>impl/bacnet\<close> (C++ over \<^verbatim>\<open>bacnet-stack\<close>), \<^verbatim>\<open>impl/mqtt\<close> (C over the asynchronous Paho client, with an
  older synchronous variant) and \<^verbatim>\<open>impl/modbus\<close> (C over \<^verbatim>\<open>libmodbus\<close>). Each driver loads a section of a YAML
  file, connects on demand when the PLC reads or writes, keeps what arrived, and watches the file for
  changes. Answers arrive in callbacks of the protocol libraries, on other threads.

  Shared theories. \<open>Proto_Prelude\<close> (collections, names of the integer types, lemmas, the locales
  \<open>stepwise_invariant\<close>, \<open>relation_invariant\<close> and \<open>dropping_queue\<close>), \<open>Lock_Order\<close> (threads, mutexes,
  and the locale of an order on them), \<open>C_Strings\<close> and \<open>C_Numbers\<close> (what the sources use of the C library),
  \<open>Proto_Common\<close> (\<^verbatim>\<open>proto_common.h\<close>), \<open>Yaml_Events\<close> (a file as libyaml presents it).

  MQTT. \<open>Mqtt_Types\<close> is \<^verbatim>\<open>proto_mqtt.h\<close>; \<open>Mqtt_Utils\<close> and \<open>Mqtt_Yaml\<close> are \<^verbatim>\<open>proto_mqtt_utils.c\<close>;
  \<open>Mqtt_Ring\<close> and \<open>Mqtt_Callbacks\<close> are \<^verbatim>\<open>proto_mqtt_callbacks.c\<close>; \<open>Mqtt_Core\<close> is \<^verbatim>\<open>proto_mqtt_core.c\<close>;
  \<open>Mqtt_Hot_Config\<close> is \<^verbatim>\<open>proto_mqtt_hot_config.c\<close>; \<open>Mqtt_Entry\<close> and \<open>Mqtt_Json\<close> are \<^verbatim>\<open>plc_mqtt_entry.c\<close>;
  \<open>Mqtt_Legacy\<close> is \<^verbatim>\<open>proto_mqtt.c\<close>. Contexts and configurations are blocks of explicit heaps, so that use
  after free and double free are results. \<open>Mqtt_Safety\<close> proves that no operation and no callback faults,
  \<open>Mqtt_Delivery\<close> that a reader gets the newest messages in order, \<open>Mqtt_Machine\<close> that the connection state
  machine bounds the requests in flight, \<open>Mqtt_Lock_Use\<close> that the threads of the driver never wait for each
  other for ever and where a reload frees what a call still uses, \<open>Mqtt_Yaml_Spec\<close> that the event loop
  of the loader implements a recursion over the document. The properties stand in \<open>Mqtt_Properties\<close>,
  \<open>Mqtt_Lock_Use\<close>, \<open>Mqtt_Config_Properties\<close>, \<open>Mqtt_Json\<close> and \<open>Mqtt_Legacy\<close>.

  Modbus. \<open>Modbus\<close> is \<^verbatim>\<open>proto_modbus.c\<close> over a record of the functions of the library.

  BACnet, the model. \<open>Bacnet_Types\<close> is \<^verbatim>\<open>proto_bacnet.h\<close> and the data of \<^verbatim>\<open>proto_bacnet_internal.hpp\<close>;
  \<open>Bacnet_Context\<close> the singleton context with its tables (association lists), the heap of strings and the state of
  the protocol stack; \<open>Bacnet_Value\<close> the conversion of values; \<open>Bacnet_IO\<close> is \<^verbatim>\<open>proto_bacnet_io.cc\<close>;
  \<open>Bacnet_Callbacks\<close> the handlers of packets (\<^verbatim>\<open>proto_bacnet_callbacks.cc\<close>); \<open>Bacnet_Discovery\<close> discovery, worker
  thread, reconnection and clean-up (\<^verbatim>\<open>proto_bacnet_discovery.cc\<close>); \<open>Bacnet_Hot_Config\<close> the monitor of the
  file; \<open>Bacnet_Core\<close> the life cycle (\<^verbatim>\<open>proto_bacnet_core.cc\<close>, \<^verbatim>\<open>proto_bacnet_driver.cc\<close>); \<open>Bacnet_Entry\<close> the entry
  points of the PLC; \<open>Bacnet_Config\<close> the loader and \<open>Bacnet_Config_Update\<close> the rewriting of the file
  (\<^verbatim>\<open>proto_bacnet_utils.cc\<close>); \<open>Bacnet_Config_Sources\<close> the metadata on the sources of the settings and the table printed
  from it; \<open>Bacnet_Batch\<close> the batch read (\<^verbatim>\<open>proto_bacnet_batch.cpp\<close>); \<open>Bacnet_Locks\<close> and
  \<open>Bacnet_Lock_Use\<close> what every operation locks and joins.

  BACnet, the properties. \<open>Bacnet_Tables\<close>, \<open>Bacnet_Machine\<close>, \<open>Bacnet_Cleanup\<close>, \<open>Bacnet_Steps\<close> and
  \<open>Bacnet_Safety\<close> build the step relation of a connected driver and the invariant that ties an object with a request in
  flight to the id of the request; \<open>Bacnet_Properties\<close> states what a read, an answer and the clean-up do along every
  orderly run, \<open>Bacnet_Errors\<close> where requests are lost, \<open>Bacnet_Cache\<close> that cached values are well typed,
  \<open>Bacnet_Provenance\<close> that each was stored by the acknowledgement of a request for its object,
  \<open>Bacnet_Lifecycle\<close> when discoveries and disconnections return and that the worker thread only takes steps of
  the relation. \<open>Bacnet_Config_Properties\<close> is about the loader, \<open>Bacnet_Config_Rewrite\<close> and
  \<open>Bacnet_Config_Readback\<close> about the rewriting. \<open>Lock_Order\<close> proves, as a locale over any order of mutexes, that
  threads that keep to an order are never stuck; \<open>Bacnet_Lock_Use\<close> interprets it on the operations of the driver
  and gives the two deadlocks outside the order. \<open>Bacnet_Doubles\<close> proves the conversions of a batch read to \<^verbatim>\<open>double\<close>
  exact over the reals, \<open>Bacnet_Batch_Answer\<close> follows a polled property whose device answers.

  BACnet, the whole driver. \<open>Bacnet_Reload\<close> follows a read through the pending reload, the release and the new
  initialisation. \<open>Bacnet_World\<close> composes the calls of the PLC, the passes of the worker thread, the rounds of
  the monitor, changes of the file, the driver object and the exit of the process to one step relation
  \<open>wstep\<close> with its invariant \<open>world_ok\<close>. A read, a write and a release are several steps each, split where the code
  holds no mutex that keeps the others out, and the whole operation is proved to be the run of its steps.
  \<open>Bacnet_Runs\<close> states what holds along every run: the driver works with a usable configuration, every value
  handed out is readable, a read returns, a changed file takes effect with the next read, and a batch read is
  itself a run. \<open>Bacnet_Interleavings\<close> is about a release that overtakes a call between its halves.

  Parameters. The protocol libraries, libyaml, \<^verbatim>\<open>malloc\<close>, the clock, \<^verbatim>\<open>stat\<close>, thread creation and what the
  operating system answers to file operations are arguments or records of functions. What the properties need of
  them is named: \<open>tsm_ok\<close> (a transaction id handed out is neither 0 nor in use, freeing one frees only it) and
  \<open>strings_documented\<close> and \<open>forgets_devices\<close> (a removed device stays unknown until it is added) for bacnet-stack; each
  has a concrete instance (\<open>sample_stack\<close>, \<open>sample_value_lib\<close>, \<open>table_stack\<close>).

  Bounds. A loop that waits for the network is a recursion over its rounds, a list of any length; \<open>None\<close>
  says it is still waiting, and \<open>discovery_returns\<close> that it does not wait for ever. The clean-up loop of the
  device range is a partial function, with the exact condition of its termination. A polling read makes at
  most ten attempts, as in the code. Integers are machine words; \<open>int\<close> appears where the C code computes in a
  type that does not overflow for its inputs.

  Not modelled. Logging, and the frame and the headings of the printed table of settings; \<open>g_config_metadata\<close> is
  passed to the loader and is no member of the context, because only the table reads it. The demonstration programs
  (two of them are command line tools of \<^verbatim>\<open>bacnet-stack\<close>), the build scripts and the vendored headers of the protocol
  libraries. Inside a step of the state model (a handler, a pass of the worker, the request of a call, an
  initialisation with its discovery) no other thread runs, and the interleavings of lock operations are a
  model of their own: data races on members that have no mutex (\<^verbatim>\<open>device_address_to_id\<close>, \<^verbatim>\<open>config\<close>,
  \<^verbatim>\<open>pending_reload\<close>) are outside both. What is left of the repository's own code is output: log lines, the
  singletons' accessors, and programs that call the drivers with fixed arguments.
\<close>

end
